(* ===== verification/Go_Prelude.thy ===== *)
theory Go_Prelude
  imports Complex_Main "HOL-Library.AList" "HOL-Library.Multiset" "HOL-Library.List_Lexorder"
    "HOL-Library.Char_ord"
begin

text \<open>
  Shared vocabulary of the development: how Go data is represented, the few functions of
  the Go standard library that several components call (\<^verbatim>\<open>strings\<close>, \<^verbatim>\<open>bytes\<close>,
  \<^verbatim>\<open>strconv\<close>, \<^verbatim>\<open>time\<close>), and the generic lemmas on them.

  \<^item> A Go string and a \<^verbatim>\<open>[]byte\<close> are both a \<^typ>\<open>string\<close>: a \<^typ>\<open>char\<close> is one byte, so
    \<^const>\<open>length\<close> counts bytes as \<^verbatim>\<open>len\<close> does and the conversions between the two are the
    identity.
  \<^item> A Go map is an association list with distinct keys (\<open>gomap_ok\<close>), read by
    \<^const>\<open>map_of\<close>, written by \<^const>\<open>AList.update\<close> and \<^const>\<open>AList.delete\<close>. Go iterates a
    map in an unspecified order; a definition that iterates one and whose result can depend on
    the order takes the order as an argument (\<open>perm_of\<close>).
  \<^item> A call that can fail returns \<open>go_error\<close> values; a run-time panic is one of them, and no
    definition of the development recovers from it, as no code of the repository does.
  \<^item> \<^verbatim>\<open>float64\<close> is idealised as \<^typ>\<open>real\<close>: no rounding, no NaN and no infinities.
\<close>

named_theorems gomap_simps
named_theorems go_string_simps

subsection \<open>Errors\<close>

text \<open>
  \<open>TypedErr\<close> is the struct \<^verbatim>\<open>errcommon.Error\<close> (code and message), \<open>PlainErr\<close> any
  other error value (\<^verbatim>\<open>errors.New\<close>, \<^verbatim>\<open>fmt.Errorf\<close>), \<open>Panic\<close> a run-time panic.
\<close>

datatype go_error =
    TypedErr string string
  | PlainErr string
  | Panic string

fun is_panic :: "go_error \<Rightarrow> bool" where
  "is_panic (Panic _) = True"
| "is_panic _ = False"

text \<open>Wrapping an error leaves a panic alone: a panic is not a returned error value.\<close>

fun wrap_err :: "(go_error \<Rightarrow> go_error) \<Rightarrow> go_error \<Rightarrow> go_error" where
  "wrap_err f (Panic m) = Panic m"
| "wrap_err f e = f e"

subsection \<open>Maps\<close>

type_synonym ('k, 'v) gomap = "('k \<times> 'v) list"

abbreviation gomap_ok :: "('k, 'v) gomap \<Rightarrow> bool" where
  "gomap_ok m \<equiv> distinct (map fst m)"

abbreviation mput :: "'k \<Rightarrow> 'v \<Rightarrow> ('k, 'v) gomap \<Rightarrow> ('k, 'v) gomap" where
  "mput \<equiv> AList.update"

abbreviation mdel :: "'k \<Rightarrow> ('k, 'v) gomap \<Rightarrow> ('k, 'v) gomap" where
  "mdel \<equiv> AList.delete"

text \<open>\<^verbatim>\<open>m[k]\<close> of a map whose values have the zero value \<open>z\<close>.\<close>

definition mget_zero :: "'v \<Rightarrow> ('k, 'v) gomap \<Rightarrow> 'k \<Rightarrow> 'v" where
  "mget_zero z m k = (case map_of m k of None \<Rightarrow> z | Some v \<Rightarrow> v)"

text \<open>An iteration order: a rearrangement of the entries, chosen by the run-time.\<close>

definition perm_of :: "('a list \<Rightarrow> 'a list) \<Rightarrow> bool" where
  "perm_of f \<longleftrightarrow> (\<forall>xs. mset (f xs) = mset xs)"

subsection \<open>Strings\<close>

definition lower_char :: "char \<Rightarrow> char" where
  "lower_char c = (if CHR ''A'' \<le> c \<and> c \<le> CHR ''Z'' then char_of (of_char c + (32::nat)) else c)"

text \<open>\<^verbatim>\<open>strings.ToLower\<close> on ASCII; the callers pass HTTP field names, which are ASCII.\<close>

definition to_lower :: "string \<Rightarrow> string" where
  "to_lower = map lower_char"

definition is_space :: "char \<Rightarrow> bool" where
  "is_space c \<longleftrightarrow> c \<in> {CHR '' '', CHR 0x09, CHR 0x0A, CHR 0x0B, CHR 0x0C, CHR 0x0D}"

text \<open>\<^verbatim>\<open>strings.TrimSpace\<close> and \<^verbatim>\<open>bytes.TrimSpace\<close>, for the ASCII white space characters.\<close>

definition trim_space :: "string \<Rightarrow> string" where
  "trim_space s = rev (dropWhile is_space (rev (dropWhile is_space s)))"

definition has_prefix :: "string \<Rightarrow> string \<Rightarrow> bool" where
  "has_prefix s p \<longleftrightarrow> take (length p) s = p"

definition trim_prefix :: "string \<Rightarrow> string \<Rightarrow> string" where
  "trim_prefix s p = (if has_prefix s p then drop (length p) s else s)"

text \<open>
  A string in the double quotes of \<^verbatim>\<open>%q\<close> (for a string with nothing to escape) and in the
  single quotes some error texts use.
\<close>

definition quoted :: "string \<Rightarrow> string" where
  "quoted s = CHR 0x22 # s @ [CHR 0x22]"

definition single_quoted :: "string \<Rightarrow> string" where
  "single_quoted s = CHR 0x27 # s @ [CHR 0x27]"

text \<open>\<^verbatim>\<open>bytes.Split(s, sep)\<close> for a separator of one byte: always at least one piece.\<close>

fun split_on :: "char \<Rightarrow> string \<Rightarrow> string list" where
  "split_on c [] = [[]]"
| "split_on c (x # xs) =
     (if x = c then [] # split_on c xs
      else (case split_on c xs of [] \<Rightarrow> [[x]] | p # ps \<Rightarrow> (x # p) # ps))"

definition digit :: "nat \<Rightarrow> char" where
  "digit n = char_of (48 + n mod 10)"

text \<open>\<^verbatim>\<open>strconv.Itoa\<close> of a length.\<close>

fun itoa :: "nat \<Rightarrow> string" where
  "itoa n = (if n < 10 then [digit n] else itoa (n div 10) @ [digit (n mod 10)])"

declare itoa.simps [simp del]

subsection \<open>Time\<close>

text \<open>
  A \<^verbatim>\<open>time.Time\<close> is its distance in nanoseconds from the zero time (year 1), so the zero
  value is \<open>0\<close>; \<^verbatim>\<open>Time.Sub\<close> saturates at the limits of \<^verbatim>\<open>time.Duration\<close>, an
  \<^verbatim>\<open>int64\<close>.
\<close>

type_synonym gotime = int

type_synonym duration = int

definition time_sub :: "gotime \<Rightarrow> gotime \<Rightarrow> duration" where
  "time_sub a b = max (- (2 ^ 63)) (min (2 ^ 63 - 1) (a - b))"

subsection \<open>Machine integers\<close>

text \<open>An \<^verbatim>\<open>int64\<close> is its signed value; every arithmetic result is reduced by \<open>i64\<close>.\<close>

definition i64 :: "int \<Rightarrow> int" where
  "i64 x = (x + 2 ^ 63) mod 2 ^ 64 - 2 ^ 63"

definition is_i64 :: "int \<Rightarrow> bool" where
  "is_i64 x \<longleftrightarrow> - (2 ^ 63) \<le> x \<and> x < 2 ^ 63"

subsection \<open>File system events\<close>

text \<open>The operations of a \<^verbatim>\<open>fsnotify\<close> event.\<close>

datatype fs_op = FsCreate | FsWrite | FsRemove | FsRename | FsChmod

subsection \<open>Lemmas on machine integers\<close>

lemma is_i64_i64 [simp]: "is_i64 (i64 x)"
  by (simp add: i64_def is_i64_def)

lemma i64_id: "is_i64 x \<Longrightarrow> i64 x = x"
  by (simp add: i64_def is_i64_def)

lemma i64_cong: "x mod 2 ^ 64 = y mod 2 ^ 64 \<Longrightarrow> i64 x = i64 y"
  unfolding i64_def by (metis mod_add_left_eq)

lemma i64_add_i64: "i64 (i64 x + y) = i64 (x + y)"
proof (rule i64_cong)
  have "(i64 x + y) mod 2 ^ 64 = ((x + 2 ^ 63) mod 2 ^ 64 + (y - 2 ^ 63)) mod 2 ^ 64"
    by (simp add: i64_def algebra_simps)
  also have "\<dots> = (x + 2 ^ 63 + (y - 2 ^ 63)) mod 2 ^ 64"
    by (rule mod_add_left_eq)
  finally show "(i64 x + y) mod 2 ^ 64 = (x + y) mod 2 ^ 64"
    by simp
qed

subsection \<open>Lemmas on maps\<close>

text \<open>Look-ups stay look-ups: the simplifier must not turn them into list membership.\<close>

declare map_of_eq_Some_iff [simp del]

lemma gomap_ok_mput [simp]: "gomap_ok m \<Longrightarrow> gomap_ok (mput k v m)"
  by (rule distinct_update)

lemma gomap_ok_mdel [simp]: "gomap_ok m \<Longrightarrow> gomap_ok (mdel k m)"
  by (rule distinct_delete)

lemma map_of_mput [simp, gomap_simps]: "map_of (mput k v m) = (map_of m)(k \<mapsto> v)"
  by (rule update_conv')

lemma map_of_mdel [simp, gomap_simps]: "map_of (mdel k m) = (map_of m)(k := None)"
  by (rule delete_conv')

lemma fst_set_eq_dom: "fst ` set m = dom (map_of m)"
  by (simp add: dom_map_of_conv_image_fst)

lemma map_of_eq_empty_iff [simp]: "map_of m = Map.empty \<longleftrightarrow> m = []"
  by (cases m) (auto simp: fun_eq_iff split: if_splits)

lemma perm_of_mset: "perm_of f \<Longrightarrow> mset (f xs) = mset xs"
  by (simp add: perm_of_def)

lemma perm_of_set: "perm_of f \<Longrightarrow> set (f xs) = set xs"
  by (metis perm_of_mset set_mset_mset)

lemma perm_of_length: "perm_of f \<Longrightarrow> length (f xs) = length xs"
  by (metis perm_of_mset size_mset)

lemma perm_of_Nil_iff: "perm_of f \<Longrightarrow> f xs = [] \<longleftrightarrow> xs = []"
  by (metis perm_of_length length_0_conv)

lemma perm_of_id [simp]: "perm_of (\<lambda>xs. xs)"
  by (simp add: perm_of_def)

lemma perm_of_rev [simp]: "perm_of rev"
  by (simp add: perm_of_def)

lemma perm_of_map_of:
  assumes "perm_of f" and "gomap_ok m"
  shows "map_of (f m) = map_of m"
proof (rule map_of_eqI)
  show "set (map fst (f m)) = set (map fst m)"
    by (simp add: perm_of_set [OF assms(1)])
next
  show "\<forall>x\<in>set (map fst (f m)). map_of (f m) x = map_of m x"
  proof
    fix x assume "x \<in> set (map fst (f m))"
    then obtain v where v: "(x, v) \<in> set (f m)" by auto
    have "distinct (map fst (f m))"
      using assms by (metis mset_map perm_of_mset mset_eq_imp_distinct_iff)
    with v assms show "map_of (f m) x = map_of m x"
      by (simp add: perm_of_set map_of_is_SomeI)
  qed
qed

subsection \<open>Lemmas on strings\<close>

lemma trim_space_Nil [simp]: "trim_space [] = []"
  by (simp add: trim_space_def)

lemma has_prefix_append [simp]: "has_prefix (p @ s) p"
  by (simp add: has_prefix_def)

lemma has_prefix_iff: "has_prefix s p \<longleftrightarrow> (\<exists>r. s = p @ r)"
  by (metis append_take_drop_id has_prefix_append has_prefix_def)

lemma trim_prefix_append [simp]: "trim_prefix (p @ s) p = s"
  by (simp add: trim_prefix_def)

definition is_upper :: "char \<Rightarrow> bool" where
  "is_upper c \<longleftrightarrow> CHR ''A'' \<le> c \<and> c \<le> CHR ''Z''"

lemma not_upper_lower_char [simp]: "\<not> is_upper (lower_char c)"
  by (auto simp: is_upper_def lower_char_def less_eq_char_def)

lemma no_upper_to_lower [simp]: "\<not> list_ex is_upper (to_lower s)"
  by (auto simp: to_lower_def list_ex_iff)

lemma length_to_lower [simp]: "length (to_lower s) = length s"
  by (simp add: to_lower_def)

end
