(* ===== verification/Go_Json.thy ===== *)
theory Go_Json
  imports Go_Prelude
begin

text \<open>
  Values of Go's \<^verbatim>\<open>any\<close> as the program uses them: the generic values that
  \<^verbatim>\<open>encoding/json\<close> decodes a body into (\<^verbatim>\<open>nil\<close>, \<^verbatim>\<open>bool\<close>, \<^verbatim>\<open>float64\<close>, \<^verbatim>\<open>string\<close>,
  \<^verbatim>\<open>[]any\<close>, \<^verbatim>\<open>map[string]any\<close>), their type assertions, \<^verbatim>\<open>fmt.Sprintf("%v")\<close>, and the way
  \<^verbatim>\<open>json.Unmarshal\<close> stores a decoded value into a variable of type \<^verbatim>\<open>map[string]any\<close>.

  The text syntax of JSON is not modelled: the decoder is an argument \<open>parse\<close> (\<open>None\<close> for
  a syntax error) and the encoder an argument \<open>marshal\<close> of the definitions that call them.
\<close>

datatype json =
    JNull
  | JBool bool
  | JNum real
  | JStr string
  | JArr "json list"
  | JObj "(string \<times> json) list"

type_synonym json_map = "(string, json) gomap"

text \<open>A variable of type \<^verbatim>\<open>map[string]any\<close>: \<open>None\<close> is the nil map.\<close>

type_synonym json_mapvar = "json_map option"

type_synonym json_parser = "string \<Rightarrow> json option"

type_synonym json_encoder = "json_mapvar \<Rightarrow> go_error + string"

fun as_string :: "json option \<Rightarrow> string option" where
  "as_string (Some (JStr s)) = Some s"
| "as_string _ = None"

fun as_float :: "json option \<Rightarrow> real option" where
  "as_float (Some (JNum x)) = Some x"
| "as_float _ = None"

fun as_map :: "json option \<Rightarrow> json_map option" where
  "as_map (Some (JObj m)) = Some m"
| "as_map _ = None"

fun as_slice :: "json option \<Rightarrow> json list option" where
  "as_slice (Some (JArr xs)) = Some xs"
| "as_slice _ = None"

text \<open>Reading \<^verbatim>\<open>m[k]\<close>: reading from a nil map finds nothing.\<close>

definition jget :: "json_mapvar \<Rightarrow> string \<Rightarrow> json option" where
  "jget v k = (case v of None \<Rightarrow> None | Some m \<Rightarrow> map_of m k)"

text \<open>\<^verbatim>\<open>s, _ := m[k].(string)\<close>: the zero value when the assertion fails.\<close>

definition jstring :: "json_mapvar \<Rightarrow> string \<Rightarrow> string" where
  "jstring v k = (case as_string (jget v k) of None \<Rightarrow> [] | Some s \<Rightarrow> s)"

definition jfloat :: "json_mapvar \<Rightarrow> string \<Rightarrow> real" where
  "jfloat v k = (case as_float (jget v k) of None \<Rightarrow> 0 | Some x \<Rightarrow> x)"

text \<open>\<^verbatim>\<open>len(m)\<close>, zero for a nil map.\<close>

definition jlen :: "json_mapvar \<Rightarrow> nat" where
  "jlen v = (case v of None \<Rightarrow> 0 | Some m \<Rightarrow> length m)"

text \<open>
  \<^verbatim>\<open>json.Unmarshal(data, &v)\<close> for a map variable: \<open>None\<close> is an error (syntax, or a value
  that is neither an object nor null), which leaves the variable as it was; null sets it to
  the nil map; an object is merged into the existing map.
\<close>

definition unmarshal_map :: "json_parser \<Rightarrow> string \<Rightarrow> json_mapvar \<Rightarrow> json_mapvar option" where
  "unmarshal_map parse data v =
     (case parse data of
        Some JNull \<Rightarrow> Some None
      | Some (JObj m) \<Rightarrow> Some (Some (fold (\<lambda>(k, x). mput k x) m (case v of None \<Rightarrow> [] | Some m0 \<Rightarrow> m0)))
      | _ \<Rightarrow> None)"

fun join :: "string \<Rightarrow> string list \<Rightarrow> string" where
  "join sep [] = []"
| "join sep [x] = x"
| "join sep (x # y # ys) = x @ sep @ join sep (y # ys)"

text \<open>
  \<^verbatim>\<open>fmt.Sprintf("%v", x)\<close>: a string prints as itself, a map with its keys sorted;
  \<open>fmt_num\<close> formats a \<^verbatim>\<open>float64\<close>.
\<close>

function (sequential) sprint_v :: "(real \<Rightarrow> string) \<Rightarrow> json \<Rightarrow> string" where
  "sprint_v fmt_num JNull = ''<nil>''"
| "sprint_v fmt_num (JBool b) = (if b then ''true'' else ''false'')"
| "sprint_v fmt_num (JNum x) = fmt_num x"
| "sprint_v fmt_num (JStr s) = s"
| "sprint_v fmt_num (JArr xs) = ''['' @ join '' '' (map (sprint_v fmt_num) xs) @ '']''"
| "sprint_v fmt_num (JObj m) =
     ''map['' @ join '' '' (map (\<lambda>kv. fst kv @ '':'' @ snd kv)
        (sort_key fst (map (\<lambda>kv. (fst kv, sprint_v fmt_num (snd kv))) m))) @ '']''"
  by pat_completeness auto
termination
proof (relation "measure (\<lambda>(f, j). size j)", goal_cases)
  case 1
  show ?case by simp
next
  case (2 f xs z)
  then show ?case by (induction xs) auto
next
  case (3 f m z)
  then show ?case by (induction m) auto
qed

subsection \<open>Lemmas\<close>

lemma as_string_Some_iff [simp]: "as_string x = Some s \<longleftrightarrow> x = Some (JStr s)"
  by (cases x rule: as_string.cases) auto

lemma as_float_Some_iff [simp]: "as_float x = Some r \<longleftrightarrow> x = Some (JNum r)"
  by (cases x rule: as_float.cases) auto

lemma as_map_Some_iff [simp]: "as_map x = Some m \<longleftrightarrow> x = Some (JObj m)"
  by (cases x rule: as_map.cases) auto

lemma as_slice_Some_iff [simp]: "as_slice x = Some xs \<longleftrightarrow> x = Some (JArr xs)"
  by (cases x rule: as_slice.cases) auto

lemma jget_Some [simp]: "jget (Some m) k = map_of m k"
  by (simp add: jget_def)

lemma jget_None [simp]: "jget None k = None"
  by (simp add: jget_def)

lemma jstring_eqI: "jget v k = Some (JStr s) \<Longrightarrow> jstring v k = s"
  by (simp add: jstring_def)

lemma jstring_nonempty_iff: "s \<noteq> [] \<Longrightarrow> jstring v k = s \<longleftrightarrow> jget v k = Some (JStr s)"
  by (auto simp: jstring_def split: option.splits)

lemma unmarshal_map_obj:
  "parse data = Some (JObj m) \<Longrightarrow> \<exists>m'. unmarshal_map parse data v = Some (Some m')"
  by (simp add: unmarshal_map_def)

end
