(* ===== verification/Envoy.thy ===== *)
theory Envoy
  imports Go_Prelude
begin

text \<open>
  The ext-proc messages the program builds and \<^verbatim>\<open>pkg/common/envoy\<close>: header lookup, header
  mutations and the splitting of a body into streamed chunks (\<^verbatim>\<open>headers.go\<close>,
  \<^verbatim>\<open>chunking.go\<close>, \<^verbatim>\<open>response.go\<close>). The message types are Envoy's protocol buffers with the fields
  the program reads or writes; an absent sub-message is \<open>None\<close>.
\<close>

subsection \<open>Messages\<close>

record header_value =
  hv_key :: string
  hv_value :: string
  hv_rawValue :: string

datatype append_action = APPEND_IF_EXISTS_OR_ADD | OVERWRITE_IF_EXISTS_OR_ADD

record header_value_option =
  hvo_header :: header_value
  hvo_appendAction :: append_action

record header_mutation =
  setHeaders :: "header_value_option list"
  removeHeaders :: "string list"

record streamed_body_response =
  sb_body :: string
  sb_endOfStream :: bool

record common_response =
  clearRouteCache :: bool
  headerMutation :: "header_mutation option"
  bodyMutation :: "streamed_body_response option"

text \<open>A \<^verbatim>\<open>HeadersResponse\<close> is its optional \<^verbatim>\<open>CommonResponse\<close>.\<close>

datatype processing_response =
    PR_RequestHeaders "common_response option"
  | PR_RequestBody common_response
  | PR_RequestTrailers
  | PR_ResponseHeaders "common_response option"
  | PR_ResponseBody common_response
  | PR_ResponseTrailers
  | PR_ImmediateResponse nat string

text \<open>\<^verbatim>\<open>HttpHeaders\<close>: \<open>hh_headers\<close> is \<open>None\<close> when the header map is nil.\<close>

record http_headers =
  hh_headers :: "header_value list option"
  hh_endOfStream :: bool

subsection \<open>Headers\<close>

definition GetHeaderValue :: "header_value \<Rightarrow> string" where
  "GetHeaderValue h = (if length (hv_rawValue h) > 0 then hv_rawValue h else hv_value h)"

text \<open>The list of headers of a possibly nil \<^verbatim>\<open>HttpHeaders\<close> message.\<close>

definition header_list :: "http_headers option \<Rightarrow> header_value list" where
  "header_list h = (case h of None \<Rightarrow> [] | Some hh \<Rightarrow>
     (case hh_headers hh of None \<Rightarrow> [] | Some hs \<Rightarrow> hs))"

definition GetEndOfStream :: "http_headers option \<Rightarrow> bool" where
  "GetEndOfStream h = (case h of None \<Rightarrow> False | Some hh \<Rightarrow> hh_endOfStream hh)"

fun find_header :: "string \<Rightarrow> header_value list \<Rightarrow> string" where
  "find_header key [] = []"
| "find_header key (h # hs) =
     (if to_lower (hv_key h) = key then GetHeaderValue h else find_header key hs)"

definition ExtractHeaderValue :: "http_headers option \<Rightarrow> string \<Rightarrow> string" where
  "ExtractHeaderValue req headerKey = find_header (to_lower headerKey) (header_list req)"

text \<open>\<open>ord\<close> is the order in which the map is ranged over.\<close>

definition GenerateHeadersMutation ::
  "((string \<times> string) list \<Rightarrow> (string \<times> string) list) \<Rightarrow> (string, string) gomap
     \<Rightarrow> header_value_option list" where
  "GenerateHeadersMutation ord headers =
     map (\<lambda>(k, v). \<lparr>hvo_header = \<lparr>hv_key = k, hv_value = [], hv_rawValue = v\<rparr>,
                    hvo_appendAction = OVERWRITE_IF_EXISTS_OR_ADD\<rparr>) (ord headers)"

subsection \<open>Chunking\<close>

definition BodyByteLimit :: nat where
  "BodyByteLimit = 62000"

definition chunk_response :: "string \<Rightarrow> bool \<Rightarrow> common_response" where
  "chunk_response chunk eos =
     \<lparr>clearRouteCache = False, headerMutation = None,
      bodyMutation = Some \<lparr>sb_body = chunk, sb_endOfStream = eos\<rparr>\<rparr>"

lemma BodyByteLimit_pos [simp]: "0 < BodyByteLimit"
  by (simp add: BodyByteLimit_def)

text \<open>The loop of \<^verbatim>\<open>BuildChunkedBodyResponses\<close> from \<open>startingIndex\<close> on.\<close>

function chunk_loop :: "string \<Rightarrow> bool \<Rightarrow> nat \<Rightarrow> common_response list" where
  "chunk_loop bodyBytes setEos startingIndex =
     (if startingIndex < length bodyBytes then
        let len = min (length bodyBytes - startingIndex) BodyByteLimit;
            chunk = take len (drop startingIndex bodyBytes);
            eos = (setEos \<and> len + startingIndex \<ge> length bodyBytes)
        in chunk_response chunk eos # chunk_loop bodyBytes setEos (startingIndex + len)
      else [])"
  by pat_completeness auto
termination
  by (relation "measure (\<lambda>(body, eos, i). length body - i)") (auto simp: min_def BodyByteLimit_def)

declare chunk_loop.simps [simp del]

definition BuildChunkedBodyResponses :: "string \<Rightarrow> bool \<Rightarrow> common_response list" where
  "BuildChunkedBodyResponses bodyBytes setEos =
     (if length bodyBytes = 0 then [chunk_response bodyBytes setEos]
      else chunk_loop bodyBytes setEos 0)"

definition AddStreamedResponseBody ::
  "processing_response list \<Rightarrow> string \<Rightarrow> processing_response list" where
  "AddStreamedResponseBody responses body =
     responses @ map PR_ResponseBody (BuildChunkedBodyResponses body True)"

subsection \<open>What the proxy reads off the messages\<close>

text \<open>The bytes and the end-of-stream flag a streamed body response carries.\<close>

definition chunk_bytes :: "common_response \<Rightarrow> string" where
  "chunk_bytes r = (case bodyMutation r of None \<Rightarrow> [] | Some b \<Rightarrow> sb_body b)"

definition chunk_eos :: "common_response \<Rightarrow> bool" where
  "chunk_eos r = (case bodyMutation r of None \<Rightarrow> False | Some b \<Rightarrow> sb_endOfStream b)"

fun response_chunk :: "processing_response \<Rightarrow> common_response option" where
  "response_chunk (PR_RequestBody r) = Some r"
| "response_chunk (PR_ResponseBody r) = Some r"
| "response_chunk _ = None"

text \<open>The length of the chunk the loop cuts off at \<open>i\<close>.\<close>

definition chunk_len :: "string \<Rightarrow> nat \<Rightarrow> nat" where
  "chunk_len body i = min (length body - i) BodyByteLimit"

text \<open>All body bytes of a list of responses, in order.\<close>

definition streamed_bytes :: "processing_response list \<Rightarrow> string" where
  "streamed_bytes rs = concat (map chunk_bytes (List.map_filter response_chunk rs))"

text \<open>The headers a proxy ends up with when it applies set and remove mutations.\<close>

definition apply_header_mutation ::
  "(string \<rightharpoonup> string) \<Rightarrow> header_mutation \<Rightarrow> (string \<rightharpoonup> string)" where
  "apply_header_mutation h hm =
     (h |` (- set (removeHeaders hm)))
       ++ map_of (map (\<lambda>o'. (hv_key (hvo_header o'), hv_rawValue (hvo_header o'))) (setHeaders hm))"

subsection \<open>Lemmas\<close>

lemma chunk_bytes_chunk_response [simp]: "chunk_bytes (chunk_response c e) = c"
  by (simp add: chunk_bytes_def chunk_response_def)

lemma chunk_eos_chunk_response [simp]: "chunk_eos (chunk_response c e) = e"
  by (simp add: chunk_eos_def chunk_response_def)

lemma chunk_loop_step:
  "i < length body \<Longrightarrow> chunk_loop body eos i =
     chunk_response (take (chunk_len body i) (drop i body)) (eos \<and> length body \<le> chunk_len body i + i)
       # chunk_loop body eos (i + chunk_len body i)"
  by (subst chunk_loop.simps) (simp add: Let_def chunk_len_def)

lemma chunk_loop_stop: "length body \<le> i \<Longrightarrow> chunk_loop body eos i = []"
  by (subst chunk_loop.simps) simp

lemma chunk_loop_eq_Nil [simp]: "chunk_loop body eos i = [] \<longleftrightarrow> length body \<le> i"
  by (cases "i < length body") (simp_all add: chunk_loop_step chunk_loop_stop)

lemma chunk_loop_induct [case_names stop step]:
  assumes "\<And>i. length body \<le> i \<Longrightarrow> P i"
    and "\<And>i. i < length body \<Longrightarrow> P (i + chunk_len body i) \<Longrightarrow> P i"
  shows "P i"
proof (induction "length body - i" arbitrary: i rule: less_induct)
  case less
  show ?case
  proof (cases "i < length body")
    case True
    then have "length body - (i + chunk_len body i) < length body - i"
      by (auto simp: chunk_len_def min_def BodyByteLimit_def)
    then show ?thesis using True assms(2) less by blast
  qed (simp add: assms(1))
qed

lemma chunk_loop_concat: "concat (map chunk_bytes (chunk_loop body eos i)) = drop i body"
proof (induction i rule: chunk_loop_induct [of body])
  case (step i)
  have "take (chunk_len body i) (drop i body) @ drop (i + chunk_len body i) body = drop i body"
    by (metis append_take_drop_id drop_drop add.commute)
  with step show ?case by (simp add: chunk_loop_step)
qed (simp add: chunk_loop_stop)

lemma chunk_loop_bound: "r \<in> set (chunk_loop body eos i) \<Longrightarrow> length (chunk_bytes r) \<le> BodyByteLimit"
proof (induction i rule: chunk_loop_induct [of body])
  case (step i)
  then show ?case by (auto simp: chunk_loop_step chunk_len_def)
qed (simp add: chunk_loop_stop)

lemma chunk_loop_eos:
  "i < length body \<Longrightarrow>
   map chunk_eos (chunk_loop body eos i) = replicate (length (chunk_loop body eos i) - 1) False @ [eos]"
proof (induction i rule: chunk_loop_induct [of body])
  case (step i)
  define rest where "rest = chunk_loop body eos (i + chunk_len body i)"
  show ?case
  proof (cases "i + chunk_len body i < length body")
    case True
    then have "map chunk_eos rest = replicate (length rest - 1) False @ [eos]" and "rest \<noteq> []"
      using step.IH by (simp_all add: rest_def)
    with True step show ?thesis
      by (cases rest) (simp_all add: chunk_loop_step flip: rest_def)
  next
    case False
    then have "rest = []" by (simp add: rest_def)
    with False step show ?thesis
      by (simp add: chunk_loop_step flip: rest_def)
  qed
qed simp

lemma chunk_loop_length:
  "length (chunk_loop body eos i) = (length body - i + BodyByteLimit - 1) div BodyByteLimit"
proof (induction i rule: chunk_loop_induct [of body])
  case (step i)
  define m where "m = length body - i"
  have "0 < m" using step by (simp add: m_def)
  have "length (chunk_loop body eos i) =
      Suc ((m - min m BodyByteLimit + BodyByteLimit - 1) div BodyByteLimit)"
    using step by (simp add: chunk_loop_step chunk_len_def m_def)
  also have "\<dots> = Suc ((m - 1) div BodyByteLimit)"
    using \<open>0 < m\<close> by (simp add: min_def BodyByteLimit_def)
  also have "\<dots> = (BodyByteLimit + (m - 1)) div BodyByteLimit"
    by simp
  also have "BodyByteLimit + (m - 1) = m + BodyByteLimit - 1"
    using \<open>0 < m\<close> by simp
  finally show ?case by (simp add: m_def)
qed (simp add: chunk_loop_stop BodyByteLimit_def)

lemma BuildChunked_nonempty [simp]: "BuildChunkedBodyResponses body eos \<noteq> []"
  by (simp add: BuildChunkedBodyResponses_def)

lemma BuildChunked_concat [simp]:
  "concat (map chunk_bytes (BuildChunkedBodyResponses body eos)) = body"
  by (simp add: BuildChunkedBodyResponses_def chunk_loop_concat)

lemma map_filter_response_chunk_RequestBody [simp]:
  "List.map_filter response_chunk (map PR_RequestBody rs) = rs"
  by (induction rs) simp_all

lemma map_filter_response_chunk_ResponseBody [simp]:
  "List.map_filter response_chunk (map PR_ResponseBody rs) = rs"
  by (induction rs) simp_all

lemma streamed_bytes_append [simp]:
  "streamed_bytes (xs @ ys) = streamed_bytes xs @ streamed_bytes ys"
  by (simp add: streamed_bytes_def List.map_filter_def)

lemma streamed_bytes_chunks [simp]:
  "streamed_bytes (map PR_RequestBody rs) = concat (map chunk_bytes rs)"
  "streamed_bytes (map PR_ResponseBody rs) = concat (map chunk_bytes rs)"
  by (simp_all add: streamed_bytes_def)

lemma streamed_bytes_simps [simp]:
  "streamed_bytes [] = []"
  "streamed_bytes (PR_RequestHeaders r # rs) = streamed_bytes rs"
  "streamed_bytes (PR_ResponseHeaders r # rs) = streamed_bytes rs"
  "streamed_bytes (PR_RequestBody c # rs) = chunk_bytes c @ streamed_bytes rs"
  "streamed_bytes (PR_ResponseBody c # rs) = chunk_bytes c @ streamed_bytes rs"
  "streamed_bytes (PR_RequestTrailers # rs) = streamed_bytes rs"
  "streamed_bytes (PR_ResponseTrailers # rs) = streamed_bytes rs"
  "streamed_bytes (PR_ImmediateResponse n s # rs) = streamed_bytes rs"
  by (simp_all add: streamed_bytes_def List.map_filter_def)

lemma find_header_lower:
  "find_header (to_lower k) hs = find_header (to_lower k') hs" if "to_lower k = to_lower k'"
  using that by simp

lemma GenerateHeadersMutation_pairs:
  assumes "perm_of ord"
  shows "mset (map (\<lambda>o'. (hv_key (hvo_header o'), hv_rawValue (hvo_header o')))
    (GenerateHeadersMutation ord m)) = mset m"
  by (simp add: GenerateHeadersMutation_def comp_def case_prod_beta perm_of_mset [OF assms])

text \<open>The mutation list sets exactly the entries of the map, whatever the iteration order.\<close>

lemma apply_GenerateHeadersMutation:
  assumes "perm_of ord" and "gomap_ok m"
  shows "apply_header_mutation h \<lparr>setHeaders = GenerateHeadersMutation ord m, removeHeaders = rm\<rparr>
    = (h |` (- set rm)) ++ map_of m"
  by (simp add: apply_header_mutation_def GenerateHeadersMutation_def comp_def case_prod_beta
      perm_of_map_of [OF assms])

subsection \<open>Properties\<close>

text \<open>
  C16: splitting a body loses nothing and respects the limits. For every body and either setting of
  the flag, the chunks of \<^const>\<open>BuildChunkedBodyResponses\<close> concatenated in order are the body, every
  chunk fits the 62000 byte limit, the end-of-stream flag is raised on the last chunk only (and only
  when asked for), and the number of chunks is the least possible, \<open>\<lceil>n / 62000\<rceil>\<close>, but one for an
  empty body.
\<close>

theorem chunks_bounded_and_terminated:
  "concat (map chunk_bytes (BuildChunkedBodyResponses body setEos)) = body
   \<and> list_all (\<lambda>r. length (chunk_bytes r) \<le> BodyByteLimit) (BuildChunkedBodyResponses body setEos)
   \<and> map chunk_eos (BuildChunkedBodyResponses body setEos)
       = replicate (length (BuildChunkedBodyResponses body setEos) - 1) False @ [setEos]
   \<and> length (BuildChunkedBodyResponses body setEos)
       = max 1 ((length body + BodyByteLimit - 1) div BodyByteLimit)"
proof (cases "body = []")
  case True
  then show ?thesis
    by (simp add: BuildChunkedBodyResponses_def BodyByteLimit_def chunk_response_def chunk_bytes_def chunk_eos_def)
next
  case False
  have "1 \<le> (length body + BodyByteLimit - 1) div BodyByteLimit"
    using False by (simp add: BodyByteLimit_def Suc_le_eq div_greater_zero_iff)
  with False show ?thesis
    using chunk_loop_bound [of _ body setEos 0] chunk_loop_eos [of 0 body setEos]
      chunk_loop_length [of body setEos 0] BuildChunked_concat [of body setEos]
    by (auto simp: BuildChunkedBodyResponses_def list_all_iff)
qed

end
