(* ===== verification/Message.thy ===== *)
theory Message
  imports Go_Json Envoy
begin

text \<open>
  \<^verbatim>\<open>pkg/framework/interface/requesthandling/types.go\<close> and
  \<^verbatim>\<open>pkg/framework/interface/plugin/cycle_state.go\<close>: the request and response messages
  that plugins read and mutate, with the record of header and body mutations that the handlers
  turn into an ext-proc reply, and the per-request cycle state.

  The key fact is \<open>tracks\<close>: the recorded mutations, applied to the headers the proxy sent,
  give the headers the plugins see. Every operation keeps it, and the handlers rely on it
  through the locale \<open>header_discipline\<close>.
\<close>

subsection \<open>Messages\<close>

record inference_message =
  Headers :: "(string, string) gomap"
  Body :: json_mapvar
  mutatedHeaders :: "(string, string) gomap"
  removedHeaders :: "string list"
  bodyMutated :: bool

text \<open>\<^verbatim>\<open>InferenceRequest\<close> embeds the message and adds nothing; \<^verbatim>\<open>InferenceResponse\<close> adds the
  chunk being streamed.\<close>

type_synonym inference_request = inference_message

record inference_response = inference_message +
  CurrentChunk :: string
  chunkMutated :: bool

definition newInferenceMessage :: inference_message where
  "newInferenceMessage =
     \<lparr>Headers = [], Body = Some [], mutatedHeaders = [], removedHeaders = [], bodyMutated = False\<rparr>"

definition NewInferenceRequest :: inference_request where
  "NewInferenceRequest = newInferenceMessage"

definition NewInferenceResponse :: inference_response where
  "NewInferenceResponse =
     \<lparr>Headers = [], Body = Some [], mutatedHeaders = [], removedHeaders = [], bodyMutated = False,
      CurrentChunk = [], chunkMutated = False\<rparr>"

definition SetHeader :: "string \<Rightarrow> string \<Rightarrow> 'a inference_message_scheme \<Rightarrow> 'a inference_message_scheme" where
  "SetHeader key value r =
     (if map_of (Headers r) key \<noteq> Some value then
        r\<lparr>Headers := mput key value (Headers r),
          mutatedHeaders := mput key value (mutatedHeaders r),
          removedHeaders := removeAll key (removedHeaders r)\<rparr>
      else r)"

definition RemoveHeader :: "string \<Rightarrow> 'a inference_message_scheme \<Rightarrow> 'a inference_message_scheme" where
  "RemoveHeader key r =
     (if map_of (Headers r) key \<noteq> None then
        r\<lparr>Headers := mdel key (Headers r),
          mutatedHeaders := mdel key (mutatedHeaders r),
          removedHeaders := List.insert key (removedHeaders r)\<rparr>
      else r)"

definition SetBody :: "json_mapvar \<Rightarrow> 'a inference_message_scheme \<Rightarrow> 'a inference_message_scheme" where
  "SetBody body r = r\<lparr>Body := body, bodyMutated := True\<rparr>"

text \<open>Storing into a nil map panics.\<close>

definition SetBodyField ::
  "string \<Rightarrow> json \<Rightarrow> 'a inference_message_scheme \<Rightarrow> go_error + 'a inference_message_scheme" where
  "SetBodyField key value r =
     (case Body r of
        None \<Rightarrow> Inl (Panic ''assignment to entry in nil map'')
      | Some m \<Rightarrow> Inr (r\<lparr>Body := Some (mput key value m), bodyMutated := True\<rparr>))"

definition RemoveBodyField :: "string \<Rightarrow> 'a inference_message_scheme \<Rightarrow> 'a inference_message_scheme" where
  "RemoveBodyField key r =
     (case jget (Body r) key of
        None \<Rightarrow> r
      | Some _ \<Rightarrow> r\<lparr>Body := map_option (mdel key) (Body r), bodyMutated := True\<rparr>)"

definition SetChunk :: "string \<Rightarrow> inference_response \<Rightarrow> inference_response" where
  "SetChunk chunk r = r\<lparr>CurrentChunk := chunk, chunkMutated := True\<rparr>"

definition ResetChunkState :: "string \<Rightarrow> inference_response \<Rightarrow> inference_response" where
  "ResetChunkState chunk r = r\<lparr>CurrentChunk := chunk, chunkMutated := False\<rparr>"

subsection \<open>Cycle state\<close>

type_synonym cycle_state = "(string, json) gomap"

definition NewCycleState :: cycle_state where
  "NewCycleState = []"

definition Write :: "string \<Rightarrow> json \<Rightarrow> cycle_state \<Rightarrow> cycle_state" where
  "Write key val c = mput key val c"

definition Delete :: "string \<Rightarrow> cycle_state \<Rightarrow> cycle_state" where
  "Delete key c = mdel key c"

definition ErrNotFound :: go_error where
  "ErrNotFound = PlainErr ''not found''"

definition Read :: "cycle_state \<Rightarrow> string \<Rightarrow> go_error + json" where
  "Read c key = (case map_of c key of None \<Rightarrow> Inl ErrNotFound | Some v \<Rightarrow> Inr v)"

text \<open>\<^verbatim>\<open>ReadCycleStateKey[string]\<close>; the error text leaves out the two Go type names.\<close>

definition ReadCycleStateKey_string :: "cycle_state \<Rightarrow> string \<Rightarrow> go_error + string" where
  "ReadCycleStateKey_string c key =
     (case Read c key of
        Inl e \<Rightarrow> Inl e
      | Inr raw \<Rightarrow>
          (case as_string (Some raw) of
             None \<Rightarrow> Inl (PlainErr (''unexpected type for key '' @ quoted key))
           | Some s \<Rightarrow> Inr s))"

subsection \<open>Header mutations and the headers the plugins see\<close>

text \<open>
  \<open>tracks orig m\<close>: \<open>m\<close> began with the headers \<open>orig\<close> and its recorded mutations lead from
  them to its present headers; no header is both set and removed.
\<close>

definition tracks :: "(string \<rightharpoonup> string) \<Rightarrow> 'a inference_message_scheme \<Rightarrow> bool" where
  "tracks orig m \<longleftrightarrow>
     map_of (Headers m) = (orig |` (- set (removedHeaders m))) ++ map_of (mutatedHeaders m)
     \<and> gomap_ok (Headers m) \<and> gomap_ok (mutatedHeaders m) \<and> distinct (removedHeaders m)
     \<and> set (removedHeaders m) \<inter> dom (map_of (mutatedHeaders m)) = {}"

text \<open>The header mutation a handler sends for a message.\<close>

definition mutation_of ::
  "((string \<times> string) list \<Rightarrow> (string \<times> string) list) \<Rightarrow> (string list \<Rightarrow> string list)
     \<Rightarrow> 'a inference_message_scheme \<Rightarrow> header_mutation" where
  "mutation_of ord ordr m =
     \<lparr>setHeaders = GenerateHeadersMutation ord (mutatedHeaders m),
      removeHeaders = ordr (removedHeaders m)\<rparr>"

text \<open>A sequence of header operations, as a plugin performs it.\<close>

datatype hdr_op = SetH string string | RemoveH string

fun header_op :: "hdr_op \<Rightarrow> 'a inference_message_scheme \<Rightarrow> 'a inference_message_scheme" where
  "header_op (SetH k v) m = SetHeader k v m"
| "header_op (RemoveH k) m = RemoveHeader k m"

text \<open>The same operation on the headers alone: what the plugin author asks for.\<close>

fun header_op_spec :: "hdr_op \<Rightarrow> (string \<rightharpoonup> string) \<Rightarrow> (string \<rightharpoonup> string)" where
  "header_op_spec (SetH k v) h = h(k \<mapsto> v)"
| "header_op_spec (RemoveH k) h = h(k := None)"

subsection \<open>Lemmas\<close>

lemma NewInference_tracks [simp]:
  "tracks Map.empty NewInferenceRequest" "tracks Map.empty NewInferenceResponse"
  by (simp_all add: tracks_def NewInferenceRequest_def newInferenceMessage_def
      NewInferenceResponse_def)

lemma Headers_SetHeader [simp]: "map_of (Headers (SetHeader k v m)) = (map_of (Headers m))(k \<mapsto> v)"
  by (auto simp: SetHeader_def fun_upd_idem)

lemma Headers_RemoveHeader [simp]: "map_of (Headers (RemoveHeader k m)) = (map_of (Headers m))(k := None)"
  by (auto simp: RemoveHeader_def fun_upd_idem)

lemma Body_header_ops [simp]:
  "Body (SetHeader k v m) = Body m" "bodyMutated (SetHeader k v m) = bodyMutated m"
  "Body (RemoveHeader k m) = Body m" "bodyMutated (RemoveHeader k m) = bodyMutated m"
  by (simp_all add: SetHeader_def RemoveHeader_def)

lemma chunk_header_ops [simp]:
  "CurrentChunk (SetHeader k v m) = CurrentChunk m" "chunkMutated (SetHeader k v m) = chunkMutated m"
  by (simp_all add: SetHeader_def)

lemma map_of_removeAll_restrict: "(h |` (- set (removeAll k xs))) = (\<lambda>x. if x = k then h k else (h |` (- set xs)) x)"
  by (auto simp: restrict_map_def fun_eq_iff)

lemma tracks_SetHeader [simp]:
  assumes "tracks orig m"
  shows "tracks orig (SetHeader k v m)"
proof (cases "map_of (Headers m) k = Some v")
  case False
  have "(map_of (Headers m))(k \<mapsto> v)
      = (orig |` (- set (removeAll k (removedHeaders m)))) ++ (map_of (mutatedHeaders m))(k \<mapsto> v)"
    using assms by (auto simp: tracks_def fun_eq_iff map_add_def restrict_map_def split: option.splits)
  with False assms show ?thesis
    by (auto simp: tracks_def SetHeader_def distinct_removeAll)
qed (use assms in \<open>simp add: SetHeader_def\<close>)

lemma tracks_RemoveHeader [simp]:
  assumes "tracks orig m"
  shows "tracks orig (RemoveHeader k m)"
proof (cases "map_of (Headers m) k")
  case (Some v)
  have "(map_of (Headers m))(k := None)
      = (orig |` (- set (List.insert k (removedHeaders m)))) ++ (map_of (mutatedHeaders m))(k := None)"
    using assms by (auto simp: tracks_def fun_eq_iff map_add_def restrict_map_def split: option.splits)
  with Some assms show ?thesis
    by (auto simp: tracks_def RemoveHeader_def)
qed (use assms in \<open>simp add: RemoveHeader_def\<close>)

lemma tracks_cong:
  "Headers m' = Headers m \<Longrightarrow> mutatedHeaders m' = mutatedHeaders m \<Longrightarrow>
   removedHeaders m' = removedHeaders m \<Longrightarrow> tracks orig m' = tracks orig m"
  by (simp add: tracks_def)

lemma tracks_body_ops [simp]:
  "tracks orig (SetBody b m) = tracks orig m"
  "tracks orig (RemoveBodyField k m) = tracks orig m"
  "tracks orig (m\<lparr>Body := b\<rparr>) = tracks orig m"
  by (auto simp: SetBody_def RemoveBodyField_def tracks_def split: option.splits)

lemma tracks_chunk_ops [simp]:
  "tracks orig (SetChunk c r) = tracks orig r"
  "tracks orig (ResetChunkState c r) = tracks orig r"
  by (simp_all add: SetChunk_def ResetChunkState_def tracks_def)

lemma tracks_SetBodyField: "SetBodyField k v m = Inr m' \<Longrightarrow> tracks orig m' = tracks orig m"
  by (auto simp: SetBodyField_def tracks_def split: option.splits)

lemma Headers_SetBodyField [simp]: "SetBodyField k v m = Inr m' \<Longrightarrow> Headers m' = Headers m"
  by (auto simp: SetBodyField_def split: option.splits)

lemma tracks_header_op [simp]: "tracks orig m \<Longrightarrow> tracks orig (header_op x m)"
  by (cases x) simp_all

lemma tracks_header_ops: "tracks orig m \<Longrightarrow> tracks orig (fold header_op xs m)"
  by (induction xs arbitrary: m) simp_all

lemma Headers_header_ops:
  "map_of (Headers (fold header_op xs m)) = fold header_op_spec xs (map_of (Headers m))"
proof (induction xs arbitrary: m)
  case (Cons x xs)
  have "map_of (Headers (header_op x m)) = header_op_spec x (map_of (Headers m))"
    by (cases x) simp_all
  with Cons show ?case by simp
qed simp

lemma tracks_apply:
  assumes "tracks orig m" and "perm_of ord" and "perm_of ordr"
  shows "apply_header_mutation orig (mutation_of ord ordr m) = map_of (Headers m)"
  using assms
  by (simp add: mutation_of_def apply_GenerateHeadersMutation perm_of_set tracks_def)

lemma Read_Write: "Read (Write k v c) k' = (if k' = k then Inr v else Read c k')"
  by (simp add: Read_def Write_def)

lemma Read_Delete: "Read (Delete k c) k' = (if k' = k then Inl ErrNotFound else Read c k')"
  by (simp add: Read_def Delete_def)

lemma ReadKey_Write_string [simp]:
  "ReadCycleStateKey_string (Write k (JStr s) c) k = Inr s"
  by (simp add: ReadCycleStateKey_string_def Read_Write)

lemma ReadKey_Write_other [simp]:
  "k' \<noteq> k \<Longrightarrow> ReadCycleStateKey_string (Write k v c) k' = ReadCycleStateKey_string c k'"
  by (simp add: ReadCycleStateKey_string_def Read_Write)

subsection \<open>The contract of a plugin on headers\<close>

text \<open>
  The \<^verbatim>\<open>Headers\<close> map is exported and a plugin could write it behind the back of the mutation
  record. The handlers rely on plugins not doing so: whatever the message's origin, a run of
  the plugin keeps \<^const>\<open>tracks\<close>. \<open>run\<close> is the plugin on its state \<open>'s\<close>, \<open>msg\<close> reads
  the message out of that state.
\<close>

locale header_discipline =
  fixes run :: "'s \<Rightarrow> go_error option \<times> 's"
    and msg :: "'s \<Rightarrow> 'a inference_message_scheme"
  assumes keeps_tracks: "tracks orig (msg s) \<Longrightarrow> tracks orig (msg (snd (run s)))"
begin

lemma emits_headers_seen:
  assumes "tracks orig (msg s)" and "perm_of ord" and "perm_of ordr"
  shows "apply_header_mutation orig (mutation_of ord ordr (msg (snd (run s)))) = map_of (Headers (msg (snd (run s))))"
  using tracks_apply [OF keeps_tracks [OF assms(1)] assms(2,3)] .

end

subsection \<open>Properties\<close>

text \<open>
  C15: the header mutation sent to the proxy is faithful. For a message that began with headers
  \<open>orig\<close>, after any sequence of \<^const>\<open>SetHeader\<close> and \<^const>\<open>RemoveHeader\<close> calls, applying the
  emitted set and remove lists (in whatever order the maps are iterated) to \<open>orig\<close> gives
  exactly the headers those calls ask for, and these are the headers the next plugin sees.
\<close>

theorem header_mutation_faithful:
  assumes "tracks orig m" and "perm_of ord" and "perm_of ordr"
  shows "apply_header_mutation orig (mutation_of ord ordr (fold header_op ops m))
           = fold header_op_spec ops (map_of (Headers m))
         \<and> map_of (Headers (fold header_op ops m)) = fold header_op_spec ops (map_of (Headers m))"
  using tracks_apply [OF tracks_header_ops [OF assms(1)] assms(2,3)]
  by (simp add: Headers_header_ops)

theorem header_mutation_faithful_witness:
  "apply_header_mutation Map.empty
     (mutation_of rev rev (fold header_op [SetH ''a'' ''1'', SetH ''b'' ''2'', RemoveH ''a'']
        NewInferenceRequest)) = [''b'' \<mapsto> ''2'']"
proof -
  have h: "map_of (Headers NewInferenceRequest) = Map.empty"
    by (simp add: NewInferenceRequest_def newInferenceMessage_def)
  show ?thesis
    using header_mutation_faithful [where orig = Map.empty and m = NewInferenceRequest
        and ord = rev and ordr = rev and ops = "[SetH ''a'' ''1'', SetH ''b'' ''2'', RemoveH ''a'']"]
    by (simp add: h fun_upd_twist)
qed

end
