(* ===== verification/Datastore.thy ===== *)
theory Datastore
  imports Go_Prelude
begin

text \<open>
  The shared model registry: \<^verbatim>\<open>attributemap.go\<close>, \<^verbatim>\<open>model.go\<close>, \<^verbatim>\<open>types.go\<close> and the attribute
  value types of \<^verbatim>\<open>pkg/framework/interface/datalayer\<close>, and the in-memory store
  \<^verbatim>\<open>pkg/datastore/inmemory/datastore.go\<close>.

  A \<^verbatim>\<open>datalayer.Model\<close> is a pointer whose attribute map is updated in place; the store holds
  at most one model per name, so the name stands for the pointer and an update through it is
  \<open>on_attrs\<close>. Each store and attribute operation takes its lock for its whole body, so it is one
  step here. The digest type \<open>'d\<close> is the t-digest of a library.
\<close>

subsection \<open>Attribute values\<close>

datatype 'd attr =
    TokenPrices real real
  | Groups "string list"
  | RequestMetadataCount int int
  | CostDigest 'd

text \<open>
  \<^verbatim>\<open>Clone()\<close> of each attribute type: an independent copy. A digest is identified with its
  centroids, which the library's own \<^verbatim>\<open>Clone\<close> copies.
\<close>

fun Clone :: "'d attr \<Rightarrow> 'd attr" where
  "Clone (TokenPrices i ou) = TokenPrices i ou"
| "Clone (Groups g) = Groups (map (\<lambda>x. x) g)"
| "Clone (RequestMetadataCount r t) = RequestMetadataCount r t"
| "Clone (CostDigest d) = CostDigest d"

definition Groups_Contains :: "string list \<Rightarrow> string \<Rightarrow> bool" where
  "Groups_Contains g name \<longleftrightarrow> name \<in> set g"

text \<open>Type assertions on an attribute value.\<close>

fun as_TokenPrices :: "'d attr \<Rightarrow> (real \<times> real) option" where
  "as_TokenPrices (TokenPrices i ou) = Some (i, ou)"
| "as_TokenPrices _ = None"

fun as_Groups :: "'d attr \<Rightarrow> string list option" where
  "as_Groups (Groups g) = Some g"
| "as_Groups _ = None"

fun as_RequestMetadataCount :: "'d attr \<Rightarrow> (int \<times> int) option" where
  "as_RequestMetadataCount (RequestMetadataCount r t) = Some (r, t)"
| "as_RequestMetadataCount _ = None"

fun as_CostDigest :: "'d attr \<Rightarrow> 'd option" where
  "as_CostDigest (CostDigest d) = Some d"
| "as_CostDigest _ = None"

definition TokenPricesAttributeKey :: string where
  "TokenPricesAttributeKey = ''token_prices''"

definition GroupsAttributeKey :: string where
  "GroupsAttributeKey = ''model_groups''"

definition RequestMetadataAttributeKey :: string where
  "RequestMetadataAttributeKey = ''request-metadata''"

definition CostDigestAttributeKey :: string where
  "CostDigestAttributeKey = ''cost_digest''"

lemmas attribute_key_defs = TokenPricesAttributeKey_def GroupsAttributeKey_def
  RequestMetadataAttributeKey_def CostDigestAttributeKey_def

text \<open>\<^verbatim>\<open>pricing.ToTokenPrices\<close>: prices per million tokens to prices per token.\<close>

definition ToTokenPrices :: "real \<Rightarrow> real \<Rightarrow> 'd attr" where
  "ToTokenPrices inputPerMillion outputPerMillion =
     TokenPrices (inputPerMillion / 1000000) (outputPerMillion / 1000000)"

subsection \<open>Attribute maps\<close>

type_synonym 'd attributes = "(string, 'd attr) gomap"

definition NewAttributes :: "'d attributes" where
  "NewAttributes = []"

text \<open>A nil value is \<open>None\<close>.\<close>

definition Attr_Put :: "string \<Rightarrow> 'd attr option \<Rightarrow> 'd attributes \<Rightarrow> 'd attributes" where
  "Attr_Put key value a =
     (if key = [] then a else (case value of None \<Rightarrow> a | Some v \<Rightarrow> mput key v a))"

definition Attr_Get :: "'d attributes \<Rightarrow> string \<Rightarrow> 'd attr option" where
  "Attr_Get a key = map_option Clone (map_of a key)"

definition Attr_Delete :: "string \<Rightarrow> 'd attributes \<Rightarrow> 'd attributes" where
  "Attr_Delete key a = mdel key a"

definition Attr_Keys :: "((string \<times> 'd attr) list \<Rightarrow> (string \<times> 'd attr) list) \<Rightarrow> 'd attributes \<Rightarrow> string list" where
  "Attr_Keys ord a = map fst (ord a)"

definition Attr_Clone ::
  "((string \<times> 'd attr) list \<Rightarrow> (string \<times> 'd attr) list) \<Rightarrow> 'd attributes \<Rightarrow> 'd attributes" where
  "Attr_Clone ord a = fold (\<lambda>(k, v). Attr_Put k (Some v)) (ord a) NewAttributes"

text \<open>\<^verbatim>\<open>ReadAttributeKey[T]\<close>, the type assertion to \<^verbatim>\<open>T\<close> an argument; the error text
  leaves out the two Go type names.\<close>

definition ReadAttributeKey :: "('d attr \<Rightarrow> 'x option) \<Rightarrow> 'd attributes \<Rightarrow> string \<Rightarrow> go_error + 'x" where
  "ReadAttributeKey assertT attrs key =
     (case Attr_Get attrs key of
        None \<Rightarrow> Inl (PlainErr (''attribute '' @ quoted key @ '': not found''))
      | Some raw \<Rightarrow>
          (case assertT raw of
             None \<Rightarrow> Inl (PlainErr (''unexpected type for key '' @ quoted key))
           | Some v \<Rightarrow> Inr v))"

subsection \<open>Models and the store\<close>

record 'd model =
  mname :: string
  mattrs :: "'d attributes"

definition NewModel :: "string \<Rightarrow> 'd model" where
  "NewModel name = \<lparr>mname = name, mattrs = NewAttributes\<rparr>"

type_synonym 'd store = "(string, 'd model) gomap"

definition NewDatastore :: "'d store" where
  "NewDatastore = []"

definition GetOrCreateModel :: "string \<Rightarrow> 'd store \<Rightarrow> 'd model \<times> 'd store" where
  "GetOrCreateModel name s =
     (case map_of s name of
        Some m \<Rightarrow> (m, s)
      | None \<Rightarrow> (NewModel name, mput name (NewModel name) s))"

definition DeleteModel :: "string \<Rightarrow> 'd store \<Rightarrow> 'd store" where
  "DeleteModel name s = mdel name s"

definition GetModels ::
  "((string \<times> 'd model) list \<Rightarrow> (string \<times> 'd model) list) \<Rightarrow> ('d model \<Rightarrow> bool) \<Rightarrow> 'd store
     \<Rightarrow> 'd model list" where
  "GetModels ord predicate s = filter predicate (map snd (ord s))"

definition AllModelsPredicate :: "'d model \<Rightarrow> bool" where
  "AllModelsPredicate m = True"

text \<open>
  \<^verbatim>\<open>ds.GetOrCreateModel(name).GetAttributes()\<close> followed by an update \<open>f\<close> of the attribute map:
  the model is shared with the store.
\<close>

definition on_attrs :: "string \<Rightarrow> ('d attributes \<Rightarrow> 'd attributes) \<Rightarrow> 'd store \<Rightarrow> 'd store" where
  "on_attrs name f s =
     (case GetOrCreateModel name s of (m, s') \<Rightarrow> mput name (m\<lparr>mattrs := f (mattrs m)\<rparr>) s')"

definition model_ok :: "'d model \<Rightarrow> bool" where
  "model_ok m \<longleftrightarrow> gomap_ok (mattrs m)"

text \<open>The store's invariant: one entry per name, holding the model of that name.\<close>

definition store_ok :: "'d store \<Rightarrow> bool" where
  "store_ok s \<longleftrightarrow> gomap_ok s \<and> (\<forall>k m. map_of s k = Some m \<longrightarrow> mname m = k \<and> model_ok m)"

text \<open>What a reader of the store sees: an attribute of a model.\<close>

definition attr_of :: "'d store \<Rightarrow> string \<Rightarrow> string \<Rightarrow> 'd attr option" where
  "attr_of s name key = (case map_of s name of None \<Rightarrow> None | Some m \<Rightarrow> Attr_Get (mattrs m) key)"

definition model_names :: "'d store \<Rightarrow> string set" where
  "model_names s = dom (map_of s)"

subsection \<open>Lemmas on attribute maps\<close>

lemma Clone_id [simp]: "Clone a = a"
  by (cases a) simp_all

lemma Attr_Get_eq [simp]: "Attr_Get a k = map_of a k"
  by (cases "map_of a k") (simp_all add: Attr_Get_def)

lemma Attr_Get_Put: "k \<noteq> [] \<Longrightarrow> map_of (Attr_Put k (Some v) a) = (map_of a)(k \<mapsto> v)"
  by (simp add: Attr_Put_def)

lemma Attr_Get_Delete: "map_of (Attr_Delete k a) = (map_of a)(k := None)"
  by (simp add: Attr_Delete_def)

lemma gomap_ok_Attr_Put [simp]: "gomap_ok a \<Longrightarrow> gomap_ok (Attr_Put k v a)"
  by (simp add: Attr_Put_def split: option.splits)

lemma gomap_ok_Attr_Delete [simp]: "gomap_ok a \<Longrightarrow> gomap_ok (Attr_Delete k a)"
  by (simp add: Attr_Delete_def)

lemma attribute_keys_nonempty [simp]:
  "TokenPricesAttributeKey \<noteq> []" "GroupsAttributeKey \<noteq> []"
  "RequestMetadataAttributeKey \<noteq> []" "CostDigestAttributeKey \<noteq> []"
  by (simp_all add: attribute_key_defs)

lemma attribute_keys_distinct [simp]:
  "TokenPricesAttributeKey \<noteq> GroupsAttributeKey" "GroupsAttributeKey \<noteq> TokenPricesAttributeKey"
  by (simp_all add: attribute_key_defs)

subsection \<open>The datastore interface\<close>

text \<open>
  What the data layer and the model selector rely on: \<open>lookup\<close> is the abstract content of a
  store. The client facts below are used for the configuration sync and the extractors.
\<close>

locale datastore =
  fixes get_or_create :: "string \<Rightarrow> 's \<Rightarrow> 'd model \<times> 's"
    and delete :: "string \<Rightarrow> 's \<Rightarrow> 's"
    and update_attrs :: "string \<Rightarrow> ('d attributes \<Rightarrow> 'd attributes) \<Rightarrow> 's \<Rightarrow> 's"
    and lookup :: "'s \<Rightarrow> string \<Rightarrow> 'd model option"
    and invar :: "'s \<Rightarrow> bool"
  assumes get_or_create_model: "invar s \<Longrightarrow>
      fst (get_or_create n s) = (case lookup s n of None \<Rightarrow> NewModel n | Some m \<Rightarrow> m)"
    and lookup_get_or_create: "invar s \<Longrightarrow>
      lookup (snd (get_or_create n s)) = (lookup s)(n \<mapsto> fst (get_or_create n s))"
    and lookup_delete: "invar s \<Longrightarrow> lookup (delete n s) = (lookup s)(n := None)"
    and lookup_update_attrs: "invar s \<Longrightarrow>
      lookup (update_attrs n f s) = (lookup s)(n \<mapsto>
        (fst (get_or_create n s))\<lparr>mattrs := f (mattrs (fst (get_or_create n s)))\<rparr>)"
    and invar_get_or_create: "invar s \<Longrightarrow> invar (snd (get_or_create n s))"
    and invar_delete: "invar s \<Longrightarrow> invar (delete n s)"
    and invar_update_attrs: "invar s \<Longrightarrow> (\<And>a. gomap_ok a \<Longrightarrow> gomap_ok (f a)) \<Longrightarrow> invar (update_attrs n f s)"
begin

lemma create_idempotent:
  "invar s \<Longrightarrow> lookup (snd (get_or_create n (snd (get_or_create n s)))) = lookup (snd (get_or_create n s))"
  by (simp add: lookup_get_or_create get_or_create_model invar_get_or_create)

lemma update_attrs_names: "invar s \<Longrightarrow> dom (lookup (update_attrs n f s)) = insert n (dom (lookup s))"
  by (simp add: lookup_update_attrs)

lemma update_attrs_frame: "invar s \<Longrightarrow> n' \<noteq> n \<Longrightarrow> lookup (update_attrs n f s) n' = lookup s n'"
  by (simp add: lookup_update_attrs)

lemma invar_fold_delete: "invar s \<Longrightarrow> invar (fold delete ns s)"
  by (induction ns arbitrary: s) (simp_all add: invar_delete)

lemma lookup_fold_delete: "invar s \<Longrightarrow> lookup (fold delete ns s) = lookup s |` (- set ns)"
proof (induction ns arbitrary: s)
  case (Cons n ns)
  then show ?case
    by (auto simp: lookup_delete invar_delete restrict_map_def fun_eq_iff)
qed (simp add: restrict_map_def)

end

lemma store_okD: "store_ok s \<Longrightarrow> map_of s k = Some m \<Longrightarrow> mname m = k \<and> gomap_ok (mattrs m)"
  by (simp add: store_ok_def model_ok_def)

lemma store_ok_mput: "store_ok s \<Longrightarrow> mname m = k \<Longrightarrow> model_ok m \<Longrightarrow> store_ok (mput k m s)"
  by (simp add: store_ok_def)

lemma store_ok_NewDatastore [simp]: "store_ok NewDatastore"
  by (simp add: store_ok_def NewDatastore_def)

lemma model_ok_NewModel [simp]: "model_ok (NewModel n)" "mname (NewModel n) = n"
  by (simp_all add: model_ok_def NewModel_def NewAttributes_def)

lemma fst_GetOrCreateModel: "fst (GetOrCreateModel n s) = (case map_of s n of None \<Rightarrow> NewModel n | Some m \<Rightarrow> m)"
  by (simp add: GetOrCreateModel_def split: option.splits)

lemma map_of_GetOrCreateModel:
  "map_of (snd (GetOrCreateModel n s)) = (map_of s)(n \<mapsto> fst (GetOrCreateModel n s))"
  by (auto simp: GetOrCreateModel_def fun_upd_idem split: option.splits)

lemma GetOrCreateModel_ok:
  assumes "store_ok s"
  shows "store_ok (snd (GetOrCreateModel n s))" and "mname (fst (GetOrCreateModel n s)) = n"
    and "model_ok (fst (GetOrCreateModel n s))"
proof -
  have "store_ok (snd (GetOrCreateModel n s)) \<and> mname (fst (GetOrCreateModel n s)) = n
      \<and> model_ok (fst (GetOrCreateModel n s))"
  proof (cases "map_of s n")
    case None
    with assms show ?thesis by (simp add: GetOrCreateModel_def store_ok_mput)
  next
    case (Some m)
    with store_okD [OF assms Some] assms show ?thesis
      by (simp add: GetOrCreateModel_def model_ok_def)
  qed
  then show "store_ok (snd (GetOrCreateModel n s))" and "mname (fst (GetOrCreateModel n s)) = n"
    and "model_ok (fst (GetOrCreateModel n s))" by blast+
qed

lemma on_attrs_eq:
  "on_attrs n f s = mput n ((fst (GetOrCreateModel n s))\<lparr>mattrs := f (mattrs (fst (GetOrCreateModel n s)))\<rparr>)
     (snd (GetOrCreateModel n s))"
  by (simp add: on_attrs_def case_prod_beta)

lemma store_ok_on_attrs:
  assumes "store_ok s" and "\<And>a. gomap_ok a \<Longrightarrow> gomap_ok (f a)"
  shows "store_ok (on_attrs n f s)"
  unfolding on_attrs_eq using GetOrCreateModel_ok [OF assms(1)] assms(2)
  by (intro store_ok_mput) (simp_all add: model_ok_def)

interpretation mem: datastore GetOrCreateModel DeleteModel on_attrs map_of store_ok
proof unfold_locales
  fix n f and s :: "'b store"
  assume ok: "store_ok s"
  show "fst (GetOrCreateModel n s) = (case map_of s n of None \<Rightarrow> NewModel n | Some m \<Rightarrow> m)"
    by (rule fst_GetOrCreateModel)
  show "map_of (snd (GetOrCreateModel n s)) = (map_of s)(n \<mapsto> fst (GetOrCreateModel n s))"
    by (rule map_of_GetOrCreateModel)
  show "map_of (DeleteModel n s) = (map_of s)(n := None)"
    by (simp add: DeleteModel_def)
  show "map_of (on_attrs n f s) = (map_of s)(n \<mapsto>
      (fst (GetOrCreateModel n s))\<lparr>mattrs := f (mattrs (fst (GetOrCreateModel n s)))\<rparr>)"
    by (simp add: on_attrs_eq map_of_GetOrCreateModel)
  show "store_ok (snd (GetOrCreateModel n s))"
    by (rule GetOrCreateModel_ok(1) [OF ok])
  show "store_ok (DeleteModel n s)"
    using ok by (auto simp: store_ok_def DeleteModel_def)
  show "(\<And>a. gomap_ok a \<Longrightarrow> gomap_ok (f a)) \<Longrightarrow> store_ok (on_attrs n f s)"
    by (rule store_ok_on_attrs [OF ok])
qed

lemma attr_of_on_attrs:
  assumes "store_ok s"
  shows "attr_of (on_attrs n f s) n' k =
    (if n' = n then map_of (f (case map_of s n of None \<Rightarrow> [] | Some m \<Rightarrow> mattrs m)) k else attr_of s n' k)"
  by (simp add: attr_of_def mem.lookup_update_attrs [OF assms] fst_GetOrCreateModel NewModel_def
      NewAttributes_def split: option.splits)

lemma attr_of_on_attrs_put:
  assumes "store_ok s" and "key \<noteq> []"
  shows "attr_of (on_attrs n (Attr_Put key (Some v)) s) n' k =
    (if n' = n \<and> k = key then Some v else attr_of s n' k)"
proof -
  have "map_of (case map_of s n of None \<Rightarrow> [] | Some x \<Rightarrow> mattrs x) k = attr_of s n k"
    by (simp add: attr_of_def split: option.split)
  then show ?thesis
    by (simp add: attr_of_on_attrs [OF assms(1)] Attr_Get_Put [OF assms(2)])
qed

lemma model_names_on_attrs [simp]:
  "store_ok s \<Longrightarrow> model_names (on_attrs n f s) = insert n (model_names s)"
  unfolding model_names_def by (rule mem.update_attrs_names)

lemma GetModels_names:
  assumes "perm_of ord" and "store_ok s"
  shows "mname ` set (GetModels ord AllModelsPredicate s) = model_names s"
    and "distinct (map mname (GetModels ord AllModelsPredicate s))"
proof -
  have all: "GetModels ord AllModelsPredicate s = map snd (ord s)"
    by (simp add: GetModels_def AllModelsPredicate_def)
  have eq: "\<And>k m. (k, m) \<in> set s \<Longrightarrow> mname m = k"
    using assms(2) by (simp add: store_ok_def)
  then have "map mname (map snd (ord s)) = map fst (ord s)"
    by (auto simp: perm_of_set [OF assms(1)])
  moreover have "mset (map fst (ord s)) = mset (map fst s)"
    by (metis mset_map perm_of_mset [OF assms(1)])
  ultimately show "distinct (map mname (GetModels ord AllModelsPredicate s))"
    using assms(2) unfolding all store_ok_def by (metis mset_eq_imp_distinct_iff)
  show "mname ` set (GetModels ord AllModelsPredicate s) = model_names s"
    using eq by (force simp: all perm_of_set [OF assms(1)] model_names_def dom_map_of_conv_image_fst
        image_image)
qed

lemma GetModels_lookup:
  assumes "perm_of ord" and "store_ok s" and "m \<in> set (GetModels ord pred s)"
  shows "map_of s (mname m) = Some m"
  using assms
  by (auto simp: GetModels_def perm_of_set store_ok_def map_of_eq_Some_iff)

end
