(* ===== verification/Err_Common.thy ===== *)
theory Err_Common
  imports Envoy
begin

text \<open>
  \<^verbatim>\<open>pkg/common/error/error.go\<close>: the typed error codes and their translation to an Envoy
  immediate response. An error whose code is not one of the seven HTTP codes fails the gRPC
  stream instead; the gRPC code of such an error is computed by \<^verbatim>\<open>status.Code\<close> of
  the gRPC library, the argument \<open>status_code\<close>.
\<close>

definition Unknown :: string where "Unknown = ''Unknown''"
definition BadRequest :: string where "BadRequest = ''BadRequest''"
definition Unauthorized :: string where "Unauthorized = ''Unauthorized''"
definition Forbidden :: string where "Forbidden = ''Forbidden''"
definition NotFound :: string where "NotFound = ''NotFound''"
definition Internal :: string where "Internal = ''Internal''"
definition ServiceUnavailable :: string where "ServiceUnavailable = ''ServiceUnavailable''"
definition ModelServerError :: string where "ModelServerError = ''ModelServerError''"
definition ResourceExhausted :: string where "ResourceExhausted = ''ResourceExhausted''"

lemmas error_code_defs = Unknown_def BadRequest_def Unauthorized_def Forbidden_def NotFound_def
  Internal_def ServiceUnavailable_def ModelServerError_def ResourceExhausted_def

text \<open>A gRPC status: code and message.\<close>

type_synonym grpc_status = "nat \<times> string"

text \<open>\<^verbatim>\<open>err.Error()\<close>.\<close>

fun error_string :: "go_error \<Rightarrow> string" where
  "error_string (TypedErr code msg) = ''inference error: '' @ code @ '' - '' @ msg"
| "error_string (PlainErr msg) = msg"
| "error_string (Panic msg) = msg"

fun CanonicalCode :: "go_error \<Rightarrow> string" where
  "CanonicalCode (TypedErr code msg) = code"
| "CanonicalCode _ = Unknown"

text \<open>The \<^verbatim>\<open>switch\<close> of \<^verbatim>\<open>BuildErrResponse\<close>; \<open>None\<close> is its default branch.\<close>

definition http_code :: "string \<Rightarrow> nat option" where
  "http_code c =
     (if c = BadRequest then Some 400
      else if c = Unauthorized then Some 401
      else if c = Forbidden then Some 403
      else if c = NotFound then Some 404
      else if c = ResourceExhausted then Some 429
      else if c = Internal then Some 500
      else if c = ServiceUnavailable then Some 503
      else None)"

definition BuildErrResponse ::
  "(go_error \<Rightarrow> nat) \<Rightarrow> go_error \<Rightarrow> grpc_status + processing_response" where
  "BuildErrResponse status_code err =
     (case http_code (CanonicalCode err) of
        None \<Rightarrow> Inl (status_code err, ''failed to handle request: '' @ error_string err)
      | Some code \<Rightarrow> Inr (PR_ImmediateResponse code
          (if error_string err \<noteq> [] then error_string err else [])))"

subsection \<open>Lemmas\<close>

lemma BuildErrResponse_typed:
  "BuildErrResponse sc (TypedErr c m) =
     (case http_code c of
        None \<Rightarrow> Inl (sc (TypedErr c m), ''failed to handle request: '' @ error_string (TypedErr c m))
      | Some n \<Rightarrow> Inr (PR_ImmediateResponse n (error_string (TypedErr c m))))"
  by (simp add: BuildErrResponse_def split: option.splits)

lemma BuildErrResponse_plain:
  "BuildErrResponse sc (PlainErr m) = Inl (sc (PlainErr m), ''failed to handle request: '' @ m)"
  by (simp add: BuildErrResponse_def http_code_def error_code_defs)

lemma http_code_simps [simp]:
  "http_code BadRequest = Some 400"
  "http_code Internal = Some 500"
  "http_code ResourceExhausted = Some 429"
  "http_code Unknown = None"
  "http_code ModelServerError = None"
  by (simp_all add: http_code_def error_code_defs)

subsection \<open>Properties\<close>

text \<open>
  An error becomes an HTTP reply exactly when it is a typed error with one of the seven
  HTTP codes; the reply then has a 4xx or 5xx status and carries the error text as its
  body, and every other error (a plain error value, or a typed one with another code such as
  \<^const>\<open>ModelServerError\<close>) fails the stream with a gRPC status.
\<close>

theorem err_response_total:
  "(\<exists>code body. BuildErrResponse status_code err = Inr (PR_ImmediateResponse code body)
       \<and> 400 \<le> code \<and> code < 600 \<and> body = error_string err)
     \<longleftrightarrow> (\<exists>c m. err = TypedErr c m
          \<and> c \<in> {BadRequest, Unauthorized, Forbidden, NotFound, ResourceExhausted, Internal,
                 ServiceUnavailable})"
  by (cases err) (auto simp: BuildErrResponse_def http_code_def error_code_defs)

end
