(* ===== verification/Selector.thy ===== *)
theory Selector
  imports Message Datastore Err_Common
begin

text \<open>
  \<^verbatim>\<open>pkg/modelselector\<close>: the Filter, Score, Pick pipeline and its assembly, with the plugin
  interfaces of \<^verbatim>\<open>pkg/framework/interface/modelselector\<close>.

  A plugin runs on a state \<open>'w \<times> cycle_state\<close>: \<open>'w\<close> stands for whatever the plugins keep
  between requests (caches, the random source), the cycle state is the request's. A candidate
  model is a snapshot of its attributes at the time of the selection; the candidates of one
  selection have distinct names, so a model value stands for the pointer the code uses as a map key.
  A score map is returned as an association list, in whatever order the scorer produces it: the
  run-time's iteration order is part of the scorer's answer. Logging, spans and latency metrics
  have no effect on the selection and are left out.
\<close>

subsection \<open>Plugin interfaces\<close>

record 'd scored_model =
  sm_model :: "'d model"
  sm_score :: real

text \<open>\<^verbatim>\<open>*PipelineRunResult\<close>: \<open>None\<close> is a nil pointer, \<open>Some None\<close> a nil \<^verbatim>\<open>TargetModel\<close>.\<close>

type_synonym 'd run_result = "'d model option option"

type_synonym ('w, 'd) filter_fn =
  "inference_request \<Rightarrow> 'd model list \<Rightarrow> 'w \<times> cycle_state
     \<Rightarrow> (go_error + 'd model list) \<times> ('w \<times> cycle_state)"

type_synonym ('w, 'd) scorer_fn =
  "inference_request \<Rightarrow> 'd model list \<Rightarrow> 'w \<times> cycle_state
     \<Rightarrow> (go_error + ('d model, real) gomap) \<times> ('w \<times> cycle_state)"

type_synonym ('w, 'd) picker_fn =
  "'d scored_model list \<Rightarrow> 'w \<times> cycle_state \<Rightarrow> (go_error + 'd run_result) \<times> ('w \<times> cycle_state)"

record ('w, 'd) pipeline =
  filters :: "('w, 'd) filter_fn list"
  scorers :: "(('w, 'd) scorer_fn \<times> real) list"
  picker :: "(string \<times> ('w, 'd) picker_fn) option"

definition NewModelSelectorPipeline :: "('w, 'd) pipeline" where
  "NewModelSelectorPipeline = \<lparr>filters = [], scorers = [], picker = None\<rparr>"

definition WithPicker :: "string \<times> ('w, 'd) picker_fn \<Rightarrow> ('w, 'd) pipeline \<Rightarrow> ('w, 'd) pipeline" where
  "WithPicker p pl = pl\<lparr>picker := Some p\<rparr>"

subsection \<open>Registering plugins\<close>

text \<open>
  A plugin object offers any of the three interfaces; \<open>po_name\<close> is its printed typed name.
  A \<^verbatim>\<open>*WeightedScorer\<close> wraps an object that is a scorer.
\<close>

record ('w, 'd) plugin_obj =
  po_name :: string
  po_filter :: "('w, 'd) filter_fn option"
  po_scorer :: "('w, 'd) scorer_fn option"
  po_picker :: "('w, 'd) picker_fn option"

datatype ('w, 'd) registrable =
    WeightedScorer "('w, 'd) plugin_obj" "('w, 'd) scorer_fn" real
  | PlainPlugin "('w, 'd) plugin_obj"

definition existing_picker_name :: "('w, 'd) pipeline \<Rightarrow> (string \<times> ('w, 'd) picker_fn) option \<Rightarrow> string" where
  "existing_picker_name p newPicker =
     (case newPicker of Some (n, _) \<Rightarrow> n
      | None \<Rightarrow> (case picker p of Some (n, _) \<Rightarrow> n | None \<Rightarrow> []))"

text \<open>The part of the loop body after the weight has been settled.\<close>

definition add_interfaces ::
  "('w, 'd) pipeline \<Rightarrow> ('w, 'd) plugin_obj
     \<Rightarrow> ('w, 'd) filter_fn list \<times> (('w, 'd) scorer_fn \<times> real) list \<times> (string \<times> ('w, 'd) picker_fn) option
     \<Rightarrow> go_error + ('w, 'd) filter_fn list \<times> (('w, 'd) scorer_fn \<times> real) list
          \<times> (string \<times> ('w, 'd) picker_fn) option" where
  "add_interfaces p plug acc =
     (case acc of (newFilters, newScorers, newPicker) \<Rightarrow>
        let newFilters' = (case po_filter plug of None \<Rightarrow> newFilters | Some f \<Rightarrow> newFilters @ [f])
        in (case po_picker plug of
              None \<Rightarrow> Inr (newFilters', newScorers, newPicker)
            | Some pk \<Rightarrow>
                if picker p \<noteq> None \<or> newPicker \<noteq> None then
                  Inl (PlainErr (''failed to set '' @ single_quoted (po_name plug)
                    @ '' as picker, already have a registered picker plugin ''
                    @ single_quoted (existing_picker_name p newPicker)))
                else Inr (newFilters', newScorers, Some (po_name plug, pk))))"

fun add_loop ::
  "('w, 'd) pipeline \<Rightarrow> ('w, 'd) registrable list
     \<Rightarrow> ('w, 'd) filter_fn list \<times> (('w, 'd) scorer_fn \<times> real) list \<times> (string \<times> ('w, 'd) picker_fn) option
     \<Rightarrow> go_error + ('w, 'd) filter_fn list \<times> (('w, 'd) scorer_fn \<times> real) list
          \<times> (string \<times> ('w, 'd) picker_fn) option" where
  "add_loop p [] acc = Inr acc"
| "add_loop p (WeightedScorer plug sc w # rest) (fs, ss, pk) =
     (case add_interfaces p plug (fs, ss @ [(sc, w)], pk) of
        Inl e \<Rightarrow> Inl e | Inr acc' \<Rightarrow> add_loop p rest acc')"
| "add_loop p (PlainPlugin plug # rest) acc =
     (case po_scorer plug of
        Some _ \<Rightarrow> Inl (PlainErr (''failed to register scorer '' @ single_quoted (po_name plug)
          @ '' without a weight. use NewWeightedScorer to register a scorer''))
      | None \<Rightarrow>
          (case add_interfaces p plug acc of Inl e \<Rightarrow> Inl e | Inr acc' \<Rightarrow> add_loop p rest acc'))"

definition AddPlugins ::
  "('w, 'd) pipeline \<Rightarrow> ('w, 'd) registrable list \<Rightarrow> go_error option \<times> ('w, 'd) pipeline" where
  "AddPlugins p pluginObjects =
     (case add_loop p pluginObjects ([], [], None) of
        Inl e \<Rightarrow> (Some e, p)
      | Inr (newFilters, newScorers, newPicker) \<Rightarrow>
          (None, p\<lparr>filters := filters p @ newFilters, scorers := scorers p @ newScorers,
                   picker := (case newPicker of None \<Rightarrow> picker p | Some pk \<Rightarrow> Some pk)\<rparr>))"

subsection \<open>Running the pipeline\<close>

fun run_filters ::
  "('w, 'd) filter_fn list \<Rightarrow> ('w, 'd) filter_fn" where
  "run_filters [] request models s = (Inr models, s)"
| "run_filters (f # fs) request models s =
     (case f request models s of
        (Inl e, s') \<Rightarrow> (Inl e, s')
      | (Inr filtered, s') \<Rightarrow>
          if length filtered = 0 then (Inr filtered, s') else run_filters fs request filtered s')"

definition runFilterPlugins :: "('w, 'd) pipeline \<Rightarrow> ('w, 'd) filter_fn" where
  "runFilterPlugins p = run_filters (filters p)"

definition enforceScoreRange :: "real \<Rightarrow> real" where
  "enforceScoreRange score = (if score < 0 then 0 else if score > 1 then 1 else score)"

text \<open>The map of scored models, by name, all at zero.\<close>

definition init_scores :: "'d model list \<Rightarrow> (string, 'd scored_model) gomap" where
  "init_scores models = fold (\<lambda>m. mput (mname m) \<lparr>sm_model = m, sm_score = 0\<rparr>) models []"

text \<open>One scorer's scores added in: scores of models that are not candidates are dropped.\<close>

definition add_score ::
  "real \<Rightarrow> 'd model \<times> real \<Rightarrow> (string, 'd scored_model) gomap \<Rightarrow> (string, 'd scored_model) gomap" where
  "add_score weight ms scored =
     (case ms of (m, score) \<Rightarrow>
        (case map_of scored (mname m) of
           None \<Rightarrow> scored
         | Some sm \<Rightarrow>
             mput (mname m) (sm\<lparr>sm_score := sm_score sm + enforceScoreRange score * weight\<rparr>) scored))"

fun run_scorers ::
  "(('w, 'd) scorer_fn \<times> real) list \<Rightarrow> inference_request \<Rightarrow> 'd model list
     \<Rightarrow> (string, 'd scored_model) gomap \<Rightarrow> 'w \<times> cycle_state
     \<Rightarrow> (go_error + (string, 'd scored_model) gomap) \<times> ('w \<times> cycle_state)" where
  "run_scorers [] request models scored s = (Inr scored, s)"
| "run_scorers ((score, weight) # rest) request models scored s =
     (case score request models s of
        (Inl e, s') \<Rightarrow> (Inl e, s')
      | (Inr scores, s') \<Rightarrow> run_scorers rest request models (fold (add_score weight) scores scored) s')"

definition runScorerPlugins ::
  "('w, 'd) pipeline \<Rightarrow> inference_request \<Rightarrow> 'd model list \<Rightarrow> 'w \<times> cycle_state
     \<Rightarrow> (go_error + (string, 'd scored_model) gomap) \<times> ('w \<times> cycle_state)" where
  "runScorerPlugins p request models s = run_scorers (scorers p) request models (init_scores models) s"

text \<open>
  The picker gets the scored models in the map's iteration order \<open>ord\<close>. A missing picker and a nil
  result are dereferenced.
\<close>

definition runPickerPlugin ::
  "((string \<times> 'd scored_model) list \<Rightarrow> (string \<times> 'd scored_model) list) \<Rightarrow> ('w, 'd) pipeline
     \<Rightarrow> (string, 'd scored_model) gomap \<Rightarrow> 'w \<times> cycle_state
     \<Rightarrow> (go_error + 'd run_result) \<times> ('w \<times> cycle_state)" where
  "runPickerPlugin ord p scoredModelMap s =
     (case picker p of
        None \<Rightarrow> (Inl (Panic ''nil pointer dereference''), s)
      | Some (_, pick) \<Rightarrow>
          (case pick (map snd (ord scoredModelMap)) s of
             (Inl e, s') \<Rightarrow> (Inl e, s')
           | (Inr (Some (Some m)), s') \<Rightarrow> (Inr (Some (Some m)), s')
           | (Inr _, s') \<Rightarrow> (Inl (Panic ''nil pointer dereference''), s')))"

definition Run ::
  "((string \<times> 'd scored_model) list \<Rightarrow> (string \<times> 'd scored_model) list) \<Rightarrow> ('w, 'd) pipeline
     \<Rightarrow> inference_request \<Rightarrow> 'd model list \<Rightarrow> 'w \<times> cycle_state
     \<Rightarrow> (go_error + 'd run_result) \<times> ('w \<times> cycle_state)" where
  "Run ord p request candidateModels s =
     (case runFilterPlugins p request candidateModels s of
        (Inl e, s1) \<Rightarrow> (Inl e, s1)
      | (Inr models, s1) \<Rightarrow>
          if length models = 0 then
            (Inl (TypedErr ResourceExhausted ''no models available after filtering''), s1)
          else
            (case runScorerPlugins p request models s1 of
               (Inl e, s2) \<Rightarrow> (Inl e, s2)
             | (Inr scored, s2) \<Rightarrow> runPickerPlugin ord p scored s2))"

definition Select ::
  "((string \<times> 'd scored_model) list \<Rightarrow> (string \<times> 'd scored_model) list) \<Rightarrow> ('w, 'd) pipeline
     \<Rightarrow> inference_request \<Rightarrow> 'd model list \<Rightarrow> 'w \<times> cycle_state
     \<Rightarrow> (go_error + 'd model) \<times> ('w \<times> cycle_state)" where
  "Select ord p request candidateModels s =
     (if length candidateModels = 0 then (Inl (PlainErr ''no candidate models provided''), s)
      else
        (case Run ord p request candidateModels s of
           (Inl e, s') \<Rightarrow> (Inl e, s')
         | (Inr (Some (Some m)), s') \<Rightarrow> (Inr m, s')
         | (Inr _, s') \<Rightarrow> (Inl (PlainErr ''model selection returned no result''), s')))"

subsection \<open>What the pipeline relies on\<close>

text \<open>
  A filter returns without panicking a sublist of its input; a scorer, on candidates that
  are \<open>admissible\<close>, returns without panicking one score per candidate, in the unit interval; a
  picker returns one of the models it is given.
\<close>

locale model_filter =
  fixes flt :: "('w, 'd) filter_fn"
  assumes filter_returns: "\<exists>ms'. fst (flt request ms s) = Inr ms' \<and> set ms' \<subseteq> set ms
    \<and> (distinct (map mname ms) \<longrightarrow> distinct (map mname ms'))"

locale model_scorer =
  fixes score :: "('w, 'd) scorer_fn"
    and admissible :: "'d model \<Rightarrow> bool"
  assumes scorer_returns: "distinct (map mname ms) \<Longrightarrow> list_all admissible ms \<Longrightarrow>
    \<exists>sc. fst (score request ms s) = Inr sc \<and> gomap_ok sc \<and> fst ` set sc = set ms
      \<and> (\<forall>m r. map_of sc m = Some r \<longrightarrow> 0 \<le> r \<and> r \<le> 1)"

locale model_picker =
  fixes pick :: "('w, 'd) picker_fn"
  assumes picker_returns: "sms \<noteq> [] \<Longrightarrow>
    \<exists>sm\<in>set sms. fst (pick sms s) = Inr (Some (Some (sm_model sm)))"

subsection \<open>Specifications\<close>

definition plug_of :: "('w, 'd) registrable \<Rightarrow> ('w, 'd) plugin_obj" where
  "plug_of r = (case r of WeightedScorer plug _ _ \<Rightarrow> plug | PlainPlugin plug \<Rightarrow> plug)"

definition unweighted_scorer :: "('w, 'd) registrable \<Rightarrow> bool" where
  "unweighted_scorer r = (case r of WeightedScorer _ _ _ \<Rightarrow> False | PlainPlugin plug \<Rightarrow> po_scorer plug \<noteq> None)"

definition weighted_of :: "('w, 'd) registrable \<Rightarrow> (('w, 'd) scorer_fn \<times> real) option" where
  "weighted_of r = (case r of WeightedScorer _ sc w \<Rightarrow> Some (sc, w) | PlainPlugin _ \<Rightarrow> None)"

definition picker_count :: "('w, 'd) registrable list \<Rightarrow> nat" where
  "picker_count rs = length (filter (\<lambda>r. po_picker (plug_of r) \<noteq> None) rs)"

definition option_count :: "'x option \<Rightarrow> nat" where
  "option_count x = (case x of None \<Rightarrow> 0 | Some _ \<Rightarrow> 1)"

text \<open>The scores and weights the scorers produce, one after the other.\<close>

fun scorer_outputs ::
  "(('w, 'd) scorer_fn \<times> real) list \<Rightarrow> inference_request \<Rightarrow> 'd model list \<Rightarrow> 'w \<times> cycle_state
     \<Rightarrow> (('d model, real) gomap \<times> real) list" where
  "scorer_outputs [] request models s = []"
| "scorer_outputs ((score, weight) # rest) request models s =
     (case score request models s of
        (Inl e, s') \<Rightarrow> []
      | (Inr scores, s') \<Rightarrow> (scores, weight) # scorer_outputs rest request models s')"

definition weighted_total :: "(('d model, real) gomap \<times> real) list \<Rightarrow> 'd model \<Rightarrow> real" where
  "weighted_total outs m = (\<Sum>(sc, w)\<leftarrow>outs. enforceScoreRange (mget_zero 0 sc m) * w)"

subsection \<open>Lemmas on registration\<close>

lemma add_interfaces_spec:
  "add_interfaces p plug (fs, ss, pk) =
     (if po_picker plug \<noteq> None \<and> (picker p \<noteq> None \<or> pk \<noteq> None)
      then Inl (PlainErr (''failed to set '' @ single_quoted (po_name plug)
             @ '' as picker, already have a registered picker plugin '' @ single_quoted (existing_picker_name p pk)))
      else Inr (fs @ (case po_filter plug of None \<Rightarrow> [] | Some f \<Rightarrow> [f]), ss,
             (case po_picker plug of None \<Rightarrow> pk | Some f \<Rightarrow> Some (po_name plug, f))))"
  by (auto simp: add_interfaces_def Let_def split: option.splits)

lemma add_loop_step:
  "add_loop p (r # rs) (fs, ss, pk) =
     (if unweighted_scorer r
      then Inl (PlainErr (''failed to register scorer '' @ single_quoted (po_name (plug_of r))
             @ '' without a weight. use NewWeightedScorer to register a scorer''))
      else case add_interfaces p (plug_of r) (fs, ss @ (case weighted_of r of None \<Rightarrow> [] | Some x \<Rightarrow> [x]), pk) of
             Inl e \<Rightarrow> Inl e | Inr acc \<Rightarrow> add_loop p rs acc)"
  by (cases r) (auto simp: unweighted_scorer_def plug_of_def weighted_of_def split: option.splits)

lemma picker_count_Cons:
  "picker_count (r # rs) = option_count (po_picker (plug_of r)) + picker_count rs"
  by (simp add: picker_count_def option_count_def split: option.splits)

lemma add_loop_ok_iff:
  assumes "option_count (picker p) + option_count pk \<le> 1"
  shows "\<not> isl (add_loop p rs (fs, ss, pk)) \<longleftrightarrow>
      \<not> list_ex unweighted_scorer rs
      \<and> option_count (picker p) + option_count pk + picker_count rs \<le> 1"
  using assms
proof (induction rs arbitrary: fs ss pk)
  case Nil
  then show ?case by (simp add: picker_count_def)
next
  case (Cons r rs)
  show ?case
  proof (cases "po_picker (plug_of r)")
    case None
    with Cons show ?thesis
      by (simp add: add_loop_step add_interfaces_spec picker_count_Cons option_count_def)
  next
    case (Some pk')
    show ?thesis
    proof (cases "picker p \<noteq> None \<or> pk \<noteq> None")
      case True
      with Some show ?thesis
        by (auto simp: add_loop_step add_interfaces_spec picker_count_Cons option_count_def)
    next
      case False
      then have "picker p = None" "pk = None" by blast+
      with Some Cons.IH show ?thesis
        by (simp add: add_loop_step add_interfaces_spec picker_count_Cons option_count_def)
    qed
  qed
qed

lemma add_loop_result:
  assumes "add_loop p rs (fs, ss, pk) = Inr (fs', ss', pk')"
  shows "fs' = fs @ List.map_filter (\<lambda>r. po_filter (plug_of r)) rs \<and> ss' = ss @ List.map_filter weighted_of rs
    \<and> option_count pk' = option_count pk + picker_count rs"
  using assms
proof (induction rs arbitrary: fs ss pk)
  case (Cons r rs)
  define pk1 where "pk1 = (case po_picker (plug_of r) of None \<Rightarrow> pk | Some f \<Rightarrow> Some (po_name (plug_of r), f))"
  from Cons.prems have
    "add_loop p rs (fs @ (case po_filter (plug_of r) of None \<Rightarrow> [] | Some f \<Rightarrow> [f]),
        ss @ (case weighted_of r of None \<Rightarrow> [] | Some x \<Rightarrow> [x]), pk1) = Inr (fs', ss', pk')"
    and "po_picker (plug_of r) = None \<or> pk = None"
    by (auto simp: add_loop_step add_interfaces_spec pk1_def split: if_splits)
  from Cons.IH [OF this(1)] this(2) show ?case
    by (auto simp: pk1_def picker_count_Cons option_count_def split: option.splits)
qed (simp add: picker_count_def)

subsection \<open>Lemmas on scores\<close>

lemma enforceScoreRange_bounds [simp]: "0 \<le> enforceScoreRange x" "enforceScoreRange x \<le> 1"
  by (simp_all add: enforceScoreRange_def)

lemma enforceScoreRange_zero [simp]: "enforceScoreRange 0 = 0"
  by (simp add: enforceScoreRange_def)

lemma enforceScoreRange_id: "0 \<le> x \<Longrightarrow> x \<le> 1 \<Longrightarrow> enforceScoreRange x = x"
  by (simp add: enforceScoreRange_def)

lemma gomap_ok_add_score [simp]: "gomap_ok scored \<Longrightarrow> gomap_ok (add_score w ms scored)"
  by (simp add: add_score_def split: prod.splits option.splits)

lemma dom_add_score [simp]: "dom (map_of (add_score w ms scored)) = dom (map_of scored)"
  by (auto simp: add_score_def split: prod.splits option.splits)

lemma gomap_ok_fold_add_score: "gomap_ok scored \<Longrightarrow> gomap_ok (fold (add_score w) sc scored)"
  by (induction sc arbitrary: scored) simp_all

lemma dom_fold_add_score: "dom (map_of (fold (add_score w) sc scored)) = dom (map_of scored)"
  by (induction sc arbitrary: scored) simp_all

lemma fold_add_score_other:
  "n \<notin> mname ` fst ` set sc \<Longrightarrow> map_of (fold (add_score w) sc scored) n = map_of scored n"
  by (induction sc arbitrary: scored) (auto simp: add_score_def split: option.splits)

text \<open>One scorer adds exactly its clamped score times its weight to each candidate.\<close>

lemma fold_add_score:
  assumes "gomap_ok sc" and "fst ` set sc \<subseteq> M" and "inj_on mname M" and "m \<in> M"
    and "map_of scored (mname m) = Some sm"
  shows "map_of (fold (add_score w) sc scored) (mname m)
    = Some (sm\<lparr>sm_score := sm_score sm + enforceScoreRange (mget_zero 0 sc m) * w\<rparr>)"
  using assms
proof (induction sc arbitrary: scored sm)
  case Nil
  then show ?case by (simp add: mget_zero_def)
next
  case (Cons x sc)
  obtain m' r where x: "x = (m', r)" by (cases x)
  show ?case
  proof (cases "m' = m")
    case True
    with Cons.prems x have "m \<notin> fst ` set sc" by auto
    then have "mname m \<notin> mname ` fst ` set sc"
      using Cons.prems(2-4) by (auto dest: inj_onD)
    then have "map_of (fold (add_score w) (x # sc) scored) (mname m) = map_of (add_score w x scored) (mname m)"
      by (simp add: fold_add_score_other)
    moreover have "map_of (add_score w x scored) (mname m)
        = Some (sm\<lparr>sm_score := sm_score sm + enforceScoreRange r * w\<rparr>)"
      using Cons.prems True x by (simp add: add_score_def)
    ultimately show ?thesis
      using True x by (simp add: mget_zero_def)
  next
    case False
    with Cons.prems x have ne: "mname m' \<noteq> mname m" by (auto dest: inj_onD)
    then have "map_of (add_score w x scored) (mname m) = Some sm"
      using Cons.prems x by (simp add: add_score_def split: option.splits)
    then have "map_of (fold (add_score w) sc (add_score w x scored)) (mname m)
        = Some (sm\<lparr>sm_score := sm_score sm + enforceScoreRange (mget_zero 0 sc m) * w\<rparr>)"
      using Cons.prems by (intro Cons.IH) auto
    with False x show ?thesis by (simp add: mget_zero_def)
  qed
qed

lemma init_scores_fold:
  "distinct (map mname ms) \<Longrightarrow>
   map_of (fold (\<lambda>m. mput (mname m) \<lparr>sm_model = m, sm_score = 0\<rparr>) ms acc) =
     map_of acc ++ map_of (map (\<lambda>m. (mname m, \<lparr>sm_model = m, sm_score = 0\<rparr>)) ms)"
proof (induction ms arbitrary: acc)
  case (Cons m ms)
  then have "map_of (map (\<lambda>m. (mname m, \<lparr>sm_model = m, sm_score = 0\<rparr>)) ms) (mname m) = None"
    by (auto simp: map_of_eq_None_iff)
  with Cons show ?case
    by (auto simp: fun_eq_iff map_add_def split: option.splits)
qed simp

lemma init_scores_lookup:
  assumes "distinct (map mname ms)" and "m \<in> set ms"
  shows "map_of (init_scores ms) (mname m) = Some \<lparr>sm_model = m, sm_score = 0\<rparr>"
  using assms
  by (auto simp: init_scores_def init_scores_fold distinct_map comp_def intro!: map_of_is_SomeI)

lemma init_scores_ok: "gomap_ok (init_scores ms)"
proof -
  have "gomap_ok acc \<Longrightarrow> gomap_ok (fold (\<lambda>m. mput (mname m) \<lparr>sm_model = m, sm_score = 0\<rparr>) ms acc)" for acc
    by (induction ms arbitrary: acc) simp_all
  then show ?thesis by (simp add: init_scores_def)
qed

lemma init_scores_dom: "dom (map_of (init_scores ms)) = mname ` set ms"
proof -
  have "dom (map_of (fold (\<lambda>m. mput (mname m) \<lparr>sm_model = m, sm_score = 0\<rparr>) ms acc))
      = mname ` set ms \<union> dom (map_of acc)" for acc
    by (induction ms arbitrary: acc) auto
  then show ?thesis by (simp add: init_scores_def)
qed

subsection \<open>Lemmas on runs\<close>

text \<open>Filters compose: a chain of well-behaved filters is a well-behaved filter.\<close>

lemma model_filter_run_filters:
  assumes "\<forall>f\<in>set fs. model_filter f"
  shows "model_filter (run_filters fs)"
proof
  fix request :: inference_request and ms s
  show "\<exists>ms'. fst (run_filters fs request ms s) = Inr ms' \<and> set ms' \<subseteq> set ms
      \<and> (distinct (map mname ms) \<longrightarrow> distinct (map mname ms'))"
    using assms
  proof (induction fs arbitrary: ms s)
    case (Cons f fs)
    obtain ms1 s1 where f: "f request ms s = (Inr ms1, s1)" "set ms1 \<subseteq> set ms"
        "distinct (map mname ms) \<longrightarrow> distinct (map mname ms1)"
      using model_filter.filter_returns [of f request ms s] Cons.prems
      by (cases "f request ms s") auto
    obtain ms2 where "fst (run_filters fs request ms1 s1) = Inr ms2" "set ms2 \<subseteq> set ms1"
        "distinct (map mname ms1) \<longrightarrow> distinct (map mname ms2)"
      using Cons.IH [of ms1 s1] Cons.prems by auto
    with f show ?case by auto
  qed simp
qed

lemma run_scorers_spec:
  assumes "\<forall>x\<in>set scs. model_scorer (fst x) adm"
    and ms: "distinct (map mname ms)" "list_all adm ms"
    and "gomap_ok scored" and "dom (map_of scored) = mname ` set ms"
    and "\<And>m. m \<in> set ms \<Longrightarrow> map_of scored (mname m) = Some \<lparr>sm_model = m, sm_score = tot m\<rparr>"
  shows "\<exists>scored'. fst (run_scorers scs request ms scored s) = Inr scored'
    \<and> gomap_ok scored' \<and> dom (map_of scored') = mname ` set ms
    \<and> length (scorer_outputs scs request ms s) = length scs
    \<and> (\<forall>m\<in>set ms. map_of scored' (mname m) =
         Some \<lparr>sm_model = m, sm_score = tot m + weighted_total (scorer_outputs scs request ms s) m\<rparr>)"
  using assms(1,4-)
proof (induction scs arbitrary: scored tot s)
  case Nil
  then show ?case by (simp add: weighted_total_def)
next
  case (Cons x scs)
  obtain sc w where x: "x = (sc, w)" by (cases x)
  have msc: "model_scorer sc adm" using Cons.prems(1) x by simp
  obtain out s1 where out: "sc request ms s = (Inr out, s1)" "gomap_ok out" "fst ` set out = set ms"
    using model_scorer.scorer_returns [OF msc ms, of request s] by (cases "sc request ms s") auto
  define scored1 where "scored1 = fold (add_score w) out scored"
  have inj: "inj_on mname (set ms)" using ms by (simp add: distinct_map)
  have "map_of scored1 (mname m)
      = Some \<lparr>sm_model = m, sm_score = tot m + enforceScoreRange (mget_zero 0 out m) * w\<rparr>"
    if "m \<in> set ms" for m
    unfolding scored1_def using fold_add_score [OF out(2) _ inj that Cons.prems(4) [OF that]] out(3) by simp
  moreover have "gomap_ok scored1" "dom (map_of scored1) = mname ` set ms"
    using Cons.prems by (simp_all add: scored1_def gomap_ok_fold_add_score dom_fold_add_score)
  ultimately have "\<exists>scored'. fst (run_scorers scs request ms scored1 s1) = Inr scored'
    \<and> gomap_ok scored' \<and> dom (map_of scored') = mname ` set ms
    \<and> length (scorer_outputs scs request ms s1) = length scs
    \<and> (\<forall>m\<in>set ms. map_of scored' (mname m) = Some \<lparr>sm_model = m,
         sm_score = (tot m + enforceScoreRange (mget_zero 0 out m) * w)
           + weighted_total (scorer_outputs scs request ms s1) m\<rparr>)"
    using Cons.prems(1) by (intro Cons.IH) simp_all
  then show ?case
    using x out(1) by (simp add: scored1_def weighted_total_def algebra_simps)
qed

lemma runScorerPlugins_spec:
  assumes "\<forall>x\<in>set (scorers p). model_scorer (fst x) adm"
    and "distinct (map mname ms)" and "list_all adm ms"
  shows "\<exists>scored. fst (runScorerPlugins p request ms s) = Inr scored
    \<and> gomap_ok scored \<and> dom (map_of scored) = mname ` set ms
    \<and> length (scorer_outputs (scorers p) request ms s) = length (scorers p)
    \<and> (\<forall>m\<in>set ms. map_of scored (mname m) =
         Some \<lparr>sm_model = m, sm_score = weighted_total (scorer_outputs (scorers p) request ms s) m\<rparr>)"
proof -
  note init = init_scores_ok init_scores_dom init_scores_lookup [OF assms(2)]
  show ?thesis
    using run_scorers_spec [OF assms init, where request = request and s = s]
    by (simp add: runScorerPlugins_def)
qed

text \<open>The scored models a picker is given are the candidates with their weighted totals.\<close>

lemma scored_list_spec:
  assumes "perm_of ord" and "gomap_ok scored" and "dom (map_of scored) = mname ` set ms"
    and "\<And>m. m \<in> set ms \<Longrightarrow> map_of scored (mname m) = Some \<lparr>sm_model = m, sm_score = tot m\<rparr>"
  shows "set (map snd (ord scored)) = (\<lambda>m. \<lparr>sm_model = m, sm_score = tot m\<rparr>) ` set ms"
proof -
  have "set (map snd (ord scored)) = ran (map_of scored)"
    using assms(2) by (simp add: perm_of_set [OF assms(1)] ran_distinct)
  also have "\<dots> = (\<lambda>m. \<lparr>sm_model = m, sm_score = tot m\<rparr>) ` set ms"
    using assms(3,4) by (force simp: ran_def dom_def)
  finally show ?thesis .
qed

lemma Run_cases:
  assumes "\<forall>f\<in>set (filters p). model_filter f"
    and scs: "\<forall>x\<in>set (scorers p). model_scorer (fst x) adm"
    and cands: "distinct (map mname cands)" "list_all adm cands" and ord: "perm_of ord"
  obtains (exhausted) s1 where "runFilterPlugins p request cands s = (Inr [], s1)"
      "Run ord p request cands s
        = (Inl (TypedErr ResourceExhausted ''no models available after filtering''), s1)"
  | (picked) ms s1 scored s2 where "runFilterPlugins p request cands s = (Inr ms, s1)"
      "ms \<noteq> []" "set ms \<subseteq> set cands" "distinct (map mname ms)"
      "length (scorer_outputs (scorers p) request ms s1) = length (scorers p)"
      "set (map snd (ord scored)) = (\<lambda>m. \<lparr>sm_model = m,
         sm_score = weighted_total (scorer_outputs (scorers p) request ms s1) m\<rparr>) ` set ms"
      "Run ord p request cands s = runPickerPlugin ord p scored s2"
proof -
  obtain ms s1 where f: "runFilterPlugins p request cands s = (Inr ms, s1)" "set ms \<subseteq> set cands"
      "distinct (map mname ms)"
    using model_filter.filter_returns [OF model_filter_run_filters [OF assms(1)], of request cands s] cands
    by (cases "runFilterPlugins p request cands s") (auto simp: runFilterPlugins_def)
  show thesis
  proof (cases "ms = []")
    case True
    with f exhausted show thesis by (simp add: Run_def)
  next
    case False
    have "list_all adm ms" using f(2) cands(2) by (auto simp: list_all_iff)
    from runScorerPlugins_spec [OF scs f(3) this, of request s1]
    obtain scored s2 where sc: "runScorerPlugins p request ms s1 = (Inr scored, s2)" "gomap_ok scored"
        "dom (map_of scored) = mname ` set ms"
        "length (scorer_outputs (scorers p) request ms s1) = length (scorers p)"
        "\<forall>m\<in>set ms. map_of scored (mname m) = Some \<lparr>sm_model = m,
           sm_score = weighted_total (scorer_outputs (scorers p) request ms s1) m\<rparr>"
      by (cases "runScorerPlugins p request ms s1") auto
    show thesis
    proof (rule picked)
      show "Run ord p request cands s = runPickerPlugin ord p scored s2"
        using False f(1) sc(1) by (simp add: Run_def)
      show "set (map snd (ord scored)) = (\<lambda>m. \<lparr>sm_model = m,
         sm_score = weighted_total (scorer_outputs (scorers p) request ms s1) m\<rparr>) ` set ms"
        using sc(5) by (intro scored_list_spec [OF ord sc(2,3)]) blast
    qed (use False f sc in simp_all)
  qed
qed

subsection \<open>Properties\<close>

text \<open>
  C27: \<^const>\<open>AddPlugins\<close> is atomic and keeps at most one picker. It fails exactly when an
  object is a scorer without a weight or the pipeline would get a second picker, and then the
  pipeline is unchanged; otherwise filters and weighted scorers are appended in the given order.
\<close>

theorem AddPlugins_atomic:
  "if list_ex unweighted_scorer rs \<or> option_count (picker p) + picker_count rs > 1
   then \<exists>e. AddPlugins p rs = (Some e, p)
   else fst (AddPlugins p rs) = None
     \<and> filters (snd (AddPlugins p rs)) = filters p @ List.map_filter (\<lambda>r. po_filter (plug_of r)) rs
     \<and> scorers (snd (AddPlugins p rs)) = scorers p @ List.map_filter weighted_of rs
     \<and> option_count (picker (snd (AddPlugins p rs))) = option_count (picker p) + picker_count rs"
proof (cases "add_loop p rs ([], [], None)")
  case (Inl e)
  then show ?thesis
    using add_loop_ok_iff [of p None rs "[]" "[]"]
    by (auto simp: AddPlugins_def option_count_def split: option.splits)
next
  case (Inr acc)
  then obtain fs ss pk where "add_loop p rs ([], [], None) = Inr (fs, ss, pk)"
    by (cases acc) auto
  then show ?thesis
    using add_loop_ok_iff [of p None rs "[]" "[]"] add_loop_result [of p rs "[]" "[]" None fs ss pk]
    by (auto simp: AddPlugins_def option_count_def split: option.splits)
qed

end
