(* ===== verification/Group_Filter.thy ===== *)
theory Group_Filter
  imports Selector
begin

text \<open>
  \<^verbatim>\<open>filter/modelgroup/filter.go\<close>: the filter that reads the request's \<open>model\<close> field and keeps
  all candidates (\<open>auto\<close>), the members of a group (\<open>auto/<group>\<close>) or the one named model.
\<close>

definition requestModelField :: string where
  "requestModelField = ''model''"

definition autoPrefix :: string where
  "autoPrefix = ''auto''"

definition autoGroupSeparator :: string where
  "autoGroupSeparator = ''/''"

definition autoGroupPrefix :: string where
  "autoGroupPrefix = autoPrefix @ autoGroupSeparator"

lemmas group_name_defs = requestModelField_def autoPrefix_def autoGroupSeparator_def autoGroupPrefix_def

text \<open>The loop over the candidates for one with the requested name.\<close>

fun find_named :: "string \<Rightarrow> 'd model list \<Rightarrow> 'd model list" where
  "find_named requested [] = []"
| "find_named requested (m # ms) = (if mname m = requested then [m] else find_named requested ms)"

text \<open>The test of the group loop on one candidate.\<close>

definition in_group :: "string \<Rightarrow> 'd model \<Rightarrow> bool" where
  "in_group groupName m =
     (case Attr_Get (mattrs m) GroupsAttributeKey of
        None \<Rightarrow> False
      | Some groups \<Rightarrow>
          (case as_Groups groups of None \<Rightarrow> False | Some g \<Rightarrow> Groups_Contains g groupName))"

text \<open>
  The requested name: the zero value when the field is absent or null, \<open>None\<close> when it has
  another type than string.
\<close>

definition requested_model :: "json_mapvar \<Rightarrow> string option" where
  "requested_model body =
     (case jget body requestModelField of
        None \<Rightarrow> Some []
      | Some raw \<Rightarrow>
          (case as_string (Some raw) of
             Some s \<Rightarrow> Some s
           | None \<Rightarrow> if raw = JNull then Some [] else None))"

definition ModelGroupFilter_models :: "inference_request \<Rightarrow> 'd model list \<Rightarrow> 'd model list" where
  "ModelGroupFilter_models request models =
     (case requested_model (Body request) of
        None \<Rightarrow> []
      | Some requested \<Rightarrow>
          if requested = [] \<or> requested = autoPrefix then models
          else if \<not> has_prefix requested autoGroupPrefix then find_named requested models
          else
            let groupName = trim_prefix requested autoGroupPrefix
            in if groupName = [] then [] else filter (in_group groupName) models)"

definition ModelGroupFilter_Filter :: "('w, 'd) filter_fn" where
  "ModelGroupFilter_Filter request models s = (Inr (ModelGroupFilter_models request models), s)"

text \<open>The intended meaning of the \<open>model\<close> field: which candidates it stands for.\<close>

definition selector_admits :: "json option \<Rightarrow> 'd model \<Rightarrow> bool" where
  "selector_admits field m =
     (field \<in> {None, Some JNull, Some (JStr []), Some (JStr ''auto'')}
      \<or> (\<exists>g. field = Some (JStr (''auto/'' @ g)) \<and> g \<noteq> []
            \<and> (\<exists>gs. map_of (mattrs m) GroupsAttributeKey = Some (Groups gs) \<and> g \<in> set gs))
      \<or> (\<exists>n. field = Some (JStr n) \<and> n \<noteq> [] \<and> n \<noteq> ''auto'' \<and> \<not> has_prefix n ''auto/'' \<and> mname m = n))"

subsection \<open>Lemmas\<close>

lemma set_find_named: "set (find_named n ms) \<subseteq> {m \<in> set ms. mname m = n}"
  by (induction ms) auto

lemma find_named_filter:
  "distinct (map mname ms) \<Longrightarrow> find_named n ms = filter (\<lambda>m. mname m = n) ms"
proof (induction ms)
  case (Cons m ms)
  have "filter (\<lambda>x. mname x = mname m) ms = []"
    using Cons.prems by (auto simp: filter_empty_conv) (metis image_eqI)
  with Cons show ?case by auto
qed simp

lemma distinct_find_named: "distinct (map mname (find_named n ms))"
  by (induction ms) auto

lemma model_filter_models:
  "set (ModelGroupFilter_models request ms) \<subseteq> set ms"
  "distinct (map mname ms) \<Longrightarrow> distinct (map mname (ModelGroupFilter_models request ms))"
  using set_find_named [of _ ms] distinct_find_named [of _ ms]
  by (auto simp: ModelGroupFilter_models_def Let_def distinct_map_filter split: option.splits if_splits)

interpretation groupflt: model_filter ModelGroupFilter_Filter
  by unfold_locales (auto simp: ModelGroupFilter_Filter_def model_filter_models dest: subsetD [OF model_filter_models(1)])

lemma requested_model_eq:
  "requested_model body =
     (case jget body ''model'' of
        None \<Rightarrow> Some [] | Some JNull \<Rightarrow> Some [] | Some (JStr s) \<Rightarrow> Some s | _ \<Rightarrow> None)"
  by (auto simp: requested_model_def requestModelField_def split: option.splits json.splits)

lemma in_group_iff:
  "in_group g m \<longleftrightarrow> (\<exists>gs. map_of (mattrs m) GroupsAttributeKey = Some (Groups gs) \<and> g \<in> set gs)"
  by (auto simp: in_group_def Groups_Contains_def split: option.splits elim: as_Groups.elims)

lemma selector_admits_str:
  "selector_admits (Some (JStr n)) m \<longleftrightarrow>
     (if n = [] \<or> n = ''auto'' then True
      else if has_prefix n ''auto/'' then n \<noteq> ''auto/'' \<and> in_group (trim_prefix n ''auto/'') m
      else mname m = n)"
proof (cases "has_prefix n ''auto/''")
  case True
  then obtain g where "n = ''auto/'' @ g" by (auto simp: has_prefix_iff)
  then show ?thesis
    by (auto simp: selector_admits_def in_group_iff trim_prefix_def has_prefix_def)
next
  case False
  then show ?thesis
    by (auto simp: selector_admits_def has_prefix_def)
qed

lemma ModelGroupFilter_models_str:
  assumes "distinct (map mname ms)" and "jget (Body request) ''model'' = Some (JStr n)"
  shows "ModelGroupFilter_models request ms = filter (selector_admits (Some (JStr n))) ms"
proof -
  have "trim_prefix n ''auto/'' = [] \<longleftrightarrow> n = ''auto/''" if "has_prefix n ''auto/''"
    using that by (auto simp: has_prefix_iff trim_prefix_def)
  then show ?thesis
    using assms
    by (auto simp: ModelGroupFilter_models_def requested_model_eq selector_admits_str group_name_defs
        find_named_filter Let_def has_prefix_def [of "''auto/''"] intro!: filter_cong)
qed

lemma ModelGroupFilter_admitted:
  assumes "distinct (map mname models)"
  shows "fst (ModelGroupFilter_Filter request models s)
    = Inr (filter (selector_admits (jget (Body request) ''model'')) models)"
proof (cases "jget (Body request) ''model''")
  case (Some v)
  show ?thesis
  proof (cases v)
    case (JStr n)
    with Some assms show ?thesis
      by (simp add: ModelGroupFilter_Filter_def ModelGroupFilter_models_str)
  qed (use Some in \<open>auto simp: ModelGroupFilter_Filter_def ModelGroupFilter_models_def requested_model_eq
      selector_admits_def\<close>)
qed (simp add: ModelGroupFilter_Filter_def ModelGroupFilter_models_def requested_model_eq selector_admits_def)

subsection \<open>Properties\<close>

text \<open>
  The model-group filter keeps exactly the candidates the request's \<open>model\<close> field stands for:
  every candidate when the field is absent, null, empty or \<open>auto\<close>; the candidates that list the
  group for \<open>auto/<group>\<close>; the candidate of that name otherwise; none for a field of another type
  or an empty group name. It keeps their order.
\<close>

theorem group_filter_keeps_admitted:
  assumes "distinct (map mname models)"
  shows "fst (ModelGroupFilter_Filter request models s)
    = Inr (filter (selector_admits (jget (Body request) ''model'')) models)"
  using ModelGroupFilter_admitted [OF assms] .

theorem group_filter_keeps_admitted_witness:
  "fst (ModelGroupFilter_Filter (NewInferenceRequest\<lparr>Body := Some [(''model'', JStr ''auto/fast'')]\<rparr>)
      [\<lparr>mname = ''a'', mattrs = [(GroupsAttributeKey, Groups [''slow''] :: unit attr)]\<rparr>,
       \<lparr>mname = ''b'', mattrs = [(GroupsAttributeKey, Groups [''slow'', ''fast''])]\<rparr>] ((), []))
    = Inr [\<lparr>mname = ''b'', mattrs = [(GroupsAttributeKey, Groups [''slow'', ''fast''])]\<rparr>]"
  using group_filter_keeps_admitted
    [of "[\<lparr>mname = ''a'', mattrs = [(GroupsAttributeKey, Groups [''slow''] :: unit attr)]\<rparr>,
       \<lparr>mname = ''b'', mattrs = [(GroupsAttributeKey, Groups [''slow'', ''fast''])]\<rparr>]"
      "NewInferenceRequest\<lparr>Body := Some [(''model'', JStr ''auto/fast'')]\<rparr>" "((), [])"]
  by (simp add: selector_admits_str has_prefix_def trim_prefix_def in_group_def Groups_Contains_def)

end
