(* ===== verification/Scorers.thy ===== *)
theory Scorers
  imports Selector
begin

text \<open>
  The scorers \<^verbatim>\<open>costaware\<close>, \<^verbatim>\<open>inflightrequests\<close> and \<^verbatim>\<open>sessionaffinity\<close> under
  \<^verbatim>\<open>plugins/modelselector/scorer\<close>; each is shown to keep the scorer contract \<open>model_scorer\<close>,
  on the candidates it can handle. The session cache is the expirable LRU of a library and the
  session identifiers come from a UUID library: both are arguments.
\<close>

text \<open>A score map filled by one loop over the candidates.\<close>

definition score_all :: "('d model \<Rightarrow> real) \<Rightarrow> 'd model list \<Rightarrow> ('d model, real) gomap" where
  "score_all f models = fold (\<lambda>m. mput m (f m)) models []"

subsection \<open>Cost scorer\<close>

text \<open>\<^verbatim>\<open>v.(*pricing.TokenPrices).InputTokenPrice\<close>: the unchecked assertion panics.\<close>

definition input_price :: "'d model \<Rightarrow> go_error + real" where
  "input_price m =
     (case Attr_Get (mattrs m) TokenPricesAttributeKey of
        None \<Rightarrow> Inl (Panic ''interface conversion: interface is nil'')
      | Some v \<Rightarrow>
          (case as_TokenPrices v of
             None \<Rightarrow> Inl (Panic ''interface conversion'')
           | Some (i, _) \<Rightarrow> Inr i))"

fun sum_prices :: "'d model list \<Rightarrow> real \<Rightarrow> go_error + real" where
  "sum_prices [] acc = Inr acc"
| "sum_prices (m # ms) acc = (case input_price m of Inl e \<Rightarrow> Inl e | Inr p \<Rightarrow> sum_prices ms (acc + p))"

text \<open>The second loop reads the same prices again.\<close>

fun inverted_scores ::
  "real \<Rightarrow> 'd model list \<Rightarrow> ('d model, real) gomap \<Rightarrow> go_error + ('d model, real) gomap" where
  "inverted_scores sumPrices [] scores = Inr scores"
| "inverted_scores sumPrices (m # ms) scores =
     (case input_price m of
        Inl e \<Rightarrow> Inl e
      | Inr p \<Rightarrow> inverted_scores sumPrices ms (mput m (1 - p / sumPrices) scores))"

definition CostScorer_Score :: "('w, 'd) scorer_fn" where
  "CostScorer_Score request models s =
     (if length models = 1 then (Inr (mput (hd models) (1 / 2) []), s)
      else
        (case sum_prices models 0 of
           Inl e \<Rightarrow> (Inl e, s)
         | Inr sumPrices \<Rightarrow>
             if sumPrices = 0 then (Inr (score_all (\<lambda>_. 1) models), s)
             else (inverted_scores sumPrices models [], s)))"

subsection \<open>In-flight requests scorer\<close>

definition MaxInt64 :: int where
  "MaxInt64 = 2 ^ 63 - 1"

definition MinInt64 :: int where
  "MinInt64 = - (2 ^ 63)"

definition inflightRequestCount :: "'d model \<Rightarrow> int" where
  "inflightRequestCount m =
     (case Attr_Get (mattrs m) RequestMetadataAttributeKey of
        None \<Rightarrow> 0
      | Some val \<Rightarrow> (case as_RequestMetadataCount val of None \<Rightarrow> 0 | Some (requests, _) \<Rightarrow> requests))"

fun count_range :: "'d model list \<Rightarrow> int \<times> int \<Rightarrow> int \<times> int" where
  "count_range [] mm = mm"
| "count_range (m # ms) (minCount, maxCount) =
     (let count = inflightRequestCount m
      in count_range ms (if count < minCount then count else minCount,
                         if count > maxCount then count else maxCount))"

definition InflightRequestsScorer_Score :: "('w, 'd) scorer_fn" where
  "InflightRequestsScorer_Score request models s =
     (case count_range models (MaxInt64, MinInt64) of (minCount, maxCount) \<Rightarrow>
        (Inr (score_all (\<lambda>m. if maxCount = minCount then 1
            else real_of_int (i64 (maxCount - inflightRequestCount m))
                   / real_of_int (i64 (maxCount - minCount))) models), s))"

subsection \<open>Session affinity scorer\<close>

definition cycleStateSessionIDKey :: string where
  "cycleStateSessionIDKey = ''session-affinity/session-id''"

definition responseModelField :: string where
  "responseModelField = ''model''"

definition defaultSessionIDKey :: string where
  "defaultSessionIDKey = ''x-session-id''"

definition defaultMaxSessions :: int where
  "defaultMaxSessions = 10000"

definition defaultTTL :: duration where
  "defaultTTL = 3600 * 1000000000"

record session_affinity_config =
  sa_SessionIDKey :: string
  sa_MaxSessions :: int
  sa_TTLSeconds :: int

record session_affinity_scorer =
  sa_name :: string
  sa_sessionIDKey :: string
  sa_maxSessions :: int
  sa_ttl :: duration

text \<open>
  The factory; \<open>decode\<close> fills the zero configuration from JSON. The size and the time to live are those
  the cache is created with; the product of seconds and \<^verbatim>\<open>time.Second\<close> is an \<^verbatim>\<open>int64\<close>.
\<close>

definition SessionAffinity_ScorerFactory ::
  "(string \<Rightarrow> session_affinity_config \<Rightarrow> go_error + session_affinity_config) \<Rightarrow> string \<Rightarrow> string
     \<Rightarrow> go_error + session_affinity_scorer" where
  "SessionAffinity_ScorerFactory decode name rawParameters =
     (let zero = \<lparr>sa_SessionIDKey = [], sa_MaxSessions = 0, sa_TTLSeconds = 0\<rparr>
      in case (if length rawParameters > 0 then decode rawParameters zero else Inr zero) of
           Inl e \<Rightarrow> Inl (PlainErr (''failed to parse parameters for '' @ quoted ''session-affinity''
                      @ '' plugin: '' @ error_string e))
         | Inr config \<Rightarrow>
             Inr \<lparr>sa_name = name,
                  sa_sessionIDKey = (if sa_SessionIDKey config = [] then defaultSessionIDKey
                                     else sa_SessionIDKey config),
                  sa_maxSessions = (if sa_MaxSessions config \<le> 0 then defaultMaxSessions
                                    else sa_MaxSessions config),
                  sa_ttl = (if sa_TTLSeconds config > 0 then i64 (sa_TTLSeconds config * 1000000000)
                            else defaultTTL)\<rparr>)"

text \<open>\<open>cache_get\<close> may touch the recency order, so it returns the new state.\<close>

definition SessionAffinity_Score ::
  "(string \<Rightarrow> 'w \<Rightarrow> string option \<times> 'w) \<Rightarrow> string \<Rightarrow> ('w, 'd) scorer_fn" where
  "SessionAffinity_Score cache_get sessionIDKey request models s =
     (case s of (w, cycleState) \<Rightarrow>
        let sessionID = mget_zero [] (Headers request) sessionIDKey
        in if sessionID = [] then (Inr (score_all (\<lambda>_. 0) models), (w, cycleState))
           else
             let cycleState' = Write cycleStateSessionIDKey (JStr sessionID) cycleState
             in (case cache_get sessionID w of
                   (None, w') \<Rightarrow> (Inr (score_all (\<lambda>_. 0) models), (w', cycleState'))
                 | (Some previousModel, w') \<Rightarrow>
                     (Inr (score_all (\<lambda>m. if mname m = previousModel then 1 else 0) models),
                      (w', cycleState'))))"

definition SessionAffinity_ProcessResponse ::
  "(string \<Rightarrow> string \<Rightarrow> 'w \<Rightarrow> 'w) \<Rightarrow> ('w \<Rightarrow> string \<times> 'w) \<Rightarrow> string
     \<Rightarrow> 'w \<times> cycle_state \<times> inference_response
     \<Rightarrow> go_error option \<times> ('w \<times> cycle_state \<times> inference_response)" where
  "SessionAffinity_ProcessResponse cache_add new_uuid sessionIDKey s =
     (case s of (w, cycleState, response) \<Rightarrow>
        let modelName = jstring (Body response) responseModelField
        in if modelName = [] then (None, (w, cycleState, response))
           else
             (case (case ReadCycleStateKey_string cycleState cycleStateSessionIDKey of
                      Inr sessionID \<Rightarrow> (sessionID, w)
                    | Inl _ \<Rightarrow> new_uuid w) of
                (sessionID, w1) \<Rightarrow>
                  (None, (cache_add sessionID modelName w1, cycleState,
                          SetHeader sessionIDKey sessionID response))))"

subsection \<open>Lemmas\<close>

lemma score_all_fold:
  "map_of (fold (\<lambda>m. mput m (f m)) ms acc) = (\<lambda>m. if m \<in> set ms then Some (f m) else map_of acc m)"
  by (induction ms arbitrary: acc) (auto simp: fun_eq_iff)

lemma map_of_score_all [simp]: "map_of (score_all f ms) = (\<lambda>m. if m \<in> set ms then Some (f m) else None)"
  by (auto simp: score_all_def score_all_fold fun_eq_iff)

lemma gomap_ok_fold_mput: "gomap_ok acc \<Longrightarrow> gomap_ok (fold (\<lambda>m. mput m (f m)) ms acc)"
  by (induction ms arbitrary: acc) simp_all

lemma gomap_ok_score_all [simp]: "gomap_ok (score_all f ms)"
  by (simp add: score_all_def gomap_ok_fold_mput)

lemma keys_score_all [simp]: "fst ` set (score_all f ms) = set ms"
  by (auto simp: fst_set_eq_dom dom_def)

text \<open>How a scorer that fills its map by one loop meets the contract.\<close>

lemma model_scorer_score_allI:
  assumes "\<And>request ms s. distinct (map mname ms) \<Longrightarrow> list_all adm ms \<Longrightarrow>
    \<exists>f. fst (score request ms s) = Inr (score_all f ms) \<and> (\<forall>m\<in>set ms. 0 \<le> f m \<and> f m \<le> 1)"
  shows "model_scorer score adm"
proof
  fix ms and request :: inference_request and s
  assume "distinct (map mname ms)" "list_all adm ms"
  from assms [OF this, of request s] obtain f
    where f: "fst (score request ms s) = Inr (score_all f ms)" "\<forall>m\<in>set ms. 0 \<le> f m \<and> f m \<le> 1"
    by blast
  show "\<exists>sc. fst (score request ms s) = Inr sc \<and> gomap_ok sc \<and> fst ` set sc = set ms
      \<and> (\<forall>m r. map_of sc m = Some r \<longrightarrow> 0 \<le> r \<and> r \<le> 1)"
    by (rule exI [of _ "score_all f ms"]) (use f in \<open>auto split: if_splits\<close>)
qed

subsubsection \<open>Cost scorer\<close>

definition priced :: "'d model \<Rightarrow> bool" where
  "priced m \<longleftrightarrow> (case input_price m of Inl _ \<Rightarrow> False | Inr p \<Rightarrow> 0 \<le> p)"

definition price :: "'d model \<Rightarrow> real" where
  "price m = (case input_price m of Inl _ \<Rightarrow> 0 | Inr p \<Rightarrow> p)"

lemma pricedD: "priced m \<Longrightarrow> input_price m = Inr (price m) \<and> 0 \<le> price m"
  by (auto simp: priced_def price_def split: sum.splits)

lemma sum_prices_eq: "list_all priced ms \<Longrightarrow> sum_prices ms acc = Inr (acc + (\<Sum>m\<leftarrow>ms. price m))"
  by (induction ms arbitrary: acc) (simp_all add: pricedD)

lemma inverted_scores_eq:
  "list_all priced ms \<Longrightarrow> inverted_scores t ms acc = Inr (fold (\<lambda>m. mput m (1 - price m / t)) ms acc)"
  by (induction ms arbitrary: acc) (simp_all add: pricedD)

lemma CostScorer_Score_eq:
  assumes "list_all priced ms"
  shows "CostScorer_Score request ms s = (Inr (score_all (\<lambda>m.
      if length ms = 1 then 1 / 2 else if (\<Sum>m\<leftarrow>ms. price m) = 0 then 1
      else 1 - price m / (\<Sum>m\<leftarrow>ms. price m)) ms), s)"
proof (cases "length ms = 1")
  case True
  then obtain m where "ms = [m]" by (auto simp: length_Suc_conv)
  then show ?thesis by (simp add: CostScorer_Score_def score_all_def)
next
  case False
  with assms show ?thesis
    by (simp add: CostScorer_Score_def sum_prices_eq inverted_scores_eq score_all_def)
qed

lemma price_le_sum: "list_all priced ms \<Longrightarrow> m \<in> set ms \<Longrightarrow> price m \<le> (\<Sum>m\<leftarrow>ms. price m)"
  by (rule member_le_sum_list) (auto simp: list_all_iff dest: pricedD)

lemma CostScorer_contract: "model_scorer (CostScorer_Score :: ('w, 'd) scorer_fn) priced"
proof (rule model_scorer_score_allI)
  fix request :: inference_request and ms :: "'d model list" and s :: "'w \<times> cycle_state"
  assume "distinct (map mname ms)" and p: "list_all priced ms"
  have nn: "0 \<le> price m" if "m \<in> set ms" for m
    using p that by (auto simp: list_all_iff dest: pricedD)
  show "\<exists>f. fst (CostScorer_Score request ms s) = Inr (score_all f ms) \<and> (\<forall>m\<in>set ms. 0 \<le> f m \<and> f m \<le> 1)"
    unfolding CostScorer_Score_eq [OF p] fst_conv
  proof (intro exI conjI ballI, rule refl)
    fix m assume m: "m \<in> set ms"
    have "0 \<le> price m" "price m \<le> (\<Sum>m\<leftarrow>ms. price m)" using nn price_le_sum p m by auto
    then show "0 \<le> (if length ms = 1 then 1 / 2 else if (\<Sum>m\<leftarrow>ms. price m) = 0 then 1
      else 1 - price m / (\<Sum>m\<leftarrow>ms. price m))"
      and "(if length ms = 1 then 1 / 2 else if (\<Sum>m\<leftarrow>ms. price m) = 0 then 1
      else 1 - price m / (\<Sum>m\<leftarrow>ms. price m)) \<le> 1"
      by (auto simp: divide_le_eq_1)
  qed
qed

interpretation costscorer: model_scorer CostScorer_Score priced
  by (rule CostScorer_contract)

subsubsection \<open>In-flight requests scorer\<close>

definition counted :: "'d model \<Rightarrow> bool" where
  "counted m \<longleftrightarrow> 0 \<le> inflightRequestCount m \<and> is_i64 (inflightRequestCount m)"

lemma count_range_eq:
  "count_range ms (lo, hi) =
     (fold min (map inflightRequestCount ms) lo, fold max (map inflightRequestCount ms) hi)"
  by (induction ms arbitrary: lo hi) (auto simp: Let_def min_def max_def)

lemma count_range_Min_Max:
  assumes "list_all counted ms" and "ms \<noteq> []"
  shows "count_range ms (MaxInt64, MinInt64) =
    (Min (inflightRequestCount ` set ms), Max (inflightRequestCount ` set ms))"
proof -
  let ?C = "inflightRequestCount ` set ms"
  have "finite ?C" "?C \<noteq> {}" using assms(2) by simp_all
  have b: "\<forall>c\<in>?C. MinInt64 \<le> c \<and> c \<le> MaxInt64"
    using assms(1) by (auto simp: list_all_iff counted_def is_i64_def MaxInt64_def MinInt64_def)
  have "fold min (map inflightRequestCount ms) MaxInt64 = Min (insert MaxInt64 ?C)"
    by (metis Min.set_eq_fold list.set_map list.simps(15))
  also have "\<dots> = Min ?C"
    using b \<open>finite ?C\<close> \<open>?C \<noteq> {}\<close> by (metis Min.insert Min_in min.absorb2)
  finally have lo: "fold min (map inflightRequestCount ms) MaxInt64 = Min ?C" .
  have "fold max (map inflightRequestCount ms) MinInt64 = Max (insert MinInt64 ?C)"
    by (metis Max.set_eq_fold list.set_map list.simps(15))
  also have "\<dots> = Max ?C"
    using b \<open>finite ?C\<close> \<open>?C \<noteq> {}\<close> by (metis Max.insert Max_in max.absorb2)
  finally show ?thesis using lo by (simp add: count_range_eq)
qed

lemma counts_fit:
  assumes "list_all counted ms" and "m \<in> set ms"
  shows "i64 (Max (inflightRequestCount ` set ms) - inflightRequestCount m)
      = Max (inflightRequestCount ` set ms) - inflightRequestCount m"
    and "0 \<le> Max (inflightRequestCount ` set ms) - inflightRequestCount m"
proof -
  let ?hi = "Max (inflightRequestCount ` set ms)"
  have "?hi \<in> inflightRequestCount ` set ms" using assms(2) by (intro Max_in) auto
  then have "0 \<le> ?hi" "is_i64 ?hi" using assms(1) by (auto simp: list_all_iff counted_def)
  moreover have "inflightRequestCount m \<le> ?hi" using assms(2) by simp
  moreover have "0 \<le> inflightRequestCount m" using assms by (auto simp: list_all_iff counted_def)
  ultimately show "i64 (?hi - inflightRequestCount m) = ?hi - inflightRequestCount m"
    and "0 \<le> ?hi - inflightRequestCount m"
    by (auto intro!: i64_id simp: is_i64_def)
qed

text \<open>On counts that are not negative the subtraction never wraps.\<close>

lemma InflightRequests_Score_eq:
  assumes "list_all counted ms"
  shows "InflightRequestsScorer_Score request ms s =
    (Inr (score_all (\<lambda>m.
       let lo = Min (inflightRequestCount ` set ms); hi = Max (inflightRequestCount ` set ms)
       in if hi = lo then 1
          else real_of_int (hi - inflightRequestCount m) / real_of_int (hi - lo)) ms), s)"
proof (cases "ms = []")
  case True
  then show ?thesis by (simp add: InflightRequestsScorer_Score_def score_all_def MaxInt64_def MinInt64_def)
next
  case False
  let ?C = "inflightRequestCount ` set ms"
  have "Min ?C \<in> ?C" using False by simp
  then have "i64 (Max ?C - Min ?C) = Max ?C - Min ?C"
    using counts_fit(1) [OF assms] by auto
  then have eq: "fold (\<lambda>m. mput m (if Max ?C = Min ?C then 1
          else real_of_int (i64 (Max ?C - inflightRequestCount m)) / real_of_int (i64 (Max ?C - Min ?C)))) ms []
      = fold (\<lambda>m. mput m (if Max ?C = Min ?C then 1
          else real_of_int (Max ?C - inflightRequestCount m) / real_of_int (Max ?C - Min ?C))) ms []"
    by (intro fold_cong refl) (simp add: counts_fit(1) [OF assms])
  then show ?thesis
    by (simp only: InflightRequestsScorer_Score_def count_range_Min_Max [OF assms False] prod.case
        score_all_def Let_def)
qed

lemma InflightRequests_contract:
  "model_scorer (InflightRequestsScorer_Score :: ('w, 'd) scorer_fn) counted"
proof (rule model_scorer_score_allI)
  fix request :: inference_request and ms :: "'d model list" and s :: "'w \<times> cycle_state"
  assume "distinct (map mname ms)" and c: "list_all counted ms"
  show "\<exists>f. fst (InflightRequestsScorer_Score request ms s) = Inr (score_all f ms)
      \<and> (\<forall>m\<in>set ms. 0 \<le> f m \<and> f m \<le> 1)"
    unfolding InflightRequests_Score_eq [OF c] fst_conv
  proof (intro exI conjI ballI, rule refl, goal_cases)
    case (1 m)
    have "Min (inflightRequestCount ` set ms) \<le> inflightRequestCount m" using 1 by simp
    then show ?case using counts_fit(2) [OF c 1] by (auto simp: Let_def zero_le_divide_iff)
  next
    case (2 m)
    have "Min (inflightRequestCount ` set ms) \<le> inflightRequestCount m" using 2 by simp
    then show ?case using counts_fit(2) [OF c 2] by (auto simp: Let_def divide_le_eq_1)
  qed
qed

interpretation inflight: model_scorer InflightRequestsScorer_Score counted
  by (rule InflightRequests_contract)

subsubsection \<open>Session affinity\<close>

text \<open>The model the session was last served by, as far as the cache knows.\<close>

definition preferred_model ::
  "(string \<Rightarrow> 'w \<Rightarrow> string option \<times> 'w) \<Rightarrow> string \<Rightarrow> inference_request \<Rightarrow> 'w \<Rightarrow> string option" where
  "preferred_model cache_get key request w =
     (let sessionID = mget_zero [] (Headers request) key
      in if sessionID = [] then None else fst (cache_get sessionID w))"

lemma SessionAffinity_Score_eq:
  "fst (SessionAffinity_Score get key request ms (w, c)) =
     Inr (score_all (\<lambda>m. if Some (mname m) = preferred_model get key request w then 1 else 0) ms)"
  by (auto simp: SessionAffinity_Score_def preferred_model_def Let_def split: prod.splits option.splits)

lemma SessionAffinity_contract:
  "model_scorer (SessionAffinity_Score get key :: ('w, 'd) scorer_fn) (\<lambda>_. True)"
proof (rule model_scorer_score_allI)
  fix request :: inference_request and ms :: "'d model list" and s :: "'w \<times> cycle_state"
  obtain w c where "s = (w, c)" by (cases s)
  then show "\<exists>f. fst (SessionAffinity_Score get key request ms s) = Inr (score_all f ms)
      \<and> (\<forall>m\<in>set ms. 0 \<le> f m \<and> f m \<le> 1)"
    by (auto simp: SessionAffinity_Score_eq)
qed

interpretation session: model_scorer "SessionAffinity_Score get key" "\<lambda>_. True"
  by (rule SessionAffinity_contract)

lemma SessionAffinity_Score_cycle:
  assumes "mget_zero [] (Headers request) key = sid" and "sid \<noteq> []"
  shows "ReadCycleStateKey_string (snd (snd (SessionAffinity_Score get key request ms (w, c))))
      cycleStateSessionIDKey = Inr sid"
  using assms by (auto simp: SessionAffinity_Score_def Let_def split: prod.splits option.splits)

subsection \<open>Properties\<close>

text \<open>
  The cost scorer ranks by price. On several candidates that carry prices, not all free,
  each score is one minus the candidate's share of the total price; so a cheaper candidate scores
  strictly higher, and the scores add up to the number of candidates minus one.
\<close>

theorem cost_scorer_ranks_by_price:
  assumes "list_all priced ms" and "2 \<le> length ms" and "m0 \<in> set ms" and "0 < price m0"
  shows "\<exists>sc. fst (CostScorer_Score request ms s) = Inr sc
    \<and> (\<forall>m\<in>set ms. map_of sc m = Some (1 - price m / (\<Sum>m\<leftarrow>ms. price m)))
    \<and> (\<forall>a\<in>set ms. \<forall>b\<in>set ms. price a < price b \<longleftrightarrow> the (map_of sc b) < the (map_of sc a))
    \<and> (\<Sum>m\<leftarrow>ms. the (map_of sc m)) = real (length ms) - 1"
proof -
  let ?t = "\<Sum>m\<leftarrow>ms. price m"
  have t: "0 < ?t" using price_le_sum [OF assms(1,3)] assms(4) by simp
  have sc: "fst (CostScorer_Score request ms s) = Inr (score_all (\<lambda>m. 1 - price m / ?t) ms)"
    using assms(2) t by (simp add: CostScorer_Score_eq [OF assms(1)])
  have "(\<Sum>m\<leftarrow>xs. 1 - price m / ?t) = real (length xs) - (\<Sum>m\<leftarrow>xs. price m) / ?t" for xs
    by (induction xs) (simp_all add: add_divide_distrib)
  from this [of ms] have "(\<Sum>m\<leftarrow>ms. 1 - price m / ?t) = real (length ms) - 1"
    using t by simp
  moreover have "(\<Sum>m\<leftarrow>ms. the (map_of (score_all (\<lambda>m. 1 - price m / ?t) ms) m)) = (\<Sum>m\<leftarrow>ms. 1 - price m / ?t)"
    by (intro arg_cong [of _ _ sum_list] map_cong) auto
  ultimately show ?thesis
    using sc t by (auto simp: divide_strict_right_mono divide_less_cancel)
qed

theorem cost_scorer_ranks_by_price_witness:
  "\<exists>sc. fst (CostScorer_Score NewInferenceRequest
       [\<lparr>mname = ''a'', mattrs = [(TokenPricesAttributeKey, TokenPrices 1 2 :: unit attr)]\<rparr>,
        \<lparr>mname = ''b'', mattrs = [(TokenPricesAttributeKey, TokenPrices 3 2)]\<rparr>] ((), [])) = Inr sc
     \<and> map_of sc \<lparr>mname = ''a'', mattrs = [(TokenPricesAttributeKey, TokenPrices 1 2)]\<rparr> = Some (3 / 4)"
  using cost_scorer_ranks_by_price
    [of "[\<lparr>mname = ''a'', mattrs = [(TokenPricesAttributeKey, TokenPrices 1 2 :: unit attr)]\<rparr>,
         \<lparr>mname = ''b'', mattrs = [(TokenPricesAttributeKey, TokenPrices 3 2)]\<rparr>]"
        "\<lparr>mname = ''a'', mattrs = [(TokenPricesAttributeKey, TokenPrices 1 2)]\<rparr>"
        NewInferenceRequest "((), [])"]
  by (auto simp: priced_def price_def input_price_def)

text \<open>
  The in-flight scorer favours idle models. On counts that are not negative no subtraction
  wraps, a candidate with the least requests scores 1, one with the most scores 0 (or 1 when
  all are equal), and fewer requests never score less.
\<close>

theorem inflight_scorer_favours_idle:
  assumes "list_all counted ms" and "a \<in> set ms" and "b \<in> set ms"
  shows "\<exists>sc. fst (InflightRequestsScorer_Score request ms s) = Inr sc
    \<and> (inflightRequestCount a = Min (inflightRequestCount ` set ms) \<longrightarrow> map_of sc a = Some 1)
    \<and> (inflightRequestCount a < inflightRequestCount b \<longrightarrow> the (map_of sc b) < the (map_of sc a))
    \<and> (inflightRequestCount a < inflightRequestCount b
        \<and> inflightRequestCount b = Max (inflightRequestCount ` set ms) \<longrightarrow> map_of sc b = Some 0)"
proof -
  let ?lo = "Min (inflightRequestCount ` set ms)" and ?hi = "Max (inflightRequestCount ` set ms)"
  define lo hi where "lo = ?lo" and "hi = ?hi"
  have "lo \<le> inflightRequestCount a" "inflightRequestCount b \<le> hi"
    using assms by (simp_all add: lo_def hi_def)
  then show ?thesis
    unfolding InflightRequests_Score_eq [OF assms(1)] fst_conv lo_def [symmetric] hi_def [symmetric]
    using assms(2,3) by (auto simp: Let_def divide_strict_right_mono)
qed

theorem inflight_scorer_favours_idle_witness:
  "\<exists>sc. fst (InflightRequestsScorer_Score NewInferenceRequest
       [\<lparr>mname = ''a'', mattrs = [(RequestMetadataAttributeKey, RequestMetadataCount 7 0 :: unit attr)]\<rparr>,
        NewModel ''b''] ((), [])) = Inr sc
     \<and> map_of sc (NewModel ''b'') = Some 1
     \<and> map_of sc \<lparr>mname = ''a'', mattrs = [(RequestMetadataAttributeKey, RequestMetadataCount 7 0)]\<rparr> = Some 0"
  using inflight_scorer_favours_idle
    [of "[\<lparr>mname = ''a'', mattrs = [(RequestMetadataAttributeKey, RequestMetadataCount 7 0 :: unit attr)]\<rparr>,
         NewModel ''b'']" "NewModel ''b''"
        "\<lparr>mname = ''a'', mattrs = [(RequestMetadataAttributeKey, RequestMetadataCount 7 0)]\<rparr>"
        NewInferenceRequest "((), [])"]
  by (auto simp: counted_def inflightRequestCount_def NewModel_def NewAttributes_def is_i64_def)

text \<open>
  A session sticks to its model. A request is scored with a fresh cycle state and the
  response names the model that served it; the scorer records the model under the session's
  identifier (the request's, or a new one) and echoes the identifier in the response header. A
  later request that sends that identifier scores this model 1 and every other candidate 0. The
  cache law is that a key just added is found.
\<close>

theorem session_sticks_to_model:
  assumes cache: "\<And>k v w. fst (cache_get k (cache_add k v w)) = Some v"
    and first: "snd (SessionAffinity_Score cache_get key req1 ms1 (w, NewCycleState)) = (w1, c1)"
    and sid: "sid = (if mget_zero [] (Headers req1) key = [] then fst (new_uuid w1)
                     else mget_zero [] (Headers req1) key)" "sid \<noteq> []"
    and served: "jget (Body response) responseModelField = Some (JStr modelName)" "modelName \<noteq> []"
    and response: "SessionAffinity_ProcessResponse cache_add new_uuid key (w1, c1, response)
        = (err, (w2, c2, response'))"
    and second: "mget_zero [] (Headers req2) key = sid"
  shows "err = None \<and> map_of (Headers response') key = Some sid
    \<and> fst (SessionAffinity_Score cache_get key req2 ms2 (w2, NewCycleState))
        = Inr (score_all (\<lambda>m. if mname m = modelName then 1 else 0) ms2)"
proof -
  have c1: "ReadCycleStateKey_string c1 cycleStateSessionIDKey =
      (if mget_zero [] (Headers req1) key = [] then Inl ErrNotFound else Inr (mget_zero [] (Headers req1) key))"
    using first SessionAffinity_Score_cycle [OF refl, of req1 key cache_get ms1 w NewCycleState]
    by (auto simp: SessionAffinity_Score_def ReadCycleStateKey_string_def Read_def NewCycleState_def)
  have "jstring (Body response) responseModelField = modelName"
    using served(1) by (rule jstring_eqI)
  then have "err = None" "response' = SetHeader key sid response"
      "\<exists>w1'. w2 = cache_add sid modelName w1'"
    using response served(2) sid(1)
    by (auto simp: SessionAffinity_ProcessResponse_def c1 Let_def split: prod.splits if_splits)
  moreover from this have "preferred_model cache_get key req2 w2 = Some modelName"
    using second sid(2) cache by (auto simp: preferred_model_def Let_def)
  ultimately show ?thesis
    by (simp add: SessionAffinity_Score_eq)
qed

theorem session_sticks_to_model_witness:
  "fst (SessionAffinity_Score (\<lambda>k w. (map_of w k, w)) ''x-session-id''
      (NewInferenceRequest\<lparr>Headers := [(''x-session-id'', ''u1'')]\<rparr>)
      [NewModel ''a'', NewModel ''b'' :: unit model] ([(''u1'', ''b'')], NewCycleState))
    = Inr [(NewModel ''a'', 0), (NewModel ''b'', 1)]"
  using session_sticks_to_model
    [of "\<lambda>k w. (map_of w k, w)" mput "''x-session-id''" NewInferenceRequest "[] :: unit model list" "[]" "[]" "[]"
        "''u1''" "\<lambda>w. (''u1'', w)" "NewInferenceResponse\<lparr>Body := Some [(''model'', JStr ''b'')]\<rparr>" "''b''"
        None "[(''u1'', ''b'')]" "[]"
        "SetHeader ''x-session-id'' ''u1'' (NewInferenceResponse\<lparr>Body := Some [(''model'', JStr ''b'')]\<rparr>)"
        "NewInferenceRequest\<lparr>Headers := [(''x-session-id'', ''u1'')]\<rparr>"
        "[NewModel ''a'', NewModel ''b'' :: unit model]"]
  by (simp add: SessionAffinity_Score_def SessionAffinity_ProcessResponse_def NewInferenceRequest_def
      newInferenceMessage_def NewCycleState_def mget_zero_def score_all_def responseModelField_def
      jstring_def ReadCycleStateKey_string_def Read_def NewModel_def Let_def)

end
