(* ===== verification/Pickers.thy ===== *)
theory Pickers
  imports Selector "HOL-Library.Word"
begin

unbundle bit_operations_syntax

text \<open>
  The pickers under \<^verbatim>\<open>picker/\<close>: the shared random source and shuffle (\<^verbatim>\<open>common.go\<close>), max-score,
  random and weighted-random.

  The random source is a function \<open>src\<close> from the state to the next 64 bit word; \<^verbatim>\<open>Float64\<close>,
  the bounded draw and \<^verbatim>\<open>Shuffle\<close> are those of \<^verbatim>\<open>math/rand/v2\<close> on top of it. The bounded draw
  rejects a word now and then to remove a bias; the loop has fuel 64, since a word is rejected with a
  probability below n in two to the 64, and the word that ends the fuel is used. The facts hold for
  every source, so for every outcome of the randomness.
\<close>

subsection \<open>The random source\<close>

type_synonym 'w source = "'w \<Rightarrow> 64 word \<times> 'w"

definition rand_Float64 :: "'w source \<Rightarrow> 'w \<Rightarrow> real \<times> 'w" where
  "rand_Float64 src w =
     (case src w of (u, w') \<Rightarrow> (real (unat (drop_bit 11 (push_bit 11 u))) / 2 ^ 53, w'))"

fun redraw :: "'w source \<Rightarrow> nat \<Rightarrow> nat \<Rightarrow> 64 word \<times> 'w \<Rightarrow> 64 word \<times> 'w" where
  "redraw src n 0 (u, w) = (u, w)"
| "redraw src n (Suc fuel) (u, w) =
     (if unat u * n mod 2 ^ 64 < (2 ^ 64 - n) mod n then redraw src n fuel (src w) else (u, w))"

definition rand_uint64n :: "'w source \<Rightarrow> nat \<Rightarrow> 'w \<Rightarrow> nat \<times> 'w" where
  "rand_uint64n src n w =
     (if n AND (n - 1) = 0 then case src w of (u, w') \<Rightarrow> (unat u AND (n - 1), w')
      else case redraw src n 64 (src w) of (u, w') \<Rightarrow> (unat u * n div 2 ^ 64, w'))"

definition swap :: "nat \<Rightarrow> nat \<Rightarrow> 'a list \<Rightarrow> 'a list" where
  "swap i j xs = xs[i := xs ! j, j := xs ! i]"

text \<open>\<^verbatim>\<open>for i := n - 1; i > 0; i--\<close>: swap with a random earlier position.\<close>

fun shuffle_loop :: "'w source \<Rightarrow> nat \<Rightarrow> 'a list \<Rightarrow> 'w \<Rightarrow> 'a list \<times> 'w" where
  "shuffle_loop src 0 xs w = (xs, w)"
| "shuffle_loop src (Suc i) xs w =
     (case rand_uint64n src (Suc (Suc i)) w of (j, w') \<Rightarrow> shuffle_loop src i (swap (Suc i) j xs) w')"

definition ShuffleScoredModels :: "'w source \<Rightarrow> 'a list \<Rightarrow> 'w \<Rightarrow> 'a list \<times> 'w" where
  "ShuffleScoredModels src scoredModels w = shuffle_loop src (length scoredModels - 1) scoredModels w"

subsection \<open>The pickers\<close>

text \<open>The model of the first element: indexing an empty slice panics.\<close>

definition first_model :: "'d scored_model list \<Rightarrow> go_error + 'd run_result" where
  "first_model sms =
     (case sms of [] \<Rightarrow> Inl (Panic ''index out of range'') | sm # _ \<Rightarrow> Inr (Some (Some (sm_model sm))))"

text \<open>\<^verbatim>\<open>SortStableFunc\<close>, highest score first.\<close>

definition MaxScorePicker_Pick :: "'w source \<Rightarrow> ('w, 'd) picker_fn" where
  "MaxScorePicker_Pick src scoredModels s =
     (case s of (w, cycleState) \<Rightarrow>
        (case ShuffleScoredModels src scoredModels w of (shuffled, w') \<Rightarrow>
           (first_model (sort_key (\<lambda>sm. - sm_score sm) shuffled), (w', cycleState))))"

definition RandomPicker_Pick :: "'w source \<Rightarrow> ('w, 'd) picker_fn" where
  "RandomPicker_Pick src scoredModels s =
     (case s of (w, cycleState) \<Rightarrow>
        (case ShuffleScoredModels src scoredModels w of (shuffled, w') \<Rightarrow>
           (first_model shuffled, (w', cycleState))))"

text \<open>The A-Res keys: zero for a score that is not positive, otherwise \<open>u\<close> to the power \<open>1 / score\<close>.\<close>

fun weighted_keys :: "'w source \<Rightarrow> 'd scored_model list \<Rightarrow> 'w \<Rightarrow> ('d scored_model \<times> real) list \<times> 'w" where
  "weighted_keys src [] w = ([], w)"
| "weighted_keys src (sm # sms) w =
     (if sm_score sm \<le> 0 then
        (case weighted_keys src sms w of (ks, w') \<Rightarrow> ((sm, 0) # ks, w'))
      else
        (case rand_Float64 src w of (u, w1) \<Rightarrow>
           let u' = (if u = 0 then 1 / 10 ^ 10 else u)
           in (case weighted_keys src sms w1 of (ks, w') \<Rightarrow>
                 ((sm, u' powr (1 / sm_score sm)) # ks, w'))))"

text \<open>
  \<^verbatim>\<open>SortFunc\<close> is not stable: it may order equal keys in any way, so the entries are put in
  an arbitrary order \<open>tie\<close> before a stable sort by descending key.
\<close>

definition WeightedRandomPicker_Pick ::
  "('d scored_model \<times> real \<Rightarrow> nat) \<Rightarrow> 'w source \<Rightarrow> ('w, 'd) picker_fn" where
  "WeightedRandomPicker_Pick tie src scoredModels s =
     (if \<not> list_ex (\<lambda>sm. sm_score sm > 0) scoredModels then RandomPicker_Pick src scoredModels s
      else
        (case s of (w, cycleState) \<Rightarrow>
           (case weighted_keys src scoredModels w of (weightedModels, w') \<Rightarrow>
              (first_model (map fst (sort_key (\<lambda>sk. - snd sk) (sort_key tie weightedModels))), (w', cycleState)))))"

subsection \<open>Lemmas on draws\<close>

lemma and_nat_upper: "a AND b \<le> (b :: nat)"
proof -
  have "int (a AND b) \<le> int b"
    unfolding of_nat_and_eq by (rule AND_upper2) simp
  then show ?thesis by simp
qed

lemma rand_uint64n_bound: "0 < n \<Longrightarrow> fst (rand_uint64n src n w) < n"
proof -
  assume n: "0 < n"
  obtain u w' where s: "src w = (u, w')" by (cases "src w")
  obtain v w'' where r: "redraw src n 64 (src w) = (v, w'')" by (cases "redraw src n 64 (src w)")
  have "unat v < 2 ^ 64" using unsigned_less [of v] by simp
  then have "unat v * n < n * 2 ^ 64" using n by simp
  then have "unat v * n div 2 ^ 64 < n" by (rule less_mult_imp_div_less)
  moreover have "unat u AND (n - 1) < n" using and_nat_upper [of "unat u" "n - 1"] n by linarith
  ultimately show ?thesis using n s r by (simp add: rand_uint64n_def)
qed

lemma rand_Float64_range: "0 \<le> fst (rand_Float64 src w)" "fst (rand_Float64 src w) < 1"
proof -
  obtain u w' where s: "src w = (u, w')" by (cases "src w")
  have "unat (push_bit 11 u) < 2 ^ 64" using unsigned_less [of "push_bit 11 u"] by simp
  then have "unat (drop_bit 11 (push_bit 11 u)) < 2 ^ 53"
    by (simp add: unat_drop_bit_eq drop_bit_nat_def less_mult_imp_div_less)
  then have "real (unat (drop_bit 11 (push_bit 11 u))) < 2 ^ 53"
    by (metis of_nat_less_iff of_nat_numeral of_nat_power)
  then show "0 \<le> fst (rand_Float64 src w)" "fst (rand_Float64 src w) < 1"
    unfolding rand_Float64_def s prod.case fst_conv by (simp_all only: of_nat_0_le_iff divide_less_eq_1_pos
        zero_less_power zero_less_numeral zero_le_divide_iff) simp
qed

lemma mset_swap: "i < length xs \<Longrightarrow> j < length xs \<Longrightarrow> mset (swap i j xs) = mset xs"
  unfolding swap_def by (rule mset_swap)

lemma length_swap [simp]: "length (swap i j xs) = length xs"
  by (simp add: swap_def)

lemma mset_shuffle_loop: "i < length xs \<Longrightarrow> mset (fst (shuffle_loop src i xs w)) = mset xs"
proof (induction i arbitrary: xs w)
  case (Suc i)
  obtain j w' where d: "rand_uint64n src (Suc (Suc i)) w = (j, w')"
    by (cases "rand_uint64n src (Suc (Suc i)) w")
  have "j < Suc (Suc i)" using rand_uint64n_bound [of "Suc (Suc i)" src w] d by simp
  then have "j < length xs" using Suc.prems by simp
  with d Suc show ?case by (simp add: mset_swap)
qed simp

text \<open>Whatever the draws, a shuffle is a permutation.\<close>

lemma mset_Shuffle: "mset (fst (ShuffleScoredModels src xs w)) = mset xs"
  by (cases xs) (simp_all add: ShuffleScoredModels_def mset_shuffle_loop)

lemma set_Shuffle: "set (fst (ShuffleScoredModels src xs w)) = set xs"
  by (metis mset_Shuffle set_mset_mset)

subsection \<open>Lemmas on the pickers\<close>

lemma first_model_hd: "sms \<noteq> [] \<Longrightarrow> first_model sms = Inr (Some (Some (sm_model (hd sms))))"
  by (cases sms) (simp_all add: first_model_def)

lemma hd_sort_key_min:
  assumes "xs \<noteq> []"
  shows "hd (sort_key f xs) \<in> set xs \<and> (\<forall>x\<in>set xs. f (hd (sort_key f xs)) \<le> f x)"
proof -
  have ne: "sort_key f xs \<noteq> []" using assms by (metis set_empty set_sort)
  then obtain y ys where y: "sort_key f xs = y # ys" by (cases "sort_key f xs") auto
  have "sorted (map f (y # ys))" using sorted_sort_key [of f xs] y by simp
  then have "\<forall>x\<in>set (y # ys). f y \<le> f x" by auto
  moreover have "set (y # ys) = set xs" using y by (metis set_sort)
  ultimately show ?thesis using y by auto
qed

lemma MaxScore_picks_max:
  assumes "sms \<noteq> []"
  shows "\<exists>sm\<in>set sms. fst (MaxScorePicker_Pick src sms s) = Inr (Some (Some (sm_model sm)))
    \<and> (\<forall>sm'\<in>set sms. sm_score sm' \<le> sm_score sm)"
proof -
  obtain w c where s: "s = (w, c)" by (cases s)
  define sh where "sh = fst (ShuffleScoredModels src sms w)"
  have sh: "set sh = set sms" "sh \<noteq> []"
    using assms set_Shuffle [of src sms w] by (auto simp: sh_def)
  define sm where "sm = hd (sort_key (\<lambda>sm. - sm_score sm) sh)"
  have "sm \<in> set sms" "\<forall>sm'\<in>set sms. sm_score sm' \<le> sm_score sm"
    using hd_sort_key_min [OF sh(2), of "\<lambda>sm. - sm_score sm"] sh(1) by (auto simp: sm_def)
  moreover have "sort_key (\<lambda>sm. - sm_score sm) sh \<noteq> []" using sh(2) by (metis set_empty set_sort)
  then have "fst (MaxScorePicker_Pick src sms s) = Inr (Some (Some (sm_model sm)))"
    by (simp add: MaxScorePicker_Pick_def s case_prod_beta first_model_hd sm_def sh_def)
  ultimately show ?thesis by blast
qed

lemma Random_picks_member:
  assumes "sms \<noteq> []"
  shows "\<exists>sm\<in>set sms. fst (RandomPicker_Pick src sms s) = Inr (Some (Some (sm_model sm)))"
proof -
  obtain w c where s: "s = (w, c)" by (cases s)
  define sh where "sh = fst (ShuffleScoredModels src sms w)"
  have sh: "set sh = set sms" "sh \<noteq> []"
    using assms set_Shuffle [of src sms w] by (auto simp: sh_def)
  then have "fst (RandomPicker_Pick src sms s) = Inr (Some (Some (sm_model (hd sh))))"
    by (simp add: RandomPicker_Pick_def s case_prod_beta first_model_hd flip: sh_def)
  with sh show ?thesis by (metis hd_in_set)
qed

lemma weighted_keys_spec:
  "map fst (fst (weighted_keys src sms w)) = sms"
  "(sm, k) \<in> set (fst (weighted_keys src sms w)) \<Longrightarrow> if sm_score sm \<le> 0 then k = 0 else 0 < k"
proof (induction sms arbitrary: w)
  case (Cons x sms)
  {
    case 1
    show ?case using Cons.IH(1) by (simp add: case_prod_beta Let_def)
  next
    case 2
    then show ?case
      using Cons.IH(2) rand_Float64_range(1) [of src w]
      by (auto simp: case_prod_beta Let_def split: if_splits)
  }
qed simp_all

text \<open>When some score is positive, the sampled model has a positive score.\<close>

lemma WeightedRandom_picks_positive:
  assumes "sms \<noteq> []"
  shows "\<exists>sm\<in>set sms. fst (WeightedRandomPicker_Pick tie src sms s) = Inr (Some (Some (sm_model sm)))
    \<and> ((\<exists>sm'\<in>set sms. 0 < sm_score sm') \<longrightarrow> 0 < sm_score sm)"
proof (cases "list_ex (\<lambda>sm. sm_score sm > 0) sms")
  case False
  then show ?thesis
    using Random_picks_member [OF assms, of src s]
    by (auto simp: WeightedRandomPicker_Pick_def list_ex_iff)
next
  case True
  obtain w c where s: "s = (w, c)" by (cases s)
  define ks where "ks = sort_key tie (fst (weighted_keys src sms w))"
  have set_ks: "set ks = set (fst (weighted_keys src sms w))"
    by (simp add: ks_def)
  have fst_ks: "fst ` set ks = set sms"
    using weighted_keys_spec(1) [of src sms w] by (metis set_ks set_map)
  then have ne: "ks \<noteq> []" "sort_key (\<lambda>sk. - snd sk) ks \<noteq> []"
    using assms by (auto simp flip: set_empty)
  obtain sm k where smk: "hd (sort_key (\<lambda>sk. - snd sk) ks) = (sm, k)" by fastforce
  have mem: "(sm, k) \<in> set ks" and max: "\<forall>x\<in>set ks. snd x \<le> k"
    using hd_sort_key_min [OF ne(1), of "\<lambda>sk. - snd sk"] smk by auto
  obtain sm' k' where "(sm', k') \<in> set ks" "0 < sm_score sm'"
    using True fst_ks by (fastforce simp: list_ex_iff)
  then have "0 < k" using weighted_keys_spec(2) [of sm' k' src sms w] max set_ks by fastforce
  then have "0 < sm_score sm" using weighted_keys_spec(2) [of sm k src sms w] mem set_ks
    by (auto split: if_splits)
  moreover have "sm \<in> set sms" using mem fst_ks by force
  moreover have "fst (WeightedRandomPicker_Pick tie src sms s) = Inr (Some (Some (sm_model sm)))"
    using True ne smk
    by (simp add: WeightedRandomPicker_Pick_def s case_prod_beta first_model_hd hd_map flip: ks_def)
  ultimately show ?thesis by blast
qed

interpretation maxscore: model_picker "MaxScorePicker_Pick src"
  using MaxScore_picks_max by unfold_locales blast

interpretation randompick: model_picker "RandomPicker_Pick src"
  using Random_picks_member by unfold_locales blast

interpretation weightedpick: model_picker "WeightedRandomPicker_Pick tie src"
  using WeightedRandom_picks_positive by unfold_locales blast

subsection \<open>Properties\<close>

text \<open>
  The max-score picker picks a candidate of maximal score whatever the shuffle draws, and
  panics on an empty list only.
\<close>

theorem max_score_picker_optimal:
  "if sms = [] then fst (MaxScorePicker_Pick src sms s) = Inl (Panic ''index out of range'')
   else \<exists>sm\<in>set sms. fst (MaxScorePicker_Pick src sms s) = Inr (Some (Some (sm_model sm)))
          \<and> Max (sm_score ` set sms) = sm_score sm"
proof (cases "sms = []")
  case True
  then show ?thesis
    by (simp add: MaxScorePicker_Pick_def ShuffleScoredModels_def first_model_def split: prod.split)
next
  case False
  then obtain sm where sm: "sm \<in> set sms" "\<forall>sm'\<in>set sms. sm_score sm' \<le> sm_score sm"
      "fst (MaxScorePicker_Pick src sms s) = Inr (Some (Some (sm_model sm)))"
    using MaxScore_picks_max by blast
  then have "Max (sm_score ` set sms) = sm_score sm" by (intro Max_eqI) auto
  with sm False show ?thesis by auto
qed

text \<open>
  The weighted random picker returns a candidate, and one with a positive score as soon as
  there is any: a model scored zero is never drawn against a positive one, whatever the draws and
  however equal keys are ordered.
\<close>

theorem weighted_picker_excludes_zero:
  assumes "sm' \<in> set sms" and "0 < sm_score sm'"
  shows "\<exists>sm\<in>set sms. fst (WeightedRandomPicker_Pick tie src sms s) = Inr (Some (Some (sm_model sm)))
    \<and> 0 < sm_score sm"
proof -
  have "sms \<noteq> []" using assms(1) by auto
  then show ?thesis using WeightedRandom_picks_positive [of sms tie src s] assms by blast
qed

theorem weighted_picker_excludes_zero_witness:
  "fst (WeightedRandomPicker_Pick (\<lambda>_. 0) (\<lambda>w. (0, w))
      [\<lparr>sm_model = NewModel ''a'', sm_score = 0\<rparr>, \<lparr>sm_model = NewModel ''b'', sm_score = 1\<rparr>] ((), []))
    = Inr (Some (Some (NewModel ''b'' :: unit model)))"
  using weighted_picker_excludes_zero [of "\<lparr>sm_model = NewModel ''b'', sm_score = 1\<rparr>"
      "[\<lparr>sm_model = NewModel ''a'', sm_score = 0\<rparr>, \<lparr>sm_model = NewModel ''b'', sm_score = 1\<rparr>]"
      "\<lambda>_. 0" "\<lambda>w. (0, w)" "((), [])"]
  by auto

end
