(* ===== verification/Cost_Guard.thy ===== *)
theory Cost_Guard
  imports Scorers Pickers
begin

text \<open>
  \<^verbatim>\<open>scorer/costguard/plugin.go\<close>: the epsilon-greedy cost scorer, with its configuration check.
  The t-digest of the library is the type \<open>'d\<close> with its sample count and trimmed mean as
  arguments; JSON decoding into the configuration struct and the \<^verbatim>\<open>%q\<close>/\<^verbatim>\<open>%f\<close> formatting of
  error texts are arguments too.
\<close>

record costguard_config =
  cfgEpsilon :: real
  cfgAlpha :: real
  cfgLambda :: real
  cfgPercentileMarginError :: real

record costguard_scorer =
  epsilon :: real
  alpha :: real
  lambda :: real
  sampleThreshold :: nat

definition z95 :: real where
  "z95 = 196 / 100"

definition neutralScore :: real where
  "neutralScore = 1 / 2"

definition default_config :: costguard_config where
  "default_config = \<lparr>cfgEpsilon = 1 / 10, cfgAlpha = 95 / 100, cfgLambda = 1, cfgPercentileMarginError = 3 / 100\<rparr>"

definition NewCostGuardScorer :: "real \<Rightarrow> real \<Rightarrow> real \<Rightarrow> real \<Rightarrow> costguard_scorer" where
  "NewCostGuardScorer eps al lam percentileMarginError =
     \<lparr>epsilon = eps, alpha = al, lambda = lam,
      sampleThreshold = nat \<lceil>z95 * z95 * al * (1 - al) / (percentileMarginError * percentileMarginError)\<rceil>\<rparr>"

text \<open>\<open>decode\<close> overwrites the fields present in the parameters; \<open>None\<close> is a decoding error.\<close>

definition ScorerFactory ::
  "(string \<Rightarrow> costguard_config \<Rightarrow> costguard_config option) \<Rightarrow> (string \<Rightarrow> string) \<Rightarrow> (real \<Rightarrow> string)
     \<Rightarrow> string \<Rightarrow> string \<Rightarrow> go_error + costguard_scorer" where
  "ScorerFactory decode quote fmt name rawParameters =
     (case (if length rawParameters > 0 then decode rawParameters default_config else Some default_config) of
        None \<Rightarrow> Inl (PlainErr (''costguard '' @ quote name @ '': failed to parse parameters''))
      | Some config \<Rightarrow>
          if cfgEpsilon config < 0 \<or> cfgEpsilon config > 1 then
            Inl (PlainErr (''costguard '' @ quote name @ '': epsilon must be in [0, 1], got '' @ fmt (cfgEpsilon config)))
          else if cfgAlpha config \<le> 0 \<or> cfgAlpha config \<ge> 1 then
            Inl (PlainErr (''costguard '' @ quote name @ '': alpha must be in (0, 1), got '' @ fmt (cfgAlpha config)))
          else if cfgLambda config < 0 then
            Inl (PlainErr (''costguard '' @ quote name @ '': lambda must be >= 0, got '' @ fmt (cfgLambda config)))
          else if cfgPercentileMarginError config \<le> 0 \<or> cfgPercentileMarginError config \<ge> 1 then
            Inl (PlainErr (''costguard '' @ quote name @ '': percentileMarginError must be in (0, 1), got ''
              @ fmt (cfgPercentileMarginError config)))
          else
            Inr (NewCostGuardScorer (cfgEpsilon config) (cfgAlpha config) (cfgLambda config)
              (cfgPercentileMarginError config)))"

definition sigmoid :: "real \<Rightarrow> real" where
  "sigmoid x = 1 / (1 + exp x)"

definition median :: "real list \<Rightarrow> real" where
  "median ranks =
     (let c = sort ranks; n = length c
      in if n mod 2 = 1 then c ! (n div 2) else (c ! (n div 2 - 1) + c ! (n div 2)) / 2)"

definition stddevPop :: "real list \<Rightarrow> real" where
  "stddevPop ranks =
     (if length ranks < 2 then 0
      else
        let mean = sum_list ranks / real (length ranks);
            ss = (\<Sum>v\<leftarrow>ranks. (v - mean) * (v - mean))
        in sqrt (ss / real (length ranks)))"

definition lookupDigest :: "'d model \<Rightarrow> 'd option" where
  "lookupDigest m =
     (case ReadAttributeKey as_CostDigest (mattrs m) CostDigestAttributeKey of
        Inl _ \<Rightarrow> None
      | Inr d \<Rightarrow> Some d)"

text \<open>The digest of an explored model; \<open>None\<close> for a missing digest or too few samples.\<close>

definition explored_digest :: "('d \<Rightarrow> nat) \<Rightarrow> costguard_scorer \<Rightarrow> 'd model \<Rightarrow> 'd option" where
  "explored_digest digestCount g m =
     (case lookupDigest m of
        None \<Rightarrow> None
      | Some d \<Rightarrow> if digestCount d < sampleThreshold g then None else Some d)"

definition rank :: "('d \<Rightarrow> real \<Rightarrow> real \<Rightarrow> real) \<Rightarrow> costguard_scorer \<Rightarrow> 'd \<Rightarrow> real" where
  "rank trimmedMean g d = trimmedMean d 0 (alpha g) + lambda g * trimmedMean d (alpha g) 1"

text \<open>
  The scores are filled in three passes: neutral for the models that are not explored, then either
  neutral or the sigmoid for the explored ones, in their order.
\<close>

definition exploit ::
  "('d \<Rightarrow> nat) \<Rightarrow> ('d \<Rightarrow> real \<Rightarrow> real \<Rightarrow> real) \<Rightarrow> costguard_scorer \<Rightarrow> 'd model list
     \<Rightarrow> ('d model, real) gomap" where
  "exploit digestCount trimmedMean g models =
     (let scores = fold (\<lambda>m. mput m neutralScore) (filter (\<lambda>m. explored_digest digestCount g m = None) models) [];
          explored = filter (\<lambda>m. explored_digest digestCount g m \<noteq> None) models;
          digests = List.map_filter (explored_digest digestCount g) models
      in if length explored < 2 then fold (\<lambda>m. mput m neutralScore) explored scores
         else
           let ranks = map (rank trimmedMean g) digests;
               med = median ranks;
               sigma = stddevPop ranks
           in if sigma = 0 then fold (\<lambda>m. mput m neutralScore) explored scores
              else
                let beta = 1 / sigma
                in fold (\<lambda>(m, r). mput m (sigmoid (beta * (r - med)))) (zip explored ranks) scores)"

definition explore ::
  "'w source \<Rightarrow> ('d \<Rightarrow> nat) \<Rightarrow> costguard_scorer \<Rightarrow> 'd model list \<Rightarrow> 'w \<Rightarrow> ('d model, real) gomap \<times> 'w" where
  "explore src digestCount g models w =
     (let underExplored = filter (\<lambda>m. explored_digest digestCount g m = None) models;
          pool = (if length underExplored = 0 then models else underExplored)
      in (case rand_uint64n src (length pool) w of (i, w') \<Rightarrow>
            (mput (pool ! i) 1 (fold (\<lambda>m. mput m neutralScore) models []), w')))"

definition CostGuard_Score ::
  "'w source \<Rightarrow> ('d \<Rightarrow> nat) \<Rightarrow> ('d \<Rightarrow> real \<Rightarrow> real \<Rightarrow> real) \<Rightarrow> costguard_scorer \<Rightarrow> ('w, 'd) scorer_fn" where
  "CostGuard_Score src digestCount trimmedMean g request models s =
     (case s of (w, cycleState) \<Rightarrow>
        if length models = 0 then (Inr [], (w, cycleState))
        else
          (case rand_Float64 src w of (u, w1) \<Rightarrow>
             if u < epsilon g then
               (case explore src digestCount g models w1 of (scores, w2) \<Rightarrow> (Inr scores, (w2, cycleState)))
             else (Inr (exploit digestCount trimmedMean g models), (w1, cycleState))))"

subsection \<open>What the exploit branch computes\<close>

definition ranks_of ::
  "('d \<Rightarrow> nat) \<Rightarrow> ('d \<Rightarrow> real \<Rightarrow> real \<Rightarrow> real) \<Rightarrow> costguard_scorer \<Rightarrow> 'd model list \<Rightarrow> real list" where
  "ranks_of digestCount trimmedMean g models =
     map (rank trimmedMean g) (List.map_filter (explored_digest digestCount g) models)"

definition exploit_score ::
  "('d \<Rightarrow> nat) \<Rightarrow> ('d \<Rightarrow> real \<Rightarrow> real \<Rightarrow> real) \<Rightarrow> costguard_scorer \<Rightarrow> 'd model list \<Rightarrow> 'd model \<Rightarrow> real" where
  "exploit_score digestCount trimmedMean g models m =
     (let ranks = ranks_of digestCount trimmedMean g models
      in case explored_digest digestCount g m of
           None \<Rightarrow> neutralScore
         | Some d \<Rightarrow> if stddevPop ranks = 0 then neutralScore
                     else sigmoid ((rank trimmedMean g d - median ranks) / stddevPop ranks))"

subsection \<open>Lemmas\<close>

lemma sigmoid_range: "0 < sigmoid x" "sigmoid x < 1"
  by (simp_all add: sigmoid_def add_pos_pos)

lemma sigmoid_less_iff: "sigmoid x < sigmoid y \<longleftrightarrow> y < x"
  by (simp add: sigmoid_def divide_less_cancel add_pos_pos frac_less2 field_simps)

lemma stddevPop_short: "length ranks < 2 \<Longrightarrow> stddevPop ranks = 0"
  by (simp add: stddevPop_def)

lemma stddevPop_nonneg: "0 \<le> stddevPop ranks"
  by (auto simp: stddevPop_def Let_def intro!: divide_nonneg_nonneg sum_list_nonneg)

text \<open>Two different ranks make the spread positive.\<close>

lemma stddevPop_pos:
  assumes "r1 \<in> set ranks" and "r2 \<in> set ranks" and "r1 \<noteq> r2"
  shows "0 < stddevPop ranks"
proof -
  define mean where "mean = sum_list ranks / real (length ranks)"
  have len: "2 \<le> length ranks"
    using assms by (cases ranks; cases "tl ranks") auto
  have nn: "\<forall>x\<in>set (map (\<lambda>v. (v - mean) * (v - mean)) ranks). 0 \<le> x" by auto
  obtain r where r: "r \<in> set ranks" "r \<noteq> mean" using assms by metis
  then have "0 < (r - mean) * (r - mean)" by (metis eq_iff_diff_eq_0 not_real_square_gt_zero)
  also have "\<dots> \<le> (\<Sum>v\<leftarrow>ranks. (v - mean) * (v - mean))"
    using r nn by (intro member_le_sum_list) auto
  finally have "0 < (\<Sum>v\<leftarrow>ranks. (v - mean) * (v - mean)) / real (length ranks)"
    using len by (intro divide_pos_pos) auto
  then show ?thesis using len by (simp add: stddevPop_def Let_def mean_def)
qed

lemma zip_map_same: "zip xs (map f xs) = map (\<lambda>x. (x, f x)) xs"
  by (induction xs) simp_all

lemma map_filter_explored:
  "List.map_filter f xs = map (\<lambda>x. the (f x)) (filter (\<lambda>x. f x \<noteq> None) xs)"
  by (simp add: List.map_filter_def)

lemma exploit_lookup:
  "map_of (exploit digestCount trimmedMean g ms) m =
     (if m \<in> set ms then Some (exploit_score digestCount trimmedMean g ms m) else None)"
proof -
  let ?e = "\<lambda>m. explored_digest digestCount g m"
  define explored where "explored = filter (\<lambda>m. ?e m \<noteq> None) ms"
  have ranks: "ranks_of digestCount trimmedMean g ms = map (\<lambda>m. rank trimmedMean g (the (?e m))) explored"
    by (simp add: ranks_of_def map_filter_explored explored_def)
  have short: "stddevPop (ranks_of digestCount trimmedMean g ms) = 0" if "length explored < 2"
    using that by (intro stddevPop_short) (simp add: ranks)
  show ?thesis
    using short
    by (auto simp: exploit_def Let_def exploit_score_def score_all_fold zip_map_same fold_map comp_def
        map_filter_explored ranks [unfolded explored_def] explored_def score_all_fold [of _ _ "[]", simplified]
        split: option.splits)
qed

lemma gomap_ok_fold_pairs: "gomap_ok acc \<Longrightarrow> gomap_ok (fold (\<lambda>(m, r). mput m (f r)) xs acc)"
  by (induction xs arbitrary: acc) auto

lemma gomap_ok_exploit: "gomap_ok (exploit digestCount trimmedMean g ms)"
  by (simp add: exploit_def Let_def gomap_ok_fold_mput gomap_ok_fold_pairs)

lemma exploit_score_range:
  "0 \<le> exploit_score digestCount trimmedMean g ms m" "exploit_score digestCount trimmedMean g ms m \<le> 1"
  using sigmoid_range
  by (auto simp: exploit_score_def Let_def neutralScore_def less_imp_le split: option.splits)

lemma explore_lookup:
  assumes "ms \<noteq> []"
  shows "\<exists>p\<in>set ms. map_of (fst (explore src digestCount g ms w)) =
      (\<lambda>m. if m = p then Some 1 else if m \<in> set ms then Some neutralScore else None)
    \<and> gomap_ok (fst (explore src digestCount g ms w))
    \<and> ((\<exists>m\<in>set ms. explored_digest digestCount g m = None) \<longrightarrow> explored_digest digestCount g p = None)"
proof -
  define under where "under = filter (\<lambda>m. explored_digest digestCount g m = None) ms"
  define pool where "pool = (if length under = 0 then ms else under)"
  define p where "p = pool ! fst (rand_uint64n src (length pool) w)"
  have "0 < length pool" using assms by (simp add: pool_def)
  then have "p \<in> set pool" unfolding p_def by (intro nth_mem rand_uint64n_bound)
  then have "p \<in> set ms" "under \<noteq> [] \<longrightarrow> explored_digest digestCount g p = None"
    by (auto simp: pool_def under_def split: if_splits)
  moreover have "fst (explore src digestCount g ms w) = mput p 1 (fold (\<lambda>m. mput m neutralScore) ms [])"
    by (simp add: explore_def Let_def case_prod_beta p_def pool_def under_def)
  ultimately show ?thesis
    by (intro bexI [of _ p])
       (auto simp: score_all_fold fun_eq_iff gomap_ok_fold_mput under_def filter_empty_conv)
qed

lemma CostGuard_contract:
  "model_scorer (CostGuard_Score src digestCount trimmedMean g :: ('w, 'd) scorer_fn) (\<lambda>_. True)"
proof
  fix request :: inference_request and ms :: "'d model list" and s :: "'w \<times> cycle_state"
  obtain w c where s: "s = (w, c)" by (cases s)
  show "\<exists>sc. fst (CostGuard_Score src digestCount trimmedMean g request ms s) = Inr sc \<and> gomap_ok sc
      \<and> fst ` set sc = set ms \<and> (\<forall>m r. map_of sc m = Some r \<longrightarrow> 0 \<le> r \<and> r \<le> 1)"
  proof (cases "ms = []")
    case True
    then show ?thesis by (simp add: CostGuard_Score_def s)
  next
    case False
    define w1 where "w1 = snd (rand_Float64 src w)"
    from explore_lookup [OF False, of src digestCount g w1]
    obtain p where p: "p \<in> set ms" "map_of (fst (explore src digestCount g ms w1)) =
        (\<lambda>m. if m = p then Some 1 else if m \<in> set ms then Some neutralScore else None)"
        "gomap_ok (fst (explore src digestCount g ms w1))" by blast
    show ?thesis
    proof (cases "fst (rand_Float64 src w) < epsilon g")
      case True
      have "fst ` set (fst (explore src digestCount g ms w1)) = set ms"
        using p by (auto simp: fst_set_eq_dom dom_def)
      with True False p show ?thesis
        by (auto simp: CostGuard_Score_def s case_prod_beta w1_def [symmetric] neutralScore_def split: if_splits)
    next
      case unexplored: False
      have "fst ` set (exploit digestCount trimmedMean g ms) = set ms"
        by (auto simp: fst_set_eq_dom dom_def exploit_lookup)
      with unexplored False show ?thesis
        by (auto simp: CostGuard_Score_def s case_prod_beta gomap_ok_exploit exploit_lookup
            exploit_score_range split: if_splits)
    qed
  qed
qed

interpretation costguard: model_scorer "CostGuard_Score src digestCount trimmedMean g" "\<lambda>_. True"
  by (rule CostGuard_contract)

subsection \<open>Properties\<close>



text \<open>
  Exploration is spent on unknown models. The explore branch gives the score 1 to exactly one
  candidate and the neutral score to the others, and while some candidate has too few samples, it
  is one of those, whatever the draw.
\<close>

theorem costguard_explores_unknown:
  assumes "u \<in> set ms" and "explored_digest digestCount g u = None"
  shows "\<exists>p\<in>set ms. explored_digest digestCount g p = None
    \<and> (\<forall>m\<in>set ms. map_of (fst (explore src digestCount g ms w)) m = Some (if m = p then 1 else neutralScore))"
proof -
  have "ms \<noteq> []" using assms(1) by auto
  from explore_lookup [OF this, of src digestCount g w] assms show ?thesis by fastforce
qed

theorem costguard_explores_unknown_witness:
  "map_of (fst (explore (\<lambda>w. (0, w)) fst \<lparr>epsilon = 0, alpha = 1 / 2, lambda = 1, sampleThreshold = 10\<rparr>
      [\<lparr>mname = ''a'', mattrs = [(CostDigestAttributeKey, CostDigest (20 :: nat, 1 :: real))]\<rparr>, NewModel ''c''] ())) (NewModel ''c'') = Some 1"
  using costguard_explores_unknown [of "NewModel ''c''"
      "[\<lparr>mname = ''a'', mattrs = [(CostDigestAttributeKey, CostDigest (20 :: nat, 1 :: real))]\<rparr>, NewModel ''c'']" fst
      "\<lparr>epsilon = 0, alpha = 1 / 2, lambda = 1, sampleThreshold = 10\<rparr>" "\<lambda>w. (0, w)" "()"]
  by (auto simp: explored_digest_def lookupDigest_def ReadAttributeKey_def NewModel_def NewAttributes_def)

text \<open>
  The factory accepts exactly the configurations whose four settings are in range, and the
  sample threshold it derives is then at least one, so a model without samples is never ranked.
\<close>

theorem costguard_factory_validates:
  "(\<exists>g. ScorerFactory decode quote fmt name raw = Inr g \<and> 1 \<le> sampleThreshold g) \<longleftrightarrow>
     (case (if raw = [] then Some default_config else decode raw default_config) of
        None \<Rightarrow> False
      | Some config \<Rightarrow> 0 \<le> cfgEpsilon config \<and> cfgEpsilon config \<le> 1
          \<and> 0 < cfgAlpha config \<and> cfgAlpha config < 1 \<and> 0 \<le> cfgLambda config
          \<and> 0 < cfgPercentileMarginError config \<and> cfgPercentileMarginError config < 1)"
proof -
  have "1 \<le> sampleThreshold (NewCostGuardScorer e a l w)" if "0 < a" "a < 1" "0 < w" for e a l w
  proof -
    have "0 < z95 * z95 * a * (1 - a) / (w * w)" using that by (simp add: z95_def)
    then have "0 < \<lceil>z95 * z95 * a * (1 - a) / (w * w)\<rceil>" by (simp only: zero_less_ceiling)
    then show ?thesis by (simp add: NewCostGuardScorer_def Suc_le_eq)
  qed
  then show ?thesis
    by (auto simp: ScorerFactory_def not_less not_le split: option.splits)
qed

end
