(* ===== verification/Selection.thy ===== *)
theory Selection
  imports Group_Filter Cost_Guard
begin

text \<open>
  The selection pipeline put together with the filter, scorers and pickers of the tree: what a
  run returns for any pipeline whose plugins keep their contracts.
\<close>

subsection \<open>Lemmas\<close>

text \<open>A pipeline of the tree's own plugins that needs no attribute on the candidates.\<close>

definition sample_pipeline :: "(unit, unit) pipeline" where
  "sample_pipeline =
     \<lparr>filters = [ModelGroupFilter_Filter],
      scorers = [(InflightRequestsScorer_Score, 2), (SessionAffinity_Score (\<lambda>k w. (None, w)) ''x-session-id'', 1)],
      picker = Some (''max'', MaxScorePicker_Pick (\<lambda>w. (0, w)))\<rparr>"

lemma model_scorer_weaken: "model_scorer sc (\<lambda>_. True) \<Longrightarrow> model_scorer sc adm"
  by (simp add: model_scorer_def list_all_iff)

lemma sample_pipeline_contracts:
  "\<forall>f\<in>set (filters sample_pipeline). model_filter f"
  "\<forall>x\<in>set (scorers sample_pipeline). model_scorer (fst x) counted"
  "picker sample_pipeline = Some (''max'', MaxScorePicker_Pick (\<lambda>w. (0, w)))"
  by (simp_all add: sample_pipeline_def groupflt.model_filter_axioms inflight.model_scorer_axioms
      model_scorer_weaken [OF session.model_scorer_axioms])

lemma counted_NewModel [simp]: "counted (NewModel n)"
  by (simp add: counted_def inflightRequestCount_def NewModel_def NewAttributes_def is_i64_def)

lemma Run_maximises:
  assumes "\<forall>f\<in>set (filters p). model_filter f"
    and "\<forall>x\<in>set (scorers p). model_scorer (fst x) adm"
    and "picker p = Some (n, MaxScorePicker_Pick src)"
    and "distinct (map mname cands)" and "list_all adm cands" and "perm_of ord"
    and "runFilterPlugins p request cands s = (Inr ms, s1)" and "ms \<noteq> []"
  shows "length (scorer_outputs (scorers p) request ms s1) = length (scorers p)
    \<and> (\<exists>m\<in>set ms. fst (Run ord p request cands s) = Inr (Some (Some m))
        \<and> (\<forall>m'\<in>set ms. weighted_total (scorer_outputs (scorers p) request ms s1) m'
              \<le> weighted_total (scorer_outputs (scorers p) request ms s1) m))"
proof (rule Run_cases [OF assms(1,2,4-6), of request s], goal_cases exhausted picked)
  case (exhausted s1')
  then show ?case using assms(7,8) by simp
next
  case (picked ms' s1' scored s2)
  have eq: "ms' = ms" "s1' = s1" using picked(1) assms(7) by simp_all
  note scored = picked(6) [unfolded eq]
  have "set (map snd (ord scored)) \<noteq> {}" using scored assms(8) by simp
  then have "map snd (ord scored) \<noteq> []" by simp
  from MaxScore_picks_max [OF this, of src s2]
  obtain sm where sm: "sm \<in> set (map snd (ord scored))"
      "fst (MaxScorePicker_Pick src (map snd (ord scored)) s2) = Inr (Some (Some (sm_model sm)))"
      "\<forall>sm'\<in>set (map snd (ord scored)). sm_score sm' \<le> sm_score sm" by blast
  from sm(1,3) [unfolded scored] obtain m where "m \<in> set ms" "sm_model sm = m"
      "\<forall>m'\<in>set ms. weighted_total (scorer_outputs (scorers p) request ms s1) m'
        \<le> weighted_total (scorer_outputs (scorers p) request ms s1) m" by auto
  moreover have "fst (runPickerPlugin ord p scored s2) = Inr (Some (Some (sm_model sm)))"
    using assms(3) sm(2) by (cases "MaxScorePicker_Pick src (map snd (ord scored)) s2")
      (simp add: runPickerPlugin_def)
  ultimately show ?case using picked(5,7) eq by auto
qed

text \<open>One scorer of positive weight and the max-score picker: the choice maximises that score.\<close>

lemma Select_best:
  assumes "\<forall>f\<in>set (filters p). model_filter f"
    and "scorers p = [(score, w)]" and "model_scorer score adm" and "0 < w"
    and "picker p = Some (n, MaxScorePicker_Pick src)"
    and "distinct (map mname cands)" and "list_all adm cands" and "perm_of ord"
    and "runFilterPlugins p request cands s = (Inr ms, s1)" and "ms \<noteq> []"
    and "fst (score request ms s1) = Inr (score_all f ms)" and "\<forall>m\<in>set ms. 0 \<le> f m \<and> f m \<le> 1"
  shows "\<exists>m\<in>set ms. fst (Select ord p request cands s) = Inr m \<and> (\<forall>m'\<in>set ms. f m' \<le> f m)"
proof -
  have outs: "scorer_outputs (scorers p) request ms s1 = [(score_all f ms, w)]"
    using assms(2,11) by (cases "score request ms s1") simp
  have total: "weighted_total (scorer_outputs (scorers p) request ms s1) m = f m * w" if "m \<in> set ms" for m
    using that assms(12) by (simp add: outs weighted_total_def mget_zero_def enforceScoreRange_id)
  have "\<forall>x\<in>set (scorers p). model_scorer (fst x) adm" using assms(2,3) by simp
  from Run_maximises [OF assms(1) this assms(5-10)] obtain m where m: "m \<in> set ms"
      "fst (Run ord p request cands s) = Inr (Some (Some m))"
      "\<forall>m'\<in>set ms. weighted_total (scorer_outputs (scorers p) request ms s1) m'
        \<le> weighted_total (scorer_outputs (scorers p) request ms s1) m" by blast
  have "\<forall>m'\<in>set ms. f m' \<le> f m"
    using m(1,3) total assms(4) by simp
  moreover have "cands \<noteq> []" using m(2) assms(9,10) model_filter.filter_returns [OF model_filter_run_filters [OF assms(1)], of request cands s]
    by (auto simp: runFilterPlugins_def)
  then have "fst (Select ord p request cands s) = Inr m"
    using m(2) by (cases "Run ord p request cands s") (simp add: Select_def)
  ultimately show ?thesis using m(1) by blast
qed

subsection \<open>Properties\<close>




text \<open>
  C12: with the max-score picker the pipeline is optimal. The model it returns passed the filters,
  and no other model that passed has a larger sum of weighted scores, each score clamped to the
  unit interval and a missing score counting as zero; every configured scorer takes part.
\<close>

theorem Run_max_score_optimal:
  assumes "\<forall>f\<in>set (filters p). model_filter f"
    and "\<forall>x\<in>set (scorers p). model_scorer (fst x) adm"
    and "picker p = Some (n, MaxScorePicker_Pick src)"
    and "distinct (map mname cands)" and "list_all adm cands" and "perm_of ord"
    and "runFilterPlugins p request cands s = (Inr ms, s1)" and "ms \<noteq> []"
  shows "length (scorer_outputs (scorers p) request ms s1) = length (scorers p)
    \<and> (\<exists>m\<in>set ms. fst (Run ord p request cands s) = Inr (Some (Some m))
        \<and> (\<forall>m'\<in>set ms. weighted_total (scorer_outputs (scorers p) request ms s1) m'
              \<le> weighted_total (scorer_outputs (scorers p) request ms s1) m))"
  using Run_maximises [OF assms] .

theorem Run_max_score_optimal_witness:
  "fst (Run rev sample_pipeline NewInferenceRequest
      [\<lparr>mname = ''a'', mattrs = [(RequestMetadataAttributeKey, RequestMetadataCount 5 0)]\<rparr>, NewModel ''b'']
      ((), [])) = Inr (Some (Some (NewModel ''b'')))"
proof -
  define a :: "unit model" where
    "a = \<lparr>mname = ''a'', mattrs = [(RequestMetadataAttributeKey, RequestMetadataCount 5 0)]\<rparr>"
  define b :: "unit model" where "b = NewModel ''b''"
  have ab: "a \<noteq> b" "mname a = ''a''" "mname b = ''b''" "inflightRequestCount a = 5" "inflightRequestCount b = 0"
      "counted a" "counted b"
    by (simp_all add: a_def b_def NewModel_def counted_def inflightRequestCount_def NewAttributes_def is_i64_def)
  have f: "runFilterPlugins sample_pipeline NewInferenceRequest [a, b] ((), []) = (Inr [a, b], ((), []))"
    by (simp add: runFilterPlugins_def sample_pipeline_def ModelGroupFilter_Filter_def
        ModelGroupFilter_models_def requested_model_def NewInferenceRequest_def newInferenceMessage_def)
  have "scorer_outputs (scorers sample_pipeline) NewInferenceRequest [a, b] ((), [])
      = [([(a, 0), (b, 1)], 2), ([(a, 0), (b, 0)], 1)]"
    using ab by (simp add: sample_pipeline_def InflightRequests_Score_eq SessionAffinity_Score_def score_all_def
        NewInferenceRequest_def newInferenceMessage_def mget_zero_def)
  then show ?thesis
    using Run_max_score_optimal [OF sample_pipeline_contracts, of "[a, b]" rev NewInferenceRequest
        "((), [])" "[a, b]" "((), [])"] ab(1-3,6,7)
    by (auto simp: f weighted_total_def mget_zero_def enforceScoreRange_def simp flip: a_def b_def)
qed

end
