(* ===== verification/Adapters.thy ===== *)
theory Adapters
  imports Message Err_Common
begin

text \<open>
  \<^verbatim>\<open>basemodelextractor/adapters_store.go\<close> and \<^verbatim>\<open>configmap_reconciler.go\<close>: the map from LoRA
  adapters to base models, fed by Kubernetes config maps, and the reconciler that keeps it in
  step with the cluster. Reading a config map from the API server is an input; the YAML decoder
  is the argument \<open>yaml\<close>. Sets of adapters are lists without duplicates.
\<close>

subsection \<open>Config maps and the store\<close>

type_synonym namespaced_name = "string \<times> string"

record configmap =
  cm_Namespace :: string
  cm_Name :: string
  cm_Data :: "(string, string) gomap"
  cm_Labels :: "(string, string) gomap"
  cm_Deleting :: bool

definition empty_configmap :: configmap where
  "empty_configmap = \<lparr>cm_Namespace = [], cm_Name = [], cm_Data = [], cm_Labels = [], cm_Deleting = False\<rparr>"

definition cm_key :: "configmap \<Rightarrow> namespaced_name" where
  "cm_key cm = (cm_Namespace cm, cm_Name cm)"

record adapters_store =
  loraAdapterToBaseModel :: "(string, string) gomap"
  configmapAdapters :: "(namespaced_name, string list) gomap"
  baseModels :: "(string, int) gomap"

definition NewAdaptersStore :: adapters_store where
  "NewAdaptersStore = \<lparr>loraAdapterToBaseModel = [], configmapAdapters = [], baseModels = []\<rparr>"

definition baseModelKey :: string where
  "baseModelKey = ''baseModel''"

definition adaptersKey :: string where
  "adaptersKey = ''adapters''"

definition parseBaseModelFromConfigMap :: "configmap \<Rightarrow> go_error + string" where
  "parseBaseModelFromConfigMap cm =
     (case map_of (cm_Data cm) baseModelKey of
        None \<Rightarrow> Inl (PlainErr ''missing or empty baseModel in configmap'')
      | Some baseModel \<Rightarrow>
          if trim_space baseModel = [] then Inl (PlainErr ''missing or empty baseModel in configmap'')
          else Inr (trim_space baseModel))"

text \<open>The set of trimmed adapter names, empty entries skipped.\<close>

definition adapter_set :: "string list \<Rightarrow> string list" where
  "adapter_set xs = fold (\<lambda>a acc. if trim_space a = [] then acc else List.insert (trim_space a) acc) xs []"

definition parseConfigMap ::
  "(string \<Rightarrow> go_error + string list) \<Rightarrow> configmap \<Rightarrow> go_error + string \<times> string list" where
  "parseConfigMap yaml cm =
     (case parseBaseModelFromConfigMap cm of
        Inl _ \<Rightarrow> Inl (PlainErr (''failed to parse configmap '' @ cm_Namespace cm @ ''/'' @ cm_Name cm))
      | Inr baseModel \<Rightarrow>
          (case map_of (cm_Data cm) adaptersKey of
             None \<Rightarrow> Inr (baseModel, [])
           | Some raw \<Rightarrow>
               if trim_space raw = [] then Inr (baseModel, [])
               else
                 (case yaml raw of
                    Inl e \<Rightarrow> Inl (PlainErr (''failed to parse adapters: '' @ error_string e))
                  | Inr xs \<Rightarrow> Inr (baseModel, adapter_set xs))))"

definition configMapUpdateOrAddIfNotExist ::
  "(string \<Rightarrow> go_error + string list) \<Rightarrow> configmap \<Rightarrow> adapters_store \<Rightarrow> go_error option \<times> adapters_store" where
  "configMapUpdateOrAddIfNotExist yaml cm s =
     (case parseConfigMap yaml cm of
        Inl e \<Rightarrow> (Some (PlainErr (''failed to parse configmap - '' @ error_string e)), s)
      | Inr (baseModel, newAdapters) \<Rightarrow>
          let previous = map_of (configmapAdapters s) (cm_key cm);
              existing = (case previous of None \<Rightarrow> [] | Some a \<Rightarrow> a);
              toRemove = filter (\<lambda>a. a \<notin> set newAdapters) existing;
              lora1 = fold (\<lambda>a. mput a baseModel) newAdapters (loraAdapterToBaseModel s);
              lora2 = fold mdel toRemove lora1;
              bases = (if previous = None
                       then mput baseModel (case map_of (baseModels s) baseModel of
                                              Some cnt \<Rightarrow> cnt + 1 | None \<Rightarrow> 1) (baseModels s)
                       else baseModels s)
          in (None, s\<lparr>loraAdapterToBaseModel := lora2, baseModels := bases,
                      configmapAdapters := mput (cm_key cm) newAdapters (configmapAdapters s)\<rparr>))"

definition configMapDelete :: "configmap \<Rightarrow> adapters_store \<Rightarrow> adapters_store" where
  "configMapDelete cm s =
     (case map_of (configmapAdapters s) (cm_key cm) of
        None \<Rightarrow> s
      | Some adapters \<Rightarrow>
          let s1 = s\<lparr>loraAdapterToBaseModel := fold mdel adapters (loraAdapterToBaseModel s),
                     configmapAdapters := mdel (cm_key cm) (configmapAdapters s)\<rparr>
          in (case parseBaseModelFromConfigMap cm of
                Inl _ \<Rightarrow> s1
              | Inr baseModel \<Rightarrow>
                  let cnt = mget_zero 0 (baseModels s) baseModel
                  in if cnt = 1 then s1\<lparr>baseModels := mdel baseModel (baseModels s)\<rparr>
                     else s1\<lparr>baseModels := mput baseModel (cnt - 1) (baseModels s)\<rparr>))"

definition getBaseModel :: "adapters_store \<Rightarrow> string \<Rightarrow> string" where
  "getBaseModel s modelName =
     (let trimmed = trim_space modelName
      in case map_of (loraAdapterToBaseModel s) trimmed of
           Some baseModel \<Rightarrow> baseModel
         | None \<Rightarrow> if map_of (baseModels s) trimmed \<noteq> None then trimmed else [])"

subsection \<open>The reconciler\<close>

definition ippManagedLabel :: string where
  "ippManagedLabel = ''inference.llm-d.ai/ipp-managed''"

definition hasIPPManagedLabel :: "configmap \<Rightarrow> bool" where
  "hasIPPManagedLabel cm \<longleftrightarrow> mget_zero [] (cm_Labels cm) ippManagedLabel = ''true''"

datatype cm_event =
    CreateEvent configmap
  | UpdateEvent configmap configmap
  | DeleteEvent configmap
  | GenericEvent configmap

fun ippManagedPredicate :: "cm_event \<Rightarrow> bool" where
  "ippManagedPredicate (CreateEvent obj) = hasIPPManagedLabel obj"
| "ippManagedPredicate (UpdateEvent old new) = (hasIPPManagedLabel old \<or> hasIPPManagedLabel new)"
| "ippManagedPredicate (DeleteEvent obj) = hasIPPManagedLabel obj"
| "ippManagedPredicate (GenericEvent obj) = hasIPPManagedLabel obj"

text \<open>What the API server answers; on an error the local variable keeps the empty object.\<close>

datatype get_result = Got configmap | GetNotFound | GetFailed go_error

definition Reconcile ::
  "(string \<Rightarrow> go_error + string list) \<Rightarrow> get_result \<Rightarrow> adapters_store \<Rightarrow> go_error option \<times> adapters_store" where
  "Reconcile yaml result s =
     (case result of
        GetFailed e \<Rightarrow> (Some (PlainErr (''unable to get ConfigMap - '' @ error_string e)), s)
      | GetNotFound \<Rightarrow> (None, configMapDelete empty_configmap s)
      | Got cm \<Rightarrow>
          if cm_Deleting cm \<or> \<not> hasIPPManagedLabel cm then (None, configMapDelete cm s)
          else
            (case configMapUpdateOrAddIfNotExist yaml cm s of
               (Some e, s') \<Rightarrow> (Some (PlainErr (''failed to add or update ConfigMap - '' @ error_string e)), s')
             | (None, s') \<Rightarrow> (None, s')))"

subsection \<open>Lemmas\<close>

lemma map_of_fold_mput_const:
  "map_of (fold (\<lambda>a. mput a v) xs m) a = (if a \<in> set xs then Some v else map_of m a)"
  by (induction xs arbitrary: m) auto

lemma map_of_fold_mdel: "map_of (fold mdel xs m) a = (if a \<in> set xs then None else map_of m a)"
  by (induction xs arbitrary: m) auto

lemma set_adapter_set: "set (adapter_set xs) = {trim_space a |a. a \<in> set xs \<and> trim_space a \<noteq> []}"
proof -
  have "set (fold (\<lambda>a acc. if trim_space a = [] then acc else List.insert (trim_space a) acc) xs acc)
      = set acc \<union> {trim_space a |a. a \<in> set xs \<and> trim_space a \<noteq> []}" for acc
    by (induction xs arbitrary: acc) auto
  from this [of "[]"] show ?thesis by (simp add: adapter_set_def)
qed

lemma dropWhile_idem: "dropWhile P (dropWhile P xs) = dropWhile P xs"
  by (induction xs) auto

text \<open>Trimming twice is trimming once.\<close>

lemma trim_space_idem [simp]: "trim_space (trim_space s) = trim_space s"
proof -
  define t where "t = dropWhile is_space s"
  define u where "u = rev (dropWhile is_space (rev t))"
  have tu: "trim_space s = u" by (simp add: trim_space_def t_def u_def)
  have "dropWhile is_space u = u"
  proof (cases u)
    case (Cons x xs)
    have "\<exists>zs. t = u @ zs"
      by (metis rev_append rev_rev_ident takeWhile_dropWhile_id u_def)
    then have "t \<noteq> []" "hd t = x" using Cons by auto
    moreover have "\<not> is_space (hd t)" using \<open>t \<noteq> []\<close> unfolding t_def by (rule hd_dropWhile)
    ultimately show ?thesis using Cons by simp
  qed simp
  moreover have "dropWhile is_space (rev u) = rev u" by (simp add: u_def dropWhile_idem)
  ultimately show ?thesis unfolding tu by (simp add: trim_space_def)
qed

lemma parseBase_trimmed: "parseBaseModelFromConfigMap cm = Inr b \<Longrightarrow> trim_space b = b \<and> b \<noteq> []"
  by (auto simp: parseBaseModelFromConfigMap_def split: option.splits if_splits)

lemma parseConfigMap_base: "parseConfigMap yaml cm = Inr (b, as) \<Longrightarrow> parseBaseModelFromConfigMap cm = Inr b"
  by (auto simp: parseConfigMap_def split: sum.splits option.splits if_splits)

lemma parseConfigMap_trimmed:
  assumes "parseConfigMap yaml cm = Inr (b, as)" and "a \<in> set as"
  shows "trim_space a = a" and "a \<noteq> []"
  using assms
  by (auto simp: parseConfigMap_def set_adapter_set split: sum.splits option.splits if_splits)

text \<open>What an accepted update does to each of the three maps.\<close>

lemma update_maps:
  assumes "parseConfigMap yaml cm = Inr (b, as)"
  shows "fst (configMapUpdateOrAddIfNotExist yaml cm s) = None"
    and "map_of (loraAdapterToBaseModel (snd (configMapUpdateOrAddIfNotExist yaml cm s))) a =
      (if a \<in> set as then Some b
       else if a \<in> set (mget_zero [] (configmapAdapters s) (cm_key cm)) then None
       else map_of (loraAdapterToBaseModel s) a)"
    and "map_of (configmapAdapters (snd (configMapUpdateOrAddIfNotExist yaml cm s)))
      = (map_of (configmapAdapters s))(cm_key cm \<mapsto> as)"
    and "map_of (baseModels (snd (configMapUpdateOrAddIfNotExist yaml cm s))) =
      (if map_of (configmapAdapters s) (cm_key cm) = None
       then (map_of (baseModels s))(b \<mapsto> mget_zero 0 (baseModels s) b + 1) else map_of (baseModels s))"
  by (auto simp: configMapUpdateOrAddIfNotExist_def assms Let_def map_of_fold_mdel map_of_fold_mput_const
      mget_zero_def split: option.splits)

lemma delete_maps:
  assumes "map_of (configmapAdapters s) (cm_key cm) = Some as"
  shows "map_of (loraAdapterToBaseModel (configMapDelete cm s)) a =
      (if a \<in> set as then None else map_of (loraAdapterToBaseModel s) a)"
    and "map_of (configmapAdapters (configMapDelete cm s)) = (map_of (configmapAdapters s))(cm_key cm := None)"
    and "parseBaseModelFromConfigMap cm = Inr b \<Longrightarrow> map_of (baseModels (configMapDelete cm s)) =
      (map_of (baseModels s))(b := (if mget_zero 0 (baseModels s) b = 1 then None
                                   else Some (mget_zero 0 (baseModels s) b - 1)))"
  by (auto simp: configMapDelete_def assms Let_def map_of_fold_mdel split: sum.splits)

lemma delete_absent: "map_of (configmapAdapters s) (cm_key cm) = None \<Longrightarrow> configMapDelete cm s = s"
  by (simp add: configMapDelete_def)

subsection \<open>Traces\<close>

text \<open>The calls the reconciler makes on the store.\<close>

datatype store_call = UpdateOp configmap | DeleteOp configmap

fun store_op :: "(string \<Rightarrow> go_error + string list) \<Rightarrow> store_call \<Rightarrow> adapters_store \<Rightarrow> adapters_store" where
  "store_op yaml (UpdateOp cm) s = snd (configMapUpdateOrAddIfNotExist yaml cm s)"
| "store_op yaml (DeleteOp cm) s = configMapDelete cm s"

fun op_configmap :: "store_call \<Rightarrow> configmap" where
  "op_configmap (UpdateOp cm) = cm"
| "op_configmap (DeleteOp cm) = cm"

text \<open>A config map keeps its base model for life: \<open>base\<close> gives it by name.\<close>

definition stable_base :: "(namespaced_name \<Rightarrow> string) \<Rightarrow> configmap \<Rightarrow> bool" where
  "stable_base base cm \<longleftrightarrow> parseBaseModelFromConfigMap cm = Inr (base (cm_key cm))"

text \<open>The config maps in the store that name a base model.\<close>

definition users_of :: "(namespaced_name \<Rightarrow> string) \<Rightarrow> adapters_store \<Rightarrow> string \<Rightarrow> namespaced_name set" where
  "users_of base s b = {k \<in> dom (map_of (configmapAdapters s)). base k = b}"

definition counted_bases :: "(namespaced_name \<Rightarrow> string) \<Rightarrow> adapters_store \<Rightarrow> bool" where
  "counted_bases base s \<longleftrightarrow>
     (\<forall>b. map_of (baseModels s) b =
        (if users_of base s b = {} then None else Some (int (card (users_of base s b)))))"

lemma finite_users_of [simp]: "finite (users_of base s b)"
  by (simp add: users_of_def finite_dom_map_of)

lemma counted_bases_count: "counted_bases base s \<Longrightarrow> mget_zero 0 (baseModels s) b = int (card (users_of base s b))"
  by (simp add: counted_bases_def mget_zero_def)

lemma users_of_insert:
  "map_of (configmapAdapters s') = (map_of (configmapAdapters s))(k \<mapsto> as) \<Longrightarrow>
   users_of base s' b = (if base k = b then insert k (users_of base s b) else users_of base s b)"
  by (auto simp: users_of_def)

lemma users_of_remove:
  "map_of (configmapAdapters s') = (map_of (configmapAdapters s))(k := None) \<Longrightarrow>
   users_of base s' b = users_of base s b - {k}"
  by (auto simp: users_of_def split: if_splits)

lemma counted_bases_update:
  assumes "counted_bases base s" and "stable_base base cm"
  shows "counted_bases base (snd (configMapUpdateOrAddIfNotExist yaml cm s))"
proof (cases "parseConfigMap yaml cm")
  case (Inl e)
  then show ?thesis using assms(1) by (simp add: configMapUpdateOrAddIfNotExist_def)
next
  case (Inr x)
  then obtain b as where p: "parseConfigMap yaml cm = Inr (b, as)" by (cases x) auto
  then have b: "b = base (cm_key cm)"
    using parseConfigMap_base [OF p] assms(2) by (simp add: stable_base_def)
  note m = update_maps [OF p, of s]
  note users = users_of_insert [OF m(3), of base]
  show ?thesis
    unfolding counted_bases_def
  proof
    fix b'
    show "map_of (baseModels (snd (configMapUpdateOrAddIfNotExist yaml cm s))) b' =
      (if users_of base (snd (configMapUpdateOrAddIfNotExist yaml cm s)) b' = {} then None
       else Some (int (card (users_of base (snd (configMapUpdateOrAddIfNotExist yaml cm s)) b'))))"
    proof (cases "map_of (configmapAdapters s) (cm_key cm)")
      case None
      then have "cm_key cm \<notin> users_of base s b'" by (simp add: users_of_def domIff)
      with None show ?thesis
        using assms(1) counted_bases_count [OF assms(1), of b]
        by (auto simp: m(4) users b counted_bases_def)
    next
      case (Some as0)
      then have "users_of base (snd (configMapUpdateOrAddIfNotExist yaml cm s)) b' = users_of base s b'"
        unfolding users using Some by (auto simp: insert_absorb users_of_def)
      with Some assms(1) show ?thesis by (simp add: m(4) counted_bases_def)
    qed
  qed
qed

lemma counted_bases_delete:
  assumes "counted_bases base s" and "stable_base base cm"
  shows "counted_bases base (configMapDelete cm s)"
proof (cases "map_of (configmapAdapters s) (cm_key cm)")
  case None
  then show ?thesis using assms(1) by (simp add: delete_absent)
next
  case (Some as)
  define b where "b = base (cm_key cm)"
  note m = delete_maps [OF Some]
  note mb = m(3) [OF assms(2) [unfolded stable_base_def, folded b_def]]
  note users = users_of_remove [OF m(2), of base]
  have mem: "cm_key cm \<in> users_of base s b" using Some by (auto simp: users_of_def b_def)
  have other: "users_of base s b' - {cm_key cm} = users_of base s b'" if "b' \<noteq> b" for b'
    using that by (auto simp: users_of_def b_def)
  have card: "card (users_of base s b - {cm_key cm}) = card (users_of base s b) - 1"
    using mem by simp
  have pos: "0 < card (users_of base s b)" using mem by (auto simp: card_gt_0_iff)
  have empty: "users_of base s b \<subseteq> {cm_key cm} \<longleftrightarrow> card (users_of base s b) = Suc 0"
  proof
    assume "users_of base s b \<subseteq> {cm_key cm}"
    with mem have "users_of base s b = {cm_key cm}" by blast
    then show "card (users_of base s b) = Suc 0" by simp
  qed (use mem in \<open>auto simp: card_1_singleton_iff\<close>)
  show ?thesis
    unfolding counted_bases_def
  proof
    fix b'
    show "map_of (baseModels (configMapDelete cm s)) b' =
      (if users_of base (configMapDelete cm s) b' = {} then None
       else Some (int (card (users_of base (configMapDelete cm s) b'))))"
      using assms(1) counted_bases_count [OF assms(1), of b] pos
      by (cases "b' = b")
         (simp_all add: mb users other card empty counted_bases_def of_nat_diff)
  qed
qed

lemma counted_bases_ops:
  assumes "counted_bases base s" and "\<forall>x\<in>set ops. stable_base base (op_configmap x)"
  shows "counted_bases base (fold (store_op yaml) ops s)"
  using assms
proof (induction ops arbitrary: s)
  case (Cons x ops)
  have "counted_bases base (store_op yaml x s)"
    using Cons.prems by (cases x) (simp_all add: counted_bases_update counted_bases_delete)
  with Cons show ?case by simp
qed simp

lemma counted_bases_New: "counted_bases base NewAdaptersStore"
  by (simp add: counted_bases_def users_of_def NewAdaptersStore_def)

subsection \<open>Properties\<close>


text \<open>Two config maps of one base model, for the concrete runs below.\<close>

definition sample_cm :: "string \<Rightarrow> configmap" where
  "sample_cm name = \<lparr>cm_Namespace = ''ns'', cm_Name = name,
     cm_Data = [(baseModelKey, ''llama''), (adaptersKey, name)],
     cm_Labels = [(ippManagedLabel, ''true'')], cm_Deleting = False\<rparr>"

lemma sample_cm_parse:
  "parseBaseModelFromConfigMap (sample_cm n) = Inr ''llama''"
  "trim_space n = n \<Longrightarrow> n \<noteq> [] \<Longrightarrow> parseConfigMap (\<lambda>raw. Inr [raw]) (sample_cm n) = Inr (''llama'', [n])"
proof -
  have "trim_space ''llama'' = ''llama''" by (simp add: trim_space_def is_space_def)
  then show "parseBaseModelFromConfigMap (sample_cm n) = Inr ''llama''"
    and "trim_space n = n \<Longrightarrow> n \<noteq> [] \<Longrightarrow> parseConfigMap (\<lambda>raw. Inr [raw]) (sample_cm n) = Inr (''llama'', [n])"
    by (simp_all add: parseConfigMap_def parseBaseModelFromConfigMap_def sample_cm_def baseModelKey_def
        adaptersKey_def adapter_set_def)
qed


text \<open>
  C18: after a config map has been added or updated, each of its adapters resolves to its base
  model, an adapter it no longer lists does not resolve through it, every other name resolves
  through the adapter map as before, and a base model that comes with a new config map resolves
  to itself unless it is an adapter name as well.
\<close>

theorem configmap_update_resolves:
  assumes "parseConfigMap yaml cm = Inr (b, as)"
    and "s' = snd (configMapUpdateOrAddIfNotExist yaml cm s)"
  shows "(\<forall>a\<in>set as. getBaseModel s' a = b)
    \<and> (\<forall>x. trim_space x \<notin> set as \<longrightarrow>
         map_of (loraAdapterToBaseModel s') (trim_space x) =
           (if trim_space x \<in> set (mget_zero [] (configmapAdapters s) (cm_key cm)) then None
            else map_of (loraAdapterToBaseModel s) (trim_space x)))
    \<and> (map_of (configmapAdapters s) (cm_key cm) = None \<and> map_of (loraAdapterToBaseModel s') b = None
         \<longrightarrow> getBaseModel s' b = b)"
proof -
  note m = update_maps [OF assms(1), of s, folded assms(2)]
  have "getBaseModel s' a = b" if "a \<in> set as" for a
    using that parseConfigMap_trimmed(1) [OF assms(1) that] by (simp add: getBaseModel_def m(2) Let_def)
  moreover have "trim_space b = b" using parseBase_trimmed [OF parseConfigMap_base [OF assms(1)]] by simp
  ultimately show ?thesis
    by (auto simp: getBaseModel_def Let_def m(2,4))
qed

theorem configmap_update_resolves_witness:
  "getBaseModel (snd (configMapUpdateOrAddIfNotExist (\<lambda>raw. Inr [raw]) (sample_cm ''a'') NewAdaptersStore)) ''a'' = ''llama''"
proof -
  have "trim_space ''a'' = ''a''" by (simp add: trim_space_def is_space_def)
  then show ?thesis
    using configmap_update_resolves [OF sample_cm_parse(2) refl, of "''a''" NewAdaptersStore] by simp
qed



text \<open>
  A deleted config map lingers. When the API server reports that the object is gone, the
  reconciler deletes by the name of an empty object instead of the requested name, so the store does
  not change and the adapters of the deleted config map keep resolving.
\<close>

theorem reconcile_not_found_keeps_adapters:
  assumes "parseConfigMap yaml cm = Inr (b, as)" and "a \<in> set as"
    and "cm_Name cm \<noteq> []" and "map_of (configmapAdapters s) ([], []) = None"
  shows "case Reconcile yaml GetNotFound (snd (configMapUpdateOrAddIfNotExist yaml cm s)) of
    (err, s') \<Rightarrow> err = None \<and> s' = snd (configMapUpdateOrAddIfNotExist yaml cm s) \<and> getBaseModel s' a = b"
proof -
  define s1 where "s1 = snd (configMapUpdateOrAddIfNotExist yaml cm s)"
  note u = update_maps [OF assms(1), of s, folded s1_def]
  have "map_of (configmapAdapters s1) (cm_key empty_configmap) = None"
    using assms(3,4) by (auto simp: u(3) cm_key_def empty_configmap_def)
  then have "Reconcile yaml GetNotFound s1 = (None, s1)"
    by (simp add: Reconcile_def delete_absent)
  moreover have "getBaseModel s1 a = b"
    using assms(2) parseConfigMap_trimmed(1) [OF assms(1,2)] by (simp add: getBaseModel_def u(2) Let_def)
  ultimately show ?thesis by (simp add: s1_def)
qed

theorem reconcile_not_found_keeps_adapters_witness:
  "getBaseModel (snd (Reconcile (\<lambda>raw. Inr [raw]) GetNotFound
     (snd (configMapUpdateOrAddIfNotExist (\<lambda>raw. Inr [raw]) (sample_cm ''a'') NewAdaptersStore)))) ''a'' = ''llama''"
proof -
  have t: "trim_space ''a'' = ''a''" by (simp add: trim_space_def is_space_def)
  show ?thesis
    using reconcile_not_found_keeps_adapters [OF sample_cm_parse(2), of "''a''" "''a''" NewAdaptersStore] t
    by (auto simp: sample_cm_def NewAdaptersStore_def)
qed

end
