(* ===== verification/Request_Plugins.thy ===== *)
theory Request_Plugins
  imports Selection Adapters
begin

text \<open>
  The plugins under \<^verbatim>\<open>plugins/requesthandling\<close> and \<^verbatim>\<open>plugins/responsehandling\<close>: body-field-to-header,
  base-model-to-header, the model-selector request plugin, the single profile picker and
  model-name-to-header. A plugin runs on the state shared with the handler: \<open>'w\<close> (the
  stores and the random source), the request's cycle state, and the message.

  Each is shown to keep the header discipline of \<open>Message\<close>, so the handler's mutation record
  stays faithful whatever plugins a profile runs.
\<close>

type_synonym 'w request_state = "'w \<times> cycle_state \<times> inference_request"

type_synonym 'w response_state = "'w \<times> cycle_state \<times> inference_response"

type_synonym 'w request_plugin = "'w request_state \<Rightarrow> go_error option \<times> 'w request_state"

type_synonym 'w response_plugin = "'w response_state \<Rightarrow> go_error option \<times> 'w response_state"

subsection \<open>Body field to header\<close>

definition BodyFieldToHeaderPluginType :: string where
  "BodyFieldToHeaderPluginType = ''body-field-to-header''"

record body_field_to_header =
  fieldName :: string
  headerName :: string

definition NewBodyFieldToHeaderPlugin :: "string \<Rightarrow> string \<Rightarrow> go_error + body_field_to_header" where
  "NewBodyFieldToHeaderPlugin fld hdr =
     (if fld = [] then
        Inl (PlainErr (''fieldName is required for plugin '' @ single_quoted BodyFieldToHeaderPluginType))
      else if hdr = [] then
        Inl (PlainErr (''headerName is required for plugin '' @ single_quoted BodyFieldToHeaderPluginType))
      else Inr \<lparr>fieldName = fld, headerName = hdr\<rparr>)"

definition BodyFieldToHeaderPluginFactory ::
  "(string \<Rightarrow> go_error + string \<times> string) \<Rightarrow> string \<Rightarrow> go_error + body_field_to_header" where
  "BodyFieldToHeaderPluginFactory decode rawParameters =
     (case (if length rawParameters > 0 then decode rawParameters else Inr ([], [])) of
        Inl e \<Rightarrow> Inl (PlainErr (''failed to parse the parameters of the ''
                   @ single_quoted BodyFieldToHeaderPluginType @ '' plugin - '' @ error_string e))
      | Inr (fld, hdr) \<Rightarrow>
          (case NewBodyFieldToHeaderPlugin fld hdr of
             Inl e \<Rightarrow> Inl (PlainErr (''failed to create '' @ single_quoted BodyFieldToHeaderPluginType
                        @ '' plugin - '' @ error_string e))
           | Inr p \<Rightarrow> Inr p))"

definition BodyFieldToHeader_ProcessRequest ::
  "(real \<Rightarrow> string) \<Rightarrow> body_field_to_header \<Rightarrow> 'w request_plugin" where
  "BodyFieldToHeader_ProcessRequest fmt_num p s =
     (case s of (w, cycleState, request) \<Rightarrow>
        (case jget (Body request) (fieldName p) of
           None \<Rightarrow> (None, s)
         | Some rawFieldValue \<Rightarrow>
             let fieldStr = sprint_v fmt_num rawFieldValue
             in if fieldStr = [] then (None, s)
                else (None, (w, cycleState, SetHeader (headerName p) fieldStr request))))"

subsection \<open>Base model to header\<close>

definition BaseModelHeader :: string where
  "BaseModelHeader = ''X-Gateway-Base-Model-Name''"

text \<open>
  Creating the plugin registers the config map reconciler with the controller manager, which may
  fail (\<open>registerErr\<close>); the plugin starts with an empty adapters store.
\<close>

definition NewBaseModelToHeaderPlugin :: "go_error option \<Rightarrow> go_error + string \<times> adapters_store" where
  "NewBaseModelToHeaderPlugin registerErr =
     (case registerErr of
        Some e \<Rightarrow> Inl (PlainErr (''failed to register configmap reconciler for plugin ''
                   @ single_quoted ''base-model-to-header'' @ '' - '' @ error_string e))
      | None \<Rightarrow> Inr (''base-model-to-header'', NewAdaptersStore))"

definition BaseModelToHeaderPluginFactory ::
  "string \<Rightarrow> go_error option \<Rightarrow> go_error + string \<times> adapters_store" where
  "BaseModelToHeaderPluginFactory name registerErr =
     (case NewBaseModelToHeaderPlugin registerErr of
        Inl e \<Rightarrow> Inl (PlainErr (''failed to create plugin '' @ single_quoted ''base-model-to-header''
                   @ '' - '' @ error_string e))
      | Inr (_, store) \<Rightarrow> Inr (name, store))"

definition BaseModelToHeader_ProcessRequest ::
  "(real \<Rightarrow> string) \<Rightarrow> ('w \<Rightarrow> adapters_store) \<Rightarrow> 'w request_plugin" where
  "BaseModelToHeader_ProcessRequest fmt_num adapters s =
     (case s of (w, cycleState, request) \<Rightarrow>
        (case jget (Body request) ''model'' of
           None \<Rightarrow> (None, s)
         | Some rawFieldValue \<Rightarrow>
             let targetModel = sprint_v fmt_num rawFieldValue;
                 baseModel = getBaseModel (adapters w) targetModel
             in (None, (w, cycleState, SetHeader BaseModelHeader baseModel request))))"

subsection \<open>Model selector\<close>

definition SelectedModelCycleStateKey :: string where
  "SelectedModelCycleStateKey = ''model-selector/selected-model''"

text \<open>
  \<open>models\<close> reads the shared store out of the state; \<open>ord\<close> and \<open>ord'\<close> are the iteration orders of
  the store and of the score map.
\<close>

definition ModelSelector_ProcessRequest ::
  "('w \<Rightarrow> 'd store) \<Rightarrow> ((string \<times> 'd model) list \<Rightarrow> (string \<times> 'd model) list)
     \<Rightarrow> ((string \<times> 'd scored_model) list \<Rightarrow> (string \<times> 'd scored_model) list) \<Rightarrow> ('w, 'd) pipeline
     \<Rightarrow> 'w request_plugin" where
  "ModelSelector_ProcessRequest models ord ord' p s =
     (case s of (w, cycleState, request) \<Rightarrow>
        let candidateModels = GetModels ord AllModelsPredicate (models w)
        in if length candidateModels = 0 then
             (Some (PlainErr ''no candidate models available in datastore''), s)
           else
             (case Select ord' p request candidateModels (w, cycleState) of
                (Inl e, (w', cycleState')) \<Rightarrow> (Some e, (w', cycleState', request))
              | (Inr target, (w', cycleState')) \<Rightarrow>
                  (case SetBodyField ''model'' (JStr (mname target)) request of
                     Inl panic \<Rightarrow> (Some panic, (w', cycleState', request))
                   | Inr request' \<Rightarrow>
                       (None, (w', Write SelectedModelCycleStateKey (JStr (mname target)) cycleState', request')))))"

subsection \<open>Profile picker\<close>

text \<open>\<open>itoa\<close> prints the number of profiles; \<open>'p\<close> is the type of profiles.\<close>

definition SingleProfilePicker_Pick :: "(string, 'p) gomap \<Rightarrow> go_error + 'p" where
  "SingleProfilePicker_Pick profiles =
     (case profiles of
        [(_, profile)] \<Rightarrow> Inr profile
      | _ \<Rightarrow> Inl (PlainErr (''failed to select a single profile from '' @ itoa (length profiles) @ '' profiles'')))"

subsection \<open>Model name to header\<close>

definition ModelNameHeader :: string where
  "ModelNameHeader = ''X-Gateway-Model-Name''"

text \<open>The configured header name, with its default; \<open>decode\<close> is the JSON decoding.\<close>

definition ModelNameToHeaderFactory :: "(string \<Rightarrow> go_error + string) \<Rightarrow> string \<Rightarrow> go_error + string" where
  "ModelNameToHeaderFactory decode rawParameters =
     (case (if length rawParameters > 0 then decode rawParameters else Inr []) of
        Inl e \<Rightarrow> Inl (PlainErr (''failed to parse the parameters of the ''
                   @ single_quoted ''model-name-to-header'' @ '' plugin - '' @ error_string e))
      | Inr hdr \<Rightarrow> Inr (if hdr = [] then ModelNameHeader else hdr))"

definition ModelNameToHeader_ProcessResponseHeaders :: "string \<Rightarrow> 'w response_plugin" where
  "ModelNameToHeader_ProcessResponseHeaders hdr s =
     (case s of (w, cycleState, response) \<Rightarrow>
        (case ReadCycleStateKey_string cycleState SelectedModelCycleStateKey of
           Inl e \<Rightarrow>
             if e = ErrNotFound then (None, s)
             else (Some (PlainErr (''failed to read selected model from CycleState: '' @ error_string e)), s)
         | Inr selectedModel \<Rightarrow> (None, (w, cycleState, SetHeader hdr selectedModel response))))"

subsection \<open>The plugins keep the header discipline\<close>

definition message_of :: "'w \<times> cycle_state \<times> 'a inference_message_scheme \<Rightarrow> 'a inference_message_scheme" where
  "message_of s = snd (snd s)"

interpretation body_field: header_discipline "BodyFieldToHeader_ProcessRequest fmt_num p" message_of
  by unfold_locales
     (auto simp: message_of_def BodyFieldToHeader_ProcessRequest_def Let_def split: prod.splits option.splits)

interpretation base_model: header_discipline "BaseModelToHeader_ProcessRequest fmt_num adapters" message_of
  by unfold_locales
     (auto simp: message_of_def BaseModelToHeader_ProcessRequest_def Let_def split: prod.splits option.splits)

interpretation model_selector: header_discipline "ModelSelector_ProcessRequest models ord ord' p" message_of
  by unfold_locales
     (auto simp: message_of_def ModelSelector_ProcessRequest_def Let_def tracks_SetBodyField
       split: prod.splits sum.splits)

interpretation model_name: header_discipline "ModelNameToHeader_ProcessResponseHeaders hdr" message_of
  by unfold_locales
     (auto simp: message_of_def ModelNameToHeader_ProcessResponseHeaders_def split: prod.splits sum.splits)

interpretation session_response:
  header_discipline "SessionAffinity_ProcessResponse cache_add new_uuid key" message_of
  by unfold_locales
     (auto simp: message_of_def SessionAffinity_ProcessResponse_def Let_def split: prod.splits sum.splits)

subsection \<open>Lemmas\<close>

lemma Select_cases:
  assumes "\<forall>f\<in>set (filters p). model_filter f"
    and "\<forall>x\<in>set (scorers p). model_scorer (fst x) adm"
    and "picker p = Some (n, pick)" and "model_picker pick"
    and "distinct (map mname cands)" and "list_all adm cands" and "perm_of ord" and "cands \<noteq> []"
  shows "(fst (runFilterPlugins p request cands s) = Inr []
      \<and> fst (Select ord p request cands s)
          = Inl (TypedErr ResourceExhausted ''no models available after filtering''))
    \<or> (\<exists>m\<in>set cands. fst (Select ord p request cands s) = Inr m)"
proof (rule Run_cases [OF assms(1,2,5-7), of request s], goal_cases exhausted picked)
  case (exhausted s1)
  then show ?case using assms(8) by (simp add: Select_def)
next
  case (picked ms s1 scored s2)
  from picked(6) have "set (map snd (ord scored)) \<noteq> {}" using picked(2) by simp
  then have "map snd (ord scored) \<noteq> []" by simp
  from model_picker.picker_returns [OF assms(4) this, of s2]
  obtain sm where sm: "sm \<in> set (map snd (ord scored))"
      "fst (pick (map snd (ord scored)) s2) = Inr (Some (Some (sm_model sm)))" by blast
  obtain s3 where "pick (map snd (ord scored)) s2 = (Inr (Some (Some (sm_model sm))), s3)"
    using sm(2) by (cases "pick (map snd (ord scored)) s2") simp
  then have "Select ord p request cands s = (Inr (sm_model sm), s3)"
    using picked(7) assms(3,8) by (simp add: Select_def runPickerPlugin_def)
  moreover have "sm_model sm \<in> set cands" using sm(1) picked(3,6) by auto
  ultimately show ?case by auto
qed

lemma GetModels_distinct_names:
  "perm_of ord \<Longrightarrow> store_ok ds \<Longrightarrow> distinct (map mname (GetModels ord AllModelsPredicate ds))"
  by (rule GetModels_names(2))

lemma GetModels_empty_iff:
  assumes "perm_of ord" and "store_ok ds"
  shows "GetModels ord AllModelsPredicate ds = [] \<longleftrightarrow> model_names ds = {}"
  using GetModels_names(1) [OF assms] by auto

lemma ModelSelector_cases:
  assumes "\<forall>f\<in>set (filters p). model_filter f"
    and "\<forall>x\<in>set (scorers p). model_scorer (fst x) adm"
    and "picker p = Some (n, pick)" and "model_picker pick"
    and "perm_of ord" and "perm_of ord'" and "store_ok (models w)" and "model_names (models w) \<noteq> {}"
    and "list_all adm (GetModels ord AllModelsPredicate (models w))"
    and "Body request = Some body"
  obtains (exhausted) w' c' where
      "ModelSelector_ProcessRequest models ord ord' p (w, c, request)
        = (Some (TypedErr ResourceExhausted ''no models available after filtering''), (w', c', request))"
      "fst (runFilterPlugins p request (GetModels ord AllModelsPredicate (models w)) (w, c)) = Inr []"
    | (selected) name w' c' where "name \<in> model_names (models w)"
      "ModelSelector_ProcessRequest models ord ord' p (w, c, request)
        = (None, (w', Write SelectedModelCycleStateKey (JStr name) c',
             request\<lparr>Body := Some (mput ''model'' (JStr name) body), bodyMutated := True\<rparr>))"
proof -
  let ?cands = "GetModels ord AllModelsPredicate (models w)"
  have ne: "?cands \<noteq> []" using GetModels_empty_iff [OF assms(5,7)] assms(8) by simp
  note sel = Select_cases [OF assms(1-4) GetModels_distinct_names [OF assms(5,7)] assms(9,6) ne, of request "(w, c)"]
  obtain res ws cs where r: "Select ord' p request ?cands (w, c) = (res, (ws, cs))" by (metis surj_pair)
  from sel consider (limit) "res = Inl (TypedErr ResourceExhausted ''no models available after filtering'')"
        "fst (runFilterPlugins p request ?cands (w, c)) = Inr []"
    | (ok) m where "m \<in> set ?cands" "res = Inr m" by (auto simp: r)
  then show thesis
  proof cases
    case limit
    then show thesis using r ne by (intro exhausted) (simp_all add: ModelSelector_ProcessRequest_def Let_def)
  next
    case (ok m)
    have "mname m \<in> model_names (models w)" using ok(1) GetModels_names(1) [OF assms(5,7)] by auto
    moreover have "ModelSelector_ProcessRequest models ord ord' p (w, c, request)
        = (None, (ws, Write SelectedModelCycleStateKey (JStr (mname m)) cs,
             request\<lparr>Body := Some (mput ''model'' (JStr (mname m)) body), bodyMutated := True\<rparr>))"
      using r ne ok(2) assms(10) by (simp add: ModelSelector_ProcessRequest_def Let_def SetBodyField_def)
    ultimately show thesis by (rule selected)
  qed
qed

subsection \<open>Properties\<close>

text \<open>
  The model-selector plugin routes to a registered model. For a request with a JSON object body
  and a pipeline whose plugins keep their contracts, the plugin either fails with the typed 429
  error, because the filters leave no model, and leaves the request alone, or succeeds: the body's model field and the cycle state then
  hold the name of a registered model, the body is marked as changed, the headers are untouched, and
  model-name-to-header later reports that same name to the client.
\<close>

theorem model_selector_routes:
  assumes "\<forall>f\<in>set (filters p). model_filter f"
    and "\<forall>x\<in>set (scorers p). model_scorer (fst x) adm"
    and "picker p = Some (n, pick)" and "model_picker pick"
    and "perm_of ord" and "perm_of ord'" and "store_ok (models w)" and "model_names (models w) \<noteq> {}"
    and "list_all adm (GetModels ord AllModelsPredicate (models w))"
    and "Body request = Some body"
    and "ModelSelector_ProcessRequest models ord ord' p (w, c, request) = (err, (w', c', request'))"
  shows "(err = Some (TypedErr ResourceExhausted ''no models available after filtering'') \<and> request' = request
      \<and> fst (runFilterPlugins p request (GetModels ord AllModelsPredicate (models w)) (w, c)) = Inr [])
    \<or> (err = None \<and> (\<exists>name\<in>model_names (models w).
         jget (Body request') ''model'' = Some (JStr name) \<and> bodyMutated request'
         \<and> Headers request' = Headers request
         \<and> (\<forall>w'' response. ModelNameToHeader_ProcessResponseHeaders hdr (w'', c', response)
               = (None, (w'', c', SetHeader hdr name response)))))"
proof (rule ModelSelector_cases [where models = models and w = w and c = c, OF assms(1-10)])
  fix name w1 c1
  assume "name \<in> model_names (models w)"
    "ModelSelector_ProcessRequest models ord ord' p (w, c, request)
      = (None, (w1, Write SelectedModelCycleStateKey (JStr name) c1,
           request\<lparr>Body := Some (mput ''model'' (JStr name) body), bodyMutated := True\<rparr>))"
  then show ?thesis
    using assms(11) by (intro disjI2 conjI bexI [of _ name]) (auto simp: ModelNameToHeader_ProcessResponseHeaders_def)
qed (use assms(11) in simp)

theorem model_selector_routes_witness:
  "\<exists>w' c' request'. ModelSelector_ProcessRequest (\<lambda>_. [(''a'', NewModel ''a''), (''b'', NewModel ''b'')]) rev rev
      sample_pipeline ((), [], NewInferenceRequest\<lparr>Body := Some [(''model'', JStr ''auto'')]\<rparr>)
    = (None, (w', c', request'))
    \<and> jget (Body request') ''model'' \<in> {Some (JStr ''a''), Some (JStr ''b'')}"
proof -
  define ds :: "unit store" where "ds = [(''a'', NewModel ''a''), (''b'', NewModel ''b'')]"
  define req where "req = NewInferenceRequest\<lparr>Body := Some [(''model'', JStr ''auto'')]\<rparr>"
  have ds: "store_ok ds" "model_names ds = {''a'', ''b''}"
      "GetModels rev AllModelsPredicate ds = [NewModel ''b'', NewModel ''a'']"
    by (auto simp: ds_def store_ok_def model_names_def GetModels_def AllModelsPredicate_def split: if_splits)
  have f: "fst (runFilterPlugins sample_pipeline req [NewModel ''b'', NewModel ''a''] ((), [])) \<noteq> Inr []"
    by (simp add: runFilterPlugins_def sample_pipeline_def ModelGroupFilter_Filter_def ModelGroupFilter_models_def
        requested_model_def group_name_defs req_def)
  obtain err w' c' request' where run: "ModelSelector_ProcessRequest (\<lambda>_. ds) rev rev sample_pipeline ((), [], req)
      = (err, (w', c', request'))" by (metis surj_pair)
  have "Body req = Some [(''model'', JStr ''auto'')]" by (simp add: req_def)
  from model_selector_routes [OF sample_pipeline_contracts maxscore.model_picker_axioms perm_of_rev perm_of_rev
      ds(1) _ _ this run, of "''x''"] f ds(2,3)
  show ?thesis unfolding ds_def [symmetric] req_def [symmetric] run by auto
qed

end
