(* ===== verification/Sse.thy ===== *)
theory Sse
  imports Go_Json
begin

text \<open>
  Reconstruction of a response body from a server-sent event stream
  (\<^verbatim>\<open>parseSSEResponseBody\<close> in \<^verbatim>\<open>pkg/handlers/response.go\<close>): the \<^verbatim>\<open>data:\<close> lines are decoded one
  by one, and their model, usage, text and stop reason are merged into one map for the response
  plugins and the response event. The JSON decoder is the argument \<open>parse\<close>; the keys of a decoded
  object are distinct, so the iteration order of the usage merge does not matter.
\<close>

subsection \<open>The model\<close>

record sse_state =
  sse_result :: json_map
  contentBuilder :: string
  stopReason :: string

definition newline :: char where
  "newline = CHR 0x0A"

text \<open>\<^verbatim>\<open>if m, ok := v["model"].(string); ok && m != "" { result["model"] = m }\<close>\<close>

definition put_model :: "json_mapvar \<Rightarrow> sse_state \<Rightarrow> sse_state" where
  "put_model v st =
     (case as_string (jget v ''model'') of
        Some m \<Rightarrow> if m \<noteq> [] then st\<lparr>sse_result := mput ''model'' (JStr m) (sse_result st)\<rparr> else st
      | None \<Rightarrow> st)"

text \<open>\<^verbatim>\<open>if t, ok := v[k].(string); ok { contentBuilder.WriteString(t) }\<close>\<close>

definition put_text :: "string \<Rightarrow> json_map \<Rightarrow> sse_state \<Rightarrow> sse_state" where
  "put_text k v st =
     (case as_string (map_of v k) of
        Some t \<Rightarrow> st\<lparr>contentBuilder := contentBuilder st @ t\<rparr> | None \<Rightarrow> st)"

definition put_stop :: "string \<Rightarrow> json_mapvar \<Rightarrow> sse_state \<Rightarrow> sse_state" where
  "put_stop k v st =
     (case as_string (jget v k) of
        Some r \<Rightarrow> if r \<noteq> [] then st\<lparr>stopReason := r\<rparr> else st | None \<Rightarrow> st)"

definition sse_delta :: "json_mapvar \<Rightarrow> sse_state \<Rightarrow> sse_state" where
  "sse_delta event st =
     (case as_map (jget event ''delta'') of
        Some delta \<Rightarrow> put_stop ''stop_reason'' (Some delta) (put_text ''text'' delta st)
      | None \<Rightarrow> st)"

definition sse_message :: "json_mapvar \<Rightarrow> sse_state \<Rightarrow> sse_state" where
  "sse_message event st =
     (case as_map (jget event ''message'') of Some msg \<Rightarrow> put_model (Some msg) st | None \<Rightarrow> st)"

definition sse_choice :: "json \<Rightarrow> sse_state \<Rightarrow> sse_state" where
  "sse_choice c st =
     (let choice = as_map (Some c);
          st1 = (case as_map (jget choice ''delta'') of Some d \<Rightarrow> put_text ''content'' d st | None \<Rightarrow> st)
      in put_stop ''finish_reason'' choice st1)"

definition sse_choices :: "json_mapvar \<Rightarrow> sse_state \<Rightarrow> sse_state" where
  "sse_choices event st =
     (case as_slice (jget event ''choices'') of Some cs \<Rightarrow> fold sse_choice cs st | None \<Rightarrow> st)"

definition merge_usage :: "json_map \<Rightarrow> sse_state \<Rightarrow> sse_state" where
  "merge_usage usage st =
     (let existing = (case as_map (map_of (sse_result st) ''usage'') of None \<Rightarrow> [] | Some u \<Rightarrow> u)
      in st\<lparr>sse_result := mput ''usage'' (JObj (fold (\<lambda>(k, v). mput k v) usage existing)) (sse_result st)\<rparr>)"

definition sse_usage :: "json_mapvar \<Rightarrow> sse_state \<Rightarrow> sse_state" where
  "sse_usage event st =
     (case as_map (jget event ''usage'') of
        Some usage \<Rightarrow> merge_usage usage st
      | None \<Rightarrow>
          (case as_map (jget event ''response'') of
             None \<Rightarrow> st
           | Some resp \<Rightarrow>
               (let st1 = put_model (Some resp) st
                in case as_map (map_of resp ''usage'') of
                     Some usage \<Rightarrow> merge_usage usage st1 | None \<Rightarrow> st1)))"

definition sse_event :: "json_mapvar \<Rightarrow> sse_state \<Rightarrow> sse_state" where
  "sse_event event st =
     sse_usage event (sse_choices event (sse_message event (sse_delta event (put_model event st))))"

text \<open>The data of one line; \<open>None\<close> when the line is skipped.\<close>

definition sse_data :: "string \<Rightarrow> string option" where
  "sse_data line0 =
     (let line = trim_space line0; data = trim_space (drop 5 line)
      in if \<not> has_prefix line ''data:'' then None
         else if data = [] \<or> data = ''[DONE]'' then None
         else Some data)"

definition sse_line :: "json_parser \<Rightarrow> string \<Rightarrow> sse_state \<Rightarrow> sse_state" where
  "sse_line parse line st =
     (case sse_data line of
        None \<Rightarrow> st
      | Some data \<Rightarrow>
          (case unmarshal_map parse data None of None \<Rightarrow> st | Some event \<Rightarrow> sse_event event st))"

text \<open>
  \<^verbatim>\<open>result[k] == nil\<close> holds for a missing key and for a null. The branch for \<^verbatim>\<open>choices\<close> leaves
  the result alone.
\<close>

definition put_default :: "string \<Rightarrow> json \<Rightarrow> json_map \<Rightarrow> json_map" where
  "put_default k v r = (case map_of r k of None \<Rightarrow> mput k v r | Some JNull \<Rightarrow> mput k v r | _ \<Rightarrow> r)"

definition sse_finish :: "sse_state \<Rightarrow> json_mapvar" where
  "sse_finish st =
     (let r = sse_result st;
          r1 = (if contentBuilder st = [] then r
                else if map_of r ''choices'' \<noteq> None then r
                else put_default ''role'' (JStr ''assistant'')
                       (put_default ''type'' (JStr ''message'')
                          (mput ''content''
                             (JArr [JObj [(''type'', JStr ''text''), (''text'', JStr (contentBuilder st))]]) r)))
      in if r = [] then None
         else if stopReason st \<noteq> [] then Some (mput ''stop_reason'' (JStr (stopReason st)) r1) else Some r1)"

definition parseSSEResponseBody :: "json_parser \<Rightarrow> string \<Rightarrow> json_mapvar" where
  "parseSSEResponseBody parse body =
     sse_finish (fold (sse_line parse) (split_on newline body)
       \<lparr>sse_result = [], contentBuilder = [], stopReason = []\<rparr>)"

subsection \<open>What the stream says\<close>

text \<open>The decoded events of a stream, and what each of them says.\<close>

definition sse_events :: "json_parser \<Rightarrow> string \<Rightarrow> json_mapvar list" where
  "sse_events parse body =
     List.map_filter (\<lambda>data. unmarshal_map parse data None) (List.map_filter sse_data (split_on newline body))"

definition nonempty_strings :: "json option list \<Rightarrow> string list" where
  "nonempty_strings xs = filter (\<lambda>s. s \<noteq> []) (List.map_filter as_string xs)"

definition texts_of :: "json option list \<Rightarrow> string" where
  "texts_of xs = concat (List.map_filter as_string xs)"

definition usage_says :: "json_mapvar \<Rightarrow> json_map option" where
  "usage_says e =
     (case as_map (jget e ''usage'') of Some u \<Rightarrow> Some u
      | None \<Rightarrow> as_map (jget (as_map (jget e ''response'')) ''usage''))"

definition models_say :: "json_mapvar \<Rightarrow> string list" where
  "models_say e = nonempty_strings
     (jget e ''model'' # jget (as_map (jget e ''message'')) ''model''
      # (if as_map (jget e ''usage'') = None then [jget (as_map (jget e ''response'')) ''model''] else []))"

definition choices_of :: "json_mapvar \<Rightarrow> json list" where
  "choices_of e = (case as_slice (jget e ''choices'') of None \<Rightarrow> [] | Some cs \<Rightarrow> cs)"

definition texts_say :: "json_mapvar \<Rightarrow> string" where
  "texts_say e = texts_of
     (jget (as_map (jget e ''delta'')) ''text''
      # map (\<lambda>c. jget (as_map (jget (as_map (Some c)) ''delta'')) ''content'') (choices_of e))"

definition stops_say :: "json_mapvar \<Rightarrow> string list" where
  "stops_say e = nonempty_strings
     (jget (as_map (jget e ''delta'')) ''stop_reason''
      # map (\<lambda>c. jget (as_map (Some c)) ''finish_reason'') (choices_of e))"

definition last_or_empty :: "string list \<Rightarrow> string" where
  "last_or_empty xs = (if xs = [] then [] else last xs)"

definition usages_say :: "json_mapvar \<Rightarrow> json_map list" where
  "usages_say e = (case usage_says e of None \<Rightarrow> [] | Some u \<Rightarrow> [u])"

text \<open>Usage objects merged in order: a later entry replaces an earlier one of the same key.\<close>

definition merged :: "json_map list \<Rightarrow> string \<rightharpoonup> json" where
  "merged us = fold (\<lambda>u m. m ++ map_of (rev u)) us Map.empty"

subsection \<open>The loop collects what the events say\<close>

definition result_spec :: "string list \<Rightarrow> json_map list \<Rightarrow> json_map \<Rightarrow> string \<rightharpoonup> json" where
  "result_spec ms us u k =
     (if k = ''model'' \<and> ms \<noteq> [] then Some (JStr (last ms))
      else if k = ''usage'' \<and> us \<noteq> [] then Some (JObj u) else None)"

definition collected :: "string list \<Rightarrow> json_map list \<Rightarrow> string \<Rightarrow> string list \<Rightarrow> sse_state \<Rightarrow> bool" where
  "collected ms us t ss st \<longleftrightarrow>
     (\<exists>u. map_of u = merged us \<and> map_of (sse_result st) = result_spec ms us u)
     \<and> contentBuilder st = t \<and> stopReason st = last_or_empty ss"

lemma nonempty_strings_simps [simp]:
  "nonempty_strings [] = []"
  "nonempty_strings (x # xs) =
     (case as_string x of None \<Rightarrow> [] | Some s \<Rightarrow> if s = [] then [] else [s]) @ nonempty_strings xs"
  by (auto simp: nonempty_strings_def List.map_filter_simps split: option.split)

lemma texts_of_simps [simp]:
  "texts_of [] = []"
  "texts_of (x # xs) = (case as_string x of None \<Rightarrow> [] | Some s \<Rightarrow> s) @ texts_of xs"
  by (simp_all add: texts_of_def List.map_filter_simps split: option.split)

lemma nonempty_strings_nonempty: "s \<in> set (nonempty_strings xs) \<Longrightarrow> s \<noteq> []"
  by (simp add: nonempty_strings_def)

lemma map_of_fold_mput: "map_of (fold (\<lambda>(k, v). mput k v) u m) = map_of m ++ map_of (rev u)"
proof (induction u arbitrary: m)
  case (Cons x u)
  then show ?case by (cases x) (simp add: fun_eq_iff map_add_def split: option.split)
qed simp

lemma collected_put_model:
  assumes "collected ms us t ss st"
  shows "collected (ms @ nonempty_strings [jget v ''model'']) us t ss (put_model v st)"
  using assms unfolding collected_def put_model_def
  by (auto simp: AList.update_conv' result_spec_def fun_eq_iff split: option.split)

lemma collected_put_text:
  assumes "collected ms us t ss st"
  shows "collected ms us (t @ texts_of [map_of v k]) ss (put_text k v st)"
  using assms unfolding collected_def put_text_def
  by (auto split: option.split)

lemma collected_put_stop:
  assumes "collected ms us t ss st"
  shows "collected ms us t (ss @ nonempty_strings [jget v k]) (put_stop k v st)"
  using assms unfolding collected_def put_stop_def
  by (auto simp: last_or_empty_def split: option.split)

lemma collected_merge_usage:
  assumes "collected ms us t ss st"
  shows "collected ms (us @ [u]) t ss (merge_usage u st)"
proof -
  obtain v where v: "map_of v = merged us" "map_of (sse_result st) = result_spec ms us v"
    using assms by (auto simp: collected_def)
  define w where "w = fold (\<lambda>(k, x). mput k x) u (if us = [] then [] else v)"
  have "map_of w = merged (us @ [u])"
    using v(1) by (auto simp: w_def map_of_fold_mput merged_def)
  moreover have "map_of (sse_result (merge_usage u st)) = result_spec ms (us @ [u]) w"
    using v(2) by (auto simp: merge_usage_def AList.update_conv' result_spec_def w_def fun_eq_iff)
  ultimately show ?thesis
    using assms by (auto simp: collected_def merge_usage_def)
qed

lemma collected_choice:
  assumes "collected ms us t ss st"
  shows "collected ms us
      (t @ texts_of [jget (as_map (jget (as_map (Some c)) ''delta'')) ''content''])
      (ss @ nonempty_strings [jget (as_map (Some c)) ''finish_reason'']) (sse_choice c st)"
proof -
  define d where "d = as_map (jget (as_map (Some c)) ''delta'')"
  define st1 where "st1 = (case d of Some x \<Rightarrow> put_text ''content'' x st | None \<Rightarrow> st)"
  have "collected ms us (t @ texts_of [jget d ''content'']) ss st1"
    using assms collected_put_text [OF assms]
    by (cases d) (auto simp: st1_def)
  from collected_put_stop [OF this] show ?thesis
    by (simp add: sse_choice_def Let_def d_def st1_def)
qed

lemma collected_choices:
  assumes "collected ms us t ss st"
  shows "collected ms us
      (t @ texts_of (map (\<lambda>c. jget (as_map (jget (as_map (Some c)) ''delta'')) ''content'') cs))
      (ss @ nonempty_strings (map (\<lambda>c. jget (as_map (Some c)) ''finish_reason'') cs)) (fold sse_choice cs st)"
  using assms
proof (induction cs arbitrary: t ss st)
  case Nil
  then show ?case by simp
next
  case (Cons c cs)
  from Cons.IH [OF collected_choice [OF Cons.prems, of c]] show ?case
    by simp
qed

lemma collected_delta:
  assumes "collected ms us t ss st"
  shows "collected ms us (t @ texts_of [jget (as_map (jget e ''delta'')) ''text''])
      (ss @ nonempty_strings [jget (as_map (jget e ''delta'')) ''stop_reason'']) (sse_delta e st)"
proof (cases "as_map (jget e ''delta'')")
  case None
  then show ?thesis using assms by (simp add: sse_delta_def)
next
  case (Some d)
  have "sse_delta e st = put_stop ''stop_reason'' (Some d) (put_text ''text'' d st)"
    using Some unfolding sse_delta_def by (simp only: option.case)
  moreover note collected_put_stop [OF collected_put_text [OF assms, of d "''text''"], of "Some d" "''stop_reason''"]
  ultimately show ?thesis unfolding Some by (simp only: jget_Some)
qed

lemma collected_message:
  assumes "collected ms us t ss st"
  shows "collected (ms @ nonempty_strings [jget (as_map (jget e ''message'')) ''model'']) us t ss (sse_message e st)"
proof (cases "as_map (jget e ''message'')")
  case None
  then show ?thesis using assms by (simp add: sse_message_def)
next
  case (Some m)
  have "sse_message e st = put_model (Some m) st"
    using Some unfolding sse_message_def by (simp only: option.case)
  then show ?thesis unfolding Some using collected_put_model [OF assms, of "Some m"] by (simp only:)
qed

lemma collected_usage:
  assumes "collected ms us t ss st"
  shows "collected
      (ms @ nonempty_strings
        (if as_map (jget e ''usage'') = None then [jget (as_map (jget e ''response'')) ''model''] else []))
      (us @ usages_say e) t ss (sse_usage e st)"
proof (cases "as_map (jget e ''usage'')")
  case (Some u)
  then show ?thesis
    using collected_merge_usage [OF assms, of u] by (simp add: sse_usage_def usages_say_def usage_says_def)
next
  case None
  show ?thesis
  proof (cases "as_map (jget e ''response'')")
    case None
    then show ?thesis
      using assms \<open>as_map (jget e ''usage'') = None\<close>
      by (simp add: sse_usage_def usages_say_def usage_says_def)
  next
    case (Some r)
    note m = collected_put_model [OF assms, of "Some r"]
    have "sse_usage e st = (case as_map (map_of r ''usage'') of
        Some usage \<Rightarrow> merge_usage usage (put_model (Some r) st) | None \<Rightarrow> put_model (Some r) st)"
      using None Some by (simp add: sse_usage_def Let_def)
    moreover have "usages_say e = (case as_map (map_of r ''usage'') of Some u \<Rightarrow> [u] | None \<Rightarrow> [])"
      using None Some by (simp add: usages_say_def usage_says_def split: option.split)
    ultimately show ?thesis
      using m collected_merge_usage [OF m] None Some
      by (cases "as_map (map_of r ''usage'')") (simp_all del: nonempty_strings_simps)
  qed
qed

lemma collected_event:
  assumes "collected ms us t ss st"
  shows "collected (ms @ models_say e) (us @ usages_say e) (t @ texts_say e) (ss @ stops_say e) (sse_event e st)"
proof -
  note step = collected_message [OF collected_delta [OF collected_put_model [OF assms, of e], of e], of e]
  have "sse_choices e x = fold sse_choice (choices_of e) x" for x
    by (simp add: sse_choices_def choices_of_def split: option.split)
  then show ?thesis
    using collected_usage [OF collected_choices [OF step, of "choices_of e"], of e]
    by (simp add: sse_event_def models_say_def texts_say_def stops_say_def)
qed

lemma collected_lines:
  assumes "collected ms us t ss st"
    and "evs = List.map_filter (\<lambda>data. unmarshal_map parse data None) (List.map_filter sse_data ls)"
  shows "collected (ms @ concat (map models_say evs)) (us @ concat (map usages_say evs))
      (t @ concat (map texts_say evs)) (ss @ concat (map stops_say evs)) (fold (sse_line parse) ls st)"
  using assms
proof (induction ls arbitrary: ms us t ss st evs)
  case Nil
  then show ?case by (simp add: List.map_filter_simps)
next
  case (Cons l ls)
  define rest where
    "rest = List.map_filter (\<lambda>data. unmarshal_map parse data None) (List.map_filter sse_data ls)"
  show ?case
  proof (cases "Option.bind (sse_data l) (\<lambda>data. unmarshal_map parse data None)")
    case None
    then have "evs = rest" "sse_line parse l st = st"
      using Cons.prems(2) by (auto simp: rest_def sse_line_def List.map_filter_simps split: option.splits)
    then show ?thesis
      using Cons.IH [OF Cons.prems(1) rest_def] by simp
  next
    case (Some e)
    then have "evs = e # rest" "sse_line parse l st = sse_event e st"
      using Cons.prems(2) by (auto simp: rest_def sse_line_def List.map_filter_simps split: option.splits)
    then show ?thesis
      using Cons.IH [OF collected_event [OF Cons.prems(1), of e] rest_def] by simp
  qed
qed

lemma collected_body:
  assumes "evs = sse_events parse body"
  shows "collected (concat (map models_say evs)) (concat (map usages_say evs)) (concat (map texts_say evs))
      (concat (map stops_say evs))
      (fold (sse_line parse) (split_on newline body) \<lparr>sse_result = [], contentBuilder = [], stopReason = []\<rparr>)"
proof -
  have "collected [] [] [] [] \<lparr>sse_result = [], contentBuilder = [], stopReason = []\<rparr>"
    by (auto simp: collected_def merged_def result_spec_def last_or_empty_def fun_eq_iff intro: exI [of _ "[]"])
  from collected_lines [OF this assms [unfolded sse_events_def]] show ?thesis
    by simp
qed

lemma stops_nonempty: "s \<in> set (concat (map stops_say evs)) \<Longrightarrow> s \<noteq> []"
  by (auto simp: stops_say_def simp del: nonempty_strings_simps dest: nonempty_strings_nonempty)

lemma last_or_empty_stops: "last_or_empty (concat (map stops_say evs)) = [] \<longleftrightarrow> concat (map stops_say evs) = []"
  using stops_nonempty [OF last_in_set, of evs]
  by (simp add: last_or_empty_def del: concat_eq_Nil_conv)

text \<open>The keys of the finished body, from what was collected.\<close>

lemma sse_finish_collected:
  assumes "collected ms us t ss st" and "last_or_empty ss = [] \<longleftrightarrow> ss = []"
  shows "case sse_finish st of
           None \<Rightarrow> ms = [] \<and> us = []
         | Some r \<Rightarrow> \<not> (ms = [] \<and> us = [])
             \<and> map_of r ''model'' = (if ms = [] then None else Some (JStr (last ms)))
             \<and> (if us = [] then map_of r ''usage'' = None
                else \<exists>u. map_of r ''usage'' = Some (JObj u) \<and> map_of u = merged us)
             \<and> map_of r ''content'' = (if t = [] then None
                 else Some (JArr [JObj [(''type'', JStr ''text''), (''text'', JStr t)]]))
             \<and> map_of r ''stop_reason'' = (if ss = [] then None else Some (JStr (last ss)))
             \<and> map_of r ''choices'' = None"
proof -
  obtain u where u: "map_of u = merged us" "map_of (sse_result st) = result_spec ms us u"
    using assms by (auto simp: collected_def)
  have t: "contentBuilder st = t" and s: "stopReason st = last_or_empty ss"
    using assms by (auto simp: collected_def)
  have r: "sse_result st = [] \<longleftrightarrow> ms = [] \<and> us = []"
  proof
    assume "sse_result st = []"
    then have "result_spec ms us u ''model'' = None" "result_spec ms us u ''usage'' = None"
      using u(2) by (metis map_of.simps(1))+
    then show "ms = [] \<and> us = []" by (auto simp: result_spec_def split: if_splits)
  next
    assume "ms = [] \<and> us = []"
    then have "map_of (sse_result st) = Map.empty" using u(2) by (auto simp: result_spec_def)
    then show "sse_result st = []" by simp
  qed
  have s': "stopReason st = (if ss = [] then [] else last ss)"
    using s by (simp add: last_or_empty_def)
  show ?thesis
    using u r t s s' assms(2)
    by (auto simp: sse_finish_def Let_def put_default_def AList.update_conv' result_spec_def
        split: option.splits json.splits if_splits)
qed

subsection \<open>Property\<close>

text \<open>
  C31: the reconstructed body says what the stream says. There is a body exactly when some event names
  a model or carries a usage object; its model is the last one named, its usage is all usage objects
  merged with later entries winning, its content is one text block with all text pieces in order
  (none when there is no text), its stop reason the last one given. Lines that are not data, empty
  data, the closing marker and data that does not decode contribute nothing, and the result never has
  a \<^verbatim>\<open>choices\<close> field.
\<close>

theorem sse_body_reconstructed:
  "case parseSSEResponseBody parse body of
     None \<Rightarrow> concat (map models_say (sse_events parse body)) = []
           \<and> concat (map usages_say (sse_events parse body)) = []
   | Some r \<Rightarrow>
       (let ms = concat (map models_say (sse_events parse body));
            us = concat (map usages_say (sse_events parse body));
            t = concat (map texts_say (sse_events parse body));
            ss = concat (map stops_say (sse_events parse body))
        in \<not> (ms = [] \<and> us = [])
           \<and> map_of r ''model'' = (if ms = [] then None else Some (JStr (last ms)))
           \<and> (if us = [] then map_of r ''usage'' = None
              else \<exists>u. map_of r ''usage'' = Some (JObj u) \<and> map_of u = merged us)
           \<and> map_of r ''content'' = (if t = [] then None
               else Some (JArr [JObj [(''type'', JStr ''text''), (''text'', JStr t)]]))
           \<and> map_of r ''stop_reason'' = (if ss = [] then None else Some (JStr (last ss)))
           \<and> map_of r ''choices'' = None)"
  unfolding parseSSEResponseBody_def Let_def
  by (rule sse_finish_collected [OF collected_body [OF refl] last_or_empty_stops])

end
