(* ===== verification/Events.thy ===== *)
theory Events
  imports Message Datastore
begin

text \<open>
  The events of the data layer (\<^verbatim>\<open>datalayer/types.go\<close>, \<^verbatim>\<open>datasource/types.go\<close>) and the contract of
  an extractor: a batch of events is folded into the extractor's state and the shared store.
\<close>

definition RequestEventType :: string where
  "RequestEventType = ''request''"

definition ResponseEventType :: string where
  "ResponseEventType = ''response''"

text \<open>The dynamic type of an event's payload; any other value is \<open>OtherPayload\<close>.\<close>

datatype payload =
    RequestPayload inference_request cycle_state
  | ResponsePayload inference_request inference_response cycle_state duration duration
  | OtherPayload

record event =
  ev_Type :: string
  ev_Payload :: payload

lemma event_types_distinct [simp]:
  "RequestEventType \<noteq> ResponseEventType" "ResponseEventType \<noteq> RequestEventType"
  by (simp_all add: RequestEventType_def ResponseEventType_def)

text \<open>A sequence of events handed to one extractor, one at a time.\<close>

definition deliver :: "(event list \<Rightarrow> 's \<Rightarrow> go_error option \<times> 's) \<Rightarrow> event list \<Rightarrow> 's \<Rightarrow> 's" where
  "deliver extract_batch evs s = fold (\<lambda>e s. snd (extract_batch [e] s)) evs s"

lemma deliver_Nil [simp]: "deliver x [] s = s"
  by (simp add: deliver_def)

lemma deliver_append: "deliver x (es @ es') s = deliver x es' (deliver x es s)"
  by (simp add: deliver_def)

lemma deliver_snoc: "deliver x (es @ [e]) s = snd (x [e] (deliver x es s))"
  by (simp add: deliver_def)

text \<open>
  The contract the event loop relies on: an extractor never reports an error, and what it
  keeps true of its state and the store for one batch, it keeps true for every sequence of
  events the loop delivers.
\<close>

locale extractor_contract =
  fixes extract_batch :: "event list \<Rightarrow> 's \<Rightarrow> go_error option \<times> 's"
    and good :: "'s \<Rightarrow> bool"
  assumes extract_keeps: "good s \<Longrightarrow> good (snd (extract_batch evs s))"
    and extract_succeeds: "fst (extract_batch evs s) = None"
begin

lemma deliver_keeps: "good s \<Longrightarrow> good (deliver extract_batch evs s)"
  by (induction evs rule: rev_induct) (simp_all add: deliver_snoc extract_keeps)

end

end
