(* ===== verification/Metrics.thy ===== *)
theory Metrics
  imports Go_Prelude Complex_Main
begin

text \<open>
  The metrics of \<^verbatim>\<open>pkg/metrics/metrics.go\<close> as a state: a counter vector is a map from label values to its
  count, a histogram vector a map from label values to the seconds observed, oldest first. The
  handlers do not touch this state themselves; they list the calls they make (\<open>metric\<close>), and
  \<open>record_metric\<close> carries one out. The Prometheus registry is the list of registered collectors.
\<close>

subsection \<open>State\<close>

datatype metric =
    SuccessCounter
  | BodyFieldNotFound string
  | BodyFieldEmpty string
  | PluginProcessingLatency string string string duration
  | ModelSelectorE2ELatency duration
  | ModelSelectorAttempt "go_error option"
  | RequestTTFT string duration
  | IPPInfo string string

record metrics_state =
  ippInfo :: "(string \<times> string, real) gomap"
  successCounter :: nat
  bodyFieldNotFoundCounter :: "(string, nat) gomap"
  bodyFieldEmptyCounter :: "(string, nat) gomap"
  pluginProcessingLatencies :: "(string \<times> string \<times> string, real list) gomap"
  modelSelectorE2ELatency :: "real list"
  modelSelectorAttemptTotal :: "(string, nat) gomap"
  requestTTFT :: "(string, real list) gomap"

definition no_metrics :: metrics_state where
  "no_metrics =
     \<lparr>ippInfo = [], successCounter = 0, bodyFieldNotFoundCounter = [], bodyFieldEmptyCounter = [],
      pluginProcessingLatencies = [], modelSelectorE2ELatency = [], modelSelectorAttemptTotal = [], requestTTFT = []\<rparr>"

text \<open>\<^verbatim>\<open>WithLabelValues(l).Inc()\<close> and \<^verbatim>\<open>WithLabelValues(l).Observe(x)\<close>.\<close>

definition inc :: "'l \<Rightarrow> ('l, nat) gomap \<Rightarrow> ('l, nat) gomap" where
  "inc l m = mput l (mget_zero 0 m l + 1) m"

definition observe :: "'l \<Rightarrow> real \<Rightarrow> ('l, real list) gomap \<Rightarrow> ('l, real list) gomap" where
  "observe l x m = mput l (mget_zero [] m l @ [x]) m"

text \<open>\<^verbatim>\<open>duration.Seconds()\<close>.\<close>

definition seconds :: "duration \<Rightarrow> real" where
  "seconds d = real_of_int d / 1000000000"

definition HelpMsgWithStability :: "string \<Rightarrow> string \<Rightarrow> string" where
  "HelpMsgWithStability msg stability = ''['' @ stability @ ''] '' @ msg"

subsection \<open>Recording\<close>

definition RecordIPPInfo :: "string \<Rightarrow> string \<Rightarrow> metrics_state \<Rightarrow> metrics_state" where
  "RecordIPPInfo commitSha buildRef s = s\<lparr>ippInfo := mput (commitSha, buildRef) 1 (ippInfo s)\<rparr>"

definition RecordSuccessCounter :: "metrics_state \<Rightarrow> metrics_state" where
  "RecordSuccessCounter s = s\<lparr>successCounter := successCounter s + 1\<rparr>"

definition RecordBodyFieldNotFound :: "string \<Rightarrow> metrics_state \<Rightarrow> metrics_state" where
  "RecordBodyFieldNotFound fieldName s = s\<lparr>bodyFieldNotFoundCounter := inc fieldName (bodyFieldNotFoundCounter s)\<rparr>"

definition RecordBodyFieldEmpty :: "string \<Rightarrow> metrics_state \<Rightarrow> metrics_state" where
  "RecordBodyFieldEmpty fieldName s = s\<lparr>bodyFieldEmptyCounter := inc fieldName (bodyFieldEmptyCounter s)\<rparr>"

definition RecordPluginProcessingLatency ::
  "string \<Rightarrow> string \<Rightarrow> string \<Rightarrow> duration \<Rightarrow> metrics_state \<Rightarrow> metrics_state" where
  "RecordPluginProcessingLatency extensionPoint pluginType pluginName d s =
     s\<lparr>pluginProcessingLatencies :=
         observe (extensionPoint, pluginType, pluginName) (seconds d) (pluginProcessingLatencies s)\<rparr>"

definition RecordModelSelectorE2ELatency :: "duration \<Rightarrow> metrics_state \<Rightarrow> metrics_state" where
  "RecordModelSelectorE2ELatency d s = s\<lparr>modelSelectorE2ELatency := modelSelectorE2ELatency s @ [seconds d]\<rparr>"

definition RecordRequestTTFT :: "string \<Rightarrow> duration \<Rightarrow> metrics_state \<Rightarrow> metrics_state" where
  "RecordRequestTTFT model d s = s\<lparr>requestTTFT := observe model (seconds d) (requestTTFT s)\<rparr>"

definition RecordModelSelectorAttempt :: "go_error option \<Rightarrow> metrics_state \<Rightarrow> metrics_state" where
  "RecordModelSelectorAttempt err s =
     (if err \<noteq> None then s\<lparr>modelSelectorAttemptTotal := inc ''failure'' (modelSelectorAttemptTotal s)\<rparr>
      else s\<lparr>modelSelectorAttemptTotal := inc ''success'' (modelSelectorAttemptTotal s)\<rparr>)"

fun record_metric :: "metric \<Rightarrow> metrics_state \<Rightarrow> metrics_state" where
  "record_metric SuccessCounter = RecordSuccessCounter"
| "record_metric (BodyFieldNotFound f) = RecordBodyFieldNotFound f"
| "record_metric (BodyFieldEmpty f) = RecordBodyFieldEmpty f"
| "record_metric (PluginProcessingLatency e t n d) = RecordPluginProcessingLatency e t n d"
| "record_metric (ModelSelectorE2ELatency d) = RecordModelSelectorE2ELatency d"
| "record_metric (ModelSelectorAttempt err) = RecordModelSelectorAttempt err"
| "record_metric (RequestTTFT m d) = RecordRequestTTFT m d"
| "record_metric (IPPInfo c b) = RecordIPPInfo c b"

lemmas record_defs = RecordIPPInfo_def RecordSuccessCounter_def RecordBodyFieldNotFound_def RecordBodyFieldEmpty_def
  RecordPluginProcessingLatency_def RecordModelSelectorE2ELatency_def RecordRequestTTFT_def RecordModelSelectorAttempt_def

subsection \<open>Registration\<close>

text \<open>What a collector is built from; a counter and a gauge have no buckets.\<close>

record collector =
  c_name :: string
  c_help :: string
  c_buckets :: "real list"
  c_labels :: "string list"

definition component :: string where
  "component = ''ipp''"

definition latency_buckets :: "real list" where
  "latency_buckets = [1/10000, 2/10000, 5/10000, 1/1000, 2/1000, 5/1000, 1/100, 2/100, 5/100, 1/10]"

definition collector_vec :: "string \<Rightarrow> string \<Rightarrow> real list \<Rightarrow> string list \<Rightarrow> collector" where
  "collector_vec n help buckets labels = \<lparr>c_name = component @ ''_'' @ n, c_help = HelpMsgWithStability help ''ALPHA'',
     c_buckets = buckets, c_labels = labels\<rparr>"

text \<open>In the order they are registered.\<close>

definition all_collectors :: "collector list" where
  "all_collectors =
     [collector_vec ''info'' ''General information of the current build of IPP.'' [] [''commit'', ''build_ref''],
      collector_vec ''success_total'' ''Count of time the request was processed successfully.'' [] [],
      collector_vec ''body_field_not_found_total'' (''Count of times a field wasn'' @ [CHR 0x27] @ ''t found in a request body.'') [] [''field''],
      collector_vec ''body_field_empty_total'' ''Count of times a field was found in a request body but was empty.'' [] [''field''],
      collector_vec ''plugin_duration_seconds'' ''Plugin processing latency distribution in seconds for each extension point, plugin type and plugin name.''
        latency_buckets [''extension_point'', ''plugin_type'', ''plugin_name''],
      collector_vec ''model_selector_e2e_duration_seconds'' ''End-to-end model selection latency distribution in seconds.'' latency_buckets [],
      collector_vec ''model_selector_attempt_total'' ''Count of model selection attempts by status.'' [] [''status''],
      collector_vec ''request_ttft_seconds'' ''Time to first token distribution in seconds per model.''
        [5/100, 1/10, 2/10, 5/10, 1, 2, 5, 10, 30] [''model'']]"

text \<open>A collector is registered under its full name.\<close>

definition own_collectors :: "string list" where
  "own_collectors = map c_name all_collectors"

lemma own_collectors_names:
  "own_collectors = [''ipp_info'', ''ipp_success_total'', ''ipp_body_field_not_found_total'', ''ipp_body_field_empty_total'',
     ''ipp_plugin_duration_seconds'', ''ipp_model_selector_e2e_duration_seconds'', ''ipp_model_selector_attempt_total'',
     ''ipp_request_ttft_seconds'']"
  by (simp add: own_collectors_def all_collectors_def collector_vec_def component_def)

lemma buckets_increase: "\<forall>c\<in>set all_collectors. sorted_wrt (<) (c_buckets c)"
  by (simp add: all_collectors_def collector_vec_def latency_buckets_def)

text \<open>
  \<^verbatim>\<open>MustRegister\<close> panics on a collector that is registered already. \<^verbatim>\<open>sync.Once\<close> counts a call that panics as
  done, so the flag is set in both cases.
\<close>

fun must_register :: "string list \<Rightarrow> string list \<Rightarrow> go_error option \<times> string list" where
  "must_register [] reg = (None, reg)"
| "must_register (c # cs) reg =
     (if c \<in> set reg then (Some (Panic ''duplicate metrics collector registration attempted''), reg)
      else must_register cs (reg @ [c]))"

definition Register_metrics :: "string list \<Rightarrow> bool \<times> string list \<Rightarrow> go_error option \<times> (bool \<times> string list)" where
  "Register_metrics customCollectors st =
     (case st of (once, reg) \<Rightarrow>
        if once then (None, st)
        else (case must_register (own_collectors @ customCollectors) reg of (r, reg') \<Rightarrow> (r, (True, reg'))))"

subsection \<open>Lemmas\<close>

lemma fold_successCounter:
  "successCounter (fold record_metric ms s) = successCounter s + length (filter (\<lambda>m. m = SuccessCounter) ms)"
proof (induction ms arbitrary: s)
  case (Cons m ms)
  then show ?case by (cases m) (simp_all add: record_defs)
qed simp

text \<open>How often a histogram was observed for a label.\<close>

definition ttft_count :: "metrics_state \<Rightarrow> string \<Rightarrow> nat" where
  "ttft_count s model = length (mget_zero [] (requestTTFT s) model)"

lemma fold_ttft_count:
  "ttft_count (fold record_metric ms s) model
     = ttft_count s model + length (filter (\<lambda>m. \<exists>d. m = RequestTTFT model d) ms)"
proof (induction ms arbitrary: s)
  case (Cons m ms)
  have "ttft_count (record_metric m s) model = ttft_count s model + (if \<exists>d. m = RequestTTFT model d then 1 else 0)"
    by (cases m) (auto simp: record_defs ttft_count_def observe_def mget_zero_def)
  with Cons show ?case by simp
qed simp

lemma must_register_ok: "distinct reg \<Longrightarrow> fst (must_register cs reg) = None \<longleftrightarrow> distinct (reg @ cs)"
  by (induction cs arbitrary: reg) auto

lemma must_register_all: "must_register cs reg = (None, reg') \<Longrightarrow> reg' = reg @ cs"
  by (induction cs arbitrary: reg) (fastforce split: if_splits)+

lemma Register_metrics_once:
  assumes "Register_metrics cs (False, []) = (r, st)"
  shows "r = None \<longleftrightarrow> distinct (own_collectors @ cs)" and "r = None \<Longrightarrow> st = (True, own_collectors @ cs)"
    and "Register_metrics cs' st = (None, st)"
  using assms must_register_ok [of "[]" "own_collectors @ cs"] must_register_all [of "own_collectors @ cs" "[]"]
  by (auto simp: Register_metrics_def split: prod.splits)

end
