(* ===== verification/Handlers.thy ===== *)
theory Handlers
  imports Request_Plugins Sse Events Metrics
begin

text \<open>
  The ext-proc handlers (\<^verbatim>\<open>pkg/handlers/request.go\<close>, \<^verbatim>\<open>response.go\<close> and the types of
  \<^verbatim>\<open>server.go\<close>). A handler maps the request context to a result and the new context.

  \<^item> The context has the fields of \<^verbatim>\<open>RequestContext\<close> and three that stand for effects: \<open>shared\<close>, the
    state of everything the plugins share across requests, \<open>notified\<close>, the events given to the
    event notifier, oldest first, and \<open>recorded\<close>, the metrics the handlers record themselves. An event
    holds the messages as they are when it is sent; the code passes pointers, and does not write the
    request after its event.
  \<^item> What the handlers take from libraries is the record \<open>env\<close>: the JSON decoder (with the text of its
    error) and encoder, the clock, the orders in which the header sets are ranged over, and the
    headers the trace propagator injects (none when the span does not record).
  \<^item> Plugins are functions on the shared state, the cycle state and the message. The spans and latency
    metrics of plugins are added in \<open>Plugin_Telemetry\<close>; logs are left out. The event notifier is set, as the runner sets it.
\<close>

subsection \<open>Server and request context\<close>

record 'w env =
  json_parse :: json_parser
  json_error :: "string \<Rightarrow> string"
  json_marshal :: json_encoder
  clock :: "'w \<Rightarrow> gotime \<times> 'w"
  ord_set :: "(string \<times> string) list \<Rightarrow> (string \<times> string) list"
  ord_removed :: "string list \<Rightarrow> string list"
  trace_carrier :: "'w \<Rightarrow> (string \<times> string) list"

record 'w profile =
  RequestPlugins :: "'w request_plugin list"
  ResponsePlugins :: "'w response_plugin list"
  ResponseChunkProcessors :: "(bool \<Rightarrow> 'w response_plugin) list"
  NeedsResponseBuffering :: bool

definition NewProfile :: "'w profile" where
  "NewProfile = \<lparr>RequestPlugins = [], ResponsePlugins = [], ResponseChunkProcessors = [],
     NeedsResponseBuffering = False\<rparr>"

text \<open>A profile picker may write the cycle state and the request; a nil profile is \<open>None\<close>.\<close>

type_synonym 'w profile_picker =
  "(string, 'w profile) gomap \<Rightarrow> 'w request_state \<Rightarrow> (go_error + 'w profile option) \<times> 'w request_state"

record 'w server =
  preProcessors :: "'w request_plugin list"
  profilePicker :: "'w profile_picker option"
  profiles :: "(string, 'w profile) gomap"
  postProcessors :: "'w response_plugin list"
  responseHeadersPostProcessors :: "'w response_plugin list"

record 'w request_context =
  RequestReceivedTimestamp :: gotime
  RequestSentTimestamp :: gotime
  ResponseFirstChunkTimestamp :: gotime
  ResponseCompleteTimestamp :: gotime
  ResponseHeadersSent :: bool
  Profile :: "'w profile"
  CycleState :: cycle_state
  Request :: inference_request
  Response :: inference_response
  shared :: 'w
  notified :: "event list"
  recorded :: "metric list"

definition contentLengthHeader :: string where
  "contentLengthHeader = ''Content-Length''"

text \<open>\<^verbatim>\<open>time.Now()\<close>.\<close>

definition time_now :: "'w env \<Rightarrow> 'w request_context \<Rightarrow> gotime \<times> 'w request_context" where
  "time_now env rc = (case clock env (shared rc) of (t, w) \<Rightarrow> (t, rc\<lparr>shared := w\<rparr>))"

subsection \<open>Running plugins\<close>

text \<open>The loops of \<^verbatim>\<open>runRequestPlugins\<close>, \<^verbatim>\<open>runResponsePlugins\<close> and the like: in order, up to the first error.\<close>

fun run_plugins :: "('s \<Rightarrow> go_error option \<times> 's) list \<Rightarrow> 's \<Rightarrow> go_error option \<times> 's" where
  "run_plugins [] s = (None, s)"
| "run_plugins (p # ps) s =
     (case p s of (Some e, s') \<Rightarrow> (Some e, s') | (None, s') \<Rightarrow> run_plugins ps s')"

definition on_request ::
  "('w request_state \<Rightarrow> 'r \<times> 'w request_state) \<Rightarrow> 'w request_context \<Rightarrow> 'r \<times> 'w request_context" where
  "on_request f rc =
     (case f (shared rc, CycleState rc, Request rc) of
        (r, (w, c, q)) \<Rightarrow> (r, rc\<lparr>shared := w, CycleState := c, Request := q\<rparr>))"

definition on_response ::
  "('w response_state \<Rightarrow> 'r \<times> 'w response_state) \<Rightarrow> 'w request_context \<Rightarrow> 'r \<times> 'w request_context" where
  "on_response f rc =
     (case f (shared rc, CycleState rc, Response rc) of
        (r, (w, c, q)) \<Rightarrow> (r, rc\<lparr>shared := w, CycleState := c, Response := q\<rparr>))"

definition runRequestPlugins ::
  "'w request_plugin list \<Rightarrow> 'w request_context \<Rightarrow> go_error option \<times> 'w request_context" where
  "runRequestPlugins reqPlugins = on_request (run_plugins reqPlugins)"

definition runResponsePlugins ::
  "'w response_plugin list \<Rightarrow> 'w request_context \<Rightarrow> go_error option \<times> 'w request_context" where
  "runResponsePlugins respPlugins = on_response (run_plugins respPlugins)"

definition runResponseHeadersProcessors ::
  "'w server \<Rightarrow> 'w request_context \<Rightarrow> go_error option \<times> 'w request_context" where
  "runResponseHeadersProcessors s rc =
     (if length (responseHeadersPostProcessors s) = 0 then (None, rc)
      else on_response (run_plugins (responseHeadersPostProcessors s)) rc)"

definition runResponseChunkProcessors ::
  "bool \<Rightarrow> (bool \<Rightarrow> 'w response_plugin) list \<Rightarrow> 'w request_context \<Rightarrow> go_error option \<times> 'w request_context" where
  "runResponseChunkProcessors isFinal processors = on_response (run_plugins (map (\<lambda>cp. cp isFinal) processors))"

subsection \<open>Request phase\<close>

definition store_headers ::
  "(string \<Rightarrow> string) \<Rightarrow> http_headers option \<Rightarrow> 'a inference_message_scheme \<Rightarrow> 'a inference_message_scheme" where
  "store_headers key_of h m =
     fold (\<lambda>hv m. m\<lparr>Headers := mput (key_of (hv_key hv)) (GetHeaderValue hv) (Headers m)\<rparr>) (header_list h) m"

definition injectTraceContextHeaders :: "'w env \<Rightarrow> 'w request_context \<Rightarrow> 'w request_context" where
  "injectTraceContextHeaders env rc =
     rc\<lparr>Request := fold (\<lambda>(key, value). SetHeader (to_lower key) value) (trace_carrier env (shared rc)) (Request rc)\<rparr>"

text \<open>The reply for a message's recorded mutations, empty when there are none.\<close>

definition headers_reply :: "'w env \<Rightarrow> 'a inference_message_scheme \<Rightarrow> common_response option" where
  "headers_reply env m =
     (if mutatedHeaders m = [] \<and> removedHeaders m = [] then None
      else Some \<lparr>clearRouteCache = False,
                 headerMutation = Some (mutation_of (ord_set env) (ord_removed env) m),
                 bodyMutation = None\<rparr>)"

definition HandleRequestHeaders ::
  "'w env \<Rightarrow> http_headers option \<Rightarrow> 'w request_context \<Rightarrow> processing_response list \<times> 'w request_context" where
  "HandleRequestHeaders env headers rc =
     (case time_now env rc of (t, rc0) \<Rightarrow>
        (let rc1 = rc0\<lparr>RequestReceivedTimestamp := t, Request := store_headers to_lower headers (Request rc0)\<rparr>;
             rc2 = injectTraceContextHeaders env rc1
         in if \<not> GetEndOfStream headers then ([], rc2)
            else ([PR_RequestHeaders (headers_reply env (Request rc2))], rc2)))"

definition addStreamedBodyResponse :: "processing_response list \<Rightarrow> string \<Rightarrow> processing_response list" where
  "addStreamedBodyResponse responses body =
     responses @ map PR_RequestBody (BuildChunkedBodyResponses body True)"

text \<open>\<^verbatim>\<open>s.profilePicker.Pick\<close>; calling a nil picker panics.\<close>

definition pick_profile ::
  "'w server \<Rightarrow> 'w request_context \<Rightarrow> (go_error + 'w profile option) \<times> 'w request_context" where
  "pick_profile s rc =
     (case profilePicker s of
        None \<Rightarrow> (Inl (Panic ''nil pointer dereference''), rc)
      | Some pick \<Rightarrow> on_request (pick (profiles s)) rc)"

text \<open>From the end of the plugins to the reply: Content-Length, event, timestamp, messages.\<close>

definition finish_request ::
  "'w env \<Rightarrow> string \<Rightarrow> 'w request_context \<Rightarrow> (go_error + processing_response list) \<times> 'w request_context" where
  "finish_request env requestBodyBytes rc =
     (case (if bodyMutated (Request rc) then json_marshal env (Body (Request rc)) else Inr requestBodyBytes) of
        Inl e \<Rightarrow> (Inl e, rc)
      | Inr body \<Rightarrow>
          (let request = SetHeader contentLengthHeader (itoa (length body)) (Request rc);
               rc1 = rc\<lparr>Request := request,
                        notified := notified rc @
                          [\<lparr>ev_Type = RequestEventType, ev_Payload = RequestPayload request (CycleState rc)\<rparr>],
                        recorded := recorded rc @ [SuccessCounter]\<rparr>
           in case time_now env rc1 of (t, rc2) \<Rightarrow>
                (Inr (addStreamedBodyResponse
                   [PR_RequestHeaders (Some \<lparr>clearRouteCache = True,
                      headerMutation = Some (mutation_of (ord_set env) (ord_removed env) request),
                      bodyMutation = None\<rparr>)] body),
                 rc2\<lparr>RequestSentTimestamp := t\<rparr>)))"

definition HandleRequestBody ::
  "'w env \<Rightarrow> 'w server \<Rightarrow> string \<Rightarrow> 'w request_context
     \<Rightarrow> (go_error + processing_response list) \<times> 'w request_context" where
  "HandleRequestBody env s requestBodyBytes rc =
     (case unmarshal_map (json_parse env) requestBodyBytes (Body (Request rc)) of
        None \<Rightarrow> (Inl (TypedErr BadRequest
                  (''failed to parse request body: '' @ json_error env requestBodyBytes)), rc)
      | Some body \<Rightarrow>
          (case runRequestPlugins (preProcessors s) (rc\<lparr>Request := (Request rc)\<lparr>Body := body\<rparr>\<rparr>) of
             (Some e, rc1) \<Rightarrow> (Inl e, rc1)
           | (None, rc1) \<Rightarrow>
               (case pick_profile s rc1 of
                  (Inl e, rc2) \<Rightarrow>
                    (Inl (wrap_err (\<lambda>e. TypedErr Internal (''failed to pick a profile: '' @ error_string e)) e), rc2)
                | (Inr None, rc2) \<Rightarrow> (Inl (Panic ''nil pointer dereference''), rc2)
                | (Inr (Some prof), rc2) \<Rightarrow>
                    (case runRequestPlugins (RequestPlugins prof) (rc2\<lparr>Profile := prof\<rparr>) of
                       (Some e, rc3) \<Rightarrow> (Inl e, rc3)
                     | (None, rc3) \<Rightarrow> finish_request env requestBodyBytes rc3))))"

definition HandleRequestTrailers :: "processing_response list" where
  "HandleRequestTrailers = [PR_RequestTrailers]"

subsection \<open>Response phase\<close>

definition buildHeadersResponse :: "'w env \<Rightarrow> 'w request_context \<Rightarrow> common_response option" where
  "buildHeadersResponse env rc = headers_reply env (Response rc)"

definition HandleResponseHeaders ::
  "'w env \<Rightarrow> 'w server \<Rightarrow> http_headers option \<Rightarrow> 'w request_context
     \<Rightarrow> (go_error + processing_response list) \<times> 'w request_context" where
  "HandleResponseHeaders env s headers rc =
     (case runResponseHeadersProcessors s (rc\<lparr>Response := store_headers id headers (Response rc)\<rparr>) of
        (Some e, rc1) \<Rightarrow> (Inl e, rc1)
      | (None, rc1) \<Rightarrow>
          if \<not> GetEndOfStream headers then (Inr [], rc1)
          else (Inr [PR_ResponseHeaders (buildHeadersResponse env rc1)], rc1))"

definition generatePassthroughResponseBodyResponse ::
  "'w env \<Rightarrow> 'w request_context \<Rightarrow> string \<Rightarrow> processing_response list" where
  "generatePassthroughResponseBodyResponse env rc responseBodyBytes =
     AddStreamedResponseBody [PR_ResponseHeaders (buildHeadersResponse env rc)] responseBodyBytes"

text \<open>
  Decoding the buffered body into the response: \<open>None\<close> when it is neither JSON nor an event
  stream that says anything.
\<close>

definition parse_response :: "'w env \<Rightarrow> string \<Rightarrow> inference_response \<Rightarrow> inference_response option" where
  "parse_response env bytes response =
     (case unmarshal_map (json_parse env) bytes (Body response) of
        Some body \<Rightarrow> Some (response\<lparr>Body := body\<rparr>)
      | None \<Rightarrow>
          (case parseSSEResponseBody (json_parse env) bytes of
             Some sseBody \<Rightarrow> Some (response\<lparr>Body := Some sseBody\<rparr>)
           | None \<Rightarrow> None))"

definition finish_response ::
  "'w env \<Rightarrow> string \<Rightarrow> 'w request_context \<Rightarrow> (go_error + processing_response list) \<times> 'w request_context" where
  "finish_response env responseBodyBytes rc =
     (case (if bodyMutated (Response rc) then json_marshal env (Body (Response rc)) else Inr responseBodyBytes) of
        Inl e \<Rightarrow> (Inl (PlainErr (''failed to marshal mutated response body - '' @ error_string e)), rc)
      | Inr body \<Rightarrow>
          (let response = (if bodyMutated (Response rc)
                 then SetHeader contentLengthHeader (itoa (length body)) (Response rc) else Response rc)
           in (Inr (AddStreamedResponseBody
                 [PR_ResponseHeaders (Some \<lparr>clearRouteCache = True,
                    headerMutation = Some (mutation_of (ord_set env) (ord_removed env) response),
                    bodyMutation = None\<rparr>)] body),
               rc\<lparr>Response := response\<rparr>)))"

definition HandleResponseBody ::
  "'w env \<Rightarrow> 'w server \<Rightarrow> string \<Rightarrow> 'w request_context
     \<Rightarrow> (go_error + processing_response list) \<times> 'w request_context" where
  "HandleResponseBody env s responseBodyBytes rc =
     (let hasProfilePlugins = (length (ResponsePlugins (Profile rc)) > 0);
          hasPostProcessors = (length (postProcessors s) > 0)
      in if \<not> hasProfilePlugins \<and> \<not> hasPostProcessors
         then (Inr (generatePassthroughResponseBodyResponse env rc responseBodyBytes), rc)
         else case parse_response env responseBodyBytes (Response rc) of
             None \<Rightarrow> (Inr (generatePassthroughResponseBodyResponse env rc responseBodyBytes), rc)
           | Some response \<Rightarrow>
               (case (if hasProfilePlugins
                      then runResponsePlugins (ResponsePlugins (Profile rc)) (rc\<lparr>Response := response\<rparr>)
                      else (None, rc\<lparr>Response := response\<rparr>)) of
                  (Some e, rc1) \<Rightarrow> (Inl e, rc1)
                | (None, rc1) \<Rightarrow>
                    (case runResponsePlugins (postProcessors s) rc1 of
                       (Some e, rc2) \<Rightarrow> (Inl e, rc2)
                     | (None, rc2) \<Rightarrow> finish_response env responseBodyBytes rc2)))"

definition buildStreamedChunkResponse ::
  "'w env \<Rightarrow> string \<Rightarrow> bool \<Rightarrow> 'w request_context \<Rightarrow> processing_response list \<times> 'w request_context" where
  "buildStreamedChunkResponse env chunk endOfStream rc =
     (let responses = [PR_ResponseBody (chunk_response chunk endOfStream)]
      in if \<not> ResponseHeadersSent rc
         then (PR_ResponseHeaders (buildHeadersResponse env rc) # responses, rc\<lparr>ResponseHeadersSent := True\<rparr>)
         else (responses, rc))"

definition HandleResponseChunk ::
  "'w env \<Rightarrow> string \<Rightarrow> bool \<Rightarrow> 'w request_context
     \<Rightarrow> (go_error + processing_response list) \<times> 'w request_context" where
  "HandleResponseChunk env chunkBytes endOfStream rc =
     (if length (ResponseChunkProcessors (Profile rc)) = 0
      then apfst Inr (buildStreamedChunkResponse env chunkBytes endOfStream rc)
      else case runResponseChunkProcessors endOfStream (ResponseChunkProcessors (Profile rc))
                 (rc\<lparr>Response := ResetChunkState chunkBytes (Response rc)\<rparr>) of
          (Some e, rc1) \<Rightarrow> (Inl e, rc1)
        | (None, rc1) \<Rightarrow>
            (let outBytes = (if chunkMutated (Response rc1) then CurrentChunk (Response rc1) else chunkBytes)
             in apfst Inr (buildStreamedChunkResponse env outBytes endOfStream rc1)))"

definition HandleResponseTrailers :: "processing_response list" where
  "HandleResponseTrailers = [PR_ResponseTrailers]"

subsection \<open>Running plugins: lemmas\<close>

lemma run_plugins_append:
  "run_plugins (ps @ qs) s =
     (case run_plugins ps s of (Some e, s') \<Rightarrow> (Some e, s') | (None, s') \<Rightarrow> run_plugins qs s')"
  by (induction ps arbitrary: s) (auto split: prod.splits option.splits)

lemma run_plugins_stops:
  assumes "run_plugins ps s = (None, s1)" and "p s1 = (Some e, s2)"
  shows "run_plugins (ps @ p # qs) s = (Some e, s2)"
  by (simp add: run_plugins_append assms)

lemma header_discipline_run_plugins:
  assumes "\<forall>p\<in>set ps. header_discipline p msg"
  shows "header_discipline (run_plugins ps) msg"
proof
  fix orig s
  assume "tracks orig (msg s)"
  with assms show "tracks orig (msg (snd (run_plugins ps s)))"
  proof (induction ps arbitrary: s)
    case (Cons p ps)
    obtain r s' where r: "p s = (r, s')" by (cases "p s")
    have "tracks orig (msg s')"
      using header_discipline.keeps_tracks [of p msg orig s] Cons.prems r by simp
    with Cons r show ?case by (cases r) simp_all
  qed simp
qed

lemma on_request_frame:
  assumes "on_request f rc = (r, rc')"
  shows "Profile rc' = Profile rc" "notified rc' = notified rc" "Response rc' = Response rc"
    "ResponseHeadersSent rc' = ResponseHeadersSent rc"
    "RequestReceivedTimestamp rc' = RequestReceivedTimestamp rc"
    "ResponseFirstChunkTimestamp rc' = ResponseFirstChunkTimestamp rc"
  using assms by (auto simp: on_request_def split: prod.splits)

lemma on_response_frame:
  assumes "on_response f rc = (r, rc')"
  shows "Profile rc' = Profile rc" "notified rc' = notified rc" "Request rc' = Request rc"
    "ResponseHeadersSent rc' = ResponseHeadersSent rc"
    "RequestReceivedTimestamp rc' = RequestReceivedTimestamp rc"
    "RequestSentTimestamp rc' = RequestSentTimestamp rc"
    "ResponseFirstChunkTimestamp rc' = ResponseFirstChunkTimestamp rc"
  using assms by (auto simp: on_response_def split: prod.splits)

lemma on_request_tracks:
  assumes "header_discipline (\<lambda>st. (None, snd (f st))) message_of"
    and "on_request f rc = (r, rc')" and "tracks orig (Request rc)"
  shows "tracks orig (Request rc')"
  using header_discipline.keeps_tracks [OF assms(1), of orig "(shared rc, CycleState rc, Request rc)"] assms(2,3)
  by (auto simp: on_request_def message_of_def split: prod.splits)

lemma on_response_tracks:
  assumes "header_discipline (\<lambda>st. (None, snd (f st))) message_of"
    and "on_response f rc = (r, rc')" and "tracks orig (Response rc)"
  shows "tracks orig (Response rc')"
  using header_discipline.keeps_tracks [OF assms(1), of orig "(shared rc, CycleState rc, Response rc)"] assms(2,3)
  by (auto simp: on_response_def message_of_def split: prod.splits)

lemma header_discipline_state:
  "header_discipline f msg \<Longrightarrow> header_discipline (\<lambda>st. (None, snd (f st))) msg"
  by (simp add: header_discipline_def)

lemma runRequestPlugins_tracks:
  assumes "\<forall>p\<in>set ps. header_discipline p message_of"
    and "runRequestPlugins ps rc = (r, rc')" and "tracks orig (Request rc)"
  shows "tracks orig (Request rc')"
  using on_request_tracks [OF header_discipline_state [OF header_discipline_run_plugins [OF assms(1)]]] assms(2,3)
  by (auto simp: runRequestPlugins_def)

lemma runResponsePlugins_tracks:
  assumes "\<forall>p\<in>set ps. header_discipline p message_of"
    and "runResponsePlugins ps rc = (r, rc')" and "tracks orig (Response rc)"
  shows "tracks orig (Response rc')"
  using on_response_tracks [OF header_discipline_state [OF header_discipline_run_plugins [OF assms(1)]]] assms(2,3)
  by (auto simp: runResponsePlugins_def)

lemma time_now_frame:
  assumes "time_now env rc = (t, rc')"
  shows "Profile rc' = Profile rc" "notified rc' = notified rc" "Request rc' = Request rc"
    "Response rc' = Response rc" "CycleState rc' = CycleState rc"
    "ResponseHeadersSent rc' = ResponseHeadersSent rc"
    "RequestReceivedTimestamp rc' = RequestReceivedTimestamp rc"
    "RequestSentTimestamp rc' = RequestSentTimestamp rc"
    "ResponseFirstChunkTimestamp rc' = ResponseFirstChunkTimestamp rc"
  using assms by (auto simp: time_now_def split: prod.splits)

subsection \<open>The reply to a request body\<close>

text \<open>The single profile picker as a picker of the server.\<close>

definition single_profile_picker :: "'w profile_picker" where
  "single_profile_picker profs st = (map_sum id Some (SingleProfilePicker_Pick profs), st)"

interpretation single_picker:
  header_discipline "\<lambda>st. (None, snd (single_profile_picker profs st))" message_of
  by unfold_locales (simp add: single_profile_picker_def)

text \<open>A body reply: a headers message that clears the route cache, then the body in chunks.\<close>

definition chunk_flags :: "processing_response list \<Rightarrow> bool list" where
  "chunk_flags rs = map chunk_eos (List.map_filter response_chunk rs)"

lemma BuildChunked_eos:
  "map chunk_eos (BuildChunkedBodyResponses body eos)
     = replicate (length (BuildChunkedBodyResponses body eos) - 1) False @ [eos]"
  by (cases "body = []") (simp_all add: BuildChunkedBodyResponses_def chunk_loop_eos)

lemma body_reply:
  "streamed_bytes (addStreamedBodyResponse [PR_RequestHeaders h] body) = body"
  "streamed_bytes (AddStreamedResponseBody [PR_ResponseHeaders h] body) = body"
  "\<exists>n. chunk_flags (addStreamedBodyResponse [PR_RequestHeaders h] body) = replicate n False @ [True]"
  "\<exists>n. chunk_flags (AddStreamedResponseBody [PR_ResponseHeaders h] body) = replicate n False @ [True]"
  by (auto simp: addStreamedBodyResponse_def AddStreamedResponseBody_def chunk_flags_def BuildChunked_eos
      List.map_filter_simps)

lemma finish_request_reply:
  assumes "finish_request env bytes rc = (Inr rs, rc')" and "tracks orig (Request rc)"
    and "perm_of (ord_set env)" and "perm_of (ord_removed env)"
  shows "\<exists>body hm. rs = addStreamedBodyResponse
        [PR_RequestHeaders (Some \<lparr>clearRouteCache = True, headerMutation = Some hm, bodyMutation = None\<rparr>)] body
    \<and> (if bodyMutated (Request rc') then json_marshal env (Body (Request rc')) = Inr body else body = bytes)
    \<and> apply_header_mutation orig hm = map_of (Headers (Request rc'))
    \<and> map_of (Headers (Request rc')) contentLengthHeader = Some (itoa (length body))
    \<and> notified rc' = notified rc @
        [\<lparr>ev_Type = RequestEventType, ev_Payload = RequestPayload (Request rc') (CycleState rc')\<rparr>]
    \<and> Profile rc' = Profile rc"
proof -
  obtain body where body:
      "(if bodyMutated (Request rc) then json_marshal env (Body (Request rc)) else Inr bytes) = Inr body"
    using assms(1) by (auto simp: finish_request_def split: sum.splits)
  define request where "request = SetHeader contentLengthHeader (itoa (length body)) (Request rc)"
  have "tracks orig request" using assms(2) by (simp add: request_def)
  note hm = tracks_apply [OF this assms(3,4)]
  obtain t rc2 where now: "time_now env (rc\<lparr>Request := request, notified := notified rc @
      [\<lparr>ev_Type = RequestEventType, ev_Payload = RequestPayload request (CycleState rc)\<rparr>],
      recorded := recorded rc @ [SuccessCounter]\<rparr>) = (t, rc2)"
    by (metis surj_pair)
  have rs: "rs = addStreamedBodyResponse [PR_RequestHeaders (Some \<lparr>clearRouteCache = True,
      headerMutation = Some (mutation_of (ord_set env) (ord_removed env) request), bodyMutation = None\<rparr>)] body"
    and rc': "rc' = rc2\<lparr>RequestSentTimestamp := t\<rparr>"
    using assms(1) body now by (auto simp: finish_request_def request_def Let_def)
  show ?thesis
    unfolding rs using time_now_frame [OF now] body hm
    by (intro exI [of _ body] exI [of _ "mutation_of (ord_set env) (ord_removed env) request"])
       (simp add: rc' request_def split: if_splits)
qed

text \<open>A successful run of the handler: the plugins ran without error and the profile was picked.\<close>

lemma HandleRequestBody_success:
  assumes "HandleRequestBody env s bytes rc = (Inr rs, rc')"
  obtains body pick rc1 prof rc2 rc3 where
    "unmarshal_map (json_parse env) bytes (Body (Request rc)) = Some body"
    "runRequestPlugins (preProcessors s) (rc\<lparr>Request := (Request rc)\<lparr>Body := body\<rparr>\<rparr>) = (None, rc1)"
    "profilePicker s = Some pick" "on_request (pick (profiles s)) rc1 = (Inr (Some prof), rc2)"
    "runRequestPlugins (RequestPlugins prof) (rc2\<lparr>Profile := prof\<rparr>) = (None, rc3)"
    "finish_request env bytes rc3 = (Inr rs, rc')" "Profile rc3 = prof" "notified rc3 = notified rc"
proof -
  obtain body where 1: "unmarshal_map (json_parse env) bytes (Body (Request rc)) = Some body"
    using assms by (auto simp: HandleRequestBody_def split: option.splits)
  obtain rc1 where 2: "runRequestPlugins (preProcessors s) (rc\<lparr>Request := (Request rc)\<lparr>Body := body\<rparr>\<rparr>) = (None, rc1)"
    using assms 1 by (auto simp: HandleRequestBody_def split: option.splits prod.splits)
  obtain pick where 3: "profilePicker s = Some pick"
    using assms 1 2 by (cases "profilePicker s") (auto simp: HandleRequestBody_def pick_profile_def)
  obtain prof rc2 where 4: "on_request (pick (profiles s)) rc1 = (Inr (Some prof), rc2)"
    using assms 1 2 3
    by (auto simp: HandleRequestBody_def pick_profile_def split: sum.splits option.splits prod.splits)
  obtain rc3 where 5: "runRequestPlugins (RequestPlugins prof) (rc2\<lparr>Profile := prof\<rparr>) = (None, rc3)"
    using assms 1 2 3 4 by (auto simp: HandleRequestBody_def pick_profile_def split: option.splits prod.splits)
  have 6: "finish_request env bytes rc3 = (Inr rs, rc')"
    using assms 1 2 3 4 5 by (simp add: HandleRequestBody_def pick_profile_def)
  have "Profile rc3 = prof" "notified rc3 = notified rc"
    using on_request_frame [OF 5 [unfolded runRequestPlugins_def]] on_request_frame [OF 4]
      on_request_frame [OF 2 [unfolded runRequestPlugins_def]] by simp_all
  with 1 2 3 4 5 6 show thesis by (rule that)
qed

lemma HandleRequestBody_tracks:
  assumes "HandleRequestBody env s bytes rc = (Inr rs, rc')" and "tracks orig (Request rc)"
    and "\<forall>p\<in>set (preProcessors s @ RequestPlugins (Profile rc')). header_discipline p message_of"
    and "\<forall>pick. profilePicker s = Some pick \<longrightarrow>
           header_discipline (\<lambda>st. (None, snd (pick (profiles s) st))) message_of"
  obtains rc3 where "finish_request env bytes rc3 = (Inr rs, rc')" "tracks orig (Request rc3)"
    "notified rc3 = notified rc"
proof (rule HandleRequestBody_success [OF assms(1)])
  fix body pick rc1 prof rc2 rc3
  assume r: "runRequestPlugins (preProcessors s) (rc\<lparr>Request := (Request rc)\<lparr>Body := body\<rparr>\<rparr>) = (None, rc1)"
    "profilePicker s = Some pick" "on_request (pick (profiles s)) rc1 = (Inr (Some prof), rc2)"
    "runRequestPlugins (RequestPlugins prof) (rc2\<lparr>Profile := prof\<rparr>) = (None, rc3)"
    "finish_request env bytes rc3 = (Inr rs, rc')" "Profile rc3 = prof" "notified rc3 = notified rc"
  have "Profile rc' = prof"
    using r(5,6) by (auto simp: finish_request_def Let_def dest: time_now_frame split: sum.splits prod.splits)
  then have d: "\<forall>p\<in>set (preProcessors s). header_discipline p message_of"
      "\<forall>p\<in>set (RequestPlugins prof). header_discipline p message_of"
    using assms(3) by auto
  have "tracks orig (Request rc1)"
    using runRequestPlugins_tracks [OF d(1) r(1)] assms(2) by simp
  then have "tracks orig (Request rc2)"
    using on_request_tracks [OF _ r(3)] assms(4) r(2) by blast
  then have "tracks orig (Request rc3)"
    using runRequestPlugins_tracks [OF d(2) r(4)] by simp
  with r(5,7) show thesis by (intro that)
qed

subsection \<open>The reply to a response body\<close>

text \<open>The client's headers after the proxy applies a headers reply.\<close>

definition headers_after :: "(string \<rightharpoonup> string) \<Rightarrow> common_response option \<Rightarrow> (string \<rightharpoonup> string)" where
  "headers_after orig h =
     (case Option.bind h headerMutation of None \<Rightarrow> orig | Some hm \<Rightarrow> apply_header_mutation orig hm)"

lemma headers_reply_after:
  assumes "tracks orig m" and "perm_of (ord_set env)" and "perm_of (ord_removed env)"
  shows "headers_after orig (headers_reply env m) = map_of (Headers m)"
proof (cases "mutatedHeaders m = [] \<and> removedHeaders m = []")
  case True
  then show ?thesis
    using assms(1) by (auto simp: headers_after_def headers_reply_def tracks_def restrict_map_def)
next
  case False
  then show ?thesis
    using tracks_apply [OF assms] by (auto simp: headers_after_def headers_reply_def)
qed

text \<open>What a reply with a buffered response body has to satisfy.\<close>

definition response_reply_ok ::
  "'w env \<Rightarrow> (string \<rightharpoonup> string) \<Rightarrow> string \<Rightarrow> processing_response list \<Rightarrow> 'w request_context \<Rightarrow> bool" where
  "response_reply_ok env orig bytes rs rc' \<longleftrightarrow>
     (\<exists>h. hd rs = PR_ResponseHeaders h \<and> headers_after orig h = map_of (Headers (Response rc')))
     \<and> (\<exists>n. chunk_flags rs = replicate n False @ [True])
     \<and> (if bodyMutated (Response rc')
        then json_marshal env (Body (Response rc')) = Inr (streamed_bytes rs)
          \<and> map_of (Headers (Response rc')) contentLengthHeader = Some (itoa (length (streamed_bytes rs)))
        else streamed_bytes rs = bytes)"

lemma passthrough_ok:
  assumes "tracks orig (Response rc)" and "\<not> bodyMutated (Response rc)"
    and "perm_of (ord_set env)" and "perm_of (ord_removed env)"
  shows "response_reply_ok env orig bytes (generatePassthroughResponseBodyResponse env rc bytes) rc"
  using assms(2) headers_reply_after [OF assms(1,3,4)] body_reply(4) [of "buildHeadersResponse env rc" bytes]
  by (simp add: response_reply_ok_def generatePassthroughResponseBodyResponse_def body_reply buildHeadersResponse_def)
     (simp add: AddStreamedResponseBody_def)

lemma finish_response_ok:
  assumes "finish_response env bytes rc = (Inr rs, rc')" and "tracks orig (Response rc)"
    and "perm_of (ord_set env)" and "perm_of (ord_removed env)"
  shows "response_reply_ok env orig bytes rs rc' \<and> notified rc' = notified rc"
proof -
  obtain body where body:
      "(if bodyMutated (Response rc) then json_marshal env (Body (Response rc)) else Inr bytes) = Inr body"
    using assms(1) by (auto simp: finish_response_def split: sum.splits)
  define response where "response = (if bodyMutated (Response rc)
    then SetHeader contentLengthHeader (itoa (length body)) (Response rc) else Response rc)"
  have "tracks orig response" using assms(2) by (simp add: response_def)
  note hm = tracks_apply [OF this assms(3,4)]
  let ?h = "Some \<lparr>clearRouteCache = True, headerMutation = Some (mutation_of (ord_set env) (ord_removed env) response),
      bodyMutation = None\<rparr>"
  have rs: "rs = AddStreamedResponseBody [PR_ResponseHeaders ?h] body" and rc': "rc' = rc\<lparr>Response := response\<rparr>"
    using assms(1) body by (auto simp: finish_response_def response_def Let_def)
  have "hd rs = PR_ResponseHeaders ?h" by (simp add: rs AddStreamedResponseBody_def)
  moreover have "headers_after orig ?h = map_of (Headers (Response rc'))"
    using hm by (simp add: headers_after_def rc')
  ultimately show ?thesis
    using body body_reply(4) [of ?h body]
    by (auto simp: response_reply_ok_def rs rc' body_reply response_def split: if_splits)
qed

lemma parse_response_frame:
  assumes "parse_response env bytes r = Some r'"
  shows "tracks orig r' = tracks orig r" "bodyMutated r' = bodyMutated r"
  using assms by (auto simp: parse_response_def split: option.splits)

lemma HandleResponseBody_reply:
  assumes "HandleResponseBody env s bytes rc = (Inr rs, rc')"
    and "tracks orig (Response rc)" and "\<not> bodyMutated (Response rc)"
    and "\<forall>p\<in>set (ResponsePlugins (Profile rc) @ postProcessors s). header_discipline p message_of"
    and "perm_of (ord_set env)" and "perm_of (ord_removed env)"
  shows "response_reply_ok env orig bytes rs rc' \<and> notified rc' = notified rc"
proof (cases "(ResponsePlugins (Profile rc) = [] \<and> postProcessors s = [])
    \<or> parse_response env bytes (Response rc) = None")
  case True
  then have "rs = generatePassthroughResponseBodyResponse env rc bytes" "rc' = rc"
    using assms(1) by (auto simp: HandleResponseBody_def Let_def split: if_splits)
  then show ?thesis using passthrough_ok assms(2,3,5,6) by simp
next
  case False
  then obtain response where p: "parse_response env bytes (Response rc) = Some response" by auto
  define rc0 where "rc0 = rc\<lparr>Response := response\<rparr>"
  have t0: "tracks orig (Response rc0)" "notified rc0 = notified rc"
    using parse_response_frame(1) [OF p, of orig] assms(2) by (simp_all add: rc0_def)
  have d: "\<forall>p\<in>set (ResponsePlugins (Profile rc)). header_discipline p message_of"
    "\<forall>p\<in>set (postProcessors s). header_discipline p message_of" using assms(4) by auto
  obtain rc1 where 1: "(if length (ResponsePlugins (Profile rc)) > 0
      then runResponsePlugins (ResponsePlugins (Profile rc)) rc0 else (None, rc0)) = (None, rc1)"
    using assms(1) False p by (auto simp: HandleResponseBody_def Let_def rc0_def split: if_splits prod.splits option.splits)
  obtain rc2 where 2: "runResponsePlugins (postProcessors s) rc1 = (None, rc2)"
    and f: "finish_response env bytes rc2 = (Inr rs, rc')"
    using assms(1) False p 1
    by (auto simp: HandleResponseBody_def Let_def rc0_def split: if_splits prod.splits option.splits)
  have "tracks orig (Response rc1)" "notified rc1 = notified rc"
    using 1 t0 runResponsePlugins_tracks [OF d(1), of rc0 None rc1 orig]
    by (auto simp: runResponsePlugins_def split: if_splits dest: on_response_frame)
  then have "tracks orig (Response rc2)" "notified rc2 = notified rc"
    using 2 runResponsePlugins_tracks [OF d(2) 2]
    by (auto simp: runResponsePlugins_def dest: on_response_frame)
  then show ?thesis using finish_response_ok [OF f _ assms(5,6)] by simp
qed

subsection \<open>Properties\<close>

text \<open>A small server: one pre-processor of the tree, the single profile picker, one profile.\<close>

definition sample_env :: "json \<Rightarrow> unit env" where
  "sample_env v = \<lparr>json_parse = (\<lambda>_. Some v), json_error = (\<lambda>_. []), json_marshal = (\<lambda>_. Inr ''{}''),
     clock = (\<lambda>w. (7, w)), ord_set = rev, ord_removed = rev, trace_carrier = (\<lambda>_. [])\<rparr>"

definition sample_profile :: "unit profile" where
  "sample_profile = NewProfile\<lparr>ResponsePlugins := [SessionAffinity_ProcessResponse (\<lambda>k v w. w) (\<lambda>w. (''id'', w)) ''sid'']\<rparr>"

definition sample_server :: "unit server" where
  "sample_server = \<lparr>preProcessors = [BodyFieldToHeader_ProcessRequest (\<lambda>_. [])
       \<lparr>fieldName = ''model'', headerName = ''x-model''\<rparr>],
     profilePicker = Some single_profile_picker, profiles = [(''default'', sample_profile)], postProcessors = [],
     responseHeadersPostProcessors = []\<rparr>"

definition new_context :: "'w profile \<Rightarrow> 'w \<Rightarrow> 'w request_context" where
  "new_context prof w =
     \<lparr>RequestReceivedTimestamp = 0, RequestSentTimestamp = 0, ResponseFirstChunkTimestamp = 0,
      ResponseCompleteTimestamp = 0, ResponseHeadersSent = False, Profile = prof, CycleState = NewCycleState,
      Request = NewInferenceRequest, Response = NewInferenceResponse, shared = w, notified = [], recorded = []\<rparr>"

text \<open>
  C5: the reply to a request body is consistent. When every plugin that runs keeps the header
  discipline, a successful reply starts with one headers message that clears the route cache; its
  mutation turns the headers the proxy had into those the plugins left, with a Content-Length that is
  the number of body bytes that follow. The bytes are the encoded body if a plugin changed it and the
  original bytes otherwise, the last chunk and only it ends the stream, and exactly one event,
  carrying the request as sent, goes to the data layer.
\<close>

theorem request_reply_consistent:
  assumes "HandleRequestBody env s bytes rc = (Inr rs, rc')" and "tracks orig (Request rc)"
    and "\<forall>p\<in>set (preProcessors s @ RequestPlugins (Profile rc')). header_discipline p message_of"
    and "\<forall>pick. profilePicker s = Some pick \<longrightarrow>
           header_discipline (\<lambda>st. (None, snd (pick (profiles s) st))) message_of"
    and "perm_of (ord_set env)" and "perm_of (ord_removed env)"
  shows "(\<exists>hm. hd rs = PR_RequestHeaders (Some \<lparr>clearRouteCache = True, headerMutation = Some hm, bodyMutation = None\<rparr>)
      \<and> apply_header_mutation orig hm = map_of (Headers (Request rc')))
    \<and> map_of (Headers (Request rc')) contentLengthHeader = Some (itoa (length (streamed_bytes rs)))
    \<and> (if bodyMutated (Request rc') then json_marshal env (Body (Request rc')) = Inr (streamed_bytes rs)
       else streamed_bytes rs = bytes)
    \<and> (\<exists>n. chunk_flags rs = replicate n False @ [True])
    \<and> notified rc' = notified rc @
        [\<lparr>ev_Type = RequestEventType, ev_Payload = RequestPayload (Request rc') (CycleState rc')\<rparr>]"
proof (rule HandleRequestBody_tracks [OF assms(1-4)])
  fix rc3
  assume f: "finish_request env bytes rc3 = (Inr rs, rc')" "tracks orig (Request rc3)" "notified rc3 = notified rc"
  from finish_request_reply [OF f(1,2) assms(5,6)] obtain body hm where
    rs: "rs = addStreamedBodyResponse
        [PR_RequestHeaders (Some \<lparr>clearRouteCache = True, headerMutation = Some hm, bodyMutation = None\<rparr>)] body"
    and rest: "if bodyMutated (Request rc') then json_marshal env (Body (Request rc')) = Inr body else body = bytes"
      "apply_header_mutation orig hm = map_of (Headers (Request rc'))"
      "map_of (Headers (Request rc')) contentLengthHeader = Some (itoa (length body))"
      "notified rc' = notified rc3 @
        [\<lparr>ev_Type = RequestEventType, ev_Payload = RequestPayload (Request rc') (CycleState rc')\<rparr>]"
    by blast
  have "streamed_bytes rs = body" "\<exists>n. chunk_flags rs = replicate n False @ [True]"
    using body_reply(1,3) by (simp_all only: rs)
  with rest f(3) show ?thesis
    by (auto simp: rs addStreamedBodyResponse_def)
qed

theorem request_reply_consistent_witness:
  "\<exists>rs rc'. HandleRequestBody (sample_env (JObj [(''model'', JStr ''m'')])) sample_server ''body''
      (new_context NewProfile ()) = (Inr rs, rc')
    \<and> streamed_bytes rs = ''body''
    \<and> map_of (Headers (Request rc')) ''Content-Length'' = Some ''4''
    \<and> map_of (Headers (Request rc')) ''x-model'' = Some ''m''"
proof -
  let ?env = "sample_env (JObj [(''model'', JStr ''m'')])"
  let ?rc = "new_context NewProfile () :: unit request_context"
  obtain rs rc' where run: "HandleRequestBody ?env sample_server ''body'' ?rc = (Inr rs, rc')"
      and p: "Profile rc' = sample_profile" "\<not> bodyMutated (Request rc')"
        "map_of (Headers (Request rc')) ''x-model'' = Some ''m''"
    by (simp add: HandleRequestBody_def sample_env_def sample_server_def new_context_def unmarshal_map_def
        NewInferenceRequest_def newInferenceMessage_def runRequestPlugins_def on_request_def
        BodyFieldToHeader_ProcessRequest_def Let_def pick_profile_def single_profile_picker_def
        SingleProfilePicker_Pick_def finish_request_def time_now_def sample_profile_def NewProfile_def
        SetHeader_def contentLengthHeader_def)
  have "\<forall>q\<in>set (preProcessors sample_server @ RequestPlugins (Profile rc')). header_discipline q message_of"
    using body_field.header_discipline_axioms by (simp add: p sample_server_def sample_profile_def NewProfile_def)
  moreover have "\<forall>pick. profilePicker sample_server = Some pick \<longrightarrow>
      header_discipline (\<lambda>st. (None, snd (pick (profiles sample_server) st))) message_of"
    using single_picker.header_discipline_axioms by (simp add: sample_server_def)
  moreover have "itoa (length ''body'') = ''4''" by code_simp
  ultimately show ?thesis
    using request_reply_consistent [OF run, of Map.empty] run p
    by (simp add: sample_env_def new_context_def contentLengthHeader_def)
qed

text \<open>
  C6: the reply to a buffered response body is consistent. When the response plugins keep the header
  discipline, a successful reply starts with one headers message whose mutation turns the headers of
  the upstream into those the plugins left. The body that follows, ended by its last chunk only, is the
  original one byte for byte unless a plugin changed it; then it is the encoded new body and the
  Content-Length is its length. A body that is neither JSON nor an event stream passes through
  without running a plugin. No event is sent.
\<close>

theorem response_reply_consistent:
  assumes "HandleResponseBody env s bytes rc = (Inr rs, rc')"
    and "tracks orig (Response rc)" and "\<not> bodyMutated (Response rc)"
    and "\<forall>p\<in>set (ResponsePlugins (Profile rc) @ postProcessors s). header_discipline p message_of"
    and "perm_of (ord_set env)" and "perm_of (ord_removed env)"
  shows "(\<exists>h. hd rs = PR_ResponseHeaders h \<and> headers_after orig h = map_of (Headers (Response rc')))
    \<and> (\<exists>n. chunk_flags rs = replicate n False @ [True])
    \<and> (if bodyMutated (Response rc')
       then json_marshal env (Body (Response rc')) = Inr (streamed_bytes rs)
         \<and> map_of (Headers (Response rc')) contentLengthHeader = Some (itoa (length (streamed_bytes rs)))
       else streamed_bytes rs = bytes)
    \<and> (parse_response env bytes (Response rc) = None \<longrightarrow> rc' = rc)
    \<and> notified rc' = notified rc"
proof -
  have "parse_response env bytes (Response rc) = None \<Longrightarrow> rc' = rc"
    using assms(1) by (auto simp: HandleResponseBody_def Let_def split: if_splits)
  with HandleResponseBody_reply [OF assms] show ?thesis
    unfolding response_reply_ok_def by blast
qed

theorem response_reply_consistent_witness:
  "\<exists>rs rc'. HandleResponseBody (sample_env (JObj [(''model'', JStr ''m'')])) sample_server ''body''
      (new_context sample_profile ()) = (Inr rs, rc')
    \<and> streamed_bytes rs = ''body'' \<and> map_of (Headers (Response rc')) ''sid'' = Some ''id''"
proof -
  let ?env = "sample_env (JObj [(''model'', JStr ''m'')])"
  let ?rc = "new_context sample_profile ()"
  obtain rs rc' where run: "HandleResponseBody ?env sample_server ''body'' ?rc = (Inr rs, rc')"
      and p: "\<not> bodyMutated (Response rc')" "map_of (Headers (Response rc')) ''sid'' = Some ''id''"
    by (simp add: HandleResponseBody_def sample_env_def sample_server_def new_context_def unmarshal_map_def
        NewInferenceResponse_def parse_response_def runResponsePlugins_def on_response_def Let_def
        SessionAffinity_ProcessResponse_def finish_response_def sample_profile_def NewProfile_def
        SetHeader_def responseModelField_def ReadCycleStateKey_string_def Read_def NewCycleState_def jstring_def)
  have "\<forall>q\<in>set (ResponsePlugins (Profile ?rc) @ postProcessors sample_server). header_discipline q message_of"
    using session_response.header_discipline_axioms
    by (simp add: sample_server_def new_context_def sample_profile_def)
  then show ?thesis
    using response_reply_consistent [OF run, of Map.empty] run p
    by (simp add: sample_env_def new_context_def) (simp add: NewInferenceResponse_def)
qed

text \<open>
  A request whose body is the JSON value null brings the handler down. The decoder sets the body to
  the nil map, the model selector picks a model as for any request without a model field, and storing
  the model's name into the nil map panics; nothing in the server recovers from a panic.
\<close>

theorem null_body_panics:
  assumes "json_parse env bytes = Some JNull" and "preProcessors s = []"
    and "profilePicker s = Some single_profile_picker" and "profiles s = [(n, prof)]"
    and "RequestPlugins prof = ModelSelector_ProcessRequest models ord ord' p # rest"
    and "\<forall>f\<in>set (filters p). model_filter f" and "\<forall>x\<in>set (scorers p). model_scorer (fst x) adm"
    and "picker p = Some (k, pick)" and "model_picker pick"
    and "perm_of ord" and "perm_of ord'" and "store_ok (models (shared rc))"
    and "model_names (models (shared rc)) \<noteq> {}"
    and "list_all adm (GetModels ord AllModelsPredicate (models (shared rc)))"
    and "fst (runFilterPlugins p ((Request rc)\<lparr>Body := None\<rparr>) (GetModels ord AllModelsPredicate (models (shared rc)))
           (shared rc, CycleState rc)) \<noteq> Inr []"
  shows "fst (HandleRequestBody env s bytes rc) = Inl (Panic ''assignment to entry in nil map'')"
proof -
  let ?cands = "GetModels ord AllModelsPredicate (models (shared rc))"
  let ?req = "(Request rc)\<lparr>Body := None\<rparr>"
  have ne: "?cands \<noteq> []" using GetModels_empty_iff [OF assms(10,12)] assms(13) by simp
  from Select_cases [OF assms(6-9) GetModels_distinct_names [OF assms(10,12)] assms(14,11) ne,
      of ?req "(shared rc, CycleState rc)"] assms(15)
  obtain m w c where "Select ord' p ?req ?cands (shared rc, CycleState rc) = (Inr m, (w, c))"
    by (metis prod.collapse)
  with assms(1-5) ne show ?thesis
    by (simp add: HandleRequestBody_def unmarshal_map_def runRequestPlugins_def on_request_def pick_profile_def
        single_profile_picker_def SingleProfilePicker_Pick_def ModelSelector_ProcessRequest_def Let_def SetBodyField_def)
qed

theorem null_body_panics_witness:
  "fst (HandleRequestBody (sample_env JNull)
      (sample_server\<lparr>preProcessors := [],
         profiles := [(''default'', NewProfile\<lparr>RequestPlugins :=
           [ModelSelector_ProcessRequest (\<lambda>_. [(''a'', NewModel ''a'')]) rev rev sample_pipeline]\<rparr>)]\<rparr>)
      ''null'' (new_context NewProfile ())) = Inl (Panic ''assignment to entry in nil map'')"
proof -
  define ds :: "unit store" where "ds = [(''a'', NewModel ''a'')]"
  have ds: "store_ok ds" "model_names ds \<noteq> {}" "GetModels rev AllModelsPredicate ds = [NewModel ''a'']"
    by (auto simp: ds_def store_ok_def model_names_def GetModels_def AllModelsPredicate_def split: if_splits)
  have f: "fst (runFilterPlugins sample_pipeline (NewInferenceRequest\<lparr>Body := None\<rparr>) [NewModel ''a''] ((), NewCycleState))
      \<noteq> Inr []"
    by (simp add: runFilterPlugins_def sample_pipeline_def ModelGroupFilter_Filter_def ModelGroupFilter_models_def
        requested_model_def group_name_defs)
  show ?thesis unfolding ds_def [symmetric]
    by (rule null_body_panics [OF _ _ _ _ _ sample_pipeline_contracts(1,2) _ maxscore.model_picker_axioms perm_of_rev
          perm_of_rev, where models = "\<lambda>_. ds" and rest = "[]" and n = "''default''"
            and prof = "NewProfile\<lparr>RequestPlugins := [ModelSelector_ProcessRequest (\<lambda>_. ds) rev rev sample_pipeline]\<rparr>"])
       (simp_all add: sample_env_def sample_server_def sample_pipeline_contracts(3) ds f new_context_def NewProfile_def)
qed

end
