(* ===== verification/Ext_Proc.thy ===== *)
theory Ext_Proc
  imports Handlers
begin

text \<open>
  The ext-proc stream (\<^verbatim>\<open>Process\<close> in \<^verbatim>\<open>pkg/handlers/server.go\<close>): one run of the receive loop over the
  messages of one HTTP exchange. The loop is a function on the list of what happens at its receive
  points: the stream context is cancelled, the peer closes, receiving fails, a message arrives, or, with
  nothing for this stream, other goroutines change the shared state (\<open>Others\<close>). The run is over when the
  loop returns; when the list ends first the stream is still open (\<open>Waiting\<close>).

  \<open>sent\<close> is what the peer got; \<open>send_err\<close> says, from what was sent before, whether sending a message
  fails. A panic is not an error value, it ends the run (\<open>Crashed\<close>).
\<close>

subsection \<open>The model\<close>

datatype processing_request =
    RequestHeadersMsg "http_headers option"
  | RequestBodyMsg string bool
  | RequestTrailersMsg
  | ResponseHeadersMsg "http_headers option"
  | ResponseBodyMsg string bool
  | ResponseTrailersMsg
  | UnknownMsg

datatype 'w input =
    Others "'w \<Rightarrow> 'w"
  | Ctx_Done
  | Recv_EOF
  | Recv_Error string
  | Recv processing_request

datatype outcome =
    Waiting
  | Finished
  | Status_Error nat string
  | Context_Error
  | Crashed string

record 'w stream =
  reqCtx :: "'w request_context"
  requestBody :: string
  responseBody :: string
  requestBodyComplete :: bool
  responseBodyComplete :: bool
  sent :: "processing_response list"

definition new_stream :: "'w \<Rightarrow> 'w stream" where
  "new_stream w =
     \<lparr>reqCtx = new_context NewProfile w, requestBody = [], responseBody = [],
      requestBodyComplete = False, responseBodyComplete = False, sent = []\<rparr>"

text \<open>Running a handler on the stream's request context.\<close>

definition on_ctx :: "('w request_context \<Rightarrow> 'r \<times> 'w request_context) \<Rightarrow> 'w stream \<Rightarrow> 'r \<times> 'w stream" where
  "on_ctx f st = (case f (reqCtx st) of (r, rc) \<Rightarrow> (r, st\<lparr>reqCtx := rc\<rparr>))"

definition process_request_body ::
  "'w env \<Rightarrow> 'w server \<Rightarrow> string \<Rightarrow> bool \<Rightarrow> 'w stream \<Rightarrow> (go_error + processing_response list) \<times> 'w stream" where
  "process_request_body env s body eos st =
     (if requestBodyComplete st then (Inr [], st)
      else let st1 = st\<lparr>requestBody := requestBody st @ body\<rparr>
           in if \<not> eos then (Inr [], st1)
              else on_ctx (HandleRequestBody env s (requestBody st1)) (st1\<lparr>requestBodyComplete := True\<rparr>))"

text \<open>\<^verbatim>\<open>if reqCtx.ResponseFirstChunkTimestamp.IsZero()\<close>\<close>

definition stamp_first_chunk :: "'w env \<Rightarrow> 'w request_context \<Rightarrow> 'w request_context" where
  "stamp_first_chunk env rc =
     (if ResponseFirstChunkTimestamp rc = 0
      then case time_now env rc of (t, rc1) \<Rightarrow> rc1\<lparr>ResponseFirstChunkTimestamp := t\<rparr>
      else rc)"

text \<open>The end of the response body: timestamp, parsed body, event.\<close>

definition complete_response :: "'w env \<Rightarrow> string \<Rightarrow> 'w request_context \<Rightarrow> 'w request_context" where
  "complete_response env bytes rc =
     (case time_now env rc of (t, rc0) \<Rightarrow>
        (let response =
               (if jlen (Body (Response rc0)) = 0 \<and> length bytes > 0
                then case parse_response env bytes (Response rc0) of Some r \<Rightarrow> r | None \<Rightarrow> Response rc0
                else Response rc0)
         in rc0\<lparr>ResponseCompleteTimestamp := t, Response := response,
                notified := notified rc0 @
                  [\<lparr>ev_Type = ResponseEventType,
                    ev_Payload = ResponsePayload (Request rc0) response (CycleState rc0)
                      (time_sub t (RequestReceivedTimestamp rc0))
                      (time_sub (ResponseFirstChunkTimestamp rc0) (RequestSentTimestamp rc0))\<rparr>],
                recorded := recorded rc0 @
                  [RequestTTFT (jstring (Body (Request rc0)) ''model'')
                     (time_sub (ResponseFirstChunkTimestamp rc0) (RequestReceivedTimestamp rc0))]\<rparr>))"

fun panicked :: "(go_error + 'r) \<Rightarrow> bool" where
  "panicked (Inl e) = is_panic e"
| "panicked (Inr _) = False"

definition process_response_body ::
  "'w env \<Rightarrow> 'w server \<Rightarrow> string \<Rightarrow> bool \<Rightarrow> 'w stream \<Rightarrow> (go_error + processing_response list) \<times> 'w stream" where
  "process_response_body env s body eos st =
     (if responseBodyComplete st then (Inr [], st)
      else let st1 = st\<lparr>reqCtx := stamp_first_chunk env (reqCtx st), responseBody := responseBody st @ body\<rparr>
           in if NeedsResponseBuffering (Profile (reqCtx st1)) \<and> \<not> eos then (Inr [], st1)
              else (case (if NeedsResponseBuffering (Profile (reqCtx st1))
                          then on_ctx (HandleResponseBody env s (responseBody st1)) st1
                          else on_ctx (HandleResponseChunk env body eos) st1) of
                      (r, st2) \<Rightarrow>
                        if eos \<and> \<not> panicked r
                        then (r, st2\<lparr>responseBodyComplete := True,
                                     reqCtx := complete_response env (responseBody st2) (reqCtx st2)\<rparr>)
                        else (r, st2)))"

fun handle_msg ::
  "'w env \<Rightarrow> 'w server \<Rightarrow> processing_request \<Rightarrow> 'w stream \<Rightarrow> (go_error + processing_response list) \<times> 'w stream" where
  "handle_msg env s (RequestHeadersMsg h) st = apfst Inr (on_ctx (HandleRequestHeaders env h) st)"
| "handle_msg env s (RequestBodyMsg b eos) st = process_request_body env s b eos st"
| "handle_msg env s RequestTrailersMsg st = (Inr HandleRequestTrailers, st)"
| "handle_msg env s (ResponseHeadersMsg h) st = on_ctx (HandleResponseHeaders env s h) st"
| "handle_msg env s (ResponseBodyMsg b eos) st = process_response_body env s b eos st"
| "handle_msg env s ResponseTrailersMsg st = (Inr HandleResponseTrailers, st)"
| "handle_msg env s UnknownMsg st = (Inr [], st)"

type_synonym send_errors = "processing_response list \<Rightarrow> processing_response \<Rightarrow> string option"

fun send_all :: "send_errors \<Rightarrow> processing_response list \<Rightarrow> 'w stream \<Rightarrow> string option \<times> 'w stream" where
  "send_all send_err [] st = (None, st)"
| "send_all send_err (r # rs) st =
     (case send_err (sent st) r of
        Some m \<Rightarrow> (Some m, st)
      | None \<Rightarrow> send_all send_err rs (st\<lparr>sent := sent st @ [r]\<rparr>))"

definition codes_Unknown :: nat where
  "codes_Unknown = 2"

definition send_failure :: "string \<Rightarrow> outcome" where
  "send_failure m = Status_Error codes_Unknown (''failed to send response back to Envoy: '' @ m)"

text \<open>An error of a handler: an immediate response, or a gRPC status when it has no HTTP code.\<close>

definition reply_error ::
  "(go_error \<Rightarrow> nat) \<Rightarrow> send_errors \<Rightarrow> go_error \<Rightarrow> 'w stream \<Rightarrow> outcome \<times> 'w stream" where
  "reply_error status_code send_err e st =
     (case e of
        Panic m \<Rightarrow> (Crashed m, st)
      | _ \<Rightarrow>
          (case BuildErrResponse status_code e of
             Inl (code, msg) \<Rightarrow> (Status_Error code msg, st)
           | Inr resp \<Rightarrow>
               (case send_all send_err [resp] st of
                  (Some m, st1) \<Rightarrow> (send_failure m, st1)
                | (None, st1) \<Rightarrow> (Finished, st1))))"

fun process_loop ::
  "'w env \<Rightarrow> 'w server \<Rightarrow> (go_error \<Rightarrow> nat) \<Rightarrow> send_errors \<Rightarrow> 'w input list \<Rightarrow> 'w stream \<Rightarrow> outcome \<times> 'w stream" where
  "process_loop env s sc se [] st = (Waiting, st)"
| "process_loop env s sc se (Others f # is) st =
     process_loop env s sc se is (st\<lparr>reqCtx := (reqCtx st)\<lparr>shared := f (shared (reqCtx st))\<rparr>\<rparr>)"
| "process_loop env s sc se (Ctx_Done # is) st = (Context_Error, st)"
| "process_loop env s sc se (Recv_EOF # is) st = (Finished, st)"
| "process_loop env s sc se (Recv_Error m # is) st =
     (Status_Error codes_Unknown (''cannot receive stream request: '' @ m), st)"
| "process_loop env s sc se (Recv v # is) st =
     (if v = UnknownMsg then (Status_Error codes_Unknown ''unknown request type'', st)
      else case handle_msg env s v st of
             (Inl e, st1) \<Rightarrow> reply_error sc se e st1
           | (Inr responses, st1) \<Rightarrow>
               (case send_all se responses st1 of
                  (Some m, st2) \<Rightarrow> (send_failure m, st2)
                | (None, st2) \<Rightarrow> process_loop env s sc se is st2))"

definition Process ::
  "'w env \<Rightarrow> 'w server \<Rightarrow> (go_error \<Rightarrow> nat) \<Rightarrow> send_errors \<Rightarrow> 'w input list \<Rightarrow> 'w \<Rightarrow> outcome \<times> 'w stream" where
  "Process env s sc se inputs w = process_loop env s sc se inputs (new_stream w)"

subsection \<open>Request body chunks\<close>

lemma process_loop_silent:
  assumes "v \<noteq> UnknownMsg" and "handle_msg env s v st = (Inr [], st1)"
  shows "process_loop env s sc se (Recv v # is) st = process_loop env s sc se is st1"
  using assms by simp

lemma request_chunks_append:
  "process_loop env s sc se (Recv (RequestBodyMsg a False) # Recv (RequestBodyMsg b eos) # is) st
     = process_loop env s sc se (Recv (RequestBodyMsg (a @ b) eos) # is) st"
  by (cases "requestBodyComplete st") (simp_all add: process_request_body_def Let_def)

lemma request_chunks_concat:
  "process_loop env s sc se (map (\<lambda>b. Recv (RequestBodyMsg b False)) bs @ Recv (RequestBodyMsg b eos) # is) st
     = process_loop env s sc se (Recv (RequestBodyMsg (concat bs @ b) eos) # is) st"
proof (induction bs arbitrary: st)
  case (Cons a bs)
  obtain st1 where "handle_msg env s (RequestBodyMsg a False) st = (Inr [], st1)"
    by (cases "requestBodyComplete st") (simp_all add: process_request_body_def Let_def)
  then have *: "process_loop env s sc se (Recv (RequestBodyMsg a False) # is') st = process_loop env s sc se is' st1"
    for is' by (intro process_loop_silent) simp_all
  have "process_loop env s sc se (map (\<lambda>b. Recv (RequestBodyMsg b False)) (a # bs) @ Recv (RequestBodyMsg b eos) # is) st
      = process_loop env s sc se (Recv (RequestBodyMsg a False) # Recv (RequestBodyMsg (concat bs @ b) eos) # is) st"
    by (simp only: list.map append_Cons * Cons.IH)
  then show ?case by (simp only: request_chunks_append concat.simps append_assoc)
qed simp

subsection \<open>Events\<close>

text \<open>The handlers notify nothing, but for the one event of a successful request body.\<close>

lemma runs_notified:
  "runRequestPlugins ps rc = (r, rc') \<Longrightarrow> notified rc' = notified rc"
  "runResponsePlugins qs rc = (r, rc') \<Longrightarrow> notified rc' = notified rc"
  "runResponseHeadersProcessors s rc = (r, rc') \<Longrightarrow> notified rc' = notified rc"
  "runResponseChunkProcessors e cs rc = (r, rc') \<Longrightarrow> notified rc' = notified rc"
  "pick_profile s rc = (q, rc') \<Longrightarrow> notified rc' = notified rc"
  by (auto simp: runRequestPlugins_def runResponsePlugins_def runResponseHeadersProcessors_def
      runResponseChunkProcessors_def pick_profile_def split: if_splits option.splits
      dest: on_request_frame(2) on_response_frame(2))

lemma runs_profile:
  "runResponsePlugins qs rc = (r, rc') \<Longrightarrow> Profile rc' = Profile rc"
  "runResponseChunkProcessors e cs rc = (r, rc') \<Longrightarrow> Profile rc' = Profile rc"
  "runResponseHeadersProcessors s rc = (r, rc') \<Longrightarrow> Profile rc' = Profile rc"
  by (auto simp: runResponsePlugins_def runResponseHeadersProcessors_def
      runResponseChunkProcessors_def split: if_splits dest: on_response_frame(1))

lemma finish_request_notified:
  assumes "finish_request env b rc = (r, rc')"
  shows "\<exists>p. notified rc' = notified rc @
      (case r of Inl _ \<Rightarrow> [] | Inr _ \<Rightarrow> [\<lparr>ev_Type = RequestEventType, ev_Payload = p\<rparr>])"
  using assms by (auto simp: finish_request_def Let_def split: sum.splits prod.splits dest: time_now_frame(2))

lemma HandleRequestBody_notified:
  assumes "HandleRequestBody env s b rc = (r, rc')"
  shows "\<exists>p. notified rc' = notified rc @
      (case r of Inl _ \<Rightarrow> [] | Inr _ \<Rightarrow> [\<lparr>ev_Type = RequestEventType, ev_Payload = p\<rparr>])"
proof (cases r)
  case (Inl e)
  then show ?thesis
    using assms
    by (auto simp: HandleRequestBody_def split: option.splits prod.splits sum.splits
        dest!: runs_notified finish_request_notified)
next
  case (Inr rs)
  show ?thesis
  proof (rule HandleRequestBody_success [OF assms [unfolded Inr]])
    fix rc3
    assume "finish_request env b rc3 = (Inr rs, rc')" "notified rc3 = notified rc"
    then show ?thesis using finish_request_notified [of env b rc3 "Inr rs" rc'] Inr by simp
  qed
qed

lemma HandleRequestHeaders_frame:
  assumes "HandleRequestHeaders env h rc = (rs, rc')"
  shows "notified rc' = notified rc" "Profile rc' = Profile rc"
  using assms by (auto simp: HandleRequestHeaders_def injectTraceContextHeaders_def Let_def split: prod.splits if_splits
      dest: time_now_frame(1,2))

lemma HandleResponseHeaders_frame:
  assumes "HandleResponseHeaders env s h rc = (r, rc')"
  shows "notified rc' = notified rc"
  using assms by (auto simp: HandleResponseHeaders_def split: prod.splits option.splits if_splits dest!: runs_notified)

lemma finish_response_frame:
  "finish_response env b rc = (r, rc') \<Longrightarrow> notified rc' = notified rc"
  by (auto simp: finish_response_def Let_def split: sum.splits)

lemma HandleResponseBody_frame:
  assumes "HandleResponseBody env s b rc = (r, rc')"
  shows "notified rc' = notified rc"
  using assms
  by (auto simp: HandleResponseBody_def Let_def split: if_splits prod.splits option.splits
      dest!: runs_notified finish_response_frame)

lemma buildStreamedChunkResponse_frame:
  assumes "buildStreamedChunkResponse env c eos rc = (rs, rc')"
  shows "notified rc' = notified rc" "Profile rc' = Profile rc" "Response rc' = Response rc" "ResponseHeadersSent rc'"
    "ResponseFirstChunkTimestamp rc' = ResponseFirstChunkTimestamp rc"
  using assms by (auto simp: buildStreamedChunkResponse_def Let_def split: if_splits)

text \<open>A chunk is processed (unchanged without processors) and wrapped, or a processor fails.\<close>

lemma HandleResponseChunk_cases:
  assumes "HandleResponseChunk env c eos rc = (r, rc')"
  obtains (wrapped) out rc1 rs where "r = Inr rs" "buildStreamedChunkResponse env out eos rc1 = (rs, rc')"
      "Profile rc1 = Profile rc" "notified rc1 = notified rc" "ResponseHeadersSent rc1 = ResponseHeadersSent rc"
      "ResponseChunkProcessors (Profile rc) = [] \<longrightarrow> rc1 = rc \<and> out = c"
    | (failed) e where "r = Inl e" "Profile rc' = Profile rc" "notified rc' = notified rc"
proof (cases "ResponseChunkProcessors (Profile rc) = []")
  case True
  obtain rs rc0 where "buildStreamedChunkResponse env c eos rc = (rs, rc0)" by (metis surj_pair)
  with True assms show thesis by (intro wrapped [of rs c rc]) (auto simp: HandleResponseChunk_def)
next
  case False
  obtain res rc1 where 1: "runResponseChunkProcessors eos (ResponseChunkProcessors (Profile rc))
      (rc\<lparr>Response := ResetChunkState c (Response rc)\<rparr>) = (res, rc1)" by (metis surj_pair)
  have f: "Profile rc1 = Profile rc" "notified rc1 = notified rc" "ResponseHeadersSent rc1 = ResponseHeadersSent rc"
    using on_response_frame(1,2,4) [OF 1 [unfolded runResponseChunkProcessors_def]] by simp_all
  show thesis
  proof (cases res)
    case (Some e)
    then show thesis using False assms 1 f by (intro failed [of e]) (auto simp: HandleResponseChunk_def)
  next
    case None
    define out where "out = (if chunkMutated (Response rc1) then CurrentChunk (Response rc1) else c)"
    obtain rs rc0 where "buildStreamedChunkResponse env out eos rc1 = (rs, rc0)" by (metis surj_pair)
    with None False assms 1 f show thesis
      by (intro wrapped [of rs out rc1]) (auto simp: HandleResponseChunk_def Let_def out_def)
  qed
qed

lemma HandleResponseChunk_frame:
  assumes "HandleResponseChunk env c eos rc = (r, rc')"
  shows "notified rc' = notified rc" "Profile rc' = Profile rc"
  using HandleResponseChunk_cases [OF assms]
  by (metis buildStreamedChunkResponse_frame(1), metis buildStreamedChunkResponse_frame(2))

lemma stamp_first_chunk_frame [simp]:
  "notified (stamp_first_chunk env rc) = notified rc" "Profile (stamp_first_chunk env rc) = Profile rc"
  "Response (stamp_first_chunk env rc) = Response rc"
  "ResponseHeadersSent (stamp_first_chunk env rc) = ResponseHeadersSent rc"
  by (auto simp: stamp_first_chunk_def split: prod.splits dest: time_now_frame)

lemma complete_response_notified:
  "\<exists>p. notified (complete_response env b rc) = notified rc @ [\<lparr>ev_Type = ResponseEventType, ev_Payload = p\<rparr>]"
  by (auto simp: complete_response_def Let_def split: prod.splits dest: time_now_frame(2))

text \<open>The events of one kind, and the invariant of the loop: one for each completed body at most.\<close>

definition events_of :: "string \<Rightarrow> 'w stream \<Rightarrow> event list" where
  "events_of ty st = filter (\<lambda>e. ev_Type e = ty) (notified (reqCtx st))"

definition events_inv :: "'w stream \<Rightarrow> bool" where
  "events_inv st \<longleftrightarrow>
     length (events_of RequestEventType st) \<le> (if requestBodyComplete st then 1 else 0)
     \<and> length (events_of ResponseEventType st) \<le> (if responseBodyComplete st then 1 else 0)"

lemma events_inv_cong:
  assumes "notified (reqCtx st') = notified (reqCtx st)"
    and "requestBodyComplete st' = requestBodyComplete st" and "responseBodyComplete st' = responseBodyComplete st"
  shows "events_inv st' = events_inv st"
  using assms by (simp add: events_inv_def events_of_def)

lemma process_request_body_inv:
  assumes "process_request_body env s b eos st = (r, st')" and "events_inv st"
  shows "events_inv st'"
proof (cases "requestBodyComplete st \<or> \<not> eos")
  case True
  then have "notified (reqCtx st') = notified (reqCtx st)"
      "requestBodyComplete st' = requestBodyComplete st" "responseBodyComplete st' = responseBodyComplete st"
    using assms(1) by (auto simp: process_request_body_def Let_def split: if_splits)
  then show ?thesis using assms(2) events_inv_cong by blast
next
  case False
  then obtain rc where h: "HandleRequestBody env s (requestBody st @ b) (reqCtx st) = (r, rc)"
      and st': "reqCtx st' = rc" "requestBodyComplete st'" "responseBodyComplete st' = responseBodyComplete st"
    using assms(1) by (auto simp: process_request_body_def Let_def on_ctx_def split: prod.splits)
  from HandleRequestBody_notified [OF h] obtain p where
    "notified rc = notified (reqCtx st) @
      (case r of Inl _ \<Rightarrow> [] | Inr _ \<Rightarrow> [\<lparr>ev_Type = RequestEventType, ev_Payload = p\<rparr>])" by blast
  then show ?thesis
    using assms(2) False st' by (auto simp: events_inv_def events_of_def split: sum.splits)
qed

lemma process_response_body_run:
  assumes "\<not> responseBodyComplete st" and "eos \<or> \<not> NeedsResponseBuffering (Profile (reqCtx st))"
  shows "process_response_body env s b eos st =
    (case (if NeedsResponseBuffering (Profile (reqCtx st)) then HandleResponseBody env s (responseBody st @ b)
           else HandleResponseChunk env b eos) (stamp_first_chunk env (reqCtx st)) of
       (r, rc) \<Rightarrow> if eos \<and> \<not> panicked r
         then (r, st\<lparr>reqCtx := complete_response env (responseBody st @ b) rc, responseBody := responseBody st @ b,
                     responseBodyComplete := True\<rparr>)
         else (r, st\<lparr>reqCtx := rc, responseBody := responseBody st @ b\<rparr>))"
  using assms by (cases st) (auto simp: process_response_body_def Let_def on_ctx_def split: prod.split)

lemma process_response_body_inv:
  assumes "process_response_body env s b eos st = (r, st')" and "events_inv st"
  shows "events_inv st'"
proof (cases "responseBodyComplete st \<or> NeedsResponseBuffering (Profile (reqCtx st)) \<and> \<not> eos")
  case True
  then have "notified (reqCtx st') = notified (reqCtx st)"
      "requestBodyComplete st' = requestBodyComplete st" "responseBodyComplete st' = responseBodyComplete st"
    using assms(1) by (auto simp: process_response_body_def Let_def split: if_splits)
  then show ?thesis using assms(2) events_inv_cong by blast
next
  case False
  define h where "h = (if NeedsResponseBuffering (Profile (reqCtx st))
    then HandleResponseBody env s (responseBody st @ b) else HandleResponseChunk env b eos)"
  obtain r2 rc2 where h2: "h (stamp_first_chunk env (reqCtx st)) = (r2, rc2)" by (metis surj_pair)
  then have n2: "notified rc2 = notified (reqCtx st)"
    by (auto simp: h_def split: if_splits dest!: HandleResponseBody_frame HandleResponseChunk_frame(1))
  have c: "\<not> responseBodyComplete st" "eos \<or> \<not> NeedsResponseBuffering (Profile (reqCtx st))"
    using False by auto
  have run: "(r, st') = (if eos \<and> \<not> panicked r2
      then (r2, st\<lparr>reqCtx := complete_response env (responseBody st @ b) rc2, responseBody := responseBody st @ b,
                  responseBodyComplete := True\<rparr>)
      else (r2, st\<lparr>reqCtx := rc2, responseBody := responseBody st @ b\<rparr>))"
    using process_response_body_run [OF c, of env s b, folded h_def] assms(1) h2 by simp
  show ?thesis
  proof (cases "eos \<and> \<not> panicked r2")
    case True
    obtain p where "notified (complete_response env (responseBody st @ b) rc2)
        = notified rc2 @ [\<lparr>ev_Type = ResponseEventType, ev_Payload = p\<rparr>]"
      using complete_response_notified by blast
    then show ?thesis
      using run True n2 assms(2) False by (auto simp: events_inv_def events_of_def)
  next
    case F: False
    then show ?thesis
      using run n2 assms(2) by (auto simp: events_inv_def events_of_def)
  qed
qed

lemma handle_msg_inv:
  assumes "handle_msg env s v st = (r, st')" and "events_inv st"
  shows "events_inv st'"
proof -
  have same: "events_inv st'" if "on_ctx f st = (q, st')" "\<And>q' rc. f (reqCtx st) = (q', rc) \<Longrightarrow> notified rc = notified (reqCtx st)"
    for f :: "'a request_context \<Rightarrow> 'q \<times> 'a request_context" and q
    using that assms(2) events_inv_cong [of st' st] by (auto simp: on_ctx_def split: prod.splits)
  show ?thesis
  proof (cases v)
    case (RequestHeadersMsg h)
    then obtain q where "on_ctx (HandleRequestHeaders env h) st = (q, st')"
      using assms(1) by (cases "on_ctx (HandleRequestHeaders env h) st") auto
    then show ?thesis by (rule same) (rule HandleRequestHeaders_frame)
  next
    case (RequestBodyMsg b eos)
    then show ?thesis using process_request_body_inv assms by simp
  next
    case (ResponseHeadersMsg h)
    then have "on_ctx (HandleResponseHeaders env s h) st = (r, st')" using assms(1) by simp
    then show ?thesis by (rule same) (rule HandleResponseHeaders_frame)
  next
    case (ResponseBodyMsg b eos)
    then show ?thesis using process_response_body_inv assms by simp
  qed (use assms in auto)
qed

lemma send_all_frame:
  "send_all se rs st = (m, st') \<Longrightarrow> reqCtx st' = reqCtx st \<and> requestBody st' = requestBody st \<and> responseBody st' = responseBody st
    \<and> requestBodyComplete st' = requestBodyComplete st \<and> responseBodyComplete st' = responseBodyComplete st"
  by (induction rs arbitrary: st) (fastforce split: option.splits)+

lemma send_all_inv: "send_all se rs st = (m, st') \<Longrightarrow> events_inv st' = events_inv st"
  using send_all_frame events_inv_cong by metis

lemma reply_error_inv: "events_inv st \<Longrightarrow> events_inv (snd (reply_error sc se e st))"
  by (auto simp: reply_error_def split: go_error.splits sum.splits prod.splits option.splits
      simp del: send_all.simps dest: send_all_inv)

lemma process_loop_inv: "events_inv st \<Longrightarrow> events_inv (snd (process_loop env s sc se is st))"
proof (induction "is" arbitrary: st)
  case (Cons i "is")
  show ?case
  proof (cases i)
    case (Others f)
    then show ?thesis using Cons events_inv_cong [of "st\<lparr>reqCtx := (reqCtx st)\<lparr>shared := f (shared (reqCtx st))\<rparr>\<rparr>" st] by simp
  next
    case (Recv v)
    obtain r st1 where h: "handle_msg env s v st = (r, st1)" by (metis surj_pair)
    have 1: "events_inv st1" using handle_msg_inv [OF h Cons.prems] .
    show ?thesis
    proof (cases r)
      case (Inl e)
      then show ?thesis using Recv h Cons.prems reply_error_inv [OF 1, of sc se e] by simp
    next
      case (Inr rs)
      obtain m st2 where sa: "send_all se rs st1 = (m, st2)" by (metis surj_pair)
      then have "events_inv st2" using send_all_inv 1 by blast
      then show ?thesis using Recv h Inr sa Cons by (cases m) simp_all
    qed
  qed (use Cons.prems in simp_all)
qed simp

lemma new_stream_inv: "events_inv (new_stream w)"
  by (simp add: events_inv_def events_of_def new_stream_def new_context_def)

subsection \<open>Streaming a response\<close>

definition response_chunks :: "(string \<times> bool) list \<Rightarrow> 'w input list" where
  "response_chunks cs = map (\<lambda>(b, eos). Recv (ResponseBodyMsg b eos)) cs"

lemma response_chunks_Cons [simp]:
  "response_chunks [] = []"
  "response_chunks ((b, eos) # cs) = Recv (ResponseBodyMsg b eos) # response_chunks cs"
  by (simp_all add: response_chunks_def)

lemma send_all_ok: "send_all se rs st = (None, st') \<Longrightarrow> sent st' = sent st @ rs"
  by (induction rs arbitrary: st) (fastforce split: option.splits)+

lemma send_all_no_error: "(\<And>l r. se l r = None) \<Longrightarrow> send_all se rs st = (None, st\<lparr>sent := sent st @ rs\<rparr>)"
  by (induction rs arbitrary: st) simp_all

lemma reply_error_not_waiting: "reply_error sc se e st \<noteq> (Waiting, st')"
  by (auto simp: reply_error_def send_failure_def split: go_error.splits sum.splits prod.splits option.splits)

text \<open>A run that goes on after a message: its handler succeeded and its replies were sent.\<close>

lemma process_loop_goes_on:
  assumes "process_loop env s sc se (Recv v # is) st = (Waiting, st')"
  obtains rs st1 st2 where "handle_msg env s v st = (Inr rs, st1)" "send_all se rs st1 = (None, st2)"
    "process_loop env s sc se is st2 = (Waiting, st')"
proof -
  obtain r st1 where h: "handle_msg env s v st = (r, st1)" by (metis surj_pair)
  have v: "v \<noteq> UnknownMsg" using assms by auto
  obtain rs where r: "r = Inr rs"
    using assms h v by (cases r) (auto simp: reply_error_not_waiting)
  obtain m st2 where sa: "send_all se rs st1 = (m, st2)" by (metis surj_pair)
  have "m = None" using assms h v r sa by (cases m) (auto simp: send_failure_def)
  with h r sa v assms show thesis by (intro that [of rs st1 st2]) auto
qed

lemma complete_response_frame [simp]:
  "Profile (complete_response env b rc) = Profile rc"
  "ResponseHeadersSent (complete_response env b rc) = ResponseHeadersSent rc"
  by (auto simp: complete_response_def Let_def split: prod.splits dest: time_now_frame)

lemma stream_chunk_step:
  assumes "process_loop env s sc se (Recv (ResponseBodyMsg b eos) # is) st = (Waiting, st')"
    and "\<not> NeedsResponseBuffering (Profile (reqCtx st))" and "\<not> responseBodyComplete st"
  obtains c h st1 where "process_loop env s sc se is st1 = (Waiting, st')"
    "sent st1 = sent st @ (if ResponseHeadersSent (reqCtx st) then [] else [PR_ResponseHeaders h]) @ [PR_ResponseBody c]"
    "chunk_eos c = eos" "ResponseHeadersSent (reqCtx st1)" "Profile (reqCtx st1) = Profile (reqCtx st)"
    "responseBodyComplete st1 = eos" "responseBody st1 = responseBody st @ b"
    "ResponseChunkProcessors (Profile (reqCtx st)) = [] \<longrightarrow>
       chunk_bytes c = b \<and> h = buildHeadersResponse env (reqCtx st)"
proof (rule process_loop_goes_on [OF assms(1)])
  fix rs st1 st2
  assume h: "handle_msg env s (ResponseBodyMsg b eos) st = (Inr rs, st1)" "send_all se rs st1 = (None, st2)"
    "process_loop env s sc se is st2 = (Waiting, st')"
  let ?rc = "stamp_first_chunk env (reqCtx st)"
  obtain r rc where c: "HandleResponseChunk env b eos ?rc = (r, rc)" by (metis surj_pair)
  have run: "(Inr rs, st1) = (if eos \<and> \<not> panicked r
      then (r, st\<lparr>reqCtx := complete_response env (responseBody st @ b) rc, responseBody := responseBody st @ b,
                 responseBodyComplete := True\<rparr>)
      else (r, st\<lparr>reqCtx := rc, responseBody := responseBody st @ b\<rparr>))"
    using h(1) process_response_body_run [of st eos env s b] assms(2,3) c by simp
  then have r: "r = Inr rs" by (simp split: if_splits)
  from c show thesis
  proof (cases rule: HandleResponseChunk_cases)
    case (wrapped out rc1 rs')
    have "sent st1 = sent st" "Profile (reqCtx st1) = Profile (reqCtx st)" "ResponseHeadersSent (reqCtx st1)"
        "responseBodyComplete st1 = eos" "responseBody st1 = responseBody st @ b"
      using run r assms(3) wrapped(3) buildStreamedChunkResponse_frame(2,4) [OF wrapped(2)]
      by (auto split: if_splits)
    moreover have "rs = (if ResponseHeadersSent (reqCtx st) then [] else [PR_ResponseHeaders (buildHeadersResponse env rc1)])
        @ [PR_ResponseBody (chunk_response out eos)]"
      using wrapped(1,2,5) r by (auto simp: buildStreamedChunkResponse_def Let_def split: if_splits)
    ultimately show thesis
      using h(3) send_all_ok [OF h(2)] send_all_frame [OF h(2)] wrapped(6)
      by (intro that [of st2 "buildHeadersResponse env rc1" "chunk_response out eos"])
         (auto simp: buildHeadersResponse_def)
  qed (use r in simp)
qed

lemma stream_chunks_sent:
  assumes "process_loop env s sc se (response_chunks cs) st = (Waiting, st')"
    and "\<not> NeedsResponseBuffering (Profile (reqCtx st))" and "\<not> responseBodyComplete st"
    and "\<forall>c\<in>set (butlast cs). \<not> snd c" and "ResponseHeadersSent (reqCtx st)"
  shows "\<exists>bodies. sent st' = sent st @ map PR_ResponseBody bodies \<and> map chunk_eos bodies = map snd cs
    \<and> (ResponseChunkProcessors (Profile (reqCtx st)) = [] \<longrightarrow> map chunk_bytes bodies = map fst cs)"
  using assms
proof (induction cs arbitrary: st)
  case (Cons x cs)
  obtain b eos where x: "x = (b, eos)" by (cases x)
  from Cons.prems(1) have run: "process_loop env s sc se (Recv (ResponseBodyMsg b eos) # response_chunks cs) st = (Waiting, st')"
    by (simp add: x)
  from run Cons.prems(2,3) show ?case
  proof (rule stream_chunk_step)
    fix c h st1
    assume st1: "process_loop env s sc se (response_chunks cs) st1 = (Waiting, st')"
      "sent st1 = sent st @ (if ResponseHeadersSent (reqCtx st) then [] else [PR_ResponseHeaders h]) @ [PR_ResponseBody c]"
      "chunk_eos c = eos" "ResponseHeadersSent (reqCtx st1)" "Profile (reqCtx st1) = Profile (reqCtx st)"
      "responseBodyComplete st1 = eos"
      "ResponseChunkProcessors (Profile (reqCtx st)) = [] \<longrightarrow>
         chunk_bytes c = b \<and> h = buildHeadersResponse env (reqCtx st)"
    show ?case
    proof (cases "cs = []")
      case True
      then show ?thesis using st1 Cons.prems(5) x by (intro exI [of _ "[c]"]) auto
    next
      case False
      then have "\<not> eos" "\<forall>c\<in>set (butlast cs). \<not> snd c" using Cons.prems(4) x by auto
      then obtain bodies where "sent st' = sent st1 @ map PR_ResponseBody bodies" "map chunk_eos bodies = map snd cs"
          "ResponseChunkProcessors (Profile (reqCtx st)) = [] \<longrightarrow> map chunk_bytes bodies = map fst cs"
        using Cons.IH [OF st1(1) _ _ _ st1(4)] Cons.prems(2) st1(5,6) by auto
      then show ?thesis using st1(2,3,7) Cons.prems(5) x by (intro exI [of _ "c # bodies"]) auto
    qed
  qed
qed simp

text \<open>Without chunk processors a chunk changes the context in known ways only.\<close>

lemma stream_plain_step:
  assumes "process_loop env s sc se (Recv (ResponseBodyMsg b eos) # is) st = (Waiting, st')"
    and "\<not> NeedsResponseBuffering (Profile (reqCtx st))" and "\<not> responseBodyComplete st"
    and "ResponseChunkProcessors (Profile (reqCtx st)) = []"
  obtains st1 where "process_loop env s sc se is st1 = (Waiting, st')" "responseBody st1 = responseBody st @ b"
    "responseBodyComplete st1 = eos"
    "reqCtx st1 = (if eos then complete_response env (responseBody st @ b)
        ((stamp_first_chunk env (reqCtx st))\<lparr>ResponseHeadersSent := True\<rparr>)
      else (stamp_first_chunk env (reqCtx st))\<lparr>ResponseHeadersSent := True\<rparr>)"
proof (rule process_loop_goes_on [OF assms(1)])
  fix rs st1 st2
  assume h: "handle_msg env s (ResponseBodyMsg b eos) st = (Inr rs, st1)" "send_all se rs st1 = (None, st2)"
    "process_loop env s sc se is st2 = (Waiting, st')"
  let ?rc = "stamp_first_chunk env (reqCtx st)"
  obtain rs' where "HandleResponseChunk env b eos ?rc = (Inr rs', ?rc\<lparr>ResponseHeadersSent := True\<rparr>)"
    using assms(4) by (cases "ResponseHeadersSent ?rc")
      (auto simp: HandleResponseChunk_def buildStreamedChunkResponse_def Let_def intro!: that)
  then have "st1 = (if eos
      then st\<lparr>reqCtx := complete_response env (responseBody st @ b) (?rc\<lparr>ResponseHeadersSent := True\<rparr>),
              responseBody := responseBody st @ b, responseBodyComplete := True\<rparr>
      else st\<lparr>reqCtx := ?rc\<lparr>ResponseHeadersSent := True\<rparr>, responseBody := responseBody st @ b\<rparr>)"
    using h(1) process_response_body_run [of st eos env s b] assms(2,3) by (auto split: if_splits)
  then show thesis using h(3) send_all_frame [OF h(2)] assms(3) by (intro that [of st2]) auto
qed

lemma stamp_first_chunk_frame2 [simp]:
  "Request (stamp_first_chunk env rc) = Request rc" "CycleState (stamp_first_chunk env rc) = CycleState rc"
  "RequestReceivedTimestamp (stamp_first_chunk env rc) = RequestReceivedTimestamp rc"
  "RequestSentTimestamp (stamp_first_chunk env rc) = RequestSentTimestamp rc"
  by (auto simp: stamp_first_chunk_def split: prod.splits dest: time_now_frame)

text \<open>What the event of a completed response carries.\<close>

definition event_response :: "'w env \<Rightarrow> string \<Rightarrow> inference_response \<Rightarrow> inference_response" where
  "event_response env bytes response =
     (if jlen (Body response) = 0 \<and> bytes \<noteq> []
      then (case parse_response env bytes response of Some r \<Rightarrow> r | None \<Rightarrow> response) else response)"

definition response_event :: "'w env \<Rightarrow> string \<Rightarrow> 'w request_context \<Rightarrow> 'w request_context \<Rightarrow> event" where
  "response_event env bytes rc rc' =
     \<lparr>ev_Type = ResponseEventType,
      ev_Payload = ResponsePayload (Request rc) (event_response env bytes (Response rc)) (CycleState rc)
        (time_sub (ResponseCompleteTimestamp rc') (RequestReceivedTimestamp rc))
        (time_sub (ResponseFirstChunkTimestamp rc') (RequestSentTimestamp rc))\<rparr>"

lemma complete_response_event:
  "notified (complete_response env bytes rc) = notified rc @ [response_event env bytes rc (complete_response env bytes rc)]"
  "Response (complete_response env bytes rc) = event_response env bytes (Response rc)"
proof -
  obtain t rc0 where now: "time_now env rc = (t, rc0)" by (metis surj_pair)
  show "notified (complete_response env bytes rc) = notified rc @ [response_event env bytes rc (complete_response env bytes rc)]"
    "Response (complete_response env bytes rc) = event_response env bytes (Response rc)"
    by (simp_all add: complete_response_def response_event_def event_response_def Let_def now time_now_frame [OF now]
        split: option.split)
qed

lemma response_event_stamp [simp]:
  "response_event env bytes ((stamp_first_chunk env' rc)\<lparr>ResponseHeadersSent := x\<rparr>) rc' = response_event env bytes rc rc'"
  by (simp add: response_event_def)

lemma stream_event:
  assumes "process_loop env s sc se (response_chunks (cs @ [(b, True)])) st = (Waiting, st')"
    and "\<not> NeedsResponseBuffering (Profile (reqCtx st))" and "\<not> responseBodyComplete st"
    and "ResponseChunkProcessors (Profile (reqCtx st)) = []" and "\<forall>c\<in>set cs. \<not> snd c"
    and "bytes = responseBody st @ concat (map fst cs) @ b"
  shows "notified (reqCtx st') = notified (reqCtx st) @ [response_event env bytes (reqCtx st) (reqCtx st')]"
  using assms
proof (induction cs arbitrary: st)
  case Nil
  from Nil.prems(1) have "process_loop env s sc se (Recv (ResponseBodyMsg b True) # []) st = (Waiting, st')" by simp
  then show ?case using Nil.prems(2-4)
  proof (rule stream_plain_step)
    fix st1
    assume "process_loop env s sc se [] st1 = (Waiting, st')"
      "reqCtx st1 = (if True then complete_response env (responseBody st @ b)
          ((stamp_first_chunk env (reqCtx st))\<lparr>ResponseHeadersSent := True\<rparr>)
        else (stamp_first_chunk env (reqCtx st))\<lparr>ResponseHeadersSent := True\<rparr>)"
    then show ?case
      using Nil.prems(6) complete_response_event(1) [of env bytes "(stamp_first_chunk env (reqCtx st))\<lparr>ResponseHeadersSent := True\<rparr>"]
      by simp
  qed
next
  case (Cons x cs)
  obtain a where x: "x = (a, False)" using Cons.prems(5) by (cases x) auto
  from Cons.prems(1) have "process_loop env s sc se (Recv (ResponseBodyMsg a False) # response_chunks (cs @ [(b, True)])) st = (Waiting, st')"
    by (simp add: x)
  then show ?case using Cons.prems(2-4)
  proof (rule stream_plain_step)
    fix st1
    assume st1: "process_loop env s sc se (response_chunks (cs @ [(b, True)])) st1 = (Waiting, st')"
      "responseBody st1 = responseBody st @ a" "responseBodyComplete st1 = False"
      "reqCtx st1 = (if False then complete_response env (responseBody st @ a)
          ((stamp_first_chunk env (reqCtx st))\<lparr>ResponseHeadersSent := True\<rparr>)
        else (stamp_first_chunk env (reqCtx st))\<lparr>ResponseHeadersSent := True\<rparr>)"
    then have "notified (reqCtx st') = notified (reqCtx st1) @ [response_event env bytes (reqCtx st1) (reqCtx st')]"
      using Cons.IH [OF st1(1)] Cons.prems x by simp
    then show ?case using st1(4) by simp
  qed
qed

subsection \<open>Properties\<close>

text \<open>
  C7: how the proxy cuts the request body into chunks does not matter. Any sequence of chunks that ends
  the body leads to the same outcome and the same final state, messages sent and events included, as
  the whole body in one chunk, whatever was received before and comes after (chunks that arrive after
  the end of the body are ignored either way).
\<close>

theorem request_chunking_irrelevant:
  "process_loop env s sc se
     (pre @ map (\<lambda>b. Recv (RequestBodyMsg b False)) bs @ Recv (RequestBodyMsg b True) # post) st
   = process_loop env s sc se (pre @ Recv (RequestBodyMsg (concat bs @ b) True) # post) st"
proof (induction pre arbitrary: st)
  case Nil
  show ?case using request_chunks_concat by simp
next
  case (Cons i pre)
  then show ?case by (cases i) (simp_all split: sum.split prod.split option.split)
qed

text \<open>
  C8: at most one request event and one response event per exchange. Whatever the proxy sends, in
  whatever order, with bodies delivered again after their end, failing plugins or failing sends,
  the data layer hears of the request at most once and of its response at most once.
\<close>

theorem events_at_most_once:
  "case Process env s sc se inputs w of (res, st) \<Rightarrow>
     length (filter (\<lambda>e. ev_Type e = RequestEventType) (notified (reqCtx st))) \<le> 1
     \<and> length (filter (\<lambda>e. ev_Type e = ResponseEventType) (notified (reqCtx st))) \<le> 1"
  using process_loop_inv [OF new_stream_inv, of env s sc se inputs w]
  by (auto simp: Process_def events_inv_def events_of_def split: prod.splits if_splits)

text \<open>
  C28: a streamed response is passed on chunk by chunk, its headers first and once. While the profile
  does not buffer, a run over the chunks of a response sends exactly one headers message and then one
  body message for each chunk, in order and with the chunk's end-of-stream flag; without chunk
  processors the bytes are those received and the headers message carries the recorded mutations.
\<close>

theorem streamed_headers_once:
  assumes "process_loop env s sc se (response_chunks cs) st = (Waiting, st')" and "cs \<noteq> []"
    and "\<not> NeedsResponseBuffering (Profile (reqCtx st))" and "\<not> responseBodyComplete st"
    and "\<not> ResponseHeadersSent (reqCtx st)" and "\<forall>c\<in>set (butlast cs). \<not> snd c"
  shows "\<exists>h bodies. sent st' = sent st @ PR_ResponseHeaders h # map PR_ResponseBody bodies
    \<and> map chunk_eos bodies = map snd cs
    \<and> (ResponseChunkProcessors (Profile (reqCtx st)) = [] \<longrightarrow>
         map chunk_bytes bodies = map fst cs \<and> h = buildHeadersResponse env (reqCtx st))"
proof -
  obtain b eos cs' where cs: "cs = (b, eos) # cs'" using assms(2) by (metis list.exhaust prod.exhaust)
  from assms(1) have "process_loop env s sc se (Recv (ResponseBodyMsg b eos) # response_chunks cs') st = (Waiting, st')"
    by (simp add: cs)
  then show ?thesis using assms(3,4)
  proof (rule stream_chunk_step)
    fix c h st1
    assume st1: "process_loop env s sc se (response_chunks cs') st1 = (Waiting, st')"
      "sent st1 = sent st @ (if ResponseHeadersSent (reqCtx st) then [] else [PR_ResponseHeaders h]) @ [PR_ResponseBody c]"
      "chunk_eos c = eos" "ResponseHeadersSent (reqCtx st1)" "Profile (reqCtx st1) = Profile (reqCtx st)"
      "responseBodyComplete st1 = eos"
      "ResponseChunkProcessors (Profile (reqCtx st)) = [] \<longrightarrow>
         chunk_bytes c = b \<and> h = buildHeadersResponse env (reqCtx st)"
    show ?thesis
    proof (cases "cs' = []")
      case True
      then show ?thesis using st1 assms(5) cs by (intro exI [of _ h] exI [of _ "[c]"]) auto
    next
      case False
      then have "\<not> eos" "\<forall>c\<in>set (butlast cs'). \<not> snd c" using assms(6) cs by auto
      then obtain bodies where "sent st' = sent st1 @ map PR_ResponseBody bodies" "map chunk_eos bodies = map snd cs'"
          "ResponseChunkProcessors (Profile (reqCtx st)) = [] \<longrightarrow> map chunk_bytes bodies = map fst cs'"
        using stream_chunks_sent [OF st1(1) _ _ _ st1(4)] assms(3) st1(5,6) by auto
      then show ?thesis using st1(2,3,7) assms(5) cs by (intro exI [of _ h] exI [of _ "c # bodies"]) auto
    qed
  qed
qed

theorem streamed_headers_once_witness:
  "\<exists>h bodies st'. process_loop (sample_env JNull) sample_server (\<lambda>_. 2) (\<lambda>_ _. None)
      (response_chunks [(''ab'', False), (''c'', True)]) (new_stream ()) = (Waiting, st')
    \<and> sent st' = PR_ResponseHeaders h # map PR_ResponseBody bodies \<and> map chunk_bytes bodies = [''ab'', ''c'']"
proof -
  let ?run = "process_loop (sample_env JNull) sample_server (\<lambda>_. 2) (\<lambda>_ _. None)
      (response_chunks [(''ab'', False), (''c'', True)]) (new_stream ())"
  have w: "fst ?run = Waiting"
    by (simp add: process_response_body_def new_stream_def new_context_def NewProfile_def stamp_first_chunk_def
        sample_env_def time_now_def on_ctx_def HandleResponseChunk_def buildStreamedChunkResponse_def Let_def)
  obtain st' where run: "?run = (Waiting, st')" using w by (metis prod.collapse)
  have c: "\<not> NeedsResponseBuffering (Profile (reqCtx (new_stream ())))" "\<not> responseBodyComplete (new_stream ())"
      "\<not> ResponseHeadersSent (reqCtx (new_stream ()))" "ResponseChunkProcessors (Profile (reqCtx (new_stream ()))) = []"
      "sent (new_stream ()) = []"
    by (simp_all add: new_stream_def new_context_def NewProfile_def)
  have "\<exists>h bodies. sent st' = sent (new_stream ()) @ PR_ResponseHeaders h # map PR_ResponseBody bodies
      \<and> map chunk_bytes bodies = map fst [(''ab'', False), (''c'', True)]"
    using streamed_headers_once [OF run _ c(1-3)] c(4) by simp metis
  then show ?thesis using run c(5) by (simp only: append_Nil list.map fst_conv) metis
qed

text \<open>
  C29: the response event reports the whole response. For a streamed response, however it is cut, the
  event sent at its end carries the request, the cycle state, a response whose body is decoded (as
  JSON, or as an event stream) from all bytes received, the time since the request arrived and the
  time from sending the request to the first chunk.
\<close>

theorem response_event_reports_whole_body:
  assumes "process_loop env s sc se (response_chunks (cs @ [(b, True)])) st = (Waiting, st')"
    and "\<not> NeedsResponseBuffering (Profile (reqCtx st))" and "\<not> responseBodyComplete st"
    and "ResponseChunkProcessors (Profile (reqCtx st)) = []" and "\<forall>c\<in>set cs. \<not> snd c"
    and "responseBody st = []" and "Body (Response (reqCtx st)) = Some []"
    and "bytes = concat (map fst cs) @ b" and "bytes \<noteq> []"
    and "parse_response env bytes (Response (reqCtx st)) = Some response"
  shows "notified (reqCtx st') = notified (reqCtx st) @
    [\<lparr>ev_Type = ResponseEventType,
      ev_Payload = ResponsePayload (Request (reqCtx st)) response (CycleState (reqCtx st))
        (time_sub (ResponseCompleteTimestamp (reqCtx st')) (RequestReceivedTimestamp (reqCtx st)))
        (time_sub (ResponseFirstChunkTimestamp (reqCtx st')) (RequestSentTimestamp (reqCtx st)))\<rparr>]"
proof -
  have "event_response env bytes (Response (reqCtx st)) = response"
    using assms(7,9,10) by (simp add: event_response_def jlen_def)
  moreover have "bytes = responseBody st @ concat (map fst cs) @ b" using assms(6,8) by simp
  ultimately show ?thesis
    using stream_event [OF assms(1-5)] by (simp add: response_event_def)
qed

theorem response_event_reports_whole_body_witness:
  "\<exists>st'. process_loop (sample_env (JObj [(''usage'', JObj [])])) sample_server (\<lambda>_. 2) (\<lambda>_ _. None)
      (response_chunks [(''ab'', False), (''c'', True)]) (new_stream ()) = (Waiting, st')
    \<and> map ev_Type (notified (reqCtx st')) = [ResponseEventType]"
proof -
  let ?env = "sample_env (JObj [(''usage'', JObj [])])"
  let ?run = "process_loop ?env sample_server (\<lambda>_. 2) (\<lambda>_ _. None)
      (response_chunks ([(''ab'', False)] @ [(''c'', True)])) (new_stream ())"
  have w: "fst ?run = Waiting"
    by (simp add: process_response_body_def new_stream_def new_context_def NewProfile_def stamp_first_chunk_def
        sample_env_def time_now_def on_ctx_def HandleResponseChunk_def buildStreamedChunkResponse_def Let_def)
  obtain st' where run: "?run = (Waiting, st')" using w by (metis prod.collapse)
  from response_event_reports_whole_body [OF run] show ?thesis
    using run by (simp add: new_stream_def new_context_def NewProfile_def NewInferenceResponse_def parse_response_def
        sample_env_def unmarshal_map_def)
qed

text \<open>
  C30: a request body that is not a JSON object (or null) is answered with status 400 and nothing else:
  exactly one immediate response is sent, the stream ends without error, no plugin has run, no event is
  sent, and the shared state is as before, however the body was cut into chunks.
\<close>

theorem invalid_body_rejected:
  assumes "unmarshal_map (json_parse env) (requestBody st @ concat bs @ b) (Body (Request (reqCtx st))) = None"
    and "\<not> requestBodyComplete st" and "\<And>r. se (sent st) r = None"
  shows "case process_loop env s sc se
           (map (\<lambda>b. Recv (RequestBodyMsg b False)) bs @ Recv (RequestBodyMsg b True) # post) st of
         (res, st') \<Rightarrow> res = Finished \<and> reqCtx st' = reqCtx st
           \<and> sent st' = sent st @ [PR_ImmediateResponse 400 (''inference error: BadRequest - failed to parse request body: ''
                @ json_error env (requestBody st @ concat bs @ b))]"
proof -
  have "HandleRequestBody env s (requestBody st @ concat bs @ b) (reqCtx st)
      = (Inl (TypedErr BadRequest (''failed to parse request body: ''
          @ json_error env (requestBody st @ concat bs @ b))), reqCtx st)"
    using assms(1) by (simp add: HandleRequestBody_def)
  then show ?thesis
    using assms(2,3)
    by (simp add: request_chunks_concat process_request_body_def Let_def on_ctx_def reply_error_def BuildErrResponse_typed)
       (simp add: BadRequest_def)
qed

theorem invalid_body_rejected_witness:
  "case process_loop (sample_env (JArr [])) sample_server (\<lambda>_. 2) (\<lambda>_ _. None)
       [Recv (RequestBodyMsg ''['' False), Recv (RequestBodyMsg '']'' True)] (new_stream ()) of
     (res, st') \<Rightarrow> res = Finished
       \<and> sent st' = [PR_ImmediateResponse 400 ''inference error: BadRequest - failed to parse request body: '']"
  using invalid_body_rejected [of "sample_env (JArr [])" "new_stream ()" "[''['']" "'']''" "\<lambda>_ _. None"
      sample_server "\<lambda>_. 2" "[]"]
  by (simp add: sample_env_def unmarshal_map_def new_stream_def split: prod.splits)

end
