(* ===== verification/Request_Metadata.thy ===== *)
theory Request_Metadata
  imports Events
begin

text \<open>
  \<^verbatim>\<open>datalayer/requestmetadata/plugin.go\<close>: the extractor that counts in-flight requests and
  their token budgets per model and publishes the counts as a model attribute. The counters are
  \<^verbatim>\<open>int64\<close>; converting a \<^verbatim>\<open>float64\<close> truncates towards zero (out of range the result is platform
  dependent, here it wraps).
\<close>

subsection \<open>Operations\<close>

type_synonym counters = "(string, int \<times> int) gomap"

definition float_to_int64 :: "real \<Rightarrow> int" where
  "float_to_int64 x = i64 (if 0 \<le> x then \<lfloor>x\<rfloor> else \<lceil>x\<rceil>)"

definition floorDecrement :: "int \<Rightarrow> int \<Rightarrow> int" where
  "floorDecrement v delta = (let v' = i64 (v - delta) in if v' < 0 then 0 else v')"

definition count_request :: "json_mapvar \<Rightarrow> int \<times> int \<Rightarrow> int \<times> int" where
  "count_request body c =
     (case c of (requests, tokens) \<Rightarrow>
        (i64 (requests + 1), i64 (tokens + float_to_int64 (jfloat body ''max_tokens''))))"

definition count_response :: "json_mapvar \<Rightarrow> int \<times> int \<Rightarrow> int \<times> int" where
  "count_response body c =
     (case c of (requests, tokens) \<Rightarrow>
        (floorDecrement requests 1, floorDecrement tokens (float_to_int64 (jfloat body ''max_tokens''))))"

text \<open>One turn of the loop, on the counters and the map of updated models.\<close>

definition count_event :: "event \<Rightarrow> counters \<times> counters \<Rightarrow> counters \<times> counters" where
  "count_event ev st =
     (case st of (cs, updated) \<Rightarrow>
        let bump = (\<lambda>f body.
              let model = jstring body ''model''
              in if model = [] then (cs, updated)
                 else let c = f body (mget_zero (0, 0) cs model)
                      in (mput model c cs, mput model c updated))
        in if ev_Type ev = RequestEventType then
             (case ev_Payload ev of RequestPayload req _ \<Rightarrow> bump count_request (Body req) | _ \<Rightarrow> (cs, updated))
           else if ev_Type ev = ResponseEventType then
             (case ev_Payload ev of ResponsePayload req _ _ _ _ \<Rightarrow> bump count_response (Body req) | _ \<Rightarrow> (cs, updated))
           else (cs, updated))"

definition publish_count :: "string \<times> int \<times> int \<Rightarrow> 'd store \<Rightarrow> 'd store" where
  "publish_count mc ds =
     (case mc of (model, requests, tokens) \<Rightarrow>
        on_attrs model (Attr_Put RequestMetadataAttributeKey (Some (RequestMetadataCount requests tokens))) ds)"

text \<open>\<open>ord\<close> is the iteration order of the map of updated models.\<close>

definition Extract ::
  "((string \<times> int \<times> int) list \<Rightarrow> (string \<times> int \<times> int) list) \<Rightarrow> event list \<Rightarrow> counters \<times> 'd store
     \<Rightarrow> go_error option \<times> (counters \<times> 'd store)" where
  "Extract ord events s =
     (case s of (cs, ds) \<Rightarrow>
        (case fold count_event events (cs, []) of (cs', updated) \<Rightarrow>
           (None, (cs', fold publish_count (ord updated) ds))))"

subsection \<open>Specification\<close>

text \<open>The model a request or response event counts for; empty when it counts for none.\<close>

definition request_model :: "event \<Rightarrow> string" where
  "request_model ev =
     (if ev_Type ev = RequestEventType then
        (case ev_Payload ev of RequestPayload req _ \<Rightarrow> jstring (Body req) ''model'' | _ \<Rightarrow> [])
      else [])"

definition response_model :: "event \<Rightarrow> string" where
  "response_model ev =
     (if ev_Type ev = ResponseEventType then
        (case ev_Payload ev of ResponsePayload req _ _ _ _ \<Rightarrow> jstring (Body req) ''model'' | _ \<Rightarrow> [])
      else [])"

definition requests_for :: "string \<Rightarrow> event list \<Rightarrow> nat" where
  "requests_for m evs = length (filter (\<lambda>e. request_model e = m) evs)"

definition responses_for :: "string \<Rightarrow> event list \<Rightarrow> nat" where
  "responses_for m evs = length (filter (\<lambda>e. response_model e = m) evs)"

text \<open>Every response of the model answers an earlier request.\<close>

definition answered :: "string \<Rightarrow> event list \<Rightarrow> bool" where
  "answered m evs \<longleftrightarrow> (\<forall>k\<le>length evs. responses_for m (take k evs) \<le> requests_for m (take k evs))"

text \<open>The counters and what the store publishes agree.\<close>

definition published :: "counters \<times> 'd store \<Rightarrow> bool" where
  "published s \<longleftrightarrow>
     (case s of (cs, ds) \<Rightarrow> store_ok ds \<and> gomap_ok cs
        \<and> (\<forall>m c. map_of cs m = Some c \<longrightarrow>
             m \<noteq> [] \<and> attr_of ds m RequestMetadataAttributeKey = Some (RequestMetadataCount (fst c) (snd c))))"

subsection \<open>Lemmas\<close>

definition event_model :: "event \<Rightarrow> string" where
  "event_model ev = (if request_model ev \<noteq> [] then request_model ev else response_model ev)"

definition event_count :: "event \<Rightarrow> int \<times> int \<Rightarrow> int \<times> int" where
  "event_count ev c =
     (case ev_Payload ev of
        RequestPayload req _ \<Rightarrow> count_request (Body req) c
      | ResponsePayload req _ _ _ _ \<Rightarrow> count_response (Body req) c
      | OtherPayload \<Rightarrow> c)"

text \<open>Every counter change is also an update to publish, with the same value.\<close>

lemma count_event_eq:
  "count_event ev (cs, upd) =
     (if event_model ev = [] then (cs, upd)
      else (mput (event_model ev) (event_count ev (mget_zero (0, 0) cs (event_model ev))) cs,
            mput (event_model ev) (event_count ev (mget_zero (0, 0) cs (event_model ev))) upd))"
  by (auto simp: count_event_def event_model_def event_count_def request_model_def response_model_def Let_def
      split: payload.split)

definition upd_ok :: "counters \<Rightarrow> counters \<Rightarrow> bool" where
  "upd_ok cs upd \<longleftrightarrow> gomap_ok cs \<and> gomap_ok upd \<and> map_of upd [] = None \<and> map_of upd \<subseteq>\<^sub>m map_of cs"

lemma upd_ok_mput: "upd_ok cs upd \<Longrightarrow> m \<noteq> [] \<Longrightarrow> upd_ok (mput m c cs) (mput m c upd)"
  by (auto simp: upd_ok_def map_le_def)

lemma fold_count_event:
  assumes "fold count_event evs (cs, upd) = (cs', upd')" and "upd_ok cs upd"
  shows "upd_ok cs' upd' \<and>
    (map_of upd' m = None \<longrightarrow> map_of upd m = None \<and> map_of cs' m = map_of cs m)"
  using assms
proof (induction evs arbitrary: cs upd)
  case (Cons ev evs)
  obtain cs1 upd1 where st: "count_event ev (cs, upd) = (cs1, upd1)" by (cases "count_event ev (cs, upd)")
  then have "upd_ok cs1 upd1"
      "map_of upd1 m = None \<Longrightarrow> map_of upd m = None \<and> map_of cs1 m = map_of cs m"
    using Cons.prems(2) by (auto simp: count_event_eq upd_ok_mput split: if_splits)
  then show ?case using Cons.IH [of cs1 upd1] Cons.prems(1) st by simp
qed simp

lemma publish_fold:
  assumes "store_ok ds" and "gomap_ok us"
  shows "store_ok (fold publish_count us ds)
    \<and> attr_of (fold publish_count us ds) m RequestMetadataAttributeKey =
        (case map_of us m of Some (r, t) \<Rightarrow> Some (RequestMetadataCount r t)
         | None \<Rightarrow> attr_of ds m RequestMetadataAttributeKey)"
  using assms
proof (induction us arbitrary: ds)
  case (Cons u us)
  obtain n r t where u: "u = (n, r, t)" by (cases u) auto
  have ok: "store_ok (publish_count u ds)"
    using Cons.prems(1) by (simp add: publish_count_def u store_ok_on_attrs)
  have "map_of us n = None" using Cons.prems(2) u by (simp add: map_of_eq_None_iff)
  moreover have "attr_of (publish_count u ds) m RequestMetadataAttributeKey =
      (if m = n then Some (RequestMetadataCount r t) else attr_of ds m RequestMetadataAttributeKey)"
    using Cons.prems(1) by (simp add: publish_count_def u attr_of_on_attrs Attr_Get_Put)
  ultimately show ?case
    using Cons.IH [OF ok] Cons.prems(2) u by (auto split: option.splits)
qed simp

lemma Extract_counters:
  assumes "perm_of ord" and "published (cs, ds)" and "Extract ord evs (cs, ds) = (err, (cs', ds'))"
  shows "published (cs', ds')" and "err = None"
    and "cs' = fst (fold count_event evs (cs, []))"
proof -
  obtain upd where f: "fold count_event evs (cs, []) = (cs', upd)" and ds': "ds' = fold publish_count (ord upd) ds"
    using assms(3) by (auto simp: Extract_def split: prod.splits)
  have ok: "store_ok ds" "gomap_ok cs" and old: "\<And>m c. map_of cs m = Some c \<Longrightarrow>
      m \<noteq> [] \<and> attr_of ds m RequestMetadataAttributeKey = Some (RequestMetadataCount (fst c) (snd c))"
    using assms(2) unfolding published_def by blast+
  have "upd_ok cs []" using ok(2) by (simp add: upd_ok_def)
  note upd = conjunct1 [OF fold_count_event [OF f this]] conjunct2 [OF fold_count_event [OF f this], rule_format]
  have gok: "gomap_ok (ord upd)" and eq: "map_of (ord upd) = map_of upd"
    using upd(1) perm_of_map_of [OF assms(1), of upd] mset_eq_imp_distinct_iff [of "map fst (ord upd)" "map fst upd"]
      perm_of_mset [OF assms(1), of upd]
    by (simp_all add: upd_ok_def)
  note pub = publish_fold [OF ok(1) gok]
  have "m \<noteq> [] \<and> attr_of ds' m RequestMetadataAttributeKey = Some (RequestMetadataCount (fst c) (snd c))"
    if m: "map_of cs' m = Some c" for m c
  proof (cases "map_of upd m")
    case None
    then have "map_of cs m = Some c" using upd(2) [OF None] m by simp
    with old [OF this] None pub [of m] show ?thesis by (simp add: ds' eq)
  next
    case (Some c')
    with upd(1) m have "c' = c" "m \<noteq> []"
      by (auto simp: upd_ok_def map_le_def dom_def)
    with Some pub [of m] show ?thesis
      by (cases c) (simp add: ds' eq)
  qed
  then show "published (cs', ds')"
    using pub upd(1) by (simp add: published_def ds' upd_ok_def)
  show "err = None" "cs' = fst (fold count_event evs (cs, []))"
    using assms(3) f by (auto simp: Extract_def)
qed

lemma Extract_keeps_published:
  assumes "perm_of ord" and "published s"
  shows "published (snd (Extract ord evs s))" and "fst (snd (Extract ord evs s)) = fst (fold count_event evs (fst s, []))"
proof -
  obtain cs ds err cs' ds' where eq: "s = (cs, ds)" "Extract ord evs (cs, ds) = (err, (cs', ds'))"
    by (metis surj_pair)
  from Extract_counters [OF assms(1) _ eq(2)] assms(2) eq
  show "published (snd (Extract ord evs s))" "fst (snd (Extract ord evs s)) = fst (fold count_event evs (fst s, []))"
    by simp_all
qed

lemma Extract_succeeds: "fst (Extract ord evs s) = None"
  by (simp add: Extract_def split: prod.split)

lemma perm_of_sort_key [simp]: "perm_of (sort_key f)"
  by (simp add: perm_of_def)

text \<open>Every iteration order of the map of updated models is one by some rank of its entries.\<close>

interpretation rm: extractor_contract "Extract (sort_key rank)" published
  by unfold_locales (simp_all add: Extract_keeps_published Extract_succeeds)

lemma deliver_published: "perm_of ord \<Longrightarrow> published s \<Longrightarrow> published (deliver (Extract ord) evs s)"
  by (induction evs rule: rev_induct) (simp_all add: deliver_snoc Extract_keeps_published)

text \<open>How one delivered event moves the counter of a model.\<close>

lemma deliver_count_step:
  assumes "perm_of ord" and "published s" and "m \<noteq> []"
  shows "map_of (fst (deliver (Extract ord) (evs @ [e]) s)) m =
    (if event_model e = m
     then Some (event_count e (mget_zero (0, 0) (fst (deliver (Extract ord) evs s)) m))
     else map_of (fst (deliver (Extract ord) evs s)) m)"
  using assms(3)
  by (simp add: deliver_snoc Extract_keeps_published(2) [OF assms(1) deliver_published [OF assms(1,2)]]
      count_event_eq)

lemma requests_for_snoc:
  "requests_for m (evs @ [e]) = requests_for m evs + (if request_model e = m then 1 else 0)"
  "responses_for m (evs @ [e]) = responses_for m evs + (if response_model e = m then 1 else 0)"
  by (simp_all add: requests_for_def responses_for_def)

lemma event_model_cases:
  assumes "m \<noteq> []"
  shows "event_model e = m \<longleftrightarrow> request_model e = m \<or> response_model e = m"
    and "request_model e = m \<Longrightarrow> response_model e = []"
    and "request_model e = m \<Longrightarrow> \<exists>body. event_count e = count_request body"
    and "response_model e = m \<Longrightarrow> \<exists>body. event_count e = count_response body"
  using assms
  by (auto simp: event_model_def request_model_def response_model_def event_count_def fun_eq_iff
      split: if_splits payload.splits)

lemma answered_snocD:
  assumes "answered m (evs @ [e])"
  shows "answered m evs" and "responses_for m (evs @ [e]) \<le> requests_for m (evs @ [e])"
proof -
  show "answered m evs"
    unfolding answered_def
  proof (intro allI impI)
    fix k assume "k \<le> length evs"
    with assms [unfolded answered_def, rule_format, of k]
    show "responses_for m (take k evs) \<le> requests_for m (take k evs)" by simp
  qed
  show "responses_for m (evs @ [e]) \<le> requests_for m (evs @ [e])"
    using assms [unfolded answered_def, rule_format, of "length (evs @ [e])"] by simp
qed

lemma answeredD: "answered m evs \<Longrightarrow> responses_for m evs \<le> requests_for m evs"
  by (metis answered_def order_refl take_all_iff)

lemma inflight_counter:
  assumes "perm_of ord" and "published ([], ds)" and "m \<noteq> []"
    and "answered m evs" and "requests_for m evs < 2 ^ 63"
  shows "fst (mget_zero (0, 0) (fst (deliver (Extract ord) evs ([], ds))) m)
           = int (requests_for m evs) - int (responses_for m evs)
    \<and> (0 < requests_for m evs \<longrightarrow> map_of (fst (deliver (Extract ord) evs ([], ds))) m \<noteq> None)"
  using assms(4,5)
proof (induction evs rule: rev_induct)
  case Nil
  then show ?case by (simp add: requests_for_def responses_for_def mget_zero_def)
next
  case (snoc e evs)
  let ?cs = "fst (deliver (Extract ord) evs ([], ds))"
  let ?r = "fst (mget_zero (0, 0) ?cs m)"
  note ans = answered_snocD [OF snoc.prems(1)]
  have le: "requests_for m evs < 2 ^ 63" using snoc.prems(2) by (simp add: requests_for_snoc split: if_splits)
  from snoc.IH [OF ans(1) le]
  have r: "?r = int (requests_for m evs) - int (responses_for m evs)"
      "0 < requests_for m evs \<longrightarrow> map_of ?cs m \<noteq> None" by blast+
  note step = deliver_count_step [OF assms(1-3), of evs e]
  note ev = event_model_cases [OF assms(3), of e]
  consider (req) "request_model e = m" | (resp) "request_model e \<noteq> m" "response_model e = m"
    | (other) "request_model e \<noteq> m" "response_model e \<noteq> m" by blast
  then show ?case
  proof cases
    case req
    with ev(2,3) assms(3) obtain body where b: "event_count e = count_request body" "response_model e \<noteq> m" by auto
    have "is_i64 (?r + 1)" using r(1) snoc.prems(2) req answeredD [OF ans(1)] by (simp add: is_i64_def requests_for_snoc)
    with req b r show ?thesis
      by (simp add: mget_zero_def [of _ "fst (deliver _ _ _)"] step ev(1) requests_for_snoc count_request_def
          case_prod_beta i64_id)
  next
    case resp
    with ev(4) obtain body where b: "event_count e = count_response body" by auto
    have "is_i64 (?r - 1)" "0 \<le> ?r - 1" using r(1) le ans(2) resp by (simp_all add: is_i64_def requests_for_snoc)
    with resp b r show ?thesis
      by (simp add: mget_zero_def [of _ "fst (deliver _ _ _)"] step ev(1) requests_for_snoc count_response_def
          case_prod_beta floorDecrement_def Let_def i64_id)
  next
    case other
    with r show ?thesis by (simp add: mget_zero_def step ev(1) requests_for_snoc)
  qed
qed

lemma deliver_attribute:
  assumes "perm_of ord" and "store_ok ds" and "m \<noteq> []"
    and "answered m evs" and "0 < requests_for m evs" and "requests_for m evs < 2 ^ 63"
  shows "\<exists>tokens. attr_of (snd (deliver (Extract ord) evs ([], ds))) m RequestMetadataAttributeKey
    = Some (RequestMetadataCount (int (requests_for m evs) - int (responses_for m evs)) tokens)"
proof -
  have p0: "published ([], ds)" using assms(2) by (simp add: published_def)
  let ?s = "deliver (Extract ord) evs ([], ds)"
  from inflight_counter [OF assms(1) p0 assms(3,4,6)] assms(5)
  obtain c where c: "map_of (fst ?s) m = Some c" "fst c = int (requests_for m evs) - int (responses_for m evs)"
    by (auto simp: mget_zero_def)
  have "published ?s" using deliver_published [OF assms(1) p0] .
  then show ?thesis
    using c unfolding published_def by (cases ?s; cases c) auto
qed

text \<open>A model no event names keeps its attribute.\<close>

lemma deliver_unmentioned:
  assumes "perm_of ord" and "store_ok ds" and "m \<noteq> []" and "requests_for m evs = 0" and "responses_for m evs = 0"
  shows "attr_of (snd (deliver (Extract ord) evs ([], ds))) m RequestMetadataAttributeKey
    = attr_of ds m RequestMetadataAttributeKey"
  using assms(4,5)
proof (induction evs rule: rev_induct)
  case Nil
  then show ?case by (simp add: deliver_def)
next
  case (snoc e evs)
  have ev: "event_model e \<noteq> m" "requests_for m evs = 0" "responses_for m evs = 0"
    using snoc.prems event_model_cases(1) [OF assms(3), of e] by (auto simp: requests_for_snoc split: if_splits)
  obtain cs d where s: "deliver (Extract ord) evs ([], ds) = (cs, d)" by (cases "deliver (Extract ord) evs ([], ds)")
  have "published (cs, d)"
    using deliver_published [OF assms(1), of "([], ds)" evs] assms(2) by (simp add: published_def s)
  then have ok: "store_ok d" by (simp add: published_def)
  define upd where "upd = snd (count_event e (cs, []))"
  have one: "upd = [] \<or> (\<exists>v. upd = [(event_model e, v)])" by (auto simp: upd_def count_event_eq)
  then have "ord upd = upd"
    using perm_of_mset [OF assms(1), of upd] by auto
  with one ev(1) have u: "gomap_ok (ord upd)" "map_of (ord upd) m = None" by auto
  have "snd (deliver (Extract ord) (evs @ [e]) ([], ds)) = fold publish_count (ord upd) d"
    by (simp add: deliver_snoc s Extract_def upd_def split: prod.split)
  with publish_fold [OF ok u(1), of m] u(2) snoc.IH [OF ev(2,3)] show ?case by (simp add: s)
qed

subsection \<open>Properties\<close>

text \<open>
  The published count is the number of requests in flight. After any sequence of events,
  delivered one at a time, in which every response of the model answers an earlier request, the
  model's attribute holds the number of its requests minus the number of its responses (below
  two to the 63); events of other models do not matter.
\<close>

theorem inflight_attribute_correct:
  assumes "perm_of ord" and "store_ok ds" and "m \<noteq> []"
    and "answered m evs" and "0 < requests_for m evs" and "requests_for m evs < 2 ^ 63"
  shows "\<exists>tokens. attr_of (snd (deliver (Extract ord) evs ([], ds))) m RequestMetadataAttributeKey
    = Some (RequestMetadataCount (int (requests_for m evs) - int (responses_for m evs)) tokens)"
  using deliver_attribute [OF assms] .

theorem inflight_attribute_correct_witness:
  "\<exists>tokens. attr_of (snd (deliver (Extract rev)
      [\<lparr>ev_Type = RequestEventType, ev_Payload = RequestPayload
          (NewInferenceRequest\<lparr>Body := Some [(''model'', JStr ''a'')]\<rparr>) []\<rparr>,
       \<lparr>ev_Type = RequestEventType, ev_Payload = RequestPayload
          (NewInferenceRequest\<lparr>Body := Some [(''model'', JStr ''a'')]\<rparr>) []\<rparr>,
       \<lparr>ev_Type = ResponseEventType, ev_Payload = ResponsePayload
          (NewInferenceRequest\<lparr>Body := Some [(''model'', JStr ''a'')]\<rparr>) NewInferenceResponse [] 1 1\<rparr>]
      ([], NewDatastore :: unit store))) ''a'' RequestMetadataAttributeKey = Some (RequestMetadataCount 1 tokens)"
proof -
  define req where "req = \<lparr>ev_Type = RequestEventType, ev_Payload = RequestPayload
          (NewInferenceRequest\<lparr>Body := Some [(''model'', JStr ''a'')]\<rparr>) []\<rparr>"
  define resp where "resp = \<lparr>ev_Type = ResponseEventType, ev_Payload = ResponsePayload
          (NewInferenceRequest\<lparr>Body := Some [(''model'', JStr ''a'')]\<rparr>) NewInferenceResponse [] 1 1\<rparr>"
  have ms: "request_model req = ''a''" "response_model req = []" "request_model resp = []" "response_model resp = ''a''"
    by (simp_all add: req_def resp_def request_model_def response_model_def jstring_def)
  have "answered ''a'' [req, req, resp]"
    by (auto simp: answered_def requests_for_def responses_for_def ms take_Cons' numeral_eq_Suc)
  then show ?thesis
    using inflight_attribute_correct [of rev "NewDatastore :: unit store" "''a''" "[req, req, resp]"]
    by (simp add: requests_for_def responses_for_def ms flip: req_def resp_def)
qed

end
