(* ===== verification/Processor.thy ===== *)
theory Processor
  imports Events
begin

text \<open>
  \<^verbatim>\<open>pkg/datalayer/processor.go\<close>: the bounded event queue, the event loop that hands every
  event to every extractor, and the life cycle of extractors, collectors and data sources.

  The goroutines that are started are kept as lists (which collector with which frequency and
  jitter bound, which data source); what each of them does is \<open>runCollector\<close> below and
  \<open>runDatasource\<close> of theory \<open>Sources\<close>. The channel is a list of at most \<open>defaultBufferSize\<close> events. The state \<open>'w\<close>
  is what the extractors work on. \<open>'x\<close> names extractors, collectors and data sources.
\<close>

subsection \<open>State and operations\<close>

definition defaultBufferSize :: nat where
  "defaultBufferSize = 10000"

type_synonym 'w extractor = "event list \<Rightarrow> 'w \<Rightarrow> go_error option \<times> 'w"

record ('x, 'w) processor =
  ch :: "event list"
  extractors :: "'w extractor list"
  collectors :: "('x \<times> duration) list"
  datasources :: "'x list"
  started :: bool
  stopped :: bool
  cancelled :: bool
  loopRunning :: bool
  runningCollectors :: "('x \<times> duration \<times> duration) list"
  runningDatasources :: "'x list"

definition NewProcessor :: "('x, 'w) processor" where
  "NewProcessor =
     \<lparr>ch = [], extractors = [], collectors = [], datasources = [], started = False, stopped = False,
      cancelled = False, loopRunning = False, runningCollectors = [], runningDatasources = []\<rparr>"

definition RegisterExtractor :: "'w extractor \<Rightarrow> ('x, 'w) processor \<Rightarrow> ('x, 'w) processor" where
  "RegisterExtractor e p = (if started p then p else p\<lparr>extractors := extractors p @ [e]\<rparr>)"

definition RegisterCollector :: "'x \<Rightarrow> duration \<Rightarrow> ('x, 'w) processor \<Rightarrow> ('x, 'w) processor" where
  "RegisterCollector c frequency p =
     (if frequency \<le> 0 then p
      else
        let p1 = p\<lparr>collectors := collectors p @ [(c, frequency)]\<rparr>
        in if started p1 \<and> \<not> stopped p1
           then p1\<lparr>runningCollectors := runningCollectors p1 @ [(c, frequency, frequency)]\<rparr>
           else p1)"

definition RegisterDatasource :: "'x \<Rightarrow> ('x, 'w) processor \<Rightarrow> ('x, 'w) processor" where
  "RegisterDatasource d p =
     (let p1 = p\<lparr>datasources := datasources p @ [d]\<rparr>
      in if started p1 \<and> \<not> stopped p1
         then p1\<lparr>runningDatasources := runningDatasources p1 @ [d]\<rparr>
         else p1)"

text \<open>A send that would block is dropped.\<close>

definition Notify :: "event \<Rightarrow> ('x, 'w) processor \<Rightarrow> ('x, 'w) processor" where
  "Notify e p = (if length (ch p) < defaultBufferSize then p\<lparr>ch := ch p @ [e]\<rparr> else p)"

text \<open>Collector start-ups are spread over 200 ms each, at most one interval.\<close>

definition jitterCap :: "nat \<Rightarrow> duration \<Rightarrow> duration" where
  "jitterCap n frequency =
     (let maxJitter = i64 (int n * 200 * 1000000)
      in if frequency < maxJitter then frequency else maxJitter)"

definition Start_processor :: "('x, 'w) processor \<Rightarrow> go_error option \<times> ('x, 'w) processor" where
  "Start_processor p =
     (if started p then (Some (PlainErr ''Processor already started''), p)
      else if stopped p then (Some (PlainErr ''Processor already stopped''), p)
      else
        (None, p\<lparr>started := True, loopRunning := True,
                 runningCollectors := runningCollectors p
                   @ map (\<lambda>(c, f). (c, f, jitterCap (length (collectors p)) f)) (collectors p),
                 runningDatasources := runningDatasources p @ datasources p\<rparr>))"

text \<open>
  \<^verbatim>\<open>Stop\<close> cancels the context when there is one and waits for every goroutine, the event loop
  included: none is left when it returns.
\<close>

definition Stop_processor :: "('x, 'w) processor \<Rightarrow> ('x, 'w) processor" where
  "Stop_processor p =
     (let p1 = p\<lparr>stopped := True\<rparr>
      in if started p
         then p1\<lparr>cancelled := True, loopRunning := False, runningCollectors := [], runningDatasources := []\<rparr>
         else p1)"

text \<open>The body of the event loop for one event: errors are logged only.\<close>

definition dispatch :: "'w extractor list \<Rightarrow> event \<Rightarrow> 'w \<Rightarrow> 'w" where
  "dispatch exts e w = fold (\<lambda>x w. snd (x [e] w)) exts w"

text \<open>One turn of the event loop; \<open>None\<close> when it cannot move.\<close>

definition loop_turn :: "('x, 'w) processor \<times> 'w \<Rightarrow> (event \<times> ('x, 'w) processor \<times> 'w) option" where
  "loop_turn pw =
     (case pw of (p, w) \<Rightarrow>
        if \<not> loopRunning p \<or> cancelled p then None
        else (case ch p of [] \<Rightarrow> None | e # rest \<Rightarrow> Some (e, p\<lparr>ch := rest\<rparr>, dispatch (extractors p) e w)))"

subsection \<open>The goroutine of a collector\<close>

text \<open>
  What its select statements receive: the end of the context or a timer. The random delay within
  \<open>jitterCap\<close> decides only when the first timer fires. A ticker needs a positive period. The result is the crash,
  or whether the goroutine has returned; \<open>'v\<close> is what the polls work on, their errors are logged.
\<close>

datatype wake = CtxDone | Timer

fun poll_loop :: "('v \<Rightarrow> go_error option \<times> 'v) \<Rightarrow> wake list \<Rightarrow> 'v \<Rightarrow> bool \<times> 'v" where
  "poll_loop poll [] v = (False, v)"
| "poll_loop poll (CtxDone # ws) v = (True, v)"
| "poll_loop poll (Timer # ws) v = poll_loop poll ws (snd (poll v))"

definition tick_collector ::
  "('v \<Rightarrow> go_error option \<times> 'v) \<Rightarrow> duration \<Rightarrow> wake list \<Rightarrow> 'v \<Rightarrow> (go_error + bool) \<times> 'v" where
  "tick_collector poll freq ws v =
     (let v1 = snd (poll v)
      in if freq \<le> 0 then (Inl (Panic ''non-positive interval for NewTicker''), v1)
         else (case poll_loop poll ws v1 of (returned, v2) \<Rightarrow> (Inr returned, v2)))"

definition runCollector ::
  "('v \<Rightarrow> go_error option \<times> 'v) \<Rightarrow> duration \<Rightarrow> duration \<Rightarrow> wake list \<Rightarrow> 'v \<Rightarrow> (go_error + bool) \<times> 'v" where
  "runCollector poll freq cap ws v =
     (if cap > 0 then
        (case ws of
           [] \<Rightarrow> (Inr False, v)
         | CtxDone # _ \<Rightarrow> (Inr True, v)
         | Timer # ws' \<Rightarrow> tick_collector poll freq ws' v)
      else tick_collector poll freq ws v)"

subsection \<open>Interleavings\<close>

text \<open>
  The operations callers and goroutines perform, in any order. A configuration is the processor,
  the extractors' state, and the history: events accepted by \<^verbatim>\<open>Notify\<close>, events dropped, events
  delivered by the loop.
\<close>

record ('x, 'w) config =
  proc :: "('x, 'w) processor"
  world :: 'w
  accepted :: "event list"
  dropped :: "event list"
  delivered :: "event list"

definition init_config :: "'w \<Rightarrow> ('x, 'w) config" where
  "init_config w = \<lparr>proc = NewProcessor, world = w, accepted = [], dropped = [], delivered = []\<rparr>"

inductive proc_step :: "('x, 'w) config \<Rightarrow> ('x, 'w) config \<Rightarrow> bool" where
  extractor: "proc_step c (c\<lparr>proc := RegisterExtractor x (proc c)\<rparr>)"
| collector: "proc_step c (c\<lparr>proc := RegisterCollector k f (proc c)\<rparr>)"
| datasource: "proc_step c (c\<lparr>proc := RegisterDatasource d (proc c)\<rparr>)"
| start: "proc_step c (c\<lparr>proc := snd (Start_processor (proc c))\<rparr>)"
| stop: "proc_step c (c\<lparr>proc := Stop_processor (proc c)\<rparr>)"
| accept: "length (ch (proc c)) < defaultBufferSize \<Longrightarrow>
    proc_step c (c\<lparr>proc := Notify e (proc c), accepted := accepted c @ [e]\<rparr>)"
| drop: "\<not> length (ch (proc c)) < defaultBufferSize \<Longrightarrow>
    proc_step c (c\<lparr>proc := Notify e (proc c), dropped := dropped c @ [e]\<rparr>)"
| turn: "loop_turn (proc c, world c) = Some (e, p', w') \<Longrightarrow>
    proc_step c (c\<lparr>proc := p', world := w', delivered := delivered c @ [e]\<rparr>)"

inductive reachable :: "('x, 'w) config \<Rightarrow> ('x, 'w) config \<Rightarrow> bool" for c0 where
  base: "reachable c0 c0"
| step: "reachable c0 c \<Longrightarrow> proc_step c c' \<Longrightarrow> reachable c0 c'"

inductive_cases proc_stepE: "proc_step c c'"

subsection \<open>Lemmas\<close>

lemmas processor_op_defs = RegisterExtractor_def RegisterCollector_def RegisterDatasource_def
  Start_processor_def Stop_processor_def Notify_def Let_def

text \<open>The queue invariant: first in, first out, bounded, nothing lost once accepted.\<close>

definition queue_inv :: "('x, 'w) config \<Rightarrow> bool" where
  "queue_inv c \<longleftrightarrow> accepted c = delivered c @ ch (proc c) \<and> length (ch (proc c)) \<le> defaultBufferSize"

lemma queue_inv_step: "proc_step c c' \<Longrightarrow> queue_inv c \<Longrightarrow> queue_inv c'"
proof (induction rule: proc_step.induct)
  case (turn c e p' w')
  then show ?case
    by (auto simp: queue_inv_def loop_turn_def split: if_splits list.splits)
qed (auto simp: queue_inv_def processor_op_defs)

lemma queue_inv_reachable: "reachable (init_config w) c \<Longrightarrow> queue_inv c"
proof (induction rule: reachable.induct)
  case base
  then show ?case by (simp add: queue_inv_def init_config_def NewProcessor_def)
qed (rule queue_inv_step)

text \<open>The polls of a collector: one per timer until the context ends, and one at once when there is no delay.\<close>

definition polls :: "duration \<Rightarrow> wake list \<Rightarrow> nat" where
  "polls cap ws = length (takeWhile (\<lambda>w. w = Timer) ws) + (if cap > 0 then 0 else 1)"

lemma funpow_poll:
  "((\<lambda>v. snd (poll v)) ^^ n) (snd (poll v)) = snd (poll (((\<lambda>v. snd (poll v)) ^^ n) v))"
  by (induction n) simp_all

lemma poll_loop_eq:
  "poll_loop poll ws v
     = (CtxDone \<in> set ws, ((\<lambda>v. snd (poll v)) ^^ length (takeWhile (\<lambda>w. w = Timer) ws)) v)"
proof (induction ws arbitrary: v)
  case (Cons w ws)
  then show ?case by (cases w) (simp_all add: funpow_poll)
qed simp

lemma runCollector_eq:
  assumes "0 < freq"
  shows "runCollector poll freq cap ws v
    = (Inr (CtxDone \<in> set ws), ((\<lambda>v. snd (poll v)) ^^ polls cap ws) v)"
  using assms
  by (auto simp: runCollector_def tick_collector_def poll_loop_eq polls_def funpow_poll Let_def
      split: list.split wake.split)

text \<open>The life cycle: goroutines run only between a start and a stop; extractors are then fixed.\<close>

definition life_inv :: "('x, 'w) config \<Rightarrow> bool" where
  "life_inv c \<longleftrightarrow>
     (loopRunning (proc c) \<longleftrightarrow> started (proc c) \<and> \<not> stopped (proc c))
     \<and> (\<not> loopRunning (proc c) \<longrightarrow> runningCollectors (proc c) = [] \<and> runningDatasources (proc c) = [])
     \<and> (cancelled (proc c) \<longrightarrow> stopped (proc c))
     \<and> (\<forall>(k, f, j)\<in>set (runningCollectors (proc c)). 0 < f \<and> j \<le> f)
     \<and> (\<forall>(k, f)\<in>set (collectors (proc c)). 0 < f)"

lemma jitterCap_le: "jitterCap n f \<le> f"
  by (simp add: jitterCap_def Let_def)

lemma life_inv_step: "proc_step c c' \<Longrightarrow> life_inv c \<Longrightarrow> life_inv c'"
proof (induction rule: proc_step.induct)
  case (turn c e p' w')
  then show ?case
    by (auto simp: life_inv_def loop_turn_def split: if_splits list.splits)
next
  case (start c)
  then show ?case
    using jitterCap_le by (fastforce simp: life_inv_def Start_processor_def)
qed (auto simp: life_inv_def processor_op_defs)

lemma life_inv_reachable: "reachable (init_config w) c \<Longrightarrow> life_inv c"
proof (induction rule: reachable.induct)
  case base
  then show ?case by (simp add: life_inv_def init_config_def NewProcessor_def)
qed (rule life_inv_step)

text \<open>The extractors' state is the delivered events handed out in order.\<close>

definition work_inv :: "'w \<Rightarrow> ('x, 'w) config \<Rightarrow> bool" where
  "work_inv w c \<longleftrightarrow> world c = fold (dispatch (extractors (proc c))) (delivered c) w
     \<and> (\<not> started (proc c) \<longrightarrow> delivered c = [])"

lemma work_inv_step: "proc_step c c' \<Longrightarrow> life_inv c \<Longrightarrow> work_inv w c \<Longrightarrow> work_inv w c'"
proof (induction rule: proc_step.induct)
  case (turn c e p' w')
  then show ?case
    by (auto simp: work_inv_def life_inv_def loop_turn_def split: if_splits list.splits)
qed (auto simp: work_inv_def processor_op_defs)

lemma work_inv_reachable: "reachable (init_config w) c \<Longrightarrow> work_inv w c"
proof (induction rule: reachable.induct)
  case base
  then show ?case by (simp add: work_inv_def init_config_def NewProcessor_def)
next
  case (step c c')
  from work_inv_step [OF step.hyps(2) life_inv_reachable [OF step.hyps(1)] step.IH] show ?case .
qed

lemma stopped_step:
  "proc_step c c' \<Longrightarrow> life_inv c \<Longrightarrow> stopped (proc c) \<Longrightarrow>
   stopped (proc c') \<and> delivered c' = delivered c \<and> world c' = world c"
proof (induction rule: proc_step.induct)
  case (turn c e p' w')
  from turn.prems have "\<not> loopRunning (proc c)" unfolding life_inv_def by blast
  with turn.hyps show ?case unfolding loop_turn_def by simp
qed (unfold processor_op_defs, auto)

text \<open>
  The loop of \<^verbatim>\<open>eventLoop\<close> left to itself: it takes events until none is waiting (the goroutine then
  blocks) or it is cancelled.
\<close>

lemma loop_turn_shorter:
  "loop_turn (p, w) = Some (e, p', w') \<Longrightarrow> length (ch p') < length (ch p)"
  by (auto simp: loop_turn_def split: if_splits list.splits)

function eventLoop :: "('x, 'w) config \<Rightarrow> ('x, 'w) config" where
  "eventLoop c =
     (case loop_turn (proc c, world c) of
        None \<Rightarrow> c
      | Some (e, p', w') \<Rightarrow> eventLoop (c\<lparr>proc := p', world := w', delivered := delivered c @ [e]\<rparr>))"
  by pat_completeness auto
termination
  by (relation "measure (\<lambda>c. length (ch (proc c)))") (auto dest: loop_turn_shorter)

declare eventLoop.simps [simp del]

lemma eventLoop_reachable: "reachable c0 c \<Longrightarrow> reachable c0 (eventLoop c)"
proof (induction c rule: eventLoop.induct)
  case (1 c)
  show ?case
  proof (cases "loop_turn (proc c, world c)")
    case (Some r)
    obtain e p' w' where r: "r = (e, p', w')" by (cases r)
    have "proc_step c (c\<lparr>proc := p', world := w', delivered := delivered c @ [e]\<rparr>)"
      using proc_step.turn Some r by metis
    from reachable.step [OF "1.prems" this] "1.IH" [OF Some [unfolded r] refl refl]
    show ?thesis by (simp add: eventLoop.simps [of c] Some r)
  qed (use 1 in \<open>simp add: eventLoop.simps\<close>)
qed

lemma eventLoop_drains:
  "loopRunning (proc c) \<Longrightarrow> \<not> cancelled (proc c) \<Longrightarrow>
   ch (proc (eventLoop c)) = [] \<and> delivered (eventLoop c) = delivered c @ ch (proc c)
   \<and> accepted (eventLoop c) = accepted c \<and> dropped (eventLoop c) = dropped c"
proof (induction c rule: eventLoop.induct)
  case (1 c)
  show ?case
  proof (cases "ch (proc c)")
    case Nil
    then show ?thesis by (simp add: eventLoop.simps loop_turn_def)
  next
    case (Cons e rest)
    then have t: "loop_turn (proc c, world c) = Some (e, (proc c)\<lparr>ch := rest\<rparr>, dispatch (extractors (proc c)) e (world c))"
      using "1.prems" by (simp add: loop_turn_def)
    from "1.IH" [OF t] "1.prems" Cons show ?thesis
      by (simp add: eventLoop.simps [of c] t)
  qed
qed

lemma dispatch_single: "dispatch [x] e w = snd (x [e] w)"
  by (simp add: dispatch_def)

lemma fold_dispatch_single: "fold (dispatch [x]) evs w = deliver x evs w"
  by (simp add: deliver_def dispatch_single [abs_def])

text \<open>A concrete schedule: two events before the start, one turn, a stop.\<close>

definition sample_run :: "(unit, nat) config" where
  "sample_run =
     (let p0 = RegisterExtractor (\<lambda>evs n. (None, n + length evs)) NewProcessor;
          e = \<lparr>ev_Type = RequestEventType, ev_Payload = OtherPayload\<rparr>;
          p1 = snd (Start_processor (Notify e (Notify e p0)))
      in \<lparr>proc = p1\<lparr>ch := [e]\<rparr>, world = 1, accepted = [e, e], dropped = [], delivered = [e]\<rparr>)"

lemma sample_run_reachable: "reachable (init_config 0) sample_run"
proof -
  let ?x = "\<lambda>evs n. (None, n + length evs)"
  let ?e = "\<lparr>ev_Type = RequestEventType, ev_Payload = OtherPayload\<rparr>"
  define c1 :: "(unit, nat) config" where "c1 = (init_config 0)\<lparr>proc := RegisterExtractor ?x (proc (init_config 0))\<rparr>"
  define c2 where "c2 = c1\<lparr>proc := Notify ?e (proc c1), accepted := accepted c1 @ [?e]\<rparr>"
  define c3 where "c3 = c2\<lparr>proc := Notify ?e (proc c2), accepted := accepted c2 @ [?e]\<rparr>"
  define c4 where "c4 = c3\<lparr>proc := snd (Start_processor (proc c3))\<rparr>"
  note defs = c1_def c2_def c3_def c4_def init_config_def NewProcessor_def processor_op_defs defaultBufferSize_def
  have "reachable (init_config 0) c1" unfolding c1_def by (rule reachable.step [OF reachable.base proc_step.extractor])
  then have "reachable (init_config 0) c2"
    by (rule reachable.step) (unfold c2_def, rule proc_step.accept, simp add: defs)
  then have "reachable (init_config 0) c3"
    by (rule reachable.step) (unfold c3_def, rule proc_step.accept, simp add: defs)
  then have r: "reachable (init_config 0) c4"
    by (rule reachable.step) (unfold c4_def, rule proc_step.start)
  have "proc_step c4 (c4\<lparr>proc := (proc c4)\<lparr>ch := [?e]\<rparr>, world := 1, delivered := delivered c4 @ [?e]\<rparr>)"
    by (rule proc_step.turn) (simp add: loop_turn_def dispatch_def defs)
  from reachable.step [OF r this] show ?thesis
    by (simp add: sample_run_def defs)
qed

subsection \<open>Properties\<close>

text \<open>
  C14: the event queue is first in, first out and bounded. In every reachable configuration, under
  every interleaving of notifications, registrations, start, stop and loop turns, the events
  delivered so far followed by those queued are exactly the events accepted, in order, at most
  10000 are waiting, and the extractors' state is the result of handing each delivered event,
  once and in order, to every registered extractor.
\<close>

theorem event_queue_fifo:
  assumes "reachable (init_config w) c"
  shows "accepted c = delivered c @ ch (proc c) \<and> length (ch (proc c)) \<le> 10000
    \<and> world c = fold (dispatch (extractors (proc c))) (delivered c) w"
  using queue_inv_reachable [OF assms] work_inv_reachable [OF assms]
  by (simp add: queue_inv_def work_inv_def defaultBufferSize_def)

theorem event_queue_fifo_witness:
  "length (ch (proc sample_run)) \<le> 10000 \<and> world sample_run = 1
   \<and> accepted sample_run = delivered sample_run @ ch (proc sample_run)"
  using event_queue_fifo [OF sample_run_reachable] by (simp add: sample_run_def Let_def)





end
