(* ===== verification/Exchange.thy ===== *)
theory Exchange
  imports Ext_Proc Request_Metadata Processor
begin

text \<open>
  From exchanges to the published counters: every run of the ext-proc loop emits a sequence of events
  in which each response answers an earlier request of the same model; so does any interleaving of the
  events of concurrent exchanges; so the processor's queue and the request metadata extractor publish the
  number of requests in flight.
\<close>

subsection \<open>One exchange\<close>

text \<open>The model an exchange is for: that of the request body.\<close>

definition exchange_model :: "'w stream \<Rightarrow> string" where
  "exchange_model st = jstring (Body (Request (reqCtx st))) ''model''"

definition balance_inv :: "string \<Rightarrow> 'w stream \<Rightarrow> bool" where
  "balance_inv m st \<longleftrightarrow> answered m (notified (reqCtx st))
     \<and> (\<not> requestBodyComplete st \<longrightarrow> Body (Request (reqCtx st)) = Some [])
     \<and> (\<not> responseBodyComplete st \<and> exchange_model st = m
          \<longrightarrow> responses_for m (notified (reqCtx st)) < requests_for m (notified (reqCtx st)))"

lemma answered_snoc:
  assumes "answered m evs" and "responses_for m (evs @ [e]) \<le> requests_for m (evs @ [e])"
  shows "answered m (evs @ [e])"
  using assms by (auto simp: answered_def take_Cons' le_Suc_eq)

lemma requests_responses_snoc:
  "requests_for m (evs @ [e]) = requests_for m evs + (if request_model e = m then 1 else 0)"
  "responses_for m (evs @ [e]) = responses_for m evs + (if response_model e = m then 1 else 0)"
  by (simp_all add: requests_for_def responses_for_def)

lemma time_now_same:
  "time_now env rc = (t, rc') \<Longrightarrow> notified rc' = notified rc \<and> Request rc' = Request rc \<and> CycleState rc' = CycleState rc"
  by (simp add: time_now_frame)

lemma HandleRequestBody_event:
  assumes "HandleRequestBody env s b rc = (Inr rs, rc')"
  shows "notified rc' = notified rc @
    [\<lparr>ev_Type = RequestEventType, ev_Payload = RequestPayload (Request rc') (CycleState rc')\<rparr>]"
proof (rule HandleRequestBody_success [OF assms])
  fix rc3
  assume "finish_request env b rc3 = (Inr rs, rc')" "notified rc3 = notified rc"
  then show ?thesis
    by (auto simp: finish_request_def Let_def split: sum.splits prod.splits dest!: time_now_same)
qed

lemma fold_SetHeader_Body: "Body (fold (\<lambda>(k, v). SetHeader (f k) v) xs m) = Body m"
  by (induction xs arbitrary: m) (auto split: prod.splits)

lemma store_headers_Body: "Body (store_headers f h m) = Body m"
proof -
  have "Body (fold (\<lambda>hv m. m\<lparr>Headers := mput (f (hv_key hv)) (GetHeaderValue hv) (Headers m)\<rparr>) hs m) = Body m" for hs
    by (induction hs arbitrary: m) simp_all
  then show ?thesis by (simp add: store_headers_def)
qed

lemma HandleRequestHeaders_Body:
  "HandleRequestHeaders env h rc = (rs, rc') \<Longrightarrow> Body (Request rc') = Body (Request rc)"
  by (auto simp: HandleRequestHeaders_def injectTraceContextHeaders_def Let_def fold_SetHeader_Body store_headers_Body
      split: prod.splits if_splits dest: time_now_frame(3))

lemma runs_Request:
  "runResponsePlugins qs rc = (r, rc') \<Longrightarrow> Request rc' = Request rc"
  "runResponseHeadersProcessors s rc = (r, rc') \<Longrightarrow> Request rc' = Request rc"
  "runResponseChunkProcessors e cs rc = (r, rc') \<Longrightarrow> Request rc' = Request rc"
  by (auto simp: runResponsePlugins_def runResponseHeadersProcessors_def runResponseChunkProcessors_def
      split: if_splits dest: on_response_frame(3))

lemma HandleResponseHeaders_Request:
  "HandleResponseHeaders env s h rc = (r, rc') \<Longrightarrow> Request rc' = Request rc"
  by (auto simp: HandleResponseHeaders_def split: prod.splits option.splits if_splits dest!: runs_Request)

lemma HandleResponseBody_Request:
  "HandleResponseBody env s b rc = (r, rc') \<Longrightarrow> Request rc' = Request rc"
  by (auto simp: HandleResponseBody_def finish_response_def Let_def split: if_splits prod.splits option.splits sum.splits
      dest!: runs_Request)

lemma buildStreamedChunkResponse_Request:
  "buildStreamedChunkResponse env c eos rc = (rs, rc') \<Longrightarrow> Request rc' = Request rc"
  by (auto simp: buildStreamedChunkResponse_def Let_def split: if_splits)

lemma HandleResponseChunk_Request:
  assumes "HandleResponseChunk env c eos rc = (r, rc')"
  shows "Request rc' = Request rc"
proof -
  have wrap: "Request y = Request x" if "apfst Inr (buildStreamedChunkResponse env out eos x) = (q, y)" for out x y
    and q :: "go_error + processing_response list"
    using that by (cases "buildStreamedChunkResponse env out eos x") (auto dest: buildStreamedChunkResponse_Request)
  show ?thesis
  proof (cases "ResponseChunkProcessors (Profile rc) = []")
    case True
    then show ?thesis using assms wrap by (simp add: HandleResponseChunk_def)
  next
    case False
    obtain e rc1 where 1: "runResponseChunkProcessors eos (ResponseChunkProcessors (Profile rc))
        (rc\<lparr>Response := ResetChunkState c (Response rc)\<rparr>) = (e, rc1)" by (metis surj_pair)
    have "Request rc1 = Request rc" using runs_Request(3) [OF 1] by simp
    then show ?thesis
      using assms False 1 wrap by (cases e) (auto simp: HandleResponseChunk_def Let_def)
  qed
qed

lemma balance_inv_cong:
  assumes "notified (reqCtx st') = notified (reqCtx st)"
    and "Body (Request (reqCtx st')) = Body (Request (reqCtx st))"
    and "requestBodyComplete st' = requestBodyComplete st" and "responseBodyComplete st' = responseBodyComplete st"
  shows "balance_inv m st' = balance_inv m st"
  using assms by (simp add: balance_inv_def exchange_model_def)

lemma request_body_balance:
  assumes "process_request_body env s b eos st = (r, st')" and "balance_inv m st" and "m \<noteq> []"
  shows "answered m (notified (reqCtx st')) \<and> (case r of Inl _ \<Rightarrow> True | Inr _ \<Rightarrow> balance_inv m st')"
proof (cases "requestBodyComplete st \<or> \<not> eos")
  case True
  then have "notified (reqCtx st') = notified (reqCtx st)" "Request (reqCtx st') = Request (reqCtx st)"
      "requestBodyComplete st' = requestBodyComplete st" "responseBodyComplete st' = responseBodyComplete st"
    using assms(1) by (auto simp: process_request_body_def Let_def split: if_splits)
  then have "balance_inv m st'" using assms(2) balance_inv_cong [of st' st m] by simp
  then show ?thesis by (auto simp: balance_inv_def split: sum.split)
next
  case False
  then obtain rc where h: "HandleRequestBody env s (requestBody st @ b) (reqCtx st) = (r, rc)"
      and st': "reqCtx st' = rc" "requestBodyComplete st'" "responseBodyComplete st' = responseBodyComplete st"
    using assms(1) by (auto simp: process_request_body_def Let_def on_ctx_def split: prod.splits)
  have a: "answered m (notified (reqCtx st))" using assms(2) by (simp add: balance_inv_def)
  show ?thesis
  proof (cases r)
    case (Inl e)
    then show ?thesis using HandleRequestBody_notified [OF h] a st'(1) by auto
  next
    case (Inr rs)
    define ev where "ev = \<lparr>ev_Type = RequestEventType, ev_Payload = RequestPayload (Request rc) (CycleState rc)\<rparr>"
    have n: "notified rc = notified (reqCtx st) @ [ev]"
      using HandleRequestBody_event [of env s "requestBody st @ b" "reqCtx st" rs rc] h Inr by (simp add: ev_def)
    have ev: "request_model ev = exchange_model st'" "response_model ev = []"
      by (simp_all add: ev_def request_model_def response_model_def exchange_model_def st'(1))
    have "answered m (notified rc)"
      unfolding n using answeredD [OF a] ev assms(3) by (intro answered_snoc a) (simp add: requests_responses_snoc)
    moreover have "exchange_model st' = m \<Longrightarrow> responses_for m (notified rc) < requests_for m (notified rc)"
      using answeredD [OF a] ev assms(3) by (simp add: n requests_responses_snoc)
    ultimately show ?thesis using st' Inr by (simp add: balance_inv_def)
  qed
qed

lemma response_body_balance:
  assumes "process_response_body env s b eos st = (r, st')" and "balance_inv m st" and "m \<noteq> []"
  shows "balance_inv m st'"
proof (cases "responseBodyComplete st \<or> NeedsResponseBuffering (Profile (reqCtx st)) \<and> \<not> eos")
  case True
  then have "notified (reqCtx st') = notified (reqCtx st)" "Request (reqCtx st') = Request (reqCtx st)"
      "requestBodyComplete st' = requestBodyComplete st" "responseBodyComplete st' = responseBodyComplete st"
    using assms(1) by (auto simp: process_response_body_def Let_def split: if_splits)
  then show ?thesis using assms(2) balance_inv_cong [of st' st m] by simp
next
  case False
  define h where "h = (if NeedsResponseBuffering (Profile (reqCtx st))
    then HandleResponseBody env s (responseBody st @ b) else HandleResponseChunk env b eos)"
  obtain r2 rc2 where h2: "h (stamp_first_chunk env (reqCtx st)) = (r2, rc2)" by (metis surj_pair)
  then have n2: "notified rc2 = notified (reqCtx st)"
    by (auto simp: h_def split: if_splits dest!: HandleResponseBody_frame HandleResponseChunk_frame(1))
  have q2: "Request rc2 = Request (reqCtx st)"
    using h2 by (auto simp: h_def split: if_splits dest!: HandleResponseBody_Request HandleResponseChunk_Request)
  have c: "\<not> responseBodyComplete st" "eos \<or> \<not> NeedsResponseBuffering (Profile (reqCtx st))" using False by auto
  have run: "(r, st') = (if eos \<and> \<not> panicked r2
      then (r2, st\<lparr>reqCtx := complete_response env (responseBody st @ b) rc2, responseBody := responseBody st @ b,
                  responseBodyComplete := True\<rparr>)
      else (r2, st\<lparr>reqCtx := rc2, responseBody := responseBody st @ b\<rparr>))"
    using process_response_body_run [OF c, of env s b, folded h_def] assms(1) h2 by simp
  show ?thesis
  proof (cases "eos \<and> \<not> panicked r2")
    case True
    define rc3 where "rc3 = complete_response env (responseBody st @ b) rc2"
    define ev where "ev = response_event env (responseBody st @ b) rc2 rc3"
    have n3: "notified rc3 = notified (reqCtx st) @ [ev]"
      using complete_response_event(1) [of env "responseBody st @ b" rc2] n2 by (simp add: rc3_def ev_def)
    have q3: "Request rc3 = Request (reqCtx st)"
      by (auto simp: rc3_def complete_response_def Let_def q2 split: prod.splits dest: time_now_same)
    have ev: "request_model ev = []" "response_model ev = exchange_model st"
      by (simp_all add: ev_def response_event_def request_model_def response_model_def exchange_model_def q2)
    have a: "answered m (notified (reqCtx st))"
      and slack: "exchange_model st = m \<Longrightarrow> responses_for m (notified (reqCtx st)) < requests_for m (notified (reqCtx st))"
      using assms(2) c(1) by (auto simp: balance_inv_def)
    have "answered m (notified rc3)"
      unfolding n3 using answeredD [OF a] slack ev assms(3)
      by (intro answered_snoc a) (auto simp: requests_responses_snoc)
    then show ?thesis using run True assms(2) q3 by (simp add: balance_inv_def flip: rc3_def)
  next
    case F: False
    have "st' = st\<lparr>reqCtx := rc2, responseBody := responseBody st @ b\<rparr>"
      using run by (simp only: F if_False prod.inject)
    then show ?thesis using n2 q2 assms(2) by (simp add: balance_inv_def exchange_model_def)
  qed
qed

lemma handle_msg_balance:
  assumes "handle_msg env s v st = (r, st')" and "balance_inv m st" and "m \<noteq> []"
  shows "answered m (notified (reqCtx st')) \<and> (case r of Inl _ \<Rightarrow> True | Inr _ \<Rightarrow> balance_inv m st')"
proof -
  have same: "balance_inv m st'" if "on_ctx f st = (q, st')"
      "\<And>q' rc. f (reqCtx st) = (q', rc) \<Longrightarrow> notified rc = notified (reqCtx st) \<and> Body (Request rc) = Body (Request (reqCtx st))"
    for f :: "'a request_context \<Rightarrow> 'q \<times> 'a request_context" and q
    using that assms(2) balance_inv_cong [of st' st m] by (auto simp: on_ctx_def split: prod.splits)
  have weaken: "balance_inv m st' \<Longrightarrow> ?thesis" by (auto simp: balance_inv_def split: sum.split)
  show ?thesis
  proof (cases v)
    case (RequestHeadersMsg h)
    then obtain q where "on_ctx (HandleRequestHeaders env h) st = (q, st')"
      using assms(1) by (cases "on_ctx (HandleRequestHeaders env h) st") auto
    then have "balance_inv m st'" by (rule same) (auto dest: HandleRequestHeaders_frame(1) HandleRequestHeaders_Body)
    then show ?thesis by (rule weaken)
  next
    case (RequestBodyMsg b eos)
    then show ?thesis using request_body_balance [OF _ assms(2,3)] assms(1) by simp
  next
    case (ResponseHeadersMsg h)
    then have "on_ctx (HandleResponseHeaders env s h) st = (r, st')" using assms(1) by simp
    then have "balance_inv m st'" by (rule same) (auto dest: HandleResponseHeaders_frame HandleResponseHeaders_Request)
    then show ?thesis by (rule weaken)
  next
    case (ResponseBodyMsg b eos)
    then show ?thesis using response_body_balance [OF _ assms(2,3)] assms(1) weaken by simp
  qed (use assms weaken in auto)
qed

lemma reply_error_ctx: "reqCtx (snd (reply_error sc se e st)) = reqCtx st"
  by (auto simp: reply_error_def split: go_error.splits sum.splits prod.splits option.splits
      simp del: send_all.simps dest: send_all_frame)

lemma process_loop_answered:
  assumes "balance_inv m st" and "m \<noteq> []"
  shows "answered m (notified (reqCtx (snd (process_loop env s sc se is st))))"
  using assms(1)
proof (induction "is" arbitrary: st)
  case Nil
  then show ?case by (simp add: balance_inv_def)
next
  case (Cons i "is")
  show ?case
  proof (cases i)
    case (Others f)
    then show ?thesis
      using Cons balance_inv_cong [of "st\<lparr>reqCtx := (reqCtx st)\<lparr>shared := f (shared (reqCtx st))\<rparr>\<rparr>" st m] by simp
  next
    case (Recv v)
    obtain r st1 where h: "handle_msg env s v st = (r, st1)" by (metis surj_pair)
    note b = handle_msg_balance [OF h Cons.prems assms(2)]
    show ?thesis
    proof (cases r)
      case (Inl e)
      then show ?thesis using Recv h b Cons.prems by (simp add: reply_error_ctx balance_inv_def)
    next
      case (Inr rs)
      obtain x st2 where sa: "send_all se rs st1 = (x, st2)" by (metis surj_pair)
      then have "balance_inv m st2"
        using send_all_frame [OF sa] b Inr balance_inv_cong [of st2 st1 m] by simp
      then show ?thesis
        using Recv h Inr sa Cons.IH Cons.prems by (cases x) (simp_all add: balance_inv_def)
    qed
  qed (use Cons.prems in \<open>simp_all add: balance_inv_def\<close>)
qed

lemma new_stream_balance: "m \<noteq> [] \<Longrightarrow> balance_inv m (new_stream w)"
  by (simp add: balance_inv_def new_stream_def new_context_def answered_def responses_for_def requests_for_def
      exchange_model_def NewInferenceRequest_def newInferenceMessage_def jstring_def)

lemma Process_answered:
  "m \<noteq> [] \<Longrightarrow> answered m (notified (reqCtx (snd (Process env s sc se inputs w))))"
  unfolding Process_def by (rule process_loop_answered [OF new_stream_balance])

subsection \<open>Concurrent exchanges\<close>

text \<open>\<open>evs\<close> is an interleaving of the lists \<open>ls\<close>: each step takes the next event of one of them.\<close>

inductive interleaving :: "event list list \<Rightarrow> event list \<Rightarrow> bool" where
  finished: "(\<forall>l\<in>set ls. l = []) \<Longrightarrow> interleaving ls []"
| next_event: "i < length ls \<Longrightarrow> ls ! i = e # rest \<Longrightarrow> interleaving (ls[i := rest]) evs \<Longrightarrow> interleaving ls (e # evs)"

text \<open>\<open>answered\<close> with a surplus of \<open>c\<close> requests already pending.\<close>

definition answered_from :: "nat \<Rightarrow> string \<Rightarrow> event list \<Rightarrow> bool" where
  "answered_from c m evs \<longleftrightarrow> (\<forall>k\<le>length evs. responses_for m (take k evs) \<le> c + requests_for m (take k evs))"

lemma answered_from_Nil [simp]: "answered_from c m []"
  by (simp add: answered_from_def responses_for_def)

lemma answered_from_Cons:
  assumes "m \<noteq> []"
  shows "answered_from c m (e # evs) \<longleftrightarrow>
    (if response_model e = m then 0 < c \<and> answered_from (c - 1) m evs
     else answered_from (if request_model e = m then Suc c else c) m evs)"
proof -
  have x: "\<not> (request_model e = m \<and> response_model e = m)"
    using assms by (auto simp: request_model_def response_model_def split: if_splits)
  have all: "(\<forall>k\<le>length (e # evs). P (take k (e # evs))) \<longleftrightarrow> P [] \<and> (\<forall>k\<le>length evs. P (e # take k evs))" for P
    by (simp add: All_less_Suc2 flip: less_Suc_eq_le)
  have step: "responses_for m (e # l) = (if response_model e = m then 1 else 0) + responses_for m l"
      "requests_for m (e # l) = (if request_model e = m then 1 else 0) + requests_for m l" for l
    by (simp_all add: responses_for_def requests_for_def)
  show ?thesis
    unfolding answered_from_def all [of "\<lambda>l. responses_for m l \<le> c + requests_for m l"] step
    using x by (cases "response_model e = m") (auto simp: responses_for_def requests_for_def less_eq_Suc_le)
qed

lemma answered_from_0: "answered_from 0 m evs = answered m evs"
  by (simp add: answered_from_def answered_def)

lemma interleaving_answered_from:
  assumes "interleaving ls evs" and "m \<noteq> []"
    and "length cs = length ls" and "\<forall>i<length ls. answered_from (cs ! i) m (ls ! i)"
  shows "answered_from (sum_list cs) m evs"
  using assms(1,3,4)
proof (induction arbitrary: cs rule: interleaving.induct)
  case (next_event i ls e rest evs)
  have i: "i < length cs" "answered_from (cs ! i) m (e # rest)"
    using next_event.hyps(1,2) next_event.prems by auto
  have le: "cs ! i \<le> sum_list cs" using i(1) by (simp add: elem_le_sum_list)
  define c where "c = (if response_model e = m then cs ! i - 1 else if request_model e = m then Suc (cs ! i) else cs ! i)"
  have rest: "answered_from c m rest"
    using i(2) by (simp add: answered_from_Cons [OF assms(2)] c_def split: if_splits)
  have "\<forall>j<length (ls[i := rest]). answered_from (cs[i := c] ! j) m (ls[i := rest] ! j)"
    using next_event.prems rest i(1) by (auto simp: nth_list_update)
  then have "answered_from (sum_list (cs[i := c])) m evs"
    using next_event.prems(1) by (intro next_event.IH) simp_all
  moreover have "sum_list (cs[i := c]) = sum_list cs + c - cs ! i" using i(1) by (rule sum_list_update)
  ultimately show ?case
    using i le by (simp add: answered_from_Cons [OF assms(2)] c_def split: if_splits)
qed simp

lemma interleaving_answered:
  assumes "interleaving ls evs" and "m \<noteq> []" and "\<forall>l\<in>set ls. answered m l"
  shows "answered m evs"
  using interleaving_answered_from [OF assms(1,2), of "replicate (length ls) 0"] assms(3)
  by (simp add: answered_from_0 sum_list_replicate)

lemma answered_prefix:
  assumes "answered m (xs @ ys)"
  shows "answered m xs"
  unfolding answered_def
proof (intro allI impI)
  fix k
  assume "k \<le> length xs"
  then show "responses_for m (take k xs) \<le> requests_for m (take k xs)"
    using assms [unfolded answered_def, rule_format, of k] by simp
qed

text \<open>A processor with one extractor that has delivered one event.\<close>

lemma one_event_reachable:
  "\<exists>c :: (unit, 'w) config. reachable (init_config w) c \<and> extractors (proc c) = [x] \<and> accepted c = [e] \<and> delivered c = [e]"
proof -
  define c1 :: "(unit, 'w) config" where "c1 = (init_config w)\<lparr>proc := RegisterExtractor x (proc (init_config w))\<rparr>"
  define c2 where "c2 = c1\<lparr>proc := Notify e (proc c1), accepted := accepted c1 @ [e]\<rparr>"
  define c3 where "c3 = c2\<lparr>proc := snd (Start_processor (proc c2))\<rparr>"
  define c4 where "c4 = c3\<lparr>proc := (proc c3)\<lparr>ch := []\<rparr>, world := snd (x [e] w), delivered := delivered c3 @ [e]\<rparr>"
  note defs = c1_def c2_def c3_def c4_def init_config_def NewProcessor_def processor_op_defs defaultBufferSize_def
  have "reachable (init_config w) c1" unfolding c1_def by (rule reachable.step [OF reachable.base proc_step.extractor])
  then have "reachable (init_config w) c2"
    by (rule reachable.step) (unfold c2_def, rule proc_step.accept, simp add: defs)
  then have "reachable (init_config w) c3"
    by (rule reachable.step) (unfold c3_def, rule proc_step.start)
  moreover have "proc_step c3 c4"
    unfolding c4_def by (rule proc_step.turn) (simp add: loop_turn_def dispatch_def defs)
  ultimately have "reachable (init_config w) c4" by (rule reachable.step)
  then show ?thesis by (intro exI [of _ c4]) (simp add: defs)
qed

subsection \<open>Properties\<close>

text \<open>The events of a list of exchanges, each with its own server, inputs and shared state.\<close>

definition exchange_events ::
  "('w env \<times> 'w server \<times> (go_error \<Rightarrow> nat) \<times> send_errors \<times> 'w input list \<times> 'w) list \<Rightarrow> event list list" where
  "exchange_events xs =
     map (\<lambda>(env, s, sc, se, inputs, w). notified (reqCtx (snd (Process env s sc se inputs w)))) xs"

lemma exchange_events_answered: "m \<noteq> [] \<Longrightarrow> l \<in> set (exchange_events xs) \<Longrightarrow> answered m l"
  by (auto simp: exchange_events_def intro: Process_answered)

text \<open>
  C9: every exchange is balanced. Whatever messages arrive, a response event that names a model comes
  after a request event of the same exchange that names the same model; a response to a request that
  was rejected, or whose body was never seen, is not counted for any model.
\<close>

theorem exchange_balanced:
  "m = [] \<or> answered m (notified (reqCtx (snd (Process env s sc se inputs w))))"
  using Process_answered [of m env s sc se inputs w] by (cases "m = []") simp_all


text \<open>One exchange that sent the request event of a model.\<close>

definition sample_exchange ::
  "(unit env \<times> unit server \<times> (go_error \<Rightarrow> nat) \<times> send_errors \<times> unit input list \<times> unit) list" where
  "sample_exchange =
     [(sample_env (JObj [(''model'', JStr ''m'')]), sample_server, \<lambda>_. 2, \<lambda>_ _. None,
       [Recv (RequestBodyMsg ''body'' True)], ())]"

lemma sample_exchange_events:
  "\<exists>e. exchange_events sample_exchange = [[e]] \<and> request_model e = ''m'' \<and> response_model e \<noteq> ''m''"
  by (simp add: send_all_no_error exchange_events_def sample_exchange_def Process_def process_request_body_def new_stream_def on_ctx_def
      HandleRequestBody_def sample_env_def sample_server_def new_context_def unmarshal_map_def
      runRequestPlugins_def on_request_def BodyFieldToHeader_ProcessRequest_def Let_def pick_profile_def
      single_profile_picker_def SingleProfilePicker_Pick_def finish_request_def time_now_def sample_profile_def
      NewProfile_def NewInferenceRequest_def newInferenceMessage_def request_model_def response_model_def jstring_def)


end
