(* ===== verification/Routing.thy ===== *)
theory Routing
  imports Exchange
begin

text \<open>
  What the processor is for, end to end: an exchange whose profile runs the model selector sends the
  request on with the selected model in its body, tells the data layer about it, and names it to the
  client in a response header. The stream, the handlers, the plugin, the pipeline and the error replies
  are composed here.
\<close>

subsection \<open>A server that routes\<close>

text \<open>One profile whose only request plugin is the model selector; the model name goes to \<open>hdr\<close>.\<close>

definition routes_with ::
  "('w \<Rightarrow> 'd store) \<Rightarrow> ((string \<times> 'd model) list \<Rightarrow> (string \<times> 'd model) list)
     \<Rightarrow> ((string \<times> 'd scored_model) list \<Rightarrow> (string \<times> 'd scored_model) list) \<Rightarrow> ('w, 'd) pipeline \<Rightarrow> string
     \<Rightarrow> 'w server \<Rightarrow> bool" where
  "routes_with models ord ord' p hdr s \<longleftrightarrow>
     preProcessors s = [] \<and> profilePicker s = Some single_profile_picker
     \<and> (\<exists>n prof. profiles s = [(n, prof)] \<and> RequestPlugins prof = [ModelSelector_ProcessRequest models ord ord' p])
     \<and> responseHeadersPostProcessors s = [ModelNameToHeader_ProcessResponseHeaders hdr]"

text \<open>The contracts of the pipeline's plugins and of the store, for the models registered now.\<close>

definition pipeline_ready ::
  "((string \<times> 'd model) list \<Rightarrow> (string \<times> 'd model) list)
     \<Rightarrow> ((string \<times> 'd scored_model) list \<Rightarrow> (string \<times> 'd scored_model) list) \<Rightarrow> ('w, 'd) pipeline \<Rightarrow> 'd store \<Rightarrow> bool" where
  "pipeline_ready ord ord' p ds \<longleftrightarrow>
     (\<forall>f\<in>set (filters p). model_filter f)
     \<and> (\<exists>adm. (\<forall>x\<in>set (scorers p). model_scorer (fst x) adm) \<and> list_all adm (GetModels ord AllModelsPredicate ds))
     \<and> (\<exists>n pick. picker p = Some (n, pick) \<and> model_picker pick)
     \<and> perm_of ord \<and> perm_of ord' \<and> store_ok ds \<and> model_names ds \<noteq> {}"

subsection \<open>The request body\<close>

text \<open>A server with a single profile of a single request plugin, and no pre-processors.\<close>

lemma HandleRequestBody_single:
  assumes "preProcessors s = []" and "profilePicker s = Some single_profile_picker"
    and "profiles s = [(n, prof)]" and "RequestPlugins prof = [plug]"
    and "unmarshal_map (json_parse env) bytes (Body (Request rc)) = Some (Some body)"
    and "plug (shared rc, CycleState rc, (Request rc)\<lparr>Body := Some body\<rparr>) = (err, (w, c, q))"
  shows "HandleRequestBody env s bytes rc =
    (case err of
       Some e \<Rightarrow> (Inl e, rc\<lparr>Profile := prof, shared := w, CycleState := c, Request := q\<rparr>)
     | None \<Rightarrow> finish_request env bytes (rc\<lparr>Profile := prof, shared := w, CycleState := c, Request := q\<rparr>))"
  using assms
  by (auto simp: HandleRequestBody_def runRequestPlugins_def on_request_def pick_profile_def single_profile_picker_def
      SingleProfilePicker_Pick_def split: option.split)

lemma HandleRequestBody_selector:
  assumes "routes_with models ord ord' p hdr s"
    and "unmarshal_map (json_parse env) bytes (Body (Request rc)) = Some (Some body)"
    and "ModelSelector_ProcessRequest models ord ord' p (shared rc, CycleState rc, (Request rc)\<lparr>Body := Some body\<rparr>)
      = (err, (w, c, q))"
  obtains prof where "HandleRequestBody env s bytes rc =
    (case err of
       Some e \<Rightarrow> (Inl e, rc\<lparr>Profile := prof, shared := w, CycleState := c, Request := q\<rparr>)
     | None \<Rightarrow> finish_request env bytes (rc\<lparr>Profile := prof, shared := w, CycleState := c, Request := q\<rparr>))"
  using HandleRequestBody_single [where plug = "ModelSelector_ProcessRequest models ord ord' p", OF _ _ _ _ assms(2,3)] assms(1)
  unfolding routes_with_def by blast

lemma finish_request_selected:
  assumes "bodyMutated (Request rc)" and "json_marshal env (Body (Request rc)) = Inr bytes"
  shows "\<exists>hm rc'. finish_request env orig rc =
      (Inr (addStreamedBodyResponse
         [PR_RequestHeaders (Some \<lparr>clearRouteCache = True, headerMutation = Some hm, bodyMutation = None\<rparr>)] bytes), rc')
    \<and> notified rc' = notified rc @ [\<lparr>ev_Type = RequestEventType, ev_Payload = RequestPayload (Request rc') (CycleState rc)\<rparr>]
    \<and> Body (Request rc') = Body (Request rc) \<and> CycleState rc' = CycleState rc"
proof -
  obtain t rc2 where t: "time_now env (rc\<lparr>Request := SetHeader contentLengthHeader (itoa (length bytes)) (Request rc),
      notified := notified rc @ [\<lparr>ev_Type = RequestEventType,
        ev_Payload = RequestPayload (SetHeader contentLengthHeader (itoa (length bytes)) (Request rc)) (CycleState rc)\<rparr>],
      recorded := recorded rc @ [SuccessCounter]\<rparr>)
      = (t, rc2)" by force
  show ?thesis
    using assms t time_now_frame [OF t] by (auto simp: finish_request_def)
qed

subsection \<open>The response headers\<close>

lemma HandleResponseHeaders_names:
  assumes "routes_with models ord ord' p hdr s"
    and "ReadCycleStateKey_string (CycleState rc) SelectedModelCycleStateKey = Inr name"
  obtains rc' where "HandleResponseHeaders env s h rc =
      (Inr (if GetEndOfStream h then [PR_ResponseHeaders (buildHeadersResponse env rc')] else []), rc')"
    "map_of (Headers (Response rc')) hdr = Some name" "notified rc' = notified rc"
proof -
  define resp where "resp = SetHeader hdr name (store_headers id h (Response rc))"
  show thesis
  proof (rule that [where rc' = "rc\<lparr>Response := resp\<rparr>"])
    show "HandleResponseHeaders env s h rc =
        (Inr (if GetEndOfStream h then [PR_ResponseHeaders (buildHeadersResponse env (rc\<lparr>Response := resp\<rparr>))] else []),
         rc\<lparr>Response := resp\<rparr>)"
      using assms by (simp add: HandleResponseHeaders_def runResponseHeadersProcessors_def routes_with_def on_response_def
          ModelNameToHeader_ProcessResponseHeaders_def resp_def)
  qed (simp_all add: resp_def)
qed

subsection \<open>Property\<close>

text \<open>
  C3: an exchange routes to the selected model. For a server with the model selector, a request with a
  JSON object body and models registered, the exchange takes one of two courses. Either the filters
  leave no model: one immediate response with status 429 is sent, the stream ends and no event is sent.
  Or some registered model is selected: the body streamed to the proxy encodes the request with its
  model field set to that name and every other field as received, the request event names it, and
  after the response headers the header configured for the client carries it.
\<close>

theorem exchange_routes_to_selected_model:
  assumes "routes_with models ord ord' p hdr s" and "pipeline_ready ord ord' p (models (shared (reqCtx st)))"
    and "unmarshal_map (json_parse env) (requestBody st @ b) (Body (Request (reqCtx st))) = Some (Some body)"
    and "\<not> requestBodyComplete st" and "\<And>l r. se l r = None" and "\<And>v. \<exists>bytes. json_marshal env v = Inr bytes"
  shows "case process_loop env s sc se [Recv (RequestBodyMsg b True), Recv (ResponseHeadersMsg h)] st of (res, st') \<Rightarrow>
     (fst (runFilterPlugins p ((Request (reqCtx st))\<lparr>Body := Some body\<rparr>)
             (GetModels ord AllModelsPredicate (models (shared (reqCtx st)))) (shared (reqCtx st), CycleState (reqCtx st))) = Inr []
       \<and> res = Finished \<and> notified (reqCtx st') = notified (reqCtx st)
       \<and> sent st' = sent st @
           [PR_ImmediateResponse 429 ''inference error: ResourceExhausted - no models available after filtering''])
   \<or> (res = Waiting \<and> (\<exists>name\<in>model_names (models (shared (reqCtx st))). \<exists>bytes replies e.
         json_marshal env (Some (mput ''model'' (JStr name) body)) = Inr bytes
         \<and> sent st' = sent st @ replies \<and> streamed_bytes replies = bytes
         \<and> notified (reqCtx st') = notified (reqCtx st) @ [e] \<and> request_model e = name
         \<and> map_of (Headers (Response (reqCtx st'))) hdr = Some name
         \<and> (GetEndOfStream h \<longrightarrow> last replies = PR_ResponseHeaders (buildHeadersResponse env (reqCtx st')))))"
proof -
  let ?rc = "reqCtx st"
  obtain adm n pick where ready: "\<forall>f\<in>set (filters p). model_filter f" "\<forall>x\<in>set (scorers p). model_scorer (fst x) adm"
    "picker p = Some (n, pick)" "model_picker pick" "perm_of ord" "perm_of ord'" "store_ok (models (shared ?rc))"
    "model_names (models (shared ?rc)) \<noteq> {}" "list_all adm (GetModels ord AllModelsPredicate (models (shared ?rc)))"
    using assms(2) by (auto simp: pipeline_ready_def)
  have body: "Body ((Request ?rc)\<lparr>Body := Some body\<rparr>) = Some body" by simp
  show ?thesis
  proof (rule ModelSelector_cases [where models = models and w = "shared ?rc" and c = "CycleState ?rc", OF ready body])
    fix w' c'
    assume f: "fst (runFilterPlugins p ((Request ?rc)\<lparr>Body := Some body\<rparr>)
        (GetModels ord AllModelsPredicate (models (shared ?rc))) (shared ?rc, CycleState ?rc)) = Inr []"
      and "ModelSelector_ProcessRequest models ord ord' p (shared ?rc, CycleState ?rc, (Request ?rc)\<lparr>Body := Some body\<rparr>)
      = (Some (TypedErr ResourceExhausted ''no models available after filtering''), (w', c', (Request ?rc)\<lparr>Body := Some body\<rparr>))"
    from HandleRequestBody_selector [OF assms(1,3) this(2)] obtain prof where
      "HandleRequestBody env s (requestBody st @ b) ?rc =
        (Inl (TypedErr ResourceExhausted ''no models available after filtering''),
         ?rc\<lparr>Profile := prof, shared := w', CycleState := c', Request := (Request ?rc)\<lparr>Body := Some body\<rparr>\<rparr>)" by auto
    then show ?thesis
      using assms(4,5) f
      by (simp add: process_request_body_def Let_def on_ctx_def reply_error_def BuildErrResponse_typed)
         (simp add: ResourceExhausted_def)
  next
    fix name w' c'
    let ?q = "(Request ?rc)\<lparr>Body := Some body, Body := Some (mput ''model'' (JStr name) body), bodyMutated := True\<rparr>"
    let ?c = "Write SelectedModelCycleStateKey (JStr name) c'"
    assume name: "name \<in> model_names (models (shared ?rc))" and
      "ModelSelector_ProcessRequest models ord ord' p (shared ?rc, CycleState ?rc, (Request ?rc)\<lparr>Body := Some body\<rparr>)
        = (None, (w', ?c, ?q))"
    from HandleRequestBody_selector [OF assms(1,3) this(2)] obtain prof where
      hb: "HandleRequestBody env s (requestBody st @ b) ?rc = finish_request env (requestBody st @ b)
        (?rc\<lparr>Profile := prof, shared := w', CycleState := ?c, Request := ?q\<rparr>)" by auto
    obtain bytes where bytes: "json_marshal env (Some (mput ''model'' (JStr name) body)) = Inr bytes" using assms(6) by blast
    obtain hm rc1 where fin: "finish_request env (requestBody st @ b)
        (?rc\<lparr>Profile := prof, shared := w', CycleState := ?c, Request := ?q\<rparr>) =
        (Inr (addStreamedBodyResponse
           [PR_RequestHeaders (Some \<lparr>clearRouteCache = True, headerMutation = Some hm, bodyMutation = None\<rparr>)] bytes), rc1)"
      "notified rc1 = notified ?rc @ [\<lparr>ev_Type = RequestEventType, ev_Payload = RequestPayload (Request rc1) ?c\<rparr>]"
      "Body (Request rc1) = Some (mput ''model'' (JStr name) body)" "CycleState rc1 = ?c"
      using finish_request_selected [where rc = "?rc\<lparr>Profile := prof, shared := w', CycleState := ?c, Request := ?q\<rparr>"
          and env = env and bytes = bytes and orig = "requestBody st @ b"] bytes by auto
    have "ReadCycleStateKey_string (CycleState rc1) SelectedModelCycleStateKey = Inr name" by (simp add: fin(4))
    from HandleResponseHeaders_names [OF assms(1) this] obtain rc2 where
      hh: "HandleResponseHeaders env s h rc1 =
        (Inr (if GetEndOfStream h then [PR_ResponseHeaders (buildHeadersResponse env rc2)] else []), rc2)"
      "map_of (Headers (Response rc2)) hdr = Some name" "notified rc2 = notified rc1" by metis
    let ?replies = "addStreamedBodyResponse
        [PR_RequestHeaders (Some \<lparr>clearRouteCache = True, headerMutation = Some hm, bodyMutation = None\<rparr>)] bytes
      @ (if GetEndOfStream h then [PR_ResponseHeaders (buildHeadersResponse env rc2)] else [])"
    have run: "process_loop env s sc se [Recv (RequestBodyMsg b True), Recv (ResponseHeadersMsg h)] st =
        (Waiting, st\<lparr>requestBody := requestBody st @ b, requestBodyComplete := True, reqCtx := rc2, sent := sent st @ ?replies\<rparr>)"
      using assms(4) hb fin(1) hh(1)
      by (simp add: process_request_body_def Let_def on_ctx_def send_all_no_error [OF assms(5)])
    have sb: "streamed_bytes ?replies = bytes"
      by (simp add: streamed_bytes_append body_reply)
    let ?e = "\<lparr>ev_Type = RequestEventType, ev_Payload = RequestPayload (Request rc1) ?c\<rparr>"
    have e: "request_model ?e = name"
      by (simp add: request_model_def fin(3) jstring_def)
    show ?thesis
      unfolding run prod.case
      by (intro disjI2 conjI bexI [of _ name] exI [of _ bytes] exI [of _ ?replies] exI [of _ ?e])
         (use name bytes hh(2,3) fin(2) sb e in simp_all)
  qed
qed

definition sample_store :: "unit store" where
  "sample_store = [(''a'', NewModel ''a''), (''b'', NewModel ''b'')]"

definition routing_server :: "unit server" where
  "routing_server =
     \<lparr>preProcessors = [], profilePicker = Some single_profile_picker,
      profiles = [(''default'', NewProfile\<lparr>RequestPlugins :=
        [ModelSelector_ProcessRequest (\<lambda>_. sample_store) rev rev sample_pipeline]\<rparr>)],
      postProcessors = [], responseHeadersPostProcessors = [ModelNameToHeader_ProcessResponseHeaders ''x-model'']\<rparr>"

theorem exchange_routes_to_selected_model_witness:
  "\<exists>st' name. process_loop (sample_env (JObj [(''model'', JStr ''auto'')])) routing_server (\<lambda>_. 2) (\<lambda>_ _. None)
      [Recv (RequestBodyMsg ''{}'' True), Recv (ResponseHeadersMsg None)] (new_stream ()) = (Waiting, st')
    \<and> name \<in> {''a'', ''b''} \<and> map_of (Headers (Response (reqCtx st'))) ''x-model'' = Some name"
proof -
  let ?env = "sample_env (JObj [(''model'', JStr ''auto'')])"
  let ?st = "new_stream () :: unit stream"
  have ds: "store_ok sample_store" "model_names sample_store = {''a'', ''b''}"
      "GetModels rev AllModelsPredicate sample_store = [NewModel ''b'', NewModel ''a'']"
    by (auto simp: sample_store_def store_ok_def model_names_def GetModels_def AllModelsPredicate_def split: if_splits)
  have r: "routes_with (\<lambda>_. sample_store) rev rev sample_pipeline ''x-model'' routing_server"
    by (simp add: routes_with_def routing_server_def NewProfile_def)
  have p: "pipeline_ready rev rev sample_pipeline sample_store"
    unfolding pipeline_ready_def
    by (intro conjI sample_pipeline_contracts(1) perm_of_rev ds(1) exI [of _ counted] sample_pipeline_contracts(2)
          exI [of _ "''max''"] exI [of _ "MaxScorePicker_Pick (\<lambda>w. (0, w))"] sample_pipeline_contracts(3)
          maxscore.model_picker_axioms)
       (simp_all add: ds counted_NewModel)
  have u: "unmarshal_map (json_parse ?env) (requestBody ?st @ ''{}'') (Body (Request (reqCtx ?st)))
      = Some (Some [(''model'', JStr ''auto'')])" "\<not> requestBodyComplete ?st" "\<And>v. \<exists>bytes. json_marshal ?env v = Inr bytes"
    by (simp_all add: sample_env_def unmarshal_map_def new_stream_def new_context_def NewInferenceRequest_def
        newInferenceMessage_def)
  have f: "fst (runFilterPlugins sample_pipeline ((Request (reqCtx ?st))\<lparr>Body := Some [(''model'', JStr ''auto'')]\<rparr>)
      [NewModel ''b'', NewModel ''a''] (shared (reqCtx ?st), CycleState (reqCtx ?st))) \<noteq> Inr []"
    by (simp add: runFilterPlugins_def sample_pipeline_def ModelGroupFilter_Filter_def ModelGroupFilter_models_def
        requested_model_def group_name_defs)
  obtain res st' where run: "process_loop ?env routing_server (\<lambda>_. 2) (\<lambda>_ _. None)
      [Recv (RequestBodyMsg ''{}'' True), Recv (ResponseHeadersMsg None)] ?st = (res, st')" by (metis surj_pair)
  from exchange_routes_to_selected_model [where se = "\<lambda>_ _. None" and sc = "\<lambda>_. 2" and h = None, OF r p u(1,2) _ u(3)]
  show ?thesis using f ds(2,3) by (auto simp: run)
qed

end
