(* ===== verification/Model_Config.thy ===== *)
theory Model_Config
  imports Datastore Err_Common
begin

text \<open>
  \<^verbatim>\<open>datalayer/modelconfigcollector/plugin.go\<close>: the data source that keeps the model registry in
  step with a JSON configuration file. Decoding the file is the argument \<open>decode\<close>; the file
  system and the change notifications are inputs of the watcher loop.
\<close>

subsection \<open>Configuration\<close>

record model_configuration =
  mc_Name :: string
  mc_InputPerMillion :: real
  mc_OutputPerMillion :: real

record model_group_config =
  gc_Name :: string
  gc_Models :: "string list"

record models_config =
  cfg_Models :: "model_configuration list"
  cfg_Groups :: "model_group_config list"

definition empty_config :: models_config where
  "empty_config = \<lparr>cfg_Models = [], cfg_Groups = []\<rparr>"

subsection \<open>Synchronisation\<close>

definition add_member :: "string \<Rightarrow> string \<Rightarrow> (string, string list) gomap \<Rightarrow> (string, string list) gomap" where
  "add_member groupName modelName membership =
     (if modelName = [] then membership
      else mput modelName (mget_zero [] membership modelName @ [groupName]) membership)"

definition add_group :: "model_group_config \<Rightarrow> (string, string list) gomap \<Rightarrow> (string, string list) gomap" where
  "add_group g membership =
     (if gc_Name g = [] \<or> length (gc_Models g) = 0 then membership
      else fold (add_member (gc_Name g)) (gc_Models g) membership)"

definition membership_of :: "models_config \<Rightarrow> (string, string list) gomap" where
  "membership_of cfg = fold add_group (cfg_Groups cfg) []"

text \<open>The attribute updates for one valid entry.\<close>

definition refresh_attrs ::
  "(string, string list) gomap \<Rightarrow> model_configuration \<Rightarrow> 'd attributes \<Rightarrow> 'd attributes" where
  "refresh_attrs membership m a =
     (let a1 = Attr_Put TokenPricesAttributeKey
                 (Some (ToTokenPrices (mc_InputPerMillion m) (mc_OutputPerMillion m))) a
      in case map_of membership (mc_Name m) of
           Some groups \<Rightarrow> Attr_Put GroupsAttributeKey (Some (Groups groups)) a1
         | None \<Rightarrow> Attr_Delete GroupsAttributeKey a1)"

text \<open>One turn of the loop over the entries: the desired names and the store.\<close>

definition sync_entry ::
  "(string, string list) gomap \<Rightarrow> model_configuration \<Rightarrow> string list \<times> 'd store \<Rightarrow> string list \<times> 'd store" where
  "sync_entry membership m st =
     (case st of (desired, ds) \<Rightarrow>
        if mc_Name m = [] then (desired, ds)
        else if mc_InputPerMillion m < 0 \<or> mc_OutputPerMillion m < 0 then (desired, ds)
        else (List.insert (mc_Name m) desired, on_attrs (mc_Name m) (refresh_attrs membership m) ds))"

definition remove_stale ::
  "((string \<times> 'd model) list \<Rightarrow> (string \<times> 'd model) list) \<Rightarrow> string list \<Rightarrow> 'd store \<Rightarrow> 'd store" where
  "remove_stale ord desired ds =
     fold DeleteModel (filter (\<lambda>n. n \<notin> set desired) (map mname (GetModels ord AllModelsPredicate ds))) ds"

definition sync_config ::
  "((string \<times> 'd model) list \<Rightarrow> (string \<times> 'd model) list) \<Rightarrow> models_config \<Rightarrow> 'd store \<Rightarrow> 'd store" where
  "sync_config ord cfg ds =
     (case fold (sync_entry (membership_of cfg)) (cfg_Models cfg) ([], ds) of
        (desired, ds1) \<Rightarrow> remove_stale ord desired ds1)"

definition syncModels ::
  "(string \<Rightarrow> go_error + models_config) \<Rightarrow> ((string \<times> 'd model) list \<Rightarrow> (string \<times> 'd model) list)
     \<Rightarrow> string \<Rightarrow> 'd store \<Rightarrow> go_error option \<times> 'd store" where
  "syncModels decode ord data ds =
     (case (if length data > 0 then decode data else Inr empty_config) of
        Inl e \<Rightarrow> (Some e, ds)
      | Inr cfg \<Rightarrow> (None, sync_config ord cfg ds))"

subsection \<open>The file and its watcher\<close>

datatype file_state = Missing | Unreadable go_error | Content string

definition readModelsFile :: "file_state \<Rightarrow> bool \<Rightarrow> go_error + string" where
  "readModelsFile f failOnMissing =
     (case f of
        Content data \<Rightarrow> Inr data
      | Missing \<Rightarrow> if \<not> failOnMissing then Inr [] else Inl (PlainErr ''no such file or directory'')
      | Unreadable e \<Rightarrow> Inl e)"

text \<open>
  What the select statement of the watcher can receive: the stop channel, the end of the
  context, a closed event or error channel, a watcher error, or an event: its path, the set of
  operations, and the file as it is when the handler reads it.
\<close>

datatype watch_input =
    WStop | WCtxDone | WEventsClosed | WErrorsClosed | WError go_error
  | WEvent string "fs_op list" file_state

text \<open>
  The data source: its name, the resolved path of its file, and whether its two channels have been
  closed. \<^verbatim>\<open>filepath.Abs\<close>, which needs the working directory, is the argument \<open>abs_path\<close>.
\<close>

record model_config_source =
  ms_Name :: string
  absModelsPath :: string
  stopCh_closed :: bool
  doneCh_closed :: bool

definition NewModelConfigDataSource :: "string \<Rightarrow> string \<Rightarrow> model_config_source" where
  "NewModelConfigDataSource name modelsPath =
     \<lparr>ms_Name = name, absModelsPath = modelsPath, stopCh_closed = False, doneCh_closed = False\<rparr>"

text \<open>\<open>decode\<close> reads the \<^verbatim>\<open>modelsPath\<close> of the parameters; \<open>stat\<close> tells whether a path is a directory.\<close>

definition DatasourceFactory ::
  "(string \<Rightarrow> go_error + string) \<Rightarrow> (string \<Rightarrow> go_error + string) \<Rightarrow> (string \<Rightarrow> go_error + bool)
     \<Rightarrow> string \<Rightarrow> string \<Rightarrow> go_error + model_config_source" where
  "DatasourceFactory decode abs_path stat name rawCfg =
     (case decode rawCfg of
        Inl e \<Rightarrow> Inl e
      | Inr modelsPath \<Rightarrow>
          if modelsPath = [] then Inl (PlainErr ''modelsPath is required'')
          else
            (case abs_path modelsPath of
               Inl e \<Rightarrow> Inl (PlainErr (''failed to resolve modelsPath '' @ quoted modelsPath @ '': '' @ error_string e))
             | Inr absPath \<Rightarrow>
                 (case stat absPath of
                    Inl e \<Rightarrow> Inl e
                  | Inr isDir \<Rightarrow>
                      if isDir then Inl (PlainErr ''modelsPath must be a file, not a directory'')
                      else Inr (NewModelConfigDataSource name absPath))))"

text \<open>The reaction to one event; errors are logged and the store stays as it is.\<close>

definition watch_event ::
  "(string \<Rightarrow> go_error + models_config) \<Rightarrow> ((string \<times> 'd model) list \<Rightarrow> (string \<times> 'd model) list)
     \<Rightarrow> (string \<Rightarrow> go_error + string) \<Rightarrow> string \<Rightarrow> string \<Rightarrow> fs_op list \<Rightarrow> file_state \<Rightarrow> 'd store \<Rightarrow> 'd store" where
  "watch_event decode ord abs_path modelsPath event_name ops f ds =
     (case abs_path event_name of
        Inl e \<Rightarrow> ds
      | Inr absEvent \<Rightarrow>
          if absEvent \<noteq> modelsPath then ds
          else if FsWrite \<in> set ops \<or> FsCreate \<in> set ops \<or> FsRemove \<in> set ops \<or> FsRename \<in> set ops then
            (case readModelsFile f False of
               Inl e \<Rightarrow> ds
             | Inr data \<Rightarrow> snd (syncModels decode ord data ds))
          else ds)"

text \<open>The goroutine: the store after a sequence of inputs, and whether it has returned.\<close>

fun watch_loop ::
  "(string \<Rightarrow> go_error + models_config) \<Rightarrow> ((string \<times> 'd model) list \<Rightarrow> (string \<times> 'd model) list)
     \<Rightarrow> (string \<Rightarrow> go_error + string) \<Rightarrow> string \<Rightarrow> watch_input list \<Rightarrow> 'd store \<Rightarrow> bool \<times> 'd store" where
  "watch_loop decode ord abs_path path [] ds = (False, ds)"
| "watch_loop decode ord abs_path path (WStop # is) ds = (True, ds)"
| "watch_loop decode ord abs_path path (WCtxDone # is) ds = (True, ds)"
| "watch_loop decode ord abs_path path (WEventsClosed # is) ds = (True, ds)"
| "watch_loop decode ord abs_path path (WErrorsClosed # is) ds = (True, ds)"
| "watch_loop decode ord abs_path path (WError e # is) ds = watch_loop decode ord abs_path path is ds"
| "watch_loop decode ord abs_path path (WEvent name ops f # is) ds =
     watch_loop decode ord abs_path path is (watch_event decode ord abs_path path name ops f ds)"

text \<open>
  \<^verbatim>\<open>Start\<close>: the initial synchronisation, then the watcher, whose creation or whose \<^verbatim>\<open>Add\<close> may
  fail; the goroutine \<open>watch_loop\<close> is launched exactly when no error is returned. A file that is
  missing now is an error.
\<close>

definition Start ::
  "(string \<Rightarrow> go_error + models_config) \<Rightarrow> ((string \<times> 'd model) list \<Rightarrow> (string \<times> 'd model) list)
     \<Rightarrow> file_state \<Rightarrow> go_error option \<Rightarrow> go_error option \<Rightarrow> 'd store \<Rightarrow> go_error option \<times> 'd store" where
  "Start decode ord f newWatcherErr addErr ds =
     (case readModelsFile f True of
        Inl e \<Rightarrow> (Some (PlainErr (''failed to read models config: '' @ error_string e)), ds)
      | Inr data \<Rightarrow>
          (case syncModels decode ord data ds of
             (Some e, ds1) \<Rightarrow> (Some e, ds1)
           | (None, ds1) \<Rightarrow>
               (case newWatcherErr of
                  Some e \<Rightarrow> (Some e, ds1)
                | None \<Rightarrow> (case addErr of Some e \<Rightarrow> (Some e, ds1) | None \<Rightarrow> (None, ds1)))))"

text \<open>
  The first half of \<^verbatim>\<open>Stop\<close>: closing the stop channel, which panics when it is closed already. The
  second half waits until the goroutine has closed the other channel.
\<close>

definition Stop_close :: "model_config_source \<Rightarrow> go_error + model_config_source" where
  "Stop_close c =
     (if stopCh_closed c then Inl (Panic ''close of closed channel'') else Inr (c\<lparr>stopCh_closed := True\<rparr>))"

definition Stop_returns :: "model_config_source \<Rightarrow> bool" where
  "Stop_returns c \<longleftrightarrow> doneCh_closed c"

subsection \<open>Specification\<close>

definition valid_entry :: "model_configuration \<Rightarrow> bool" where
  "valid_entry m \<longleftrightarrow> mc_Name m \<noteq> [] \<and> 0 \<le> mc_InputPerMillion m \<and> 0 \<le> mc_OutputPerMillion m"

text \<open>The entry that counts for a name: the last valid one.\<close>

definition entry_of :: "models_config \<Rightarrow> string \<rightharpoonup> model_configuration" where
  "entry_of cfg = map_of (rev (map (\<lambda>m. (mc_Name m, m)) (filter valid_entry (cfg_Models cfg))))"

definition groups_of :: "models_config \<Rightarrow> string \<Rightarrow> string list" where
  "groups_of cfg n =
     concat (map (\<lambda>g. if gc_Name g = [] \<or> n = [] then [] else replicate (count_list (gc_Models g) n) (gc_Name g))
       (cfg_Groups cfg))"

text \<open>What a reader of the registry finds after a synchronisation.\<close>

definition config_attr :: "models_config \<Rightarrow> 'd store \<Rightarrow> string \<Rightarrow> string \<Rightarrow> 'd attr option" where
  "config_attr cfg ds n k =
     (case entry_of cfg n of
        None \<Rightarrow> None
      | Some m \<Rightarrow>
          if k = TokenPricesAttributeKey then
            Some (TokenPrices (mc_InputPerMillion m / 1000000) (mc_OutputPerMillion m / 1000000))
          else if k = GroupsAttributeKey then
            (if groups_of cfg n = [] then None else Some (Groups (groups_of cfg n)))
          else attr_of ds n k)"

subsection \<open>Lemmas on groups\<close>

lemma fold_add_member:
  "map_of (fold (add_member g) ms acc) n =
     (if n = [] \<or> count_list ms n = 0 then map_of acc n
      else Some (mget_zero [] acc n @ replicate (count_list ms n) g))"
proof (induction ms arbitrary: acc)
  case (Cons m ms)
  have "mget_zero [] (add_member g m acc) n =
      (if m = n \<and> m \<noteq> [] then mget_zero [] acc n @ [g] else mget_zero [] acc n)"
    by (auto simp: add_member_def mget_zero_def)
  moreover have "map_of (add_member g m acc) n =
      (if m = n \<and> m \<noteq> [] then Some (mget_zero [] acc n @ [g]) else map_of acc n)"
    by (auto simp: add_member_def)
  ultimately show ?case using Cons by auto
qed simp

lemma fold_add_group:
  "map_of (fold add_group gs acc) n =
     (let new = concat (map (\<lambda>g. if gc_Name g = [] \<or> n = [] then []
                                 else replicate (count_list (gc_Models g) n) (gc_Name g)) gs)
      in if new = [] then map_of acc n else Some (mget_zero [] acc n @ new))"
proof (induction gs arbitrary: acc)
  case (Cons g gs)
  define new where "new = (if gc_Name g = [] \<or> n = [] then [] else replicate (count_list (gc_Models g) n) (gc_Name g))"
  have m: "map_of (add_group g acc) n = (if new = [] then map_of acc n else Some (mget_zero [] acc n @ new))"
    by (auto simp: add_group_def fold_add_member new_def)
  then have "mget_zero [] (add_group g acc) n = mget_zero [] acc n @ new"
    by (auto simp: mget_zero_def)
  with m show ?case
    by (simp add: Cons Let_def new_def [symmetric])
qed simp

lemma membership_lookup:
  "map_of (membership_of cfg) n = (if groups_of cfg n = [] then None else Some (groups_of cfg n))"
  by (simp add: membership_of_def fold_add_group groups_of_def Let_def mget_zero_def)

lemma set_groups_of:
  "n \<noteq> [] \<Longrightarrow> set (groups_of cfg n) = {gc_Name g |g. g \<in> set (cfg_Groups cfg) \<and> gc_Name g \<noteq> [] \<and> n \<in> set (gc_Models g)}"
  by (auto simp: groups_of_def count_list_0_iff)

subsection \<open>Lemmas on the synchronisation\<close>

lemma gomap_ok_refresh_attrs: "gomap_ok a \<Longrightarrow> gomap_ok (refresh_attrs mem m a)"
  by (simp add: refresh_attrs_def Let_def split: option.splits)

lemma refresh_attrs_lookup:
  "map_of (refresh_attrs mem m a) k =
     (if k = TokenPricesAttributeKey then
        Some (TokenPrices (mc_InputPerMillion m / 1000000) (mc_OutputPerMillion m / 1000000))
      else if k = GroupsAttributeKey then map_option Groups (map_of mem (mc_Name m))
      else map_of a k)"
  by (auto simp: refresh_attrs_def Let_def Attr_Get_Put Attr_Get_Delete ToTokenPrices_def
      split: option.splits)

lemma attr_of_refresh:
  assumes "store_ok ds"
  shows "attr_of (on_attrs (mc_Name m) (refresh_attrs mem m) ds) n k =
    (if n \<noteq> mc_Name m then attr_of ds n k
     else if k = TokenPricesAttributeKey then
       Some (TokenPrices (mc_InputPerMillion m / 1000000) (mc_OutputPerMillion m / 1000000))
     else if k = GroupsAttributeKey then map_option Groups (map_of mem n)
     else attr_of ds n k)"
proof -
  have "map_of (case map_of ds (mc_Name m) of None \<Rightarrow> [] | Some x \<Rightarrow> mattrs x) k = attr_of ds (mc_Name m) k"
    by (simp add: attr_of_def split: option.split)
  then show ?thesis
    by (simp add: attr_of_on_attrs [OF assms] refresh_attrs_lookup)
qed

text \<open>The loop over the entries, seen from the last entry.\<close>

lemma sync_entries:
  assumes "store_ok ds" and "fold (sync_entry mem) ms ([], ds) = (desired, ds1)"
  shows "store_ok ds1"
    and "set desired = mc_Name ` set (filter valid_entry ms)"
    and "model_names ds1 = model_names ds \<union> set desired"
    and "attr_of ds1 n k =
      (case map_of (rev (map (\<lambda>m. (mc_Name m, m)) (filter valid_entry ms))) n of
         None \<Rightarrow> attr_of ds n k
       | Some m \<Rightarrow>
          if k = TokenPricesAttributeKey then
            Some (TokenPrices (mc_InputPerMillion m / 1000000) (mc_OutputPerMillion m / 1000000))
          else if k = GroupsAttributeKey then map_option Groups (map_of mem n)
          else attr_of ds n k)"
  using assms(2)
proof (induction ms arbitrary: desired ds1 rule: rev_induct)
  case Nil
  {
    case 1
    then show ?case using assms(1) by simp
  next
    case 2
    then show ?case by simp
  next
    case 3
    then show ?case by simp
  next
    case 4
    then show ?case by simp
  }
next
  case (snoc m ms)
  obtain desired0 ds0 where st: "fold (sync_entry mem) ms ([], ds) = (desired0, ds0)"
    by (cases "fold (sync_entry mem) ms ([], ds)")
  note IH = snoc.IH [OF st]
  have step: "sync_entry mem m (desired0, ds0) =
      (if valid_entry m then (List.insert (mc_Name m) desired0, on_attrs (mc_Name m) (refresh_attrs mem m) ds0)
       else (desired0, ds0))"
    by (auto simp: sync_entry_def valid_entry_def not_less)
  {
    case 1
    then show ?case
      using IH(1) st by (auto simp: step intro: store_ok_on_attrs gomap_ok_refresh_attrs split: if_splits)
  next
    case 2
    then show ?case using IH(2) st by (auto simp: step split: if_splits)
  next
    case 3
    then show ?case using IH(1,3) st by (auto simp: step split: if_splits)
  next
    case 4
    show ?case
    proof (cases "valid_entry m \<and> n = mc_Name m")
      case True
      with 4 st have "ds1 = on_attrs (mc_Name m) (refresh_attrs mem m) ds0" by (simp add: step)
      with True IH(4) show ?thesis
        by (auto simp: attr_of_refresh [OF IH(1)] split: option.splits)
    next
      case False
      then have "attr_of ds1 n k = attr_of ds0 n k"
        using 4 st by (auto simp: step attr_of_refresh [OF IH(1)] split: if_splits)
      with False IH(4) show ?thesis by auto
    qed
  }
qed

lemma remove_stale_lookup:
  assumes "perm_of ord" and "store_ok ds"
  shows "store_ok (remove_stale ord desired ds)"
    and "map_of (remove_stale ord desired ds) n = (if n \<in> set desired then map_of ds n else None)"
proof -
  let ?stale = "filter (\<lambda>n. n \<notin> set desired) (map mname (GetModels ord AllModelsPredicate ds))"
  have "set ?stale = {n \<in> model_names ds. n \<notin> set desired}"
    using GetModels_names(1) [OF assms] by auto
  then show "map_of (remove_stale ord desired ds) n = (if n \<in> set desired then map_of ds n else None)"
    unfolding remove_stale_def mem.lookup_fold_delete [OF assms(2)]
    by (auto simp: restrict_map_def model_names_def domIff)
  show "store_ok (remove_stale ord desired ds)"
    unfolding remove_stale_def by (rule mem.invar_fold_delete [OF assms(2)])
qed

lemma dom_entry_of: "dom (entry_of cfg) = mc_Name ` set (filter valid_entry (cfg_Models cfg))"
  by (simp add: entry_of_def dom_map_of_conv_image_fst image_image)

lemma valid_names: "{mc_Name m |m. m \<in> set ms \<and> valid_entry m} = mc_Name ` set (filter valid_entry ms)"
  by auto

lemma sync_config_spec:
  assumes "perm_of ord" and "store_ok ds"
  shows "store_ok (sync_config ord cfg ds)"
    and "model_names (sync_config ord cfg ds) = dom (entry_of cfg)"
    and "attr_of (sync_config ord cfg ds) n k = config_attr cfg ds n k"
proof -
  obtain desired ds1 where st: "fold (sync_entry (membership_of cfg)) (cfg_Models cfg) ([], ds) = (desired, ds1)"
    by (cases "fold (sync_entry (membership_of cfg)) (cfg_Models cfg) ([], ds)")
  note loop = sync_entries [OF assms(2) st]
  note stale = remove_stale_lookup [OF assms(1) loop(1)]
  have des: "set desired = dom (entry_of cfg)" by (simp add: loop(2) dom_entry_of)
  have eq: "sync_config ord cfg ds = remove_stale ord desired ds1" by (simp add: sync_config_def st)
  show "store_ok (sync_config ord cfg ds)" unfolding eq by (rule stale(1))
  show "model_names (sync_config ord cfg ds) = dom (entry_of cfg)"
    using loop(3) des by (auto simp: eq model_names_def stale(2) dom_def)
  have "attr_of (sync_config ord cfg ds) n k = (if n \<in> dom (entry_of cfg) then attr_of ds1 n k else None)"
    by (simp add: eq attr_of_def stale(2) des)
  also have "\<dots> = config_attr cfg ds n k"
    by (auto simp: loop(4) config_attr_def membership_lookup simp flip: entry_of_def split: option.splits)
  finally show "attr_of (sync_config ord cfg ds) n k = config_attr cfg ds n k" .
qed

lemma store_ok_syncModels:
  "perm_of ord \<Longrightarrow> store_ok ds \<Longrightarrow> store_ok (snd (syncModels decode ord data ds))"
  by (simp add: syncModels_def sync_config_spec(1) split: sum.split)

lemma store_ok_watch_event:
  "perm_of ord \<Longrightarrow> store_ok ds \<Longrightarrow> store_ok (watch_event decode ord abs_path path name ops f ds)"
  by (simp add: watch_event_def store_ok_syncModels split: sum.split)

lemma store_ok_Start:
  assumes "perm_of ord" and "store_ok ds"
  shows "store_ok (snd (Start decode ord f newErr addErr ds))"
proof -
  have "store_ok ds'" if "syncModels decode ord data ds = (e, ds')" for e ds' data
    using store_ok_syncModels [OF assms, of decode data] that by simp
  then show ?thesis
    using assms(2) by (auto simp: Start_def split: sum.split option.split prod.split)
qed

text \<open>The inputs that end the goroutine.\<close>

definition ends_watch :: "watch_input \<Rightarrow> bool" where
  "ends_watch i \<longleftrightarrow> i \<in> {WStop, WCtxDone, WEventsClosed, WErrorsClosed}"

lemma watch_loop_append:
  assumes "perm_of ord" and "store_ok ds" and "\<not> list_ex ends_watch pre"
  shows "\<exists>ds'. store_ok ds' \<and> watch_loop decode ord abs_path path (pre @ post) ds = watch_loop decode ord abs_path path post ds'"
  using assms(2,3)
proof (induction pre arbitrary: ds)
  case (Cons i pre)
  then show ?case
    by (cases i) (auto simp: ends_watch_def store_ok_watch_event [OF assms(1)])
qed auto

text \<open>A small configuration for the concrete runs below.\<close>

definition sample_config :: models_config where
  "sample_config =
     \<lparr>cfg_Models = [\<lparr>mc_Name = ''a'', mc_InputPerMillion = 2, mc_OutputPerMillion = 4\<rparr>,
                    \<lparr>mc_Name = ''b'', mc_InputPerMillion = - 1, mc_OutputPerMillion = 4\<rparr>],
      cfg_Groups = [\<lparr>gc_Name = ''fast'', gc_Models = [''a'', ''c'']\<rparr>]\<rparr>"

lemma sample_config_names: "{mc_Name m |m. m \<in> set (cfg_Models sample_config) \<and> valid_entry m} = {''a''}"
proof -
  have "set (filter valid_entry (cfg_Models sample_config))
      = {\<lparr>mc_Name = ''a'', mc_InputPerMillion = 2, mc_OutputPerMillion = 4\<rparr>}"
    by (simp add: sample_config_def valid_entry_def)
  then show ?thesis unfolding valid_names by simp
qed

subsection \<open>Properties\<close>

text \<open>
  C13: the registry follows the configuration file. After a synchronisation with a file that
  decodes, whatever order the store is iterated in, the registered models are exactly the valid
  entries; each carries the per-token prices of its last valid entry and the groups that
  list it (no groups attribute when none does), keeps its other attributes, and models no longer
  listed are gone. The store stays well formed.
\<close>

theorem sync_follows_config:
  assumes "perm_of ord" and "store_ok ds" and "data \<noteq> []" and "decode data = Inr cfg"
  shows "\<exists>ds'. syncModels decode ord data ds = (None, ds') \<and> store_ok ds'
    \<and> model_names ds' = {mc_Name m |m. m \<in> set (cfg_Models cfg) \<and> valid_entry m}
    \<and> attr_of ds' = config_attr cfg ds
    \<and> (\<forall>n gs. attr_of ds' n GroupsAttributeKey = Some (Groups gs) \<longrightarrow>
         set gs = {gc_Name g |g. g \<in> set (cfg_Groups cfg) \<and> gc_Name g \<noteq> [] \<and> n \<in> set (gc_Models g)})"
proof -
  let ?ds = "sync_config ord cfg ds"
  note spec = sync_config_spec [OF assms(1,2), of cfg]
  have names: "model_names ?ds = {mc_Name m |m. m \<in> set (cfg_Models cfg) \<and> valid_entry m}"
    by (auto simp: spec(2) dom_entry_of)
  have "n \<noteq> []" if "entry_of cfg n \<noteq> None" for n
  proof -
    from that have "n \<in> dom (entry_of cfg)" by (simp add: domIff)
    then show ?thesis unfolding dom_entry_of by (auto simp: valid_entry_def)
  qed
  then have "set gs = {gc_Name g |g. g \<in> set (cfg_Groups cfg) \<and> gc_Name g \<noteq> [] \<and> n \<in> set (gc_Models g)}"
    if "attr_of ?ds n GroupsAttributeKey = Some (Groups gs)" for n gs
    using that set_groups_of [of n cfg] by (auto simp: spec(3) config_attr_def split: option.splits if_splits)
  moreover have "attr_of ?ds = config_attr cfg ds" by (intro ext) (rule spec(3))
  moreover have "syncModels decode ord data ds = (None, ?ds)"
    using assms(3,4) by (simp add: syncModels_def)
  ultimately show ?thesis using spec(1) names by blast
qed

theorem sync_follows_config_witness:
  "\<exists>ds'. syncModels (\<lambda>_. Inr sample_config) rev ''{}'' [(''old'', NewModel ''old'' :: unit model)] = (None, ds')
     \<and> model_names ds' = {''a''} \<and> attr_of ds' ''a'' GroupsAttributeKey = Some (Groups [''fast''])
     \<and> attr_of ds' ''a'' TokenPricesAttributeKey = Some (TokenPrices (2 / 1000000) (4 / 1000000))"
proof -
  have "entry_of sample_config ''a'' = Some \<lparr>mc_Name = ''a'', mc_InputPerMillion = 2, mc_OutputPerMillion = 4\<rparr>"
      "groups_of sample_config ''a'' = [''fast'']"
    by (simp_all add: entry_of_def groups_of_def sample_config_def valid_entry_def)
  moreover have "store_ok [(''old'', NewModel ''old'' :: unit model)]"
    by (auto simp: store_ok_def split: if_splits)
  from sync_follows_config [OF perm_of_rev this, of "''{}''" "\<lambda>_. Inr sample_config" sample_config]
  obtain ds' where "syncModels (\<lambda>_. Inr sample_config) rev ''{}'' [(''old'', NewModel ''old'' :: unit model)] = (None, ds')"
      "model_names ds' = {''a''}"
      "attr_of ds' = config_attr sample_config [(''old'', NewModel ''old'' :: unit model)]"
    unfolding sample_config_names by blast
  ultimately show ?thesis by (simp add: config_attr_def)
qed

text \<open>
  Synchronising is idempotent and repairs: a second run on the same file, in any iteration
  order, changes nothing a reader of the store can see; a file that cannot be decoded leaves the
  store as it was.
\<close>

theorem sync_idempotent:
  assumes "perm_of ord" and "perm_of ord'" and "store_ok ds"
  shows "case syncModels decode ord data ds of (err, ds1) \<Rightarrow>
           if err \<noteq> None then ds1 = ds
           else \<exists>ds2. syncModels decode ord' data ds1 = (None, ds2)
                  \<and> model_names ds2 = model_names ds1 \<and> attr_of ds2 = attr_of ds1"
proof (cases "if length data > 0 then decode data else Inr empty_config")
  case (Inl e)
  then show ?thesis by (simp add: syncModels_def)
next
  case (Inr cfg)
  note spec = sync_config_spec [OF assms(1,3), of cfg]
  note spec' = sync_config_spec [OF assms(2) spec(1), of cfg]
  have "config_attr cfg (sync_config ord cfg ds) n k = config_attr cfg ds n k" for n k
    by (auto simp: config_attr_def spec(3) split: option.splits)
  then have "attr_of (sync_config ord' cfg (sync_config ord cfg ds)) = attr_of (sync_config ord cfg ds)"
    by (intro ext) (simp add: spec'(3) spec(3))
  with Inr spec(2) spec'(2) show ?thesis by (simp add: syncModels_def)
qed

theorem sync_idempotent_witness:
  "\<exists>ds1 ds2. syncModels (\<lambda>_. Inr sample_config) rev ''{}'' (NewDatastore :: unit store) = (None, ds1)
     \<and> syncModels (\<lambda>_. Inr sample_config) (\<lambda>xs. xs) ''{}'' ds1 = (None, ds2) \<and> attr_of ds2 = attr_of ds1"
proof -
  obtain ds1 where "syncModels (\<lambda>_. Inr sample_config) rev ''{}'' (NewDatastore :: unit store) = (None, ds1)"
    by (simp add: syncModels_def)
  then show ?thesis
    using sync_idempotent [of rev "\<lambda>xs. xs" "NewDatastore :: unit store" "\<lambda>_. Inr sample_config" "''{}''"]
    by auto
qed

text \<open>
  The watcher converges. Whatever it has been through (other files' events, unreadable or
  undecodable contents, watcher errors) as long as it has not been told to end, one event on the
  configuration file brings the registry to the file's valid entries; a file that has been
  removed counts as an empty configuration and clears the registry.
\<close>

lemma watch_event_syncs:
  assumes "perm_of ord" and "store_ok ds" and "abs_path name = Inr path"
    and "set ops \<inter> {FsWrite, FsCreate, FsRemove, FsRename} \<noteq> {}"
    and "readModelsFile f False = Inr data"
    and "(if data = [] then Inr empty_config else decode data) = Inr cfg"
  shows "model_names (watch_event decode ord abs_path path name ops f ds)
      = {mc_Name m |m. m \<in> set (cfg_Models cfg) \<and> valid_entry m}"
    and "attr_of (watch_event decode ord abs_path path name ops f ds) = config_attr cfg ds"
proof -
  have "watch_event decode ord abs_path path name ops f ds = sync_config ord cfg ds"
    using assms(3-6) by (auto simp: watch_event_def syncModels_def split: if_splits)
  with sync_config_spec [OF assms(1,2), of cfg]
  show "model_names (watch_event decode ord abs_path path name ops f ds)
      = {mc_Name m |m. m \<in> set (cfg_Models cfg) \<and> valid_entry m}"
    and "attr_of (watch_event decode ord abs_path path name ops f ds) = config_attr cfg ds"
    by (auto simp: dom_entry_of intro!: ext)
qed

theorem watcher_converges:
  assumes "perm_of ord" and "store_ok ds" and "\<not> list_ex ends_watch pre" and "abs_path name = Inr path"
    and "set ops \<inter> {FsWrite, FsCreate, FsRemove, FsRename} \<noteq> {}"
    and "readModelsFile f False = Inr data"
    and "(if data = [] then Inr empty_config else decode data) = Inr cfg"
  shows "\<exists>ds'. watch_loop decode ord abs_path path (pre @ [WEvent name ops f]) ds = (False, ds') \<and> store_ok ds'
    \<and> model_names ds' = {mc_Name m |m. m \<in> set (cfg_Models cfg) \<and> valid_entry m}"
proof -
  from watch_loop_append [OF assms(1-3)] obtain ds0 where ds0: "store_ok ds0"
      "watch_loop decode ord abs_path path (pre @ [WEvent name ops f]) ds
        = watch_loop decode ord abs_path path [WEvent name ops f] ds0" by blast
  then show ?thesis
    using watch_event_syncs(1) [where decode = decode and abs_path = abs_path and name = name, OF assms(1) ds0(1) assms(4-7)]
      store_ok_watch_event [OF assms(1) ds0(1)] by simp
qed

end
