(* ===== verification/Policies.thy ===== *)
theory Policies
  imports Exchange Model_Config
begin

text \<open>
  What the configured plugins achieve together. The models file, the datastore, the group filter, the
  cost scorer and the max-score picker send a request for a group to a cheapest model of that group;
  the exchanges, the event queue, the request metadata extractor, the in-flight scorer and the
  max-score picker send a request to a model with the fewest requests in flight.
\<close>

subsection \<open>From a selection to the request\<close>

lemma ModelSelector_selected:
  assumes "GetModels ord AllModelsPredicate (models w) \<noteq> []" and "Body request = Some body"
    and "fst (Select ord' p request (GetModels ord AllModelsPredicate (models w)) (w, c)) = Inr m"
  shows "\<exists>w' c'. ModelSelector_ProcessRequest models ord ord' p (w, c, request)
      = (None, (w', Write SelectedModelCycleStateKey (JStr (mname m)) c',
           request\<lparr>Body := Some (mput ''model'' (JStr (mname m)) body), bodyMutated := True\<rparr>))"
proof -
  obtain w' c' where "Select ord' p request (GetModels ord AllModelsPredicate (models w)) (w, c) = (Inr m, (w', c'))"
    using assms(3) by (metis prod.exhaust_sel)
  with assms(1,2) show ?thesis by (auto simp: ModelSelector_ProcessRequest_def Let_def SetBodyField_def)
qed

lemma GetModels_set:
  assumes "perm_of ord" and "store_ok ds"
  shows "m \<in> set (GetModels ord AllModelsPredicate ds) \<longleftrightarrow> map_of ds (mname m) = Some m"
proof -
  have ok: "distinct (map fst ds)" using assms(2) by (simp add: store_ok_def)
  have eq: "set (GetModels ord AllModelsPredicate ds) = snd ` set ds"
    by (simp add: GetModels_def AllModelsPredicate_def perm_of_set [OF assms(1)])
  show ?thesis
  proof
    assume "m \<in> set (GetModels ord AllModelsPredicate ds)"
    then obtain k where k: "(k, m) \<in> set ds" unfolding eq by (metis imageE prod.collapse)
    then have "map_of ds k = Some m" by (rule map_of_is_SomeI [OF ok])
    with store_okD [OF assms(2) this] show "map_of ds (mname m) = Some m" by simp
  next
    assume "map_of ds (mname m) = Some m"
    from imageI [OF map_of_SomeD [OF this], of snd] show "m \<in> set (GetModels ord AllModelsPredicate ds)"
      unfolding eq by simp
  qed
qed

lemma map_of_mattrs: "map_of ds n = Some m \<Longrightarrow> map_of (mattrs m) k = attr_of ds n k"
  by (simp add: attr_of_def)

text \<open>A pipeline of the group filter, one scorer and the max-score picker.\<close>

definition single_policy ::
  "('w, 'd) scorer_fn \<Rightarrow> real \<Rightarrow> string \<Rightarrow> ('w \<Rightarrow> 64 word \<times> 'w) \<Rightarrow> ('w, 'd) pipeline" where
  "single_policy score weight name src =
     \<lparr>filters = [ModelGroupFilter_Filter], scorers = [(score, weight)],
      picker = Some (name, MaxScorePicker_Pick src)\<rparr>"

lemma single_policy_filtered:
  assumes "distinct (map mname cands)"
  shows "runFilterPlugins (single_policy score weight name src) request cands s
    = (Inr (filter (selector_admits (jget (Body request) ''model'')) cands), s)"
  using ModelGroupFilter_admitted [OF assms, of request s]
  by (simp add: runFilterPlugins_def single_policy_def ModelGroupFilter_Filter_def)

text \<open>
  The request gets the name of an admitted model whose score is maximal among the admitted ones, and an
  error that leaves it alone when no model is admitted.
\<close>

lemma single_policy_routes:
  fixes models :: "'w \<Rightarrow> 'd store" and score :: "('w, 'd) scorer_fn"
  assumes "model_scorer score adm" and "0 < weight" and "perm_of ord" and "perm_of ord'" and "store_ok (models w)"
    and adm: "list_all adm (GetModels ord AllModelsPredicate (models w))"
    and body: "Body request = Some body"
    and ms: "ms = filter (selector_admits (jget (Body request) ''model'')) (GetModels ord AllModelsPredicate (models w))"
    and sc: "ms \<noteq> [] \<Longrightarrow> fst (score request ms (w, c)) = Inr (score_all f ms)" "\<forall>m\<in>set ms. 0 \<le> f m \<and> f m \<le> 1"
  shows "case ModelSelector_ProcessRequest models ord ord' (single_policy score weight name src) (w, c, request) of
      (err, (w', c', request')) \<Rightarrow>
        if ms = [] then err \<noteq> None \<and> request' = request
        else err = None \<and> (\<exists>m\<in>set ms. (\<forall>m'\<in>set ms. f m' \<le> f m)
               \<and> request' = request\<lparr>Body := Some (mput ''model'' (JStr (mname m)) body), bodyMutated := True\<rparr>)"
proof -
  let ?cands = "GetModels ord AllModelsPredicate (models w)"
  let ?p = "single_policy score weight name src"
  have dist: "distinct (map mname ?cands)" using GetModels_distinct_names [OF assms(3,5)] .
  note flt = single_policy_filtered [OF dist, where score = score and weight = weight and name = name and src = src
      and request = request and s = "(w, c)", folded ms]
  show ?thesis
  proof (cases "ms = []")
    case True
    then have "Run ord' ?p request ?cands (w, c)
        = (Inl (TypedErr ResourceExhausted ''no models available after filtering''), (w, c))"
      using flt by (simp add: Run_def)
    then show ?thesis
      using True by (simp add: ModelSelector_ProcessRequest_def Select_def Let_def)
  next
    case False
    have "\<forall>f\<in>set (filters ?p). model_filter f" "scorers ?p = [(score, weight)]"
      "picker ?p = Some (name, MaxScorePicker_Pick src)"
      by (simp_all add: single_policy_def groupflt.model_filter_axioms)
    from Select_best [OF this(1,2) assms(1,2) this(3) dist adm assms(4) flt False sc(1) [OF False] sc(2)]
    obtain m where m: "m \<in> set ms" "fst (Select ord' ?p request ?cands (w, c)) = Inr m" "\<forall>m'\<in>set ms. f m' \<le> f m" by blast
    have "?cands \<noteq> []" using m(1) ms by auto
    from ModelSelector_selected [where models = models, OF this body m(2)] m(1,3) False show ?thesis by auto
  qed
qed

subsection \<open>The cheapest model of a group\<close>

text \<open>The models a file registers and lists in a group.\<close>

definition group_members :: "models_config \<Rightarrow> string \<Rightarrow> string set" where
  "group_members cfg g =
     {n. entry_of cfg n \<noteq> None \<and> (\<exists>gr\<in>set (cfg_Groups cfg). gc_Name gr = g \<and> n \<in> set (gc_Models gr))}"

definition input_price_of :: "models_config \<Rightarrow> string \<Rightarrow> real" where
  "input_price_of cfg n = mc_InputPerMillion (the (entry_of cfg n))"

lemma synced_model:
  assumes "perm_of ord" and "store_ok ds" and "map_of (sync_config ord cfg ds) n = Some m"
  shows "\<exists>e. entry_of cfg n = Some e \<and> price m = mc_InputPerMillion e / 1000000" and "priced m"
    and "g \<noteq> [] \<Longrightarrow> selector_admits (Some (JStr (''auto/'' @ g))) m \<longleftrightarrow> n \<in> group_members cfg g"
proof -
  note spec = sync_config_spec [OF assms(1,2), of cfg]
  have "n \<in> dom (entry_of cfg)" using spec(2) assms(3) by (auto simp: model_names_def)
  then obtain e where e: "entry_of cfg n = Some e" by blast
  then have "e \<in> set (filter valid_entry (cfg_Models cfg))" "mc_Name e = n"
    by (auto simp: entry_of_def dest!: map_of_SomeD)
  then have valid: "0 \<le> mc_InputPerMillion e" "n \<noteq> []" by (auto simp: valid_entry_def)
  have attrs: "map_of (mattrs m) k = config_attr cfg ds n k" for k
    using map_of_mattrs [OF assms(3)] spec(3) by simp
  have "input_price m = Inr (mc_InputPerMillion e / 1000000)"
    by (simp add: input_price_def attrs config_attr_def e)
  then show "\<exists>e. entry_of cfg n = Some e \<and> price m = mc_InputPerMillion e / 1000000" "priced m"
    using e valid(1) by (simp_all add: price_def priced_def)
  assume "g \<noteq> []"
  then have "selector_admits (Some (JStr (''auto/'' @ g))) m \<longleftrightarrow> in_group g m"
    by (simp add: selector_admits_str has_prefix_def trim_prefix_def)
  also have "\<dots> \<longleftrightarrow> g \<in> set (groups_of cfg n)"
    by (auto simp: in_group_iff attrs config_attr_def e)
  also have "\<dots> \<longleftrightarrow> n \<in> group_members cfg g"
    using \<open>g \<noteq> []\<close> e by (auto simp: set_groups_of [OF valid(2)] group_members_def)
  finally show "selector_admits (Some (JStr (''auto/'' @ g))) m \<longleftrightarrow> n \<in> group_members cfg g" .
qed

text \<open>The cost scorer's scores as a function of the price: in range, and a larger score means no larger price.\<close>

lemma cost_scores:
  assumes "list_all priced ms"
  shows "\<exists>f. fst (CostScorer_Score request ms s) = Inr (score_all f ms) \<and> (\<forall>m\<in>set ms. 0 \<le> f m \<and> f m \<le> 1)
    \<and> (\<forall>a\<in>set ms. \<forall>b\<in>set ms. f b \<le> f a \<longrightarrow> price a \<le> price b)"
proof -
  let ?t = "\<Sum>m\<leftarrow>ms. price m"
  have nn: "0 \<le> price m" "price m \<le> ?t" if "m \<in> set ms" for m
    using assms that price_le_sum [OF assms that] by (auto simp: list_all_iff dest: pricedD)
  let ?f = "\<lambda>m. if length ms = 1 then 1 / 2 else if ?t = 0 then 1 else 1 - price m / ?t"
  have "0 \<le> ?f m \<and> ?f m \<le> 1" if "m \<in> set ms" for m
    using nn [OF that] by (auto simp: divide_le_eq_1)
  moreover have "price a \<le> price b" if "a \<in> set ms" "b \<in> set ms" "?f b \<le> ?f a" for a b
  proof -
    have "0 \<le> ?t" using nn [OF that(1)] by linarith
    then consider "length ms = 1" | "?t = 0" | "length ms \<noteq> 1" "0 < ?t" by fastforce
    then show ?thesis
    proof cases
      case 1
      then show ?thesis using that by (auto simp: length_Suc_conv)
    next
      case 2
      then show ?thesis using nn [OF that(1)] nn [OF that(2)] by linarith
    next
      case 3
      then show ?thesis using that(3) by (simp add: divide_le_cancel)
    qed
  qed
  ultimately show ?thesis
    by (intro exI [of _ ?f]) (simp add: CostScorer_Score_eq [OF assms])
qed

subsection \<open>The least loaded model\<close>

text \<open>Requests delivered minus responses delivered, as the data layer has seen them.\<close>

definition load :: "string \<Rightarrow> event list \<Rightarrow> int" where
  "load n evs = int (requests_for n evs) - int (responses_for n evs)"

lemma inflight_scores:
  assumes "list_all counted ms"
  shows "\<exists>f. (ms \<noteq> [] \<longrightarrow> fst (InflightRequestsScorer_Score request ms s) = Inr (score_all f ms))
    \<and> (\<forall>m\<in>set ms. 0 \<le> f m \<and> f m \<le> 1)
    \<and> (\<forall>a\<in>set ms. \<forall>b\<in>set ms. f b \<le> f a \<longrightarrow> inflightRequestCount a \<le> inflightRequestCount b)"
proof -
  define lo hi where "lo = Min (inflightRequestCount ` set ms)" and "hi = Max (inflightRequestCount ` set ms)"
  let ?f = "\<lambda>m. if hi = lo then 1 else real_of_int (hi - inflightRequestCount m) / real_of_int (hi - lo)"
  have bounds: "lo \<le> inflightRequestCount m \<and> inflightRequestCount m \<le> hi" if "m \<in> set ms" for m
    using that by (simp add: lo_def hi_def)
  have "0 \<le> ?f m \<and> ?f m \<le> 1" if "m \<in> set ms" for m
    using bounds [OF that] by (auto simp: divide_le_eq_1)
  moreover have "inflightRequestCount a \<le> inflightRequestCount b"
    if "a \<in> set ms" "b \<in> set ms" "?f b \<le> ?f a" for a b
    using bounds [OF that(1)] bounds [OF that(2)] that(3) by (auto simp: divide_le_cancel split: if_splits)
  ultimately show ?thesis
    by (intro exI [of _ ?f]) (simp add: InflightRequests_Score_eq [OF assms] Let_def flip: lo_def hi_def)
qed

text \<open>What the scorer reads from a registered model is its load.\<close>

lemma running_load:
  assumes "reachable (init_config ([], ds)) c" and "extractors (proc c) = [Extract ord]"
    and "interleaving (exchange_events xs) (accepted c @ later)" and "perm_of ord" and "store_ok ds"
    and "\<forall>n. attr_of ds n RequestMetadataAttributeKey = None"
    and "requests_for n (delivered c) < 2 ^ 63" and "n \<noteq> []"
    and "map_of (snd (world c)) n = Some m"
  shows "inflightRequestCount m = load n (delivered c)" and "0 \<le> load n (delivered c)" and "load n (delivered c) < 2 ^ 63"
proof -
  have "answered n (accepted c @ later)"
    using interleaving_answered [OF assms(3,8)] exchange_events_answered [OF assms(8)] by blast
  moreover have "accepted c = delivered c @ ch (proc c)"
    using queue_inv_reachable [OF assms(1)] by (simp add: queue_inv_def)
  ultimately have a: "answered n (delivered c)" using answered_prefix by (metis append.assoc)
  note le = answeredD [OF a]
  then show "0 \<le> load n (delivered c)" "load n (delivered c) < 2 ^ 63"
    using assms(7) by (simp_all add: load_def)
  have w: "world c = deliver (Extract ord) (delivered c) ([], ds)"
    using work_inv_reachable [OF assms(1)] assms(2) by (simp add: work_inv_def fold_dispatch_single)
  have attr: "map_of (mattrs m) RequestMetadataAttributeKey = attr_of (snd (world c)) n RequestMetadataAttributeKey"
    using map_of_mattrs [OF assms(9)] .
  show "inflightRequestCount m = load n (delivered c)"
  proof (cases "requests_for n (delivered c) = 0")
    case True
    with le have "responses_for n (delivered c) = 0" by simp
    from deliver_unmentioned [OF assms(4,5,8) True this] show ?thesis
      using True \<open>responses_for n (delivered c) = 0\<close> assms(6) by (simp add: inflightRequestCount_def attr w load_def)
  next
    case False
    with deliver_attribute [OF assms(4,5,8) a _ assms(7)] show ?thesis
      by (auto simp: inflightRequestCount_def attr w load_def)
  qed
qed

subsection \<open>What the pipelines select\<close>

text \<open>
  After a synchronisation with a models file, a request for a group through the group filter, the cost scorer
  and the max-score picker names a model of the group with the least input price, if the group has any.
\<close>

lemma group_request_goes_to_cheapest:
  assumes "perm_of ord0" and "perm_of ord" and "perm_of ord'" and "store_ok ds"
    and "data \<noteq> []" and "decode data = Inr cfg" and "models w = snd (syncModels decode ord0 data ds)"
    and "Body request = Some body" and "map_of body ''model'' = Some (JStr (''auto/'' @ g))" and "g \<noteq> []" and "0 < weight"
  shows "case ModelSelector_ProcessRequest models ord ord' (single_policy CostScorer_Score weight name src) (w, c, request) of
      (err, (w', c', request')) \<Rightarrow>
        if group_members cfg g = {} then err \<noteq> None \<and> request' = request
        else err = None \<and> (\<exists>n\<in>group_members cfg g. (\<forall>n'\<in>group_members cfg g. input_price_of cfg n \<le> input_price_of cfg n')
               \<and> request' = request\<lparr>Body := Some (mput ''model'' (JStr n) body), bodyMutated := True\<rparr>)"
proof -
  let ?ds = "sync_config ord0 cfg ds"
  have ds: "models w = ?ds" using assms(5-7) by (simp add: syncModels_def)
  note spec = sync_config_spec [OF assms(1,4), of cfg]
  have ok: "store_ok (models w)" using spec(1) ds by simp
  let ?cands = "GetModels ord AllModelsPredicate (models w)"
  define ms where "ms = filter (selector_admits (jget (Body request) ''model'')) ?cands"
  have field: "jget (Body request) ''model'' = Some (JStr (''auto/'' @ g))" using assms(8,9) by (simp add: jget_def)
  have cand: "m \<in> set ?cands \<longleftrightarrow> map_of ?ds (mname m) = Some m" for m
    using GetModels_set [OF assms(2) ok] ds by simp
  have model: "priced m" "price m = input_price_of cfg (mname m) / 1000000"
      "selector_admits (jget (Body request) ''model'') m \<longleftrightarrow> mname m \<in> group_members cfg g" if "m \<in> set ?cands" for m
    using synced_model [OF assms(1,4) that [unfolded cand]] assms(10) by (auto simp: field input_price_of_def)
  have names: "mname ` set ms = group_members cfg g"
  proof -
    have "group_members cfg g \<subseteq> mname ` set ?cands"
      using GetModels_names(1) [OF assms(2) ok] spec(2) ds by (auto simp: group_members_def)
    then show ?thesis using model(3) by (auto simp: ms_def)
  qed
  have "list_all priced ms" "list_all priced ?cands" using model(1) by (auto simp: ms_def list_all_iff)
  from cost_scores [OF this(1), of request "(w, c)"] obtain f
    where f: "fst (CostScorer_Score request ms (w, c)) = Inr (score_all f ms)" "\<forall>m\<in>set ms. 0 \<le> f m \<and> f m \<le> 1"
      "\<forall>a\<in>set ms. \<forall>b\<in>set ms. f b \<le> f a \<longrightarrow> price a \<le> price b" by blast
  have best: "\<forall>n'\<in>group_members cfg g. input_price_of cfg (mname m) \<le> input_price_of cfg n'"
    if "m \<in> set ms" "\<forall>m'\<in>set ms. f m' \<le> f m" for m
  proof
    fix n' assume "n' \<in> group_members cfg g"
    then obtain m' where "m' \<in> set ms" "n' = mname m'" using names by auto
    with f(3) that have "price m \<le> price m'" by blast
    moreover have "m \<in> set ?cands" "m' \<in> set ?cands" using that(1) \<open>m' \<in> set ms\<close> by (auto simp: ms_def)
    ultimately show "input_price_of cfg (mname m) \<le> input_price_of cfg n'"
      using model(2) \<open>n' = mname m'\<close> by (simp add: divide_le_cancel)
  qed
  obtain err w' c' q where run: "ModelSelector_ProcessRequest models ord ord' (single_policy CostScorer_Score weight name src) (w, c, request)
      = (err, (w', c', q))" by (metis surj_pair)
  note res = single_policy_routes [where models = models and name = name and src = src and c = c and f = f,
      OF CostScorer_contract assms(11,2,3) ok \<open>list_all priced ?cands\<close> assms(8) ms_def f(1,2), unfolded run prod.case]
  show ?thesis
  proof (cases "ms = []")
    case True
    then have "group_members cfg g = {}" using names by auto
    with res True show ?thesis by (simp add: run)
  next
    case False
    then obtain m where m: "err = None" "m \<in> set ms" "\<forall>m'\<in>set ms. f m' \<le> f m"
        "q = request\<lparr>Body := Some (mput ''model'' (JStr (mname m)) body), bodyMutated := True\<rparr>"
      using res by auto
    have "mname m \<in> group_members cfg g" using names m(2) by blast
    then show ?thesis using best [OF m(2,3)] m(1,4) unfolding run prod.case by auto
  qed
qed

text \<open>
  In every reachable configuration of the processor, under any interleaving of exchanges, a request that leaves
  the choice open, through the group filter, the in-flight scorer and the max-score picker, names a model with
  the fewest delivered requests not yet answered.
\<close>

lemma open_request_goes_to_least_loaded:
  assumes "reachable (init_config ([], ds)) cf" and "extractors (proc cf) = [Extract ord0]"
    and "interleaving (exchange_events xs) (accepted cf @ later)" and "perm_of ord0" and "store_ok ds"
    and "\<forall>n. attr_of ds n RequestMetadataAttributeKey = None" and "\<forall>n. requests_for n (delivered cf) < 2 ^ 63"
    and "models w = snd (world cf)" and "model_names (models w) \<noteq> {}" and "[] \<notin> model_names (models w)"
    and "perm_of ord" and "perm_of ord'" and "0 < weight" and "Body request = Some body"
    and "map_of body ''model'' \<in> {None, Some JNull, Some (JStr []), Some (JStr ''auto'')}"
  shows "\<exists>n\<in>model_names (models w). (\<forall>n'\<in>model_names (models w). load n (delivered cf) \<le> load n' (delivered cf))
    \<and> (\<exists>w' c'. ModelSelector_ProcessRequest models ord ord' (single_policy InflightRequestsScorer_Score weight name src) (w, c, request)
          = (None, (w', c', request\<lparr>Body := Some (mput ''model'' (JStr n) body), bodyMutated := True\<rparr>)))"
proof -
  let ?cands = "GetModels ord AllModelsPredicate (models w)"
  have "published (deliver (Extract ord0) (delivered cf) ([], ds))"
    using deliver_published [OF assms(4), of "([], ds)" "delivered cf"] assms(5) by (simp add: published_def)
  moreover have "world cf = deliver (Extract ord0) (delivered cf) ([], ds)"
    using work_inv_reachable [OF assms(1)] assms(2) by (simp add: work_inv_def fold_dispatch_single)
  ultimately have ok: "store_ok (models w)" using assms(8) by (auto simp: published_def split: prod.splits)
  define ms where "ms = filter (selector_admits (jget (Body request) ''model'')) ?cands"
  have all: "ms = ?cands"
    using assms(14,15) by (auto simp: ms_def selector_admits_def jget_def)
  have model: "inflightRequestCount m = load (mname m) (delivered cf)" "counted m" if "m \<in> set ?cands" for m
  proof -
    have m: "map_of (snd (world cf)) (mname m) = Some m" using GetModels_set [OF assms(11) ok] that assms(8) by simp
    then have "mname m \<noteq> []" using assms(8,10) by (auto simp: model_names_def)
    note l = running_load [OF assms(1-6) _ this m, OF assms(7) [rule_format]]
    from l show "inflightRequestCount m = load (mname m) (delivered cf)" "counted m"
      by (simp_all add: counted_def is_i64_def)
  qed
  have ad: "list_all counted ms" "list_all counted ?cands" using model(2) all by (auto simp: list_all_iff)
  have names: "mname ` set ms = model_names (models w)" using GetModels_names(1) [OF assms(11) ok] all by simp
  from inflight_scores [OF ad(1), of request "(w, c)"] obtain f
    where f: "ms \<noteq> [] \<Longrightarrow> fst (InflightRequestsScorer_Score request ms (w, c)) = Inr (score_all f ms)"
      "\<forall>m\<in>set ms. 0 \<le> f m \<and> f m \<le> 1"
      "\<forall>a\<in>set ms. \<forall>b\<in>set ms. f b \<le> f a \<longrightarrow> inflightRequestCount a \<le> inflightRequestCount b" by blast
  obtain err w' c' q where run: "ModelSelector_ProcessRequest models ord ord' (single_policy InflightRequestsScorer_Score weight name src) (w, c, request)
      = (err, (w', c', q))" by (metis surj_pair)
  note res = single_policy_routes [where models = models and name = name and src = src and c = c and f = f,
      OF inflight.model_scorer_axioms assms(13,11,12) ok ad(2) assms(14) ms_def f(1,2), unfolded run prod.case]
  have "ms \<noteq> []" using names assms(9) by auto
  with res obtain m where m: "err = None" "m \<in> set ms" "\<forall>m'\<in>set ms. f m' \<le> f m"
      "q = request\<lparr>Body := Some (mput ''model'' (JStr (mname m)) body), bodyMutated := True\<rparr>" by auto
  have "load (mname m) (delivered cf) \<le> load n' (delivered cf)" if "n' \<in> model_names (models w)" for n'
  proof -
    from that names obtain m' where "m' \<in> set ms" "n' = mname m'" by auto
    with f(3) m(2,3) have "inflightRequestCount m \<le> inflightRequestCount m'" by blast
    with \<open>m' \<in> set ms\<close> \<open>n' = mname m'\<close> m(2) model(1) all show ?thesis by simp
  qed
  with names m run show ?thesis by blast
qed

end
