(* ===== verification/Sessions.thy ===== *)
theory Sessions
  imports Routing Policies
begin

text \<open>
  Session affinity end to end: the response of one exchange records the model under the session identifier and
  hands the identifier to the client; a later exchange with that identifier is routed to that model. The stream, the
  handlers, both halves of the plugin, the model selector and the picker are composed; other exchanges may run in between,
  as long as the entry stays in the cache.
\<close>

subsection \<open>A server with session affinity\<close>

definition sticky_profile ::
  "('w \<Rightarrow> 'd store) \<Rightarrow> ((string \<times> 'd model) list \<Rightarrow> (string \<times> 'd model) list)
     \<Rightarrow> ((string \<times> 'd scored_model) list \<Rightarrow> (string \<times> 'd scored_model) list)
     \<Rightarrow> (string \<Rightarrow> 'w \<Rightarrow> string option \<times> 'w) \<Rightarrow> (string \<Rightarrow> string \<Rightarrow> 'w \<Rightarrow> 'w) \<Rightarrow> ('w \<Rightarrow> string \<times> 'w) \<Rightarrow> string
     \<Rightarrow> real \<Rightarrow> string \<Rightarrow> 'w source \<Rightarrow> 'w profile" where
  "sticky_profile models ord ord' get add uuid key weight name src =
     NewProfile\<lparr>RequestPlugins := [ModelSelector_ProcessRequest models ord ord'
          (single_policy (SessionAffinity_Score get key) weight name src)],
        ResponsePlugins := [SessionAffinity_ProcessResponse add uuid key], NeedsResponseBuffering := True\<rparr>"

definition sticky_server :: "'w profile \<Rightarrow> 'w server \<Rightarrow> bool" where
  "sticky_server prof s \<longleftrightarrow>
     preProcessors s = [] \<and> profilePicker s = Some single_profile_picker \<and> (\<exists>n. profiles s = [(n, prof)])
     \<and> postProcessors s = []"

text \<open>The identifier under which a response is recorded: that of the request, or a new one.\<close>

definition session_of :: "('w \<Rightarrow> string \<times> 'w) \<Rightarrow> 'w \<Rightarrow> cycle_state \<Rightarrow> string" where
  "session_of uuid w c =
     (case ReadCycleStateKey_string c cycleStateSessionIDKey of Inr sid \<Rightarrow> sid | Inl _ \<Rightarrow> fst (uuid w))"

subsection \<open>The response\<close>

lemma sticky_response:
  assumes "Profile rc = sticky_profile models ord ord' get add uuid key weight name src" and "postProcessors s = []"
    and "parse_response env bytes (Response rc) = Some resp" and "\<not> bodyMutated (Response rc)"
    and "jstring (Body resp) responseModelField = m" and "m \<noteq> []"
  obtains w1 where "HandleResponseBody env s bytes rc =
      (Inr (AddStreamedResponseBody
         [PR_ResponseHeaders (Some \<lparr>clearRouteCache = True, headerMutation = Some (mutation_of (ord_set env) (ord_removed env)
            (SetHeader key (session_of uuid (shared rc) (CycleState rc)) resp)), bodyMutation = None\<rparr>)] bytes),
       rc\<lparr>shared := add (session_of uuid (shared rc) (CycleState rc)) m w1,
          Response := SetHeader key (session_of uuid (shared rc) (CycleState rc)) resp\<rparr>)"
proof -
  let ?sid = "session_of uuid (shared rc) (CycleState rc)"
  have mut: "\<not> bodyMutated resp"
    using assms(3,4) by (auto simp: parse_response_def split: option.splits)
  obtain w1 where "SessionAffinity_ProcessResponse add uuid key (shared rc, CycleState rc, resp)
      = (None, (add ?sid m w1, CycleState rc, SetHeader key ?sid resp))"
    using assms(5,6)
    by (cases "ReadCycleStateKey_string (CycleState rc) cycleStateSessionIDKey"; cases "uuid (shared rc)")
       (auto simp: SessionAffinity_ProcessResponse_def session_of_def Let_def)
  then show thesis
    using assms(1-3) mut
    by (intro that [of w1]) (simp add: HandleResponseBody_def sticky_profile_def runResponsePlugins_def on_response_def finish_response_def
        Let_def)
qed

lemma response_body_completed:
  assumes "\<not> responseBodyComplete st" and "NeedsResponseBuffering (Profile (reqCtx st))"
    and "HandleResponseBody env s (responseBody st @ r) (stamp_first_chunk env (reqCtx st)) = (Inr rs, rc')"
    and "\<And>l r. se l r = None"
  shows "process_loop env s sc se [Recv (ResponseBodyMsg r True)] st =
    (Waiting, st\<lparr>responseBody := responseBody st @ r, responseBodyComplete := True,
       reqCtx := complete_response env (responseBody st @ r) rc', sent := sent st @ rs\<rparr>)"
  using assms by (simp add: process_response_body_def Let_def on_ctx_def send_all_no_error [OF assms(4)])

lemma complete_response_kept:
  assumes "jlen (Body (Response rc)) \<noteq> 0"
  shows "Response (complete_response env bytes rc) = Response rc"
    and "shared (complete_response env bytes rc) = snd (clock env (shared rc))"
  using assms by (auto simp: complete_response_def time_now_def Let_def split: prod.splits)

lemma stamp_first_chunk_state [simp]:
  "CycleState (stamp_first_chunk env rc) = CycleState rc"
  by (auto simp: stamp_first_chunk_def split: prod.splits dest: time_now_frame(5))

subsection \<open>The next request\<close>

lemma sticky_selection:
  fixes models :: "'w \<Rightarrow> 'd store"
  assumes "0 < weight" and "perm_of ord" and "perm_of ord'" and "store_ok (models w)"
    and "Body request = Some body" and "mget_zero [] (Headers request) key = sid" and "sid \<noteq> []"
    and "fst (get sid w) = Some m" and "map_of (models w) m = Some mdl"
    and "selector_admits (map_of body ''model'') mdl"
  obtains w' c' where "ModelSelector_ProcessRequest models ord ord'
      (single_policy (SessionAffinity_Score get key) weight name src) (w, c, request)
    = (None, (w', c', request\<lparr>Body := Some (mput ''model'' (JStr m) body), bodyMutated := True\<rparr>))"
proof -
  let ?cands = "GetModels ord AllModelsPredicate (models w)"
  let ?f = "\<lambda>x :: 'd model. if mname x = m then 1 else 0 :: real"
  define ms where "ms = filter (selector_admits (jget (Body request) ''model'')) ?cands"
  have "mname mdl = m" using store_okD [OF assms(4,9)] by simp
  then have mdl: "mdl \<in> set ms"
    using GetModels_set [OF assms(2,4)] assms(5,9,10) by (simp add: ms_def jget_def)
  have sc: "fst (SessionAffinity_Score get key request ms (w, c)) = Inr (score_all ?f ms)"
    using assms(6-8) by (simp add: SessionAffinity_Score_eq preferred_model_def)
  obtain err w' c' q where run: "ModelSelector_ProcessRequest models ord ord'
      (single_policy (SessionAffinity_Score get key) weight name src) (w, c, request) = (err, (w', c', q))" by (metis surj_pair)
  have adm: "list_all (\<lambda>_. True) ?cands" and range: "\<forall>x\<in>set ms. 0 \<le> ?f x \<and> ?f x \<le> 1"
    by (simp_all add: list_all_iff)
  note res = single_policy_routes [where models = models and name = name and src = src and c = c and f = ?f,
      OF SessionAffinity_contract assms(1-4) adm assms(5) ms_def sc range, unfolded run prod.case]
  have "err = None \<and> (\<exists>x\<in>set ms. (\<forall>y\<in>set ms. ?f y \<le> ?f x)
      \<and> q = request\<lparr>Body := Some (mput ''model'' (JStr (mname x)) body), bodyMutated := True\<rparr>)"
    using res mdl by (metis empty_iff list.set(1))
  then obtain x where "err = None" "?f mdl \<le> ?f x"
      "q = request\<lparr>Body := Some (mput ''model'' (JStr (mname x)) body), bodyMutated := True\<rparr>"
    using mdl by blast
  moreover have "mname x = m" using \<open>?f mdl \<le> ?f x\<close> \<open>mname mdl = m\<close> by (simp split: if_splits)
  ultimately show thesis using that run by simp
qed

lemma sticky_request:
  fixes models :: "'w \<Rightarrow> 'd store"
  assumes "sticky_server (sticky_profile models ord ord' get add uuid key weight name src) s"
    and "0 < weight" and "perm_of ord" and "perm_of ord'" and "\<And>l r. se l r = None"
    and "\<not> requestBodyComplete st" and "store_ok (models (shared (reqCtx st)))"
    and "unmarshal_map (json_parse env) (requestBody st @ b) (Body (Request (reqCtx st))) = Some (Some body)"
    and "mget_zero [] (Headers (Request (reqCtx st))) key = sid" and "sid \<noteq> []"
    and "fst (get sid (shared (reqCtx st))) = Some m" and "map_of (models (shared (reqCtx st))) m = Some mdl"
    and "selector_admits (map_of body ''model'') mdl"
    and "json_marshal env (Some (mput ''model'' (JStr m) body)) = Inr bytes"
  shows "\<exists>st' replies e. process_loop env s sc se [Recv (RequestBodyMsg b True)] st = (Waiting, st')
    \<and> sent st' = sent st @ replies \<and> streamed_bytes replies = bytes
    \<and> notified (reqCtx st') = notified (reqCtx st) @ [e] \<and> request_model e = m"
proof -
  let ?rc = "reqCtx st"
  let ?prof = "sticky_profile models ord ord' get add uuid key weight name src"
  have req: "Body ((Request ?rc)\<lparr>Body := Some body\<rparr>) = Some body"
    "mget_zero [] (Headers ((Request ?rc)\<lparr>Body := Some body\<rparr>)) key = sid"
    using assms(9) by simp_all
  obtain w' c' where sel: "ModelSelector_ProcessRequest models ord ord' (single_policy (SessionAffinity_Score get key) weight name src)
      (shared ?rc, CycleState ?rc, (Request ?rc)\<lparr>Body := Some body\<rparr>)
    = (None, (w', c', (Request ?rc)\<lparr>Body := Some body, Body := Some (mput ''model'' (JStr m) body), bodyMutated := True\<rparr>))"
    using sticky_selection [where models = models and get = get, OF assms(2-4,7) req assms(10-13)] by metis
  obtain n where srv: "preProcessors s = []" "profilePicker s = Some single_profile_picker" "profiles s = [(n, ?prof)]"
    using assms(1) by (auto simp: sticky_server_def)
  have plug: "RequestPlugins ?prof = [ModelSelector_ProcessRequest models ord ord'
      (single_policy (SessionAffinity_Score get key) weight name src)]"
    by (simp add: sticky_profile_def)
  define rc1 where "rc1 = ?rc\<lparr>Profile := ?prof, shared := w', CycleState := c',
    Request := (Request ?rc)\<lparr>Body := Some body, Body := Some (mput ''model'' (JStr m) body), bodyMutated := True\<rparr>\<rparr>"
  have hb: "HandleRequestBody env s (requestBody st @ b) ?rc = finish_request env (requestBody st @ b) rc1"
    using HandleRequestBody_single [OF srv plug assms(8) sel] by (simp add: rc1_def)
  have rc1: "bodyMutated (Request rc1)" "json_marshal env (Body (Request rc1)) = Inr bytes"
    "Body (Request rc1) = Some (mput ''model'' (JStr m) body)" "notified rc1 = notified ?rc"
    using assms(14) by (simp_all add: rc1_def)
  obtain hm rc2 where fin: "finish_request env (requestBody st @ b) rc1 = (Inr (addStreamedBodyResponse
         [PR_RequestHeaders (Some \<lparr>clearRouteCache = True, headerMutation = Some hm, bodyMutation = None\<rparr>)] bytes), rc2)"
    "notified rc2 = notified rc1 @ [\<lparr>ev_Type = RequestEventType, ev_Payload = RequestPayload (Request rc2) (CycleState rc1)\<rparr>]"
    "Body (Request rc2) = Body (Request rc1)"
    using finish_request_selected [OF rc1(1,2)] by metis
  have run: "process_loop env s sc se [Recv (RequestBodyMsg b True)] st =
      (Waiting, st\<lparr>requestBody := requestBody st @ b, requestBodyComplete := True, reqCtx := rc2,
         sent := sent st @ addStreamedBodyResponse
           [PR_RequestHeaders (Some \<lparr>clearRouteCache = True, headerMutation = Some hm, bodyMutation = None\<rparr>)] bytes\<rparr>)"
    using assms(6) hb fin(1) by (simp add: process_request_body_def Let_def on_ctx_def send_all_no_error [OF assms(5)])
  show ?thesis
    unfolding run
    by (intro exI conjI, rule refl, simp, rule body_reply(1), simp add: fin(2) rc1(4))
       (simp add: request_model_def fin(3) rc1(3) jstring_def)
qed

subsection \<open>Property\<close>

text \<open>
  C4: A session sticks to its model, from one exchange to a later one. Take a server whose profile has the model
  selector with the group filter, the session affinity scorer and the max-score picker, and the same plugin
  on the response. When the response of an exchange decodes to a body that names a model, the stream goes on, the headers sent
  to the client carry a session identifier (that of the request, or a new one), and in any later state in which the cache still has the
  same entry for it, an exchange whose request carries the identifier and admits that model is sent on with the
  model in its body, every other field as received, and its request event names it.
\<close>

theorem session_sticks_across_exchanges:
  fixes models :: "'w \<Rightarrow> 'd store"
  assumes cache: "\<And>k v w. fst (get k (add k v w)) = Some v"
    and clock: "\<And>k w. fst (get k (snd (clock env w))) = fst (get k w)" and uuid: "\<And>w. fst (uuid w) \<noteq> []"
    and server: "sticky_server (sticky_profile models ord ord' get add uuid key weight name src) s"
    and "0 < weight" and "perm_of ord" and "perm_of ord'" and "\<And>l r. se l r = None"
    and "Profile (reqCtx st1) = sticky_profile models ord ord' get add uuid key weight name src"
    and "\<not> responseBodyComplete st1" and "\<not> bodyMutated (Response (reqCtx st1))"
    and "ReadCycleStateKey_string (CycleState (reqCtx st1)) cycleStateSessionIDKey \<noteq> Inr []"
    and "parse_response env (responseBody st1 @ r) (Response (reqCtx st1)) = Some resp"
    and "jget (Body resp) ''model'' = Some (JStr m)" and "m \<noteq> []"
  shows "\<exists>st1' sid rest. process_loop env s sc se [Recv (ResponseBodyMsg r True)] st1 = (Waiting, st1')
    \<and> map_of (Headers (Response (reqCtx st1'))) key = Some sid
    \<and> (\<forall>sid0. ReadCycleStateKey_string (CycleState (reqCtx st1)) cycleStateSessionIDKey = Inr sid0 \<longrightarrow> sid = sid0)
    \<and> sent st1' = sent st1 @ PR_ResponseHeaders (Some \<lparr>clearRouteCache = True,
        headerMutation = Some (mutation_of (ord_set env) (ord_removed env) (Response (reqCtx st1'))), bodyMutation = None\<rparr>) # rest
    \<and> (\<forall>st2 b body bytes mdl.
        \<not> requestBodyComplete st2 \<and> store_ok (models (shared (reqCtx st2)))
        \<and> unmarshal_map (json_parse env) (requestBody st2 @ b) (Body (Request (reqCtx st2))) = Some (Some body)
        \<and> mget_zero [] (Headers (Request (reqCtx st2))) key = sid
        \<and> fst (get sid (shared (reqCtx st2))) = fst (get sid (shared (reqCtx st1')))
        \<and> map_of (models (shared (reqCtx st2))) m = Some mdl \<and> selector_admits (map_of body ''model'') mdl
        \<and> json_marshal env (Some (mput ''model'' (JStr m) body)) = Inr bytes \<longrightarrow>
        (\<exists>st2' replies e. process_loop env s sc se [Recv (RequestBodyMsg b True)] st2 = (Waiting, st2')
          \<and> sent st2' = sent st2 @ replies \<and> streamed_bytes replies = bytes
          \<and> notified (reqCtx st2') = notified (reqCtx st2) @ [e] \<and> request_model e = m))"
proof -
  let ?rc = "stamp_first_chunk env (reqCtx st1)"
  define sid where "sid = session_of uuid (shared ?rc) (CycleState ?rc)"
  have sid: "sid \<noteq> []" using assms(12) uuid by (auto simp: sid_def session_of_def split: sum.splits)
  have post: "postProcessors s = []" using server by (simp add: sticky_server_def)
  have prof: "Profile ?rc = sticky_profile models ord ord' get add uuid key weight name src"
    "parse_response env (responseBody st1 @ r) (Response ?rc) = Some resp" "\<not> bodyMutated (Response ?rc)"
    using assms(9,11,13) by simp_all
  have served: "jstring (Body resp) responseModelField = m"
    using assms(14) by (simp add: jstring_eqI responseModelField_def)
  obtain w1 where hb: "HandleResponseBody env s (responseBody st1 @ r) ?rc =
      (Inr (AddStreamedResponseBody [PR_ResponseHeaders (Some \<lparr>clearRouteCache = True,
         headerMutation = Some (mutation_of (ord_set env) (ord_removed env) (SetHeader key sid resp)), bodyMutation = None\<rparr>)]
         (responseBody st1 @ r)),
       ?rc\<lparr>shared := add sid m w1, Response := SetHeader key sid resp\<rparr>)"
    using sticky_response [OF prof(1) post prof(2,3) served assms(15)] unfolding sid_def by metis
  define rc1 where "rc1 = ?rc\<lparr>shared := add sid m w1, Response := SetHeader key sid resp\<rparr>"
  have rc1: "shared rc1 = add sid m w1" "Response rc1 = SetHeader key sid resp"
    by (simp_all add: rc1_def)
  have full: "jlen (Body (Response rc1)) \<noteq> 0"
    using assms(14) by (auto simp: rc1 jget_def jlen_def split: option.splits)
  note kept = complete_response_kept [OF full, of env "responseBody st1 @ r"]
  have buf: "NeedsResponseBuffering (Profile (reqCtx st1))"
    using assms(9) by (simp add: sticky_profile_def)
  note run = response_body_completed [OF assms(10) buf hb [folded rc1_def] assms(8), where sc = sc]
  obtain st1' where st1': "process_loop env s sc se [Recv (ResponseBodyMsg r True)] st1 = (Waiting, st1')"
    "reqCtx st1' = complete_response env (responseBody st1 @ r) rc1"
    "sent st1' = sent st1 @ PR_ResponseHeaders (Some \<lparr>clearRouteCache = True,
      headerMutation = Some (mutation_of (ord_set env) (ord_removed env) (SetHeader key sid resp)), bodyMutation = None\<rparr>)
      # map PR_ResponseBody (BuildChunkedBodyResponses (responseBody st1 @ r) True)"
    using run by (simp add: AddStreamedResponseBody_def)
  have resp: "Response (reqCtx st1') = SetHeader key sid resp"
    by (simp add: st1'(2) kept rc1)
  have entry: "fst (get sid (shared (reqCtx st1'))) = Some m"
    by (simp add: st1'(2) kept clock rc1 cache)
  have own: "\<forall>sid0. ReadCycleStateKey_string (CycleState (reqCtx st1)) cycleStateSessionIDKey = Inr sid0 \<longrightarrow> sid = sid0"
    by (simp add: sid_def session_of_def)
  have later: "\<exists>st2' replies e. process_loop env s sc se [Recv (RequestBodyMsg b True)] st2 = (Waiting, st2')
      \<and> sent st2' = sent st2 @ replies \<and> streamed_bytes replies = bytes
      \<and> notified (reqCtx st2') = notified (reqCtx st2) @ [e] \<and> request_model e = m"
    if "\<not> requestBodyComplete st2" "store_ok (models (shared (reqCtx st2)))"
      "unmarshal_map (json_parse env) (requestBody st2 @ b) (Body (Request (reqCtx st2))) = Some (Some body)"
      "mget_zero [] (Headers (Request (reqCtx st2))) key = sid"
      "fst (get sid (shared (reqCtx st2))) = fst (get sid (shared (reqCtx st1')))"
      "map_of (models (shared (reqCtx st2))) m = Some mdl" "selector_admits (map_of body ''model'') mdl"
      "json_marshal env (Some (mput ''model'' (JStr m) body)) = Inr bytes" for st2 b body bytes mdl
    using sticky_request [OF server assms(5-8) that(1-4) sid that(5) [unfolded entry] that(6-8)] .
  show ?thesis
    by (rule exI [of _ st1'], rule exI [of _ sid], rule exI, intro conjI allI impI, rule st1'(1), simp add: resp,
        simp add: own, subst resp, rule st1'(3), elim conjE, rule later)
qed

text \<open>A cache that is an association list, two models, and bodies of which the response names one and the request none.\<close>

definition sticky_env :: "(string, string) gomap env" where
  "sticky_env = \<lparr>json_parse = (\<lambda>bytes. Some (JObj [(''model'', JStr (if bytes = ''r'' then ''b'' else ''auto''))])),
     json_error = (\<lambda>_. []), json_marshal = (\<lambda>_. Inr ''{}''), clock = (\<lambda>w. (7, w)), ord_set = rev, ord_removed = rev,
     trace_carrier = (\<lambda>_. [])\<rparr>"

definition sample_sticky :: "(string, string) gomap profile" where
  "sample_sticky = sticky_profile (\<lambda>_. sample_store) rev rev (\<lambda>k w. (map_of w k, w)) mput (\<lambda>w. (''u1'', w)) ''sid'' 1 ''max''
     (\<lambda>w. (0, w))"

definition sample_sticky_server :: "(string, string) gomap server" where
  "sample_sticky_server = \<lparr>preProcessors = [], profilePicker = Some single_profile_picker,
     profiles = [(''default'', sample_sticky)], postProcessors = [], responseHeadersPostProcessors = []\<rparr>"

theorem session_sticks_across_exchanges_witness:
  "\<exists>st1' sid st2' e. process_loop sticky_env sample_sticky_server (\<lambda>_. 2) (\<lambda>_ _. None) [Recv (ResponseBodyMsg ''r'' True)]
      ((new_stream [])\<lparr>reqCtx := new_context sample_sticky []\<rparr>) = (Waiting, st1')
    \<and> map_of (Headers (Response (reqCtx st1'))) ''sid'' = Some sid
    \<and> process_loop sticky_env sample_sticky_server (\<lambda>_. 2) (\<lambda>_ _. None) [Recv (RequestBodyMsg ''q'' True)]
        ((new_stream [])\<lparr>reqCtx := (new_context NewProfile (shared (reqCtx st1')))
           \<lparr>Request := NewInferenceRequest\<lparr>Headers := [(''sid'', sid)]\<rparr>\<rparr>\<rparr>) = (Waiting, st2')
    \<and> notified (reqCtx st2') = [e] \<and> request_model e = ''b''"
proof -
  let ?get = "\<lambda>k (w :: (string, string) gomap). (map_of w k, w)"
  let ?st1 = "(new_stream [])\<lparr>reqCtx := new_context sample_sticky []\<rparr> :: (string, string) gomap stream"
  let ?resp = "NewInferenceResponse\<lparr>Body := Some [(''model'', JStr ''b'')]\<rparr>"
  have server: "sticky_server sample_sticky sample_sticky_server"
    by (simp add: sticky_server_def sample_sticky_server_def)
  have st1: "Profile (reqCtx ?st1) = sample_sticky" "\<not> responseBodyComplete ?st1" "\<not> bodyMutated (Response (reqCtx ?st1))"
      "ReadCycleStateKey_string (CycleState (reqCtx ?st1)) cycleStateSessionIDKey \<noteq> Inr []"
      "parse_response sticky_env (responseBody ?st1 @ ''r'') (Response (reqCtx ?st1)) = Some ?resp"
      "jget (Body ?resp) ''model'' = Some (JStr ''b'')"
    by (simp_all add: new_stream_def new_context_def NewInferenceResponse_def newInferenceMessage_def NewCycleState_def
        ReadCycleStateKey_string_def Read_def parse_response_def unmarshal_map_def sticky_env_def jget_def)
  obtain st1' sid where run1: "process_loop sticky_env sample_sticky_server (\<lambda>_. 2) (\<lambda>_ _. None) [Recv (ResponseBodyMsg ''r'' True)]
      ?st1 = (Waiting, st1')" "map_of (Headers (Response (reqCtx st1'))) ''sid'' = Some sid"
    and later: "\<And>st2 b body bytes mdl. \<not> requestBodyComplete st2 \<and> store_ok sample_store
        \<and> unmarshal_map (json_parse sticky_env) (requestBody st2 @ b) (Body (Request (reqCtx st2))) = Some (Some body)
        \<and> mget_zero [] (Headers (Request (reqCtx st2))) ''sid'' = sid
        \<and> fst (?get sid (shared (reqCtx st2))) = fst (?get sid (shared (reqCtx st1')))
        \<and> map_of sample_store ''b'' = Some mdl \<and> selector_admits (map_of body ''model'') mdl
        \<and> json_marshal sticky_env (Some (mput ''model'' (JStr ''b'') body)) = Inr bytes \<Longrightarrow>
        \<exists>st2' replies e. process_loop sticky_env sample_sticky_server (\<lambda>_. 2) (\<lambda>_ _. None) [Recv (RequestBodyMsg b True)] st2 = (Waiting, st2')
          \<and> sent st2' = sent st2 @ replies \<and> streamed_bytes replies = bytes
          \<and> notified (reqCtx st2') = notified (reqCtx st2) @ [e] \<and> request_model e = ''b''"
    using session_sticks_across_exchanges [where get = ?get and add = mput and uuid = "\<lambda>w. (''u1'', w)" and env = sticky_env
        and models = "\<lambda>_. sample_store" and se = "\<lambda>_ _. None" and sc = "\<lambda>_. 2" and weight = 1 and key = "''sid''"
        and name = "''max''" and src = "\<lambda>w. (0, w)" and r = "''r''" and m = "''b''" and ord = rev and ord' = rev, folded sample_sticky_def,
        OF _ _ _ server _ perm_of_rev perm_of_rev _ st1]
    by (simp add: sticky_env_def) blast
  let ?st2 = "(new_stream [])\<lparr>reqCtx := (new_context NewProfile (shared (reqCtx st1')))
      \<lparr>Request := NewInferenceRequest\<lparr>Headers := [(''sid'', sid)]\<rparr>\<rparr>\<rparr> :: (string, string) gomap stream"
  have "\<exists>st2' replies e. process_loop sticky_env sample_sticky_server (\<lambda>_. 2) (\<lambda>_ _. None) [Recv (RequestBodyMsg ''q'' True)] ?st2
      = (Waiting, st2') \<and> sent st2' = sent ?st2 @ replies \<and> streamed_bytes replies = ''{}''
      \<and> notified (reqCtx st2') = notified (reqCtx ?st2) @ [e] \<and> request_model e = ''b''"
    by (rule later [where body = "[(''model'', JStr ''auto'')]" and mdl = "NewModel ''b''"])
       (simp add: new_stream_def new_context_def NewInferenceRequest_def newInferenceMessage_def sticky_env_def unmarshal_map_def
          mget_zero_def sample_store_def store_ok_def selector_admits_def model_ok_def NewModel_def NewAttributes_def)
  then obtain st2' e where "process_loop sticky_env sample_sticky_server (\<lambda>_. 2) (\<lambda>_ _. None) [Recv (RequestBodyMsg ''q'' True)] ?st2
      = (Waiting, st2')" "notified (reqCtx st2') = notified (reqCtx ?st2) @ [e]" "request_model e = ''b''" by blast
  moreover have "notified (reqCtx ?st2) = []" by (simp add: new_context_def)
  ultimately show ?thesis using run1 by fastforce
qed

end
