(* ===== verification/Loader.thy ===== *)
theory Loader
  imports Request_Plugins Pickers Processor
begin

text \<open>
  Loading the configuration (\<^verbatim>\<open>pkg/config/loader/configloader.go\<close> and \<^verbatim>\<open>defaults.go\<close>, with the types of
  \<^verbatim>\<open>apix/config/v1alpha1\<close> and \<^verbatim>\<open>pkg/config\<close> and the plugin table of \<^verbatim>\<open>plugin/handle.go\<close>): plugins are
  instantiated through the registry, referenced by name, routed into profiles and phases by the
  interfaces they implement, and wired into the model selectors and the data layer.

  \<^item> An instance is a record of what its dynamic type implements. The pipelines of the model selector
    instances are mutable and shared, so they are a separate map from instance name to pipeline.
  \<^item> The decoder of the configuration text, the registry of factories and the iteration orders of the
    plugin and profile maps are arguments.
\<close>

subsection \<open>Configuration\<close>

record plugin_spec =
  ps_Name :: string
  ps_Type :: string
  ps_Parameters :: string

record plugin_ref =
  pr_PluginRef :: string
  pr_Weight :: "real option"

record raw_plugins =
  rp_Request :: "plugin_ref list"
  rp_Response :: "plugin_ref list"

record raw_profile =
  rp_Name :: string
  rp_Plugins :: "raw_plugins option"

record datalayer_config =
  dc_Collectors :: "plugin_ref list"
  dc_Extractors :: "plugin_ref list"
  dc_Datasources :: "plugin_ref list"

record raw_config =
  rc_Plugins :: "plugin_spec list"
  rc_PreProcessing :: "plugin_ref list option"
  rc_ProfilePicker :: "plugin_ref option"
  rc_Profiles :: "raw_profile list"
  rc_PostProcessing :: "plugin_ref list option"
  rc_Datalayer :: "datalayer_config option"

text \<open>
  An instance: the name of \<^verbatim>\<open>TypedName()\<close>, the model selector interfaces, and the other interfaces. A collector
  comes with its frequency.
\<close>

record ('w, 'd, 'x, 'e) plug_instance =
  in_name :: string
  in_plugin :: "('w, 'd) plugin_obj"
  isProfilePicker :: bool
  isRequestProcessor :: bool
  isResponseProcessor :: bool
  isResponseHeadersProcessor :: bool
  isResponseChunkProcessor :: bool
  isModelSelector :: bool
  in_collector :: "('x \<times> duration) option"
  in_extractor :: "'e extractor option"
  in_datasource :: "'x option"

type_synonym ('w, 'd, 'x, 'e) handle = "(string, ('w, 'd, 'x, 'e) plug_instance) gomap"

type_synonym ('w, 'd, 'x, 'e) registry = "(string, string \<Rightarrow> string \<Rightarrow> go_error + ('w, 'd, 'x, 'e) plug_instance) gomap"

type_synonym ('w, 'd) pipelines = "(string, ('w, 'd) pipeline) gomap"

record ('w, 'd, 'x, 'e) loaded_profile =
  lp_RequestPlugins :: "('w, 'd, 'x, 'e) plug_instance list"
  lp_ResponsePlugins :: "('w, 'd, 'x, 'e) plug_instance list"
  lp_ResponseChunkProcessors :: "('w, 'd, 'x, 'e) plug_instance list"
  lp_NeedsResponseBuffering :: bool
  lp_ModelSelectorPlugins :: "('w, 'd) registrable list"

record ('w, 'd, 'x, 'e) loaded_config =
  lc_PreProcessors :: "('w, 'd, 'x, 'e) plug_instance list"
  lc_ProfilePicker :: "('w, 'd, 'x, 'e) plug_instance option"
  lc_Profiles :: "(string, ('w, 'd, 'x, 'e) loaded_profile) gomap"
  lc_PostProcessors :: "('w, 'd, 'x, 'e) plug_instance list"
  lc_ResponseHeadersPostProcessors :: "('w, 'd, 'x, 'e) plug_instance list"

subsection \<open>The plugin handle\<close>

text \<open>
  The map of instances behind a handle; \<open>ord\<close> is the order in which \<^verbatim>\<open>GetAllPlugins\<close> ranges over it. The
  other members of a handle are accessors of the context, the manager, the datastore and the notifier.
\<close>

definition new_handle_plugins :: "('w, 'd, 'x, 'e) handle" where
  [simp]: "new_handle_plugins = []"

definition Plugin :: "('w, 'd, 'x, 'e) handle \<Rightarrow> string \<Rightarrow> ('w, 'd, 'x, 'e) plug_instance option" where
  [simp]: "Plugin handle name = map_of handle name"

definition AddPlugin ::
  "string \<Rightarrow> ('w, 'd, 'x, 'e) plug_instance \<Rightarrow> ('w, 'd, 'x, 'e) handle \<Rightarrow> ('w, 'd, 'x, 'e) handle" where
  [simp]: "AddPlugin name p handle = mput name p handle"

definition GetAllPlugins ::
  "((string \<times> ('w, 'd, 'x, 'e) plug_instance) list \<Rightarrow> (string \<times> ('w, 'd, 'x, 'e) plug_instance) list)
     \<Rightarrow> ('w, 'd, 'x, 'e) handle \<Rightarrow> ('w, 'd, 'x, 'e) plug_instance list" where
  [simp]: "GetAllPlugins ord handle = map snd (ord handle)"

definition GetAllPluginsWithNames :: "('w, 'd, 'x, 'e) handle \<Rightarrow> (string, ('w, 'd, 'x, 'e) plug_instance) gomap" where
  "GetAllPluginsWithNames handle = handle"

subsection \<open>Loading\<close>

text \<open>A loop that stops at the first error.\<close>

fun fold_err :: "('a \<Rightarrow> 's \<Rightarrow> go_error + 's) \<Rightarrow> 'a list \<Rightarrow> 's \<Rightarrow> go_error + 's" where
  "fold_err f [] s = Inr s"
| "fold_err f (x # xs) s = (case f x s of Inl e \<Rightarrow> Inl e | Inr s' \<Rightarrow> fold_err f xs s')"

definition loadDefaultConfig :: raw_config where
  "loadDefaultConfig =
     \<lparr>rc_Plugins =
        [\<lparr>ps_Name = [], ps_Type = ''body-field-to-header'',
          ps_Parameters = CHR 0x7B # quoted ''fieldName'' @ '': '' @ quoted ''model'' @ '', ''
            @ quoted ''headerName'' @ '': '' @ quoted ''X-Gateway-Model-Name'' @ [CHR 0x7D]\<rparr>,
         \<lparr>ps_Name = [], ps_Type = ''base-model-to-header'', ps_Parameters = []\<rparr>],
      rc_PreProcessing = None, rc_ProfilePicker = None,
      rc_Profiles =
        [\<lparr>rp_Name = ''default'',
          rp_Plugins = Some
            \<lparr>rp_Request = [\<lparr>pr_PluginRef = ''body-field-to-header'', pr_Weight = None\<rparr>,
                           \<lparr>pr_PluginRef = ''base-model-to-header'', pr_Weight = None\<rparr>],
             rp_Response = []\<rparr>\<rparr>],
      rc_PostProcessing = None, rc_Datalayer = None\<rparr>"

definition applyRawConfigDefaults :: "raw_config \<Rightarrow> raw_config" where
  "applyRawConfigDefaults raw =
     raw\<lparr>rc_Plugins := map (\<lambda>ps. if ps_Name ps = [] then ps\<lparr>ps_Name := ps_Type ps\<rparr> else ps) (rc_Plugins raw)\<rparr>"

definition loadRawConfiguration :: "(string \<Rightarrow> go_error + raw_config) \<Rightarrow> string \<Rightarrow> go_error + raw_config" where
  "loadRawConfiguration decode configBytes =
     (case (if length configBytes \<noteq> 0 then decode configBytes else Inr loadDefaultConfig) of
        Inl e \<Rightarrow> Inl (PlainErr (''failed to decode configuration JSON/YAML: '' @ error_string e))
      | Inr raw \<Rightarrow> Inr (applyRawConfigDefaults raw))"

definition instantiate_one ::
  "('w, 'd, 'x, 'e) registry \<Rightarrow> plugin_spec \<Rightarrow> string list \<times> ('w, 'd, 'x, 'e) handle
     \<Rightarrow> go_error + string list \<times> ('w, 'd, 'x, 'e) handle" where
  "instantiate_one registry spec st =
     (case st of (pluginNames, handle) \<Rightarrow>
        if ps_Type spec = [] then Inl (PlainErr (''plugin '' @ single_quoted (ps_Name spec) @ '' is missing a type''))
        else if ps_Name spec \<in> set pluginNames then
          Inl (PlainErr (''duplicate plugin name '' @ single_quoted (ps_Name spec)))
        else (case map_of registry (ps_Type spec) of
                None \<Rightarrow> Inl (PlainErr (''plugin type '' @ single_quoted (ps_Type spec) @ '' is not registered''))
              | Some factory \<Rightarrow>
                  (case factory (ps_Name spec) (ps_Parameters spec) of
                     Inl e \<Rightarrow> Inl (PlainErr (''failed to create plugin '' @ single_quoted (ps_Name spec) @ '' (type: ''
                                @ ps_Type spec @ ''): '' @ error_string e))
                   | Inr p \<Rightarrow> Inr (ps_Name spec # pluginNames, AddPlugin (ps_Name spec) p handle))))"

definition instantiatePlugins ::
  "('w, 'd, 'x, 'e) registry \<Rightarrow> plugin_spec list \<Rightarrow> ('w, 'd, 'x, 'e) handle \<Rightarrow> go_error + ('w, 'd, 'x, 'e) handle" where
  "instantiatePlugins registry specs handle =
     (if length specs = 0 then Inl (PlainErr ''one or more plugins must be defined'')
      else map_sum id snd (fold_err (instantiate_one registry) specs ([], handle)))"

definition SingleProfilePickerType :: string where
  "SingleProfilePickerType = ''single-profile-picker''"

definition registerDefaultPlugin ::
  "('w, 'd, 'x, 'e) registry \<Rightarrow> string \<Rightarrow> raw_config \<times> ('w, 'd, 'x, 'e) handle
     \<Rightarrow> go_error + raw_config \<times> ('w, 'd, 'x, 'e) handle" where
  "registerDefaultPlugin registry pluginType st =
     (case st of (raw, handle) \<Rightarrow>
        case map_of registry pluginType of
          None \<Rightarrow> Inl (PlainErr (''plugin type '' @ single_quoted pluginType @ '' not found in registry''))
        | Some factory \<Rightarrow>
            (case factory pluginType [] of
               Inl e \<Rightarrow> Inl (PlainErr (''failed to instantiate default plugin '' @ single_quoted pluginType @ '': ''
                          @ error_string e))
             | Inr p \<Rightarrow>
                 Inr (raw\<lparr>rc_Plugins := rc_Plugins raw @
                        [\<lparr>ps_Name = pluginType, ps_Type = pluginType, ps_Parameters = []\<rparr>]\<rparr>,
                      AddPlugin pluginType p handle)))"

text \<open>
  The search for a picker among the instances, in the order \<open>ord\<close> of the plugin map; \<open>None\<close> when
  there is none.
\<close>

definition find_picker ::
  "('w, 'd, 'x, 'e) plug_instance list \<Rightarrow> go_error + ('w, 'd, 'x, 'e) plug_instance option" where
  "find_picker ps =
     fold_err (\<lambda>p found. if isProfilePicker p
        then (if found \<noteq> None then Inl (PlainErr ''multiple profile pickers have been defined in the configuration'')
              else Inr (Some p))
        else Inr found) ps None"

definition set_picker_ref :: "string \<Rightarrow> raw_config \<Rightarrow> raw_config" where
  "set_picker_ref n raw =
     raw\<lparr>rc_ProfilePicker := Some (case rc_ProfilePicker raw of
            None \<Rightarrow> \<lparr>pr_PluginRef = n, pr_Weight = None\<rparr> | Some ref \<Rightarrow> ref\<lparr>pr_PluginRef := n\<rparr>)\<rparr>"

definition applyPluginDefaults ::
  "('w, 'd, 'x, 'e) registry
     \<Rightarrow> ((string \<times> ('w, 'd, 'x, 'e) plug_instance) list \<Rightarrow> (string \<times> ('w, 'd, 'x, 'e) plug_instance) list)
     \<Rightarrow> raw_config \<times> ('w, 'd, 'x, 'e) handle \<Rightarrow> go_error + raw_config \<times> ('w, 'd, 'x, 'e) handle" where
  "applyPluginDefaults registry ord st =
     (case st of (raw, handle) \<Rightarrow>
        if rc_ProfilePicker raw = None \<or> pr_PluginRef (the (rc_ProfilePicker raw)) = [] then
          (case find_picker (GetAllPlugins ord handle) of
             Inl e \<Rightarrow> Inl e
           | Inr (Some p) \<Rightarrow> Inr (set_picker_ref (in_name p) raw, handle)
           | Inr None \<Rightarrow>
               if length (rc_Profiles raw) = 1 then
                 (case registerDefaultPlugin registry SingleProfilePickerType (raw, handle) of
                    Inl e \<Rightarrow> Inl e
                  | Inr (raw', handle') \<Rightarrow>
                      (case Plugin handle' SingleProfilePickerType of
                         Some p \<Rightarrow>
                           if isProfilePicker p then Inr (set_picker_ref (in_name p) raw', handle')
                           else Inl (Panic ''interface conversion'')
                       | None \<Rightarrow> Inl (Panic ''interface conversion'')))
               else Inl (PlainErr ''multiple profiles in the configuration require a profile picker''))
        else Inr (raw, handle))"

definition no_plugin_named :: "string \<Rightarrow> go_error" where
  "no_plugin_named n = PlainErr (''there is no plugin named '' @ n)"

definition route_request ::
  "('w, 'd, 'x, 'e) handle \<Rightarrow> plugin_ref \<Rightarrow> ('w, 'd, 'x, 'e) loaded_profile \<Rightarrow> go_error + ('w, 'd, 'x, 'e) loaded_profile" where
  "route_request handle ref prof =
     (case Plugin handle (pr_PluginRef ref) of
        None \<Rightarrow> Inl (no_plugin_named (pr_PluginRef ref))
      | Some p \<Rightarrow>
          if isRequestProcessor p then Inr (prof\<lparr>lp_RequestPlugins := lp_RequestPlugins prof @ [p]\<rparr>)
          else
            let po = in_plugin p
            in if po_filter po = None \<and> po_scorer po = None \<and> po_picker po = None then
                 Inl (PlainErr (''plugin '' @ quoted (pr_PluginRef ref)
                   @ '' is not a RequestProcessor, Filter, Scorer, or Picker''))
               else (case po_scorer po of
                       Some sc \<Rightarrow>
                         (case pr_Weight ref of
                            None \<Rightarrow> Inl (PlainErr (''scorer '' @ quoted (pr_PluginRef ref) @ '' requires a weight''))
                          | Some w \<Rightarrow> Inr (prof\<lparr>lp_ModelSelectorPlugins :=
                                        lp_ModelSelectorPlugins prof @ [WeightedScorer po sc w]\<rparr>))
                     | None \<Rightarrow> Inr (prof\<lparr>lp_ModelSelectorPlugins := lp_ModelSelectorPlugins prof @ [PlainPlugin po]\<rparr>)))"

definition route_response ::
  "('w, 'd, 'x, 'e) handle \<Rightarrow> plugin_ref \<Rightarrow> ('w, 'd, 'x, 'e) loaded_profile \<Rightarrow> go_error + ('w, 'd, 'x, 'e) loaded_profile" where
  "route_response handle ref prof =
     (case Plugin handle (pr_PluginRef ref) of
        None \<Rightarrow> Inl (no_plugin_named (pr_PluginRef ref))
      | Some p \<Rightarrow>
          if isResponseProcessor p then Inr (prof\<lparr>lp_ResponsePlugins := lp_ResponsePlugins prof @ [p]\<rparr>)
          else if isResponseChunkProcessor p then
            Inr (prof\<lparr>lp_ResponseChunkProcessors := lp_ResponseChunkProcessors prof @ [p]\<rparr>)
          else Inl (PlainErr (''the plugin named '' @ pr_PluginRef ref
                 @ '' is not a ResponseProcessor nor ResponseChunkProcessor'')))"

definition empty_profile :: "('w, 'd, 'x, 'e) loaded_profile" where
  "empty_profile = \<lparr>lp_RequestPlugins = [], lp_ResponsePlugins = [], lp_ResponseChunkProcessors = [],
     lp_NeedsResponseBuffering = False, lp_ModelSelectorPlugins = []\<rparr>"

definition build_profile :: "('w, 'd, 'x, 'e) handle \<Rightarrow> raw_profile \<Rightarrow> go_error + ('w, 'd, 'x, 'e) loaded_profile" where
  "build_profile handle raw =
     (if length (rp_Name raw) = 0 then Inl (PlainErr ''a profile was specified without a name'')
      else case rp_Plugins raw of
          None \<Rightarrow> Inl (PlainErr (''the profile '' @ rp_Name raw @ '' must have a Plugins section''))
        | Some plugins \<Rightarrow>
            if length (rp_Request plugins) = 0 \<and> length (rp_Response plugins) = 0 then
              Inl (PlainErr (''the profile '' @ rp_Name raw @ '' must have one or both of the Request and Response sections''))
            else (case fold_err (route_request handle) (rp_Request plugins) empty_profile of
                    Inl e \<Rightarrow> Inl e
                  | Inr prof1 \<Rightarrow>
                      (case fold_err (route_response handle) (rp_Response plugins) prof1 of
                         Inl e \<Rightarrow> Inl e
                       | Inr prof2 \<Rightarrow>
                           if length (lp_ResponsePlugins prof2) > 0 \<and> length (lp_ResponseChunkProcessors prof2) > 0 then
                             Inl (PlainErr (''profile '' @ rp_Name raw @
                               '' mixes ResponseProcessor and ResponseChunkProcessor plugins '' @ [CHR 0xE2, CHR 0x80, CHR 0x94]
                               @ '' a profile must use one type exclusively''))
                           else Inr (prof2\<lparr>lp_NeedsResponseBuffering := length (lp_ResponsePlugins prof2) > 0\<rparr>))))"

definition buildProfiles ::
  "raw_profile list \<Rightarrow> ('w, 'd, 'x, 'e) handle \<Rightarrow> go_error + (string, ('w, 'd, 'x, 'e) loaded_profile) gomap" where
  "buildProfiles rawProfiles handle =
     (if length rawProfiles = 0 then Inl (PlainErr ''at least one profile must be specified'')
      else fold_err (\<lambda>raw profs. case build_profile handle raw of
             Inl e \<Rightarrow> Inl e | Inr p \<Rightarrow> Inr (mput (rp_Name raw) p profs)) rawProfiles [])"

definition buildPreProcessors ::
  "plugin_ref list option \<Rightarrow> ('w, 'd, 'x, 'e) handle \<Rightarrow> go_error + ('w, 'd, 'x, 'e) plug_instance list" where
  "buildPreProcessors raw handle =
     (case raw of
        None \<Rightarrow> Inr []
      | Some refs \<Rightarrow>
          fold_err (\<lambda>ref ps. case Plugin handle (pr_PluginRef ref) of
              None \<Rightarrow> Inl (PlainErr (''the referenced pre-processor plugin '' @ pr_PluginRef ref
                       @ '' doesn'' @ [CHR 0x27] @ ''t exist in the configuration''))
            | Some p \<Rightarrow> if isRequestProcessor p then Inr (ps @ [p])
                else Inl (PlainErr (''the referenced plugin '' @ pr_PluginRef ref @ '' is not a RequestProcessor'')))
            refs [])"

definition place_post ::
  "('w, 'd, 'x, 'e) handle \<Rightarrow> plugin_ref
     \<Rightarrow> ('w, 'd, 'x, 'e) plug_instance list \<times> ('w, 'd, 'x, 'e) plug_instance list
     \<Rightarrow> go_error + ('w, 'd, 'x, 'e) plug_instance list \<times> ('w, 'd, 'x, 'e) plug_instance list" where
  "place_post handle ref acc =
     (case acc of (bodies, headers) \<Rightarrow>
        case Plugin handle (pr_PluginRef ref) of
          None \<Rightarrow> Inl (PlainErr (''the referenced post-processor plugin '' @ pr_PluginRef ref
                    @ '' doesn'' @ [CHR 0x27] @ ''t exist in the configuration''))
        | Some p \<Rightarrow>
            let headers' = (if isResponseHeadersProcessor p then headers @ [p] else headers);
                bodies' = (if isResponseProcessor p then bodies @ [p] else bodies)
            in if isResponseHeadersProcessor p \<or> isResponseProcessor p then Inr (bodies', headers')
               else Inl (PlainErr (''the referenced plugin '' @ pr_PluginRef ref
                      @ '' is not a ResponseProcessor nor ResponseHeadersProcessor'')))"

definition buildPostProcessors ::
  "plugin_ref list option \<Rightarrow> ('w, 'd, 'x, 'e) handle
     \<Rightarrow> go_error + ('w, 'd, 'x, 'e) plug_instance list \<times> ('w, 'd, 'x, 'e) plug_instance list" where
  "buildPostProcessors raw handle =
     (case raw of None \<Rightarrow> Inr ([], []) | Some refs \<Rightarrow> fold_err (place_post handle) refs ([], []))"

text \<open>Body post-processors need the full body: no profile may work on chunks, and every profile buffers.\<close>

definition force_buffering ::
  "((string \<times> ('w, 'd, 'x, 'e) loaded_profile) list \<Rightarrow> (string \<times> ('w, 'd, 'x, 'e) loaded_profile) list)
     \<Rightarrow> (string, ('w, 'd, 'x, 'e) loaded_profile) gomap \<Rightarrow> go_error + (string, ('w, 'd, 'x, 'e) loaded_profile) gomap" where
  "force_buffering ord profs =
     fold_err (\<lambda>(name, p) acc.
        if length (lp_ResponseChunkProcessors p) > 0 then
          Inl (PlainErr (''profile '' @ name @ '' is using ResponseChunkProcessor plugins while post processor always ''
            @ ''require full body. the framework must use one type exclusively''))
        else Inr (mput name (p\<lparr>lp_NeedsResponseBuffering := True\<rparr>) acc)) (ord profs) profs"

text \<open>The three loops of \<^verbatim>\<open>buildDatalayerSources\<close>; \<open>cast\<close> is the type assertion.\<close>

definition register_refs ::
  "('w, 'd, 'x, 'e) handle \<Rightarrow> string \<Rightarrow> (('w, 'd, 'x, 'e) plug_instance \<Rightarrow> 'i option)
     \<Rightarrow> ('i \<Rightarrow> ('x, 'e) processor \<Rightarrow> ('x, 'e) processor) \<Rightarrow> plugin_ref list \<Rightarrow> ('x, 'e) processor
     \<Rightarrow> go_error + ('x, 'e) processor" where
  "register_refs handle what cast register refs dlp =
     fold_err (\<lambda>ref pr. case Plugin handle (pr_PluginRef ref) of
          None \<Rightarrow> Inl (no_plugin_named (pr_PluginRef ref))
        | Some p \<Rightarrow>
            (case cast p of
               None \<Rightarrow> Inl (PlainErr (''plugin '' @ quoted (pr_PluginRef ref) @ '' is not '' @ what))
             | Some i \<Rightarrow> Inr (register i pr))) refs dlp"

definition buildDatalayerSources ::
  "datalayer_config option \<Rightarrow> ('w, 'd, 'x, 'e) handle \<Rightarrow> ('x, 'e) processor \<Rightarrow> go_error + ('x, 'e) processor" where
  "buildDatalayerSources cfg handle dlp =
     (case cfg of
        None \<Rightarrow> Inr dlp
      | Some c \<Rightarrow>
          (case register_refs handle ''a Collector'' in_collector (\<lambda>(x, freq). RegisterCollector x freq)
                  (dc_Collectors c) dlp of
             Inl e \<Rightarrow> Inl e
           | Inr dlp1 \<Rightarrow>
               (case register_refs handle ''an Extractor'' in_extractor RegisterExtractor (dc_Extractors c) dlp1 of
                  Inl e \<Rightarrow> Inl e
                | Inr dlp2 \<Rightarrow>
                    register_refs handle ''a DataSource'' in_datasource RegisterDatasource (dc_Datasources c) dlp2)))"

text \<open>
  Wiring one request plugin of a profile: a model selector gets the profile's selector plugins, and the
  max-score picker when it still has none. \<open>src\<close> is the random source of that picker.
\<close>

definition wire_selector ::
  "'w source \<Rightarrow> ('w, 'd) registrable list \<Rightarrow> ('w, 'd, 'x, 'e) plug_instance \<Rightarrow> ('w, 'd) pipelines
     \<Rightarrow> go_error + ('w, 'd) pipelines" where
  "wire_selector src plugins p pls =
     (if \<not> isModelSelector p then Inr pls
      else
        let pl = mget_zero NewModelSelectorPipeline pls (in_name p)
        in (case AddPlugins pl plugins of
              (Some e, _) \<Rightarrow> Inl (PlainErr (''failed to add plugins to model-selector '' @ quoted (in_name p) @ '': '' @ error_string e))
            | (None, pl1) \<Rightarrow>
                Inr (mput (in_name p)
                  (if picker pl1 = None then WithPicker (''max-score-picker'', MaxScorePicker_Pick src) pl1 else pl1) pls)))"

definition buildModelSelector ::
  "'w source \<Rightarrow> ((string \<times> ('w, 'd, 'x, 'e) loaded_profile) list \<Rightarrow> (string \<times> ('w, 'd, 'x, 'e) loaded_profile) list)
     \<Rightarrow> (string, ('w, 'd, 'x, 'e) loaded_profile) gomap \<Rightarrow> ('w, 'd) pipelines \<Rightarrow> go_error + ('w, 'd) pipelines" where
  "buildModelSelector src ord profs pls =
     fold_err (\<lambda>(_, prof). fold_err (wire_selector src (lp_ModelSelectorPlugins prof)) (lp_RequestPlugins prof)) (ord profs) pls"

text \<open>
  \<^verbatim>\<open>LoadConfiguration\<close>. The error for a reference that is not a profile picker is logged and then
  overwritten by the next assignment, so loading goes on with a nil picker.
\<close>

definition load_processors ::
  "((string \<times> ('w, 'd, 'x, 'e) loaded_profile) list \<Rightarrow> (string \<times> ('w, 'd, 'x, 'e) loaded_profile) list)
     \<Rightarrow> raw_config \<Rightarrow> ('w, 'd, 'x, 'e) handle \<Rightarrow> go_error + ('w, 'd, 'x, 'e) loaded_config" where
  "load_processors ord raw handle =
     (case buildProfiles (rc_Profiles raw) handle of
        Inl e \<Rightarrow> Inl e
      | Inr profs \<Rightarrow>
          (case buildPreProcessors (rc_PreProcessing raw) handle of
             Inl e \<Rightarrow> Inl e
           | Inr pre \<Rightarrow>
               (case buildPostProcessors (rc_PostProcessing raw) handle of
                  Inl e \<Rightarrow> Inl e
                | Inr (post, hpost) \<Rightarrow>
                    (case (if length post > 0 then force_buffering ord profs else Inr profs) of
                       Inl e \<Rightarrow> Inl e
                     | Inr profs' \<Rightarrow>
                         Inr \<lparr>lc_PreProcessors = pre,
                              lc_ProfilePicker =
                                (case Plugin handle (pr_PluginRef (the (rc_ProfilePicker raw))) of
                                   None \<Rightarrow> None | Some p \<Rightarrow> if isProfilePicker p then Some p else None),
                              lc_Profiles = profs', lc_PostProcessors = post,
                              lc_ResponseHeadersPostProcessors = hpost\<rparr>))))"

definition LoadConfiguration ::
  "(string \<Rightarrow> go_error + raw_config) \<Rightarrow> ('w, 'd, 'x, 'e) registry
     \<Rightarrow> ((string \<times> ('w, 'd, 'x, 'e) plug_instance) list \<Rightarrow> (string \<times> ('w, 'd, 'x, 'e) plug_instance) list)
     \<Rightarrow> ((string \<times> ('w, 'd, 'x, 'e) loaded_profile) list \<Rightarrow> (string \<times> ('w, 'd, 'x, 'e) loaded_profile) list)
     \<Rightarrow> 'w source \<Rightarrow> string \<Rightarrow> ('w, 'd, 'x, 'e) handle \<Rightarrow> ('x, 'e) processor \<Rightarrow> ('w, 'd) pipelines
     \<Rightarrow> go_error + ('w, 'd, 'x, 'e) loaded_config \<times> ('x, 'e) processor \<times> ('w, 'd) pipelines" where
  "LoadConfiguration decode registry ordp ord src configBytes handle dlp pls =
     (case loadRawConfiguration decode configBytes of
        Inl e \<Rightarrow> Inl e
      | Inr raw0 \<Rightarrow>
          (case instantiatePlugins registry (rc_Plugins raw0) handle of
             Inl e \<Rightarrow> Inl e
           | Inr handle0 \<Rightarrow>
               (case applyPluginDefaults registry ordp (raw0, handle0) of
                  Inl e \<Rightarrow> Inl e
                | Inr (raw, handle1) \<Rightarrow>
                    (case load_processors ord raw handle1 of
                       Inl e \<Rightarrow> Inl e
                     | Inr cfg \<Rightarrow>
                         (case buildDatalayerSources (rc_Datalayer raw) handle1 dlp of
                            Inl e \<Rightarrow> Inl e
                          | Inr dlp1 \<Rightarrow>
                              (case buildModelSelector src ord (lc_Profiles cfg) pls of
                                 Inl e \<Rightarrow> Inl e
                               | Inr pls1 \<Rightarrow> Inr (cfg, dlp1, pls1)))))))"

subsection \<open>Lemmas\<close>

lemma fold_err_inv:
  assumes "fold_err f xs s = Inr s'" and "P s"
    and "\<And>x s s'. x \<in> set xs \<Longrightarrow> P s \<Longrightarrow> f x s = Inr s' \<Longrightarrow> P s'"
  shows "P s'"
  using assms
proof (induction xs arbitrary: s)
  case (Cons x xs)
  from Cons.prems(1) obtain s1 where s1: "f x s = Inr s1" "fold_err f xs s1 = Inr s'" by (auto split: sum.splits)
  have "P s1" using Cons.prems(3) [of x s s1] Cons.prems(2) s1(1) by simp
  with s1(2) show ?case by (rule Cons.IH) (auto intro: Cons.prems(3))
qed simp

lemma fold_err_visits:
  assumes "fold_err f xs s = Inr s'" and "x \<in> set xs"
    and "\<And>s s'. f x s = Inr s' \<Longrightarrow> Q s'"
    and "\<And>y s s'. y \<in> set xs \<Longrightarrow> Q s \<Longrightarrow> f y s = Inr s' \<Longrightarrow> Q s'"
  shows "Q s'"
  using assms
proof (induction xs arbitrary: s)
  case (Cons y ys)
  from Cons.prems(1) obtain s1 where s1: "f y s = Inr s1" "fold_err f ys s1 = Inr s'" by (auto split: sum.splits)
  show ?case
  proof (cases "x = y")
    case True
    then have "Q s1" using Cons.prems(3) s1(1) by blast
    with s1(2) show ?thesis by (rule fold_err_inv) (auto intro: Cons.prems(4))
  next
    case False
    with Cons.prems(2) have "x \<in> set ys" by simp
    with s1(2) show ?thesis by (rule Cons.IH) (auto intro: Cons.prems(3,4))
  qed
qed simp

text \<open>The shape of a profile before post-processors are considered.\<close>

definition profile_ok :: "('w, 'd, 'x, 'e) loaded_profile \<Rightarrow> bool" where
  "profile_ok p \<longleftrightarrow>
     list_all isRequestProcessor (lp_RequestPlugins p) \<and> list_all isResponseProcessor (lp_ResponsePlugins p)
     \<and> list_all isResponseChunkProcessor (lp_ResponseChunkProcessors p)
     \<and> (lp_ResponsePlugins p = [] \<or> lp_ResponseChunkProcessors p = [])"

definition routed :: "('w, 'd, 'x, 'e) loaded_profile \<Rightarrow> bool" where
  "routed p \<longleftrightarrow>
     list_all isRequestProcessor (lp_RequestPlugins p) \<and> list_all isResponseProcessor (lp_ResponsePlugins p)
     \<and> list_all isResponseChunkProcessor (lp_ResponseChunkProcessors p)"

lemma route_routed:
  "route_request h ref p = Inr p' \<Longrightarrow> routed p \<Longrightarrow> routed p'"
  "route_response h ref p = Inr p' \<Longrightarrow> routed p \<Longrightarrow> routed p'"
  by (auto simp: route_request_def route_response_def routed_def Let_def split: option.splits if_splits)

lemma build_profile_ok:
  assumes "build_profile h raw = Inr p"
  shows "rp_Name raw \<noteq> []" "profile_ok p" "lp_NeedsResponseBuffering p \<longleftrightarrow> lp_ResponsePlugins p \<noteq> []"
proof -
  obtain plugins where n: "rp_Name raw \<noteq> []" "rp_Plugins raw = Some plugins"
    using assms by (auto simp: build_profile_def split: if_splits option.splits)
  obtain p1 where 1: "fold_err (route_request h) (rp_Request plugins) empty_profile = Inr p1"
    using assms n by (auto simp: build_profile_def split: if_splits sum.splits)
  obtain p2 where 2: "fold_err (route_response h) (rp_Response plugins) p1 = Inr p2"
    using assms n 1 by (auto simp: build_profile_def split: if_splits sum.splits)
  have x: "\<not> (lp_ResponsePlugins p2 \<noteq> [] \<and> lp_ResponseChunkProcessors p2 \<noteq> [])"
    and p: "p = p2\<lparr>lp_NeedsResponseBuffering := length (lp_ResponsePlugins p2) > 0\<rparr>"
    using assms n 1 2 by (auto simp: build_profile_def split: if_splits)
  have "routed p1" using 1 by (rule fold_err_inv) (auto simp: routed_def empty_profile_def dest: route_routed(1))
  then have "routed p2" using fold_err_inv [OF 2, of routed] route_routed(2) by blast
  with n(1) x p show "rp_Name raw \<noteq> []" "profile_ok p" "lp_NeedsResponseBuffering p \<longleftrightarrow> lp_ResponsePlugins p \<noteq> []"
    by (auto simp: profile_ok_def routed_def)
qed

lemma buildProfiles_ok:
  assumes "buildProfiles raws h = Inr profs"
  shows "gomap_ok profs \<and> (\<forall>n p. map_of profs n = Some p \<longrightarrow>
    n \<noteq> [] \<and> profile_ok p \<and> lp_NeedsResponseBuffering p = (lp_ResponsePlugins p \<noteq> []))"
proof -
  from assms have "fold_err (\<lambda>raw profs. case build_profile h raw of
      Inl e \<Rightarrow> Inl e | Inr p \<Rightarrow> Inr (mput (rp_Name raw) p profs)) raws [] = Inr profs"
    by (auto simp: buildProfiles_def split: if_splits)
  then show ?thesis
  proof (rule fold_err_inv, goal_cases)
    case (2 raw s s')
    then obtain p where p: "build_profile h raw = Inr p" "s' = mput (rp_Name raw) p s" by (auto split: sum.splits)
    show ?case using 2(2) build_profile_ok [OF p(1)] by (simp add: p(2) distinct_update)
  qed simp
qed

lemma force_buffering_loop:
  assumes "fold_err (\<lambda>(name, p) acc. if length (lp_ResponseChunkProcessors p) > 0 then Inl (e name)
      else Inr (mput name (p\<lparr>lp_NeedsResponseBuffering := True\<rparr>) acc)) xs acc = Inr r" and "gomap_ok xs"
  shows "map_of r = (\<lambda>n. case map_of xs n of
      Some p \<Rightarrow> Some (p\<lparr>lp_NeedsResponseBuffering := True\<rparr>) | None \<Rightarrow> map_of acc n)
    \<and> (\<forall>n p. map_of xs n = Some p \<longrightarrow> lp_ResponseChunkProcessors p = [])"
  using assms
proof (induction xs arbitrary: acc)
  case (Cons x xs)
  obtain n p where x: "x = (n, p)" by (cases x)
  then have c: "lp_ResponseChunkProcessors p = []"
    and r: "fold_err (\<lambda>(name, p) acc. if length (lp_ResponseChunkProcessors p) > 0 then Inl (e name)
      else Inr (mput name (p\<lparr>lp_NeedsResponseBuffering := True\<rparr>) acc)) xs
        (mput n (p\<lparr>lp_NeedsResponseBuffering := True\<rparr>) acc) = Inr r"
    using Cons.prems(1) by (auto split: if_splits)
  have "map_of xs n = None" using Cons.prems(2) x by (simp add: map_of_eq_None_iff)
  then show ?case using Cons.IH [OF r] Cons.prems(2) c x by (auto simp: fun_eq_iff split: option.splits)
qed simp

lemma force_buffering_ok:
  assumes "force_buffering ord profs = Inr r" and "perm_of ord" and "gomap_ok profs"
  shows "map_of r n = map_option (\<lambda>p. p\<lparr>lp_NeedsResponseBuffering := True\<rparr>) (map_of profs n)"
    "map_of profs n = Some p \<Longrightarrow> lp_ResponseChunkProcessors p = []"
proof -
  have m: "map_of (ord profs) = map_of profs" using perm_of_map_of [OF assms(2,3)] .
  have "gomap_ok (ord profs)"
    using assms(2,3) by (metis mset_map perm_of_mset mset_eq_imp_distinct_iff)
  from force_buffering_loop [OF assms(1) [unfolded force_buffering_def] this]
  show "map_of r n = map_option (\<lambda>p. p\<lparr>lp_NeedsResponseBuffering := True\<rparr>) (map_of profs n)"
    "map_of profs n = Some p \<Longrightarrow> lp_ResponseChunkProcessors p = []"
    by (auto simp: m split: option.split)
qed

lemma load_processors_profiles:
  assumes "load_processors ord raw h = Inr cfg" and "perm_of ord" and "map_of (lc_Profiles cfg) n = Some p"
  shows "n \<noteq> [] \<and> profile_ok p \<and> (lc_PostProcessors cfg \<noteq> [] \<longrightarrow> lp_ResponseChunkProcessors p = [])
    \<and> lp_NeedsResponseBuffering p = (lp_ResponsePlugins p \<noteq> [] \<or> lc_PostProcessors cfg \<noteq> [])"
proof -
  obtain profs where b: "buildProfiles (rc_Profiles raw) h = Inr profs"
    and c: "(if length (lc_PostProcessors cfg) > 0 then force_buffering ord profs else Inr profs) = Inr (lc_Profiles cfg)"
    using assms(1) by (auto simp: load_processors_def split: sum.splits)
  note ok = buildProfiles_ok [OF b]
  show ?thesis
  proof (cases "lc_PostProcessors cfg = []")
    case True
    then have "map_of profs n = Some p" using c assms(3) by simp
    then show ?thesis using ok True by blast
  next
    case False
    then have f: "force_buffering ord profs = Inr (lc_Profiles cfg)" using c by simp
    note fb = force_buffering_ok [OF f assms(2) conjunct1 [OF ok]]
    obtain q where "map_of profs n = Some q" "p = q\<lparr>lp_NeedsResponseBuffering := True\<rparr>"
      using fb(1) [of n] assms(3) by (cases "map_of profs n") auto
    then show ?thesis using ok fb(2) False by (simp add: profile_ok_def)
  qed
qed

lemma LoadConfiguration_steps:
  assumes "LoadConfiguration decode registry ordp ord src bytes h dlp pls = Inr (cfg, dlp', pls')"
  obtains raw0 h0 raw h1 where "loadRawConfiguration decode bytes = Inr raw0"
    "instantiatePlugins registry (rc_Plugins raw0) h = Inr h0"
    "applyPluginDefaults registry ordp (raw0, h0) = Inr (raw, h1)"
    "load_processors ord raw h1 = Inr cfg" "buildDatalayerSources (rc_Datalayer raw) h1 dlp = Inr dlp'"
    "buildModelSelector src ord (lc_Profiles cfg) pls = Inr pls'"
  using assms by (auto simp: LoadConfiguration_def split: sum.splits)

subsection \<open>Model selectors get a picker\<close>

definition has_picker :: "string \<Rightarrow> ('w, 'd) pipelines \<Rightarrow> bool" where
  "has_picker n pls \<longleftrightarrow> (\<exists>pl. map_of pls n = Some pl \<and> picker pl \<noteq> None)"

lemma wire_selector_cases:
  assumes "wire_selector src plugins p pls = Inr pls'"
  shows "if isModelSelector p
    then \<exists>pl. pls' = mput (in_name p) pl pls \<and> picker pl \<noteq> None else pls' = pls"
  using assms
  by (auto simp: wire_selector_def Let_def WithPicker_def split: if_splits option.splits prod.splits)

lemma wire_selector_has_picker:
  assumes "wire_selector src plugins p pls = Inr pls'"
  shows "isModelSelector p \<Longrightarrow> has_picker (in_name p) pls'" "has_picker n pls \<Longrightarrow> has_picker n pls'"
  using wire_selector_cases [OF assms] by (auto simp: has_picker_def split: if_splits)

lemma buildModelSelector_has_picker:
  assumes "buildModelSelector src ord profs pls = Inr pls'" and "(n, prof) \<in> set (ord profs)"
    and "p \<in> set (lp_RequestPlugins prof)" and "isModelSelector p"
  shows "has_picker (in_name p) pls'"
proof -
  have keep: "has_picker k s'"
    if "fold_err (wire_selector src plugins) ps s = Inr s'" "has_picker k s" for k plugins s s' ps
    using that by (rule fold_err_inv) (auto dest: wire_selector_has_picker(2))
  have visit: "has_picker (in_name p) s'"
    if "fold_err (wire_selector src (lp_ModelSelectorPlugins prof)) (lp_RequestPlugins prof) s = Inr s'" for s s'
    using that assms(3) by (rule fold_err_visits) (auto dest: wire_selector_has_picker simp: assms(4))
  show ?thesis
    using assms(1) [unfolded buildModelSelector_def] assms(2)
    by (rule fold_err_visits) (auto intro: keep visit)
qed

subsection \<open>Properties\<close>

text \<open>A registry with a request processor, a model selector, a body response processor and a picker.\<close>

definition sample_instance :: "string \<Rightarrow> (unit, unit, unit, unit) plug_instance" where
  "sample_instance n =
     \<lparr>in_name = n, in_plugin = \<lparr>po_name = n, po_filter = None, po_scorer = None, po_picker = None\<rparr>,
      isProfilePicker = (n = ''single-profile-picker''), isRequestProcessor = (n = ''model-selector''),
      isResponseProcessor = (n = ''resp''), isResponseHeadersProcessor = False,
      isResponseChunkProcessor = False, isModelSelector = (n = ''model-selector''),
      in_collector = None, in_extractor = None, in_datasource = None\<rparr>"

definition sample_registry :: "(unit, unit, unit, unit) registry" where
  "sample_registry = map (\<lambda>t. (t, \<lambda>n _. Inr (sample_instance n))) [''model-selector'', ''resp'', ''single-profile-picker'']"

definition sample_raw :: "plugin_ref option \<Rightarrow> raw_config" where
  "sample_raw pick =
     \<lparr>rc_Plugins = map (\<lambda>t. \<lparr>ps_Name = [], ps_Type = t, ps_Parameters = []\<rparr>) [''model-selector'', ''resp''],
      rc_PreProcessing = None, rc_ProfilePicker = pick,
      rc_Profiles = [\<lparr>rp_Name = ''p'', rp_Plugins = Some
        \<lparr>rp_Request = [\<lparr>pr_PluginRef = ''model-selector'', pr_Weight = None\<rparr>], rp_Response = []\<rparr>\<rparr>],
      rc_PostProcessing = Some [\<lparr>pr_PluginRef = ''resp'', pr_Weight = None\<rparr>], rc_Datalayer = None\<rparr>"

lemmas sample_load_defs = LoadConfiguration_def loadRawConfiguration_def applyRawConfigDefaults_def instantiatePlugins_def
  instantiate_one_def applyPluginDefaults_def find_picker_def registerDefaultPlugin_def set_picker_ref_def
  load_processors_def buildProfiles_def build_profile_def route_request_def route_response_def empty_profile_def
  buildPreProcessors_def buildPostProcessors_def place_post_def force_buffering_def buildDatalayerSources_def
  buildModelSelector_def wire_selector_def AddPlugins_def NewModelSelectorPipeline_def WithPicker_def mget_zero_def
  SingleProfilePickerType_def sample_raw_def sample_registry_def sample_instance_def Let_def

lemma loaded_selectors_have_picker:
  assumes "LoadConfiguration decode registry ordp ord src bytes h dlp pls = Inr (cfg, dlp', pls')"
    and "perm_of ord" and "map_of (lc_Profiles cfg) n = Some p"
    and "q \<in> set (lp_RequestPlugins p)" and "isModelSelector q"
  shows "has_picker (in_name q) pls'"
  using assms(1)
proof (rule LoadConfiguration_steps)
  assume "buildModelSelector src ord (lc_Profiles cfg) pls = Inr pls'"
  moreover have "(n, p) \<in> set (ord (lc_Profiles cfg))" using assms(2,3) by (simp add: perm_of_set map_of_SomeD)
  ultimately show ?thesis using buildModelSelector_has_picker assms(4,5) by metis
qed

text \<open>
  C32: a loaded configuration is well formed. Each profile has a name and holds in each list only
  plugins of the right kind; it never has both body and chunk processors; it buffers the response
  exactly when body plugins or post-processors are to see it; with post-processors no profile works
  on chunks, so none of the configured response plugins is skipped; and every model selector of a
  profile has a picker in its pipeline (the configured one or max-score).
\<close>

theorem loaded_profiles_consistent:
  assumes "LoadConfiguration decode registry ordp ord src bytes h dlp pls = Inr (cfg, dlp', pls')"
    and "perm_of ord" and "map_of (lc_Profiles cfg) n = Some p"
  shows "n \<noteq> []
    \<and> list_all isRequestProcessor (lp_RequestPlugins p) \<and> list_all isResponseProcessor (lp_ResponsePlugins p)
    \<and> list_all isResponseChunkProcessor (lp_ResponseChunkProcessors p)
    \<and> (lp_ResponseChunkProcessors p = [] \<or> lp_ResponsePlugins p = [] \<and> lc_PostProcessors cfg = [])
    \<and> lp_NeedsResponseBuffering p = (lp_ResponsePlugins p \<noteq> [] \<or> lc_PostProcessors cfg \<noteq> [])
    \<and> (\<forall>q\<in>set (lp_RequestPlugins p). isModelSelector q \<longrightarrow>
         (\<exists>pl. map_of pls' (in_name q) = Some pl \<and> picker pl \<noteq> None))"
  using assms(1)
proof (rule LoadConfiguration_steps)
  fix raw h1
  assume "load_processors ord raw h1 = Inr cfg"
  from load_processors_profiles [OF this assms(2,3)] loaded_selectors_have_picker [OF assms]
  show ?thesis by (auto simp: profile_ok_def has_picker_def)
qed

theorem loaded_profiles_consistent_witness:
  "\<exists>cfg dlp' pls' p pl. LoadConfiguration (\<lambda>_. Inr (sample_raw None)) sample_registry rev rev (\<lambda>w. (0, w)) ''cfg'' []
      NewProcessor [] = Inr (cfg, dlp', pls')
    \<and> map_of (lc_Profiles cfg) ''p'' = Some p \<and> lp_NeedsResponseBuffering p
    \<and> map_of pls' ''model-selector'' = Some pl \<and> picker pl \<noteq> None"
proof -
  obtain cfg dlp' pls' p where run: "LoadConfiguration (\<lambda>_. Inr (sample_raw None)) sample_registry rev rev
      (\<lambda>w. (0, w)) ''cfg'' [] NewProcessor [] = Inr (cfg, dlp', pls')"
    and p: "map_of (lc_Profiles cfg) ''p'' = Some p" "lc_PostProcessors cfg \<noteq> []"
      "sample_instance ''model-selector'' \<in> set (lp_RequestPlugins p)"
    by (simp add: sample_load_defs)
  from loaded_profiles_consistent [OF run perm_of_rev p(1)] p(2,3)
  have "lp_NeedsResponseBuffering p \<and> (\<exists>pl. map_of pls' ''model-selector'' = Some pl \<and> picker pl \<noteq> None)"
    by (auto simp: sample_instance_def)
  with run p(1) show ?thesis by metis
qed

text \<open>
  C34: a wrong profile picker reference goes unnoticed. When the configuration names as its profile
  picker a plugin that does not exist or is not a picker, and loading returns a configuration at all,
  that configuration has no profile picker, although the code builds an error for this case.
\<close>

theorem invalid_picker_reference_accepted:
  assumes "loadRawConfiguration decode bytes = Inr raw"
    and "instantiatePlugins registry (rc_Plugins raw) h = Inr h1"
    and "rc_ProfilePicker raw = Some ref" and "pr_PluginRef ref \<noteq> []"
    and "\<forall>p. map_of h1 (pr_PluginRef ref) = Some p \<longrightarrow> \<not> isProfilePicker p"
    and "load_processors ord raw h1 = Inr cfg"
    and "buildDatalayerSources (rc_Datalayer raw) h1 dlp = Inr dlp'"
    and "buildModelSelector src ord (lc_Profiles cfg) pls = Inr pls'"
  shows "LoadConfiguration decode registry ordp ord src bytes h dlp pls = Inr (cfg, dlp', pls')
    \<and> lc_ProfilePicker cfg = None"
proof -
  have "lc_ProfilePicker cfg = None"
    using assms(3,5,6) by (auto simp: load_processors_def split: sum.splits option.splits)
  moreover have "applyPluginDefaults registry ordp (raw, h1) = Inr (raw, h1)"
    using assms(3,4) by (simp add: applyPluginDefaults_def)
  ultimately show ?thesis using assms by (simp add: LoadConfiguration_def)
qed

theorem invalid_picker_reference_accepted_witness:
  "\<exists>cfg dlp' pls'. LoadConfiguration (\<lambda>_. Inr (sample_raw (Some \<lparr>pr_PluginRef = ''resp'', pr_Weight = None\<rparr>)))
      sample_registry rev rev (\<lambda>w. (0, w)) ''cfg'' [] NewProcessor [] = Inr (cfg, dlp', pls')
    \<and> lc_ProfilePicker cfg = None"
proof -
  let ?raw = "applyRawConfigDefaults (sample_raw (Some \<lparr>pr_PluginRef = ''resp'', pr_Weight = None\<rparr>))"
  obtain h1 where h1: "instantiatePlugins sample_registry (rc_Plugins ?raw) [] = Inr h1"
    "\<forall>p. map_of h1 ''resp'' = Some p \<longrightarrow> \<not> isProfilePicker p"
    and "\<exists>cfg. load_processors rev ?raw h1 = Inr cfg
      \<and> (\<exists>pls'. buildModelSelector (\<lambda>w. (0, w)) rev (lc_Profiles cfg) [] = Inr pls')"
    by (simp add: sample_load_defs)
  then obtain cfg pls' where c: "load_processors rev ?raw h1 = Inr cfg"
    "buildModelSelector (\<lambda>w. (0, w)) rev (lc_Profiles cfg) [] = Inr pls'" by blast
  have "loadRawConfiguration (\<lambda>_. Inr (sample_raw (Some \<lparr>pr_PluginRef = ''resp'', pr_Weight = None\<rparr>))) ''cfg'' = Inr ?raw"
    by (simp add: loadRawConfiguration_def)
  from invalid_picker_reference_accepted [OF this h1(1) _ _ _ c(1) _ c(2),
      of "\<lparr>pr_PluginRef = ''resp'', pr_Weight = None\<rparr>" NewProcessor NewProcessor rev] h1(2)
  show ?thesis by (auto simp: applyRawConfigDefaults_def sample_raw_def buildDatalayerSources_def)
qed

end
