(* ===== verification/Options.thy ===== *)
theory Options
  imports Go_Prelude "HOL-Library.Word"
begin

text \<open>
  The command line options: \<^verbatim>\<open>pkg/server/options.go\<close> and the logging options it embeds
  (\<^verbatim>\<open>pkg/common/observability/logging\<close>: \<^verbatim>\<open>const.go\<close>, \<^verbatim>\<open>options.go\<close>, \<^verbatim>\<open>logger.go\<close>).

  Parsing the flags is pflag's; the model starts with the parsed options. Of the zap options only the
  level matters: \<open>zap_Level\<close> is \<^verbatim>\<open>ZapOptions.Level\<close> (\<open>None\<close> for nil), and \<open>zapLogLevelFlag\<close> is what
  \<^verbatim>\<open>loggingFS.Lookup\<close> finds: the \<^verbatim>\<open>Changed\<close> bit of the flag, \<open>None\<close> when there is no such flag. A zap
  level is an \<^verbatim>\<open>int8\<close>.
\<close>

subsection \<open>Logging options\<close>

definition DEFAULT :: int where
  "DEFAULT = 2"

definition VERBOSE :: int where
  "VERBOSE = 3"

definition DEBUG :: int where
  "DEBUG = 4"

definition TRACE :: int where
  "TRACE = 5"

text \<open>The conversion \<^verbatim>\<open>int8(n)\<close>.\<close>

definition i8 :: "int \<Rightarrow> int" where
  "i8 n = sint (word_of_int n :: 8 word)"

text \<open>The dynamic type of the level: what \<^verbatim>\<open>InitLogging\<close> distinguishes.\<close>

datatype zap_level = AtomicLevel int | PlainLevel int | OtherLevel

record logging_options =
  LogVerbosity :: int
  zap_Level :: "zap_level option"
  zapLogLevelFlag :: "bool option"

definition NewLoggingOptions :: logging_options where
  "NewLoggingOptions = \<lparr>LogVerbosity = DEFAULT, zap_Level = None, zapLogLevelFlag = None\<rparr>"

definition LoggingOptions_AddFlags :: "logging_options \<Rightarrow> logging_options" where
  "LoggingOptions_AddFlags opts = opts\<lparr>zapLogLevelFlag := Some False\<rparr>"

definition LoggingOptions_Complete :: "logging_options \<Rightarrow> logging_options" where
  "LoggingOptions_Complete opts =
     (if zapLogLevelFlag opts = Some False
      then let lvl = i64 (- 1 * LogVerbosity opts)
           in opts\<lparr>zap_Level := Some (AtomicLevel (i8 lvl)), zapLogLevelFlag := Some True\<rparr>
      else opts)"

definition LoggingOptions_Validate :: "logging_options \<Rightarrow> logging_options" where
  "LoggingOptions_Validate opts = (if LogVerbosity opts < 0 then opts\<lparr>LogVerbosity := DEFAULT\<rparr> else opts)"

text \<open>The shared atomic level before and after \<^verbatim>\<open>InitLogging\<close>.\<close>

definition InitLogging :: "logging_options \<Rightarrow> int \<Rightarrow> int" where
  "InitLogging opts atomicLevel =
     (case zap_Level opts of
        Some (AtomicLevel l) \<Rightarrow> l
      | Some (PlainLevel l) \<Rightarrow> l
      | Some OtherLevel \<Rightarrow> atomicLevel
      | None \<Rightarrow> atomicLevel)"

text \<open>The label of a level; \<open>lowercase\<close> is zap's own encoder for the levels from info on.\<close>

definition customLevelEncoder :: "(int \<Rightarrow> string) \<Rightarrow> int \<Rightarrow> string" where
  "customLevelEncoder lowercase l =
     (if l \<ge> 0 then lowercase l
      else if l = - 1 * DEBUG then ''debug''
      else if l = - 1 * TRACE then ''trace''
      else if l \<ge> - 1 * VERBOSE then ''info''
      else ''trace'')"

subsection \<open>Server options\<close>

definition DefaultGrpcPort :: int where
  "DefaultGrpcPort = 9004"

definition DefaultGrpcHealthPort :: int where
  "DefaultGrpcHealthPort = 9005"

record options =
  GRPCPort :: int
  logging :: logging_options
  Tracing :: bool
  MetricsPort :: int
  GRPCHealthPort :: int
  EnablePprof :: bool
  SecureServing :: bool
  MetricsEndpointAuth :: bool
  ConfigFile :: string
  ConfigText :: string

definition NewOptions :: options where
  "NewOptions =
     \<lparr>GRPCPort = DefaultGrpcPort, logging = NewLoggingOptions, Tracing = True, MetricsPort = 9090,
      GRPCHealthPort = DefaultGrpcHealthPort, EnablePprof = True, SecureServing = True,
      MetricsEndpointAuth = True, ConfigFile = [], ConfigText = []\<rparr>"

definition Complete :: "options \<Rightarrow> options" where
  "Complete opts = opts\<lparr>logging := LoggingOptions_Complete (logging opts)\<rparr>"

text \<open>\<^verbatim>\<open>%d\<close>\<close>

definition sprint_int :: "int \<Rightarrow> string" where
  "sprint_int n = (if n < 0 then CHR ''-'' # itoa (nat (- n)) else itoa (nat n))"

text \<open>The loop over the port flags: the error of the first port out of range.\<close>

fun check_ports :: "(string \<times> int) list \<Rightarrow> go_error option" where
  "check_ports [] = None"
| "check_ports ((name, port) # pcs) =
     (if port < 1 \<or> port > 65535
      then Some (PlainErr (''invalid value '' @ sprint_int port @ '' for flag '' @ quoted name
             @ '': must be between 1 and 65535''))
      else check_ports pcs)"

definition Validate :: "options \<Rightarrow> go_error + options" where
  "Validate opts =
     (case check_ports [(''grpc-port'', GRPCPort opts), (''grpc-health-port'', GRPCHealthPort opts),
                        (''metrics-port'', MetricsPort opts)] of
        Some e \<Rightarrow> Inl e
      | None \<Rightarrow>
          (let ports = mput (MetricsPort opts) ''metrics-port''
                 (mput (GRPCHealthPort opts) ''grpc-health-port'' (mput (GRPCPort opts) ''grpc-port'' []))
           in if length ports < 3
              then Inl (PlainErr (''port conflict: grpc-port ('' @ sprint_int (GRPCPort opts) @ ''), grpc-health-port (''
                     @ sprint_int (GRPCHealthPort opts) @ ''), and metrics-port ('' @ sprint_int (MetricsPort opts)
                     @ '') must all be different''))
              else Inr (opts\<lparr>logging := LoggingOptions_Validate (logging opts)\<rparr>)))"

subsection \<open>Lemmas\<close>

text \<open>The ports the servers may use.\<close>

definition ports_ok :: "options \<Rightarrow> bool" where
  "ports_ok opts \<longleftrightarrow>
     distinct [GRPCPort opts, GRPCHealthPort opts, MetricsPort opts]
     \<and> (\<forall>p\<in>{GRPCPort opts, GRPCHealthPort opts, MetricsPort opts}. 1 \<le> p \<and> p \<le> 65535)"

lemma check_ports_None: "check_ports pcs = None \<longleftrightarrow> (\<forall>(n, p)\<in>set pcs. 1 \<le> p \<and> p \<le> 65535)"
  by (induction pcs rule: check_ports.induct) auto

lemma Validate_cases:
  "Validate opts = Inr (opts\<lparr>logging := LoggingOptions_Validate (logging opts)\<rparr>) \<and> ports_ok opts
   \<or> (\<exists>m. Validate opts = Inl (PlainErr m)) \<and> \<not> ports_ok opts"
proof -
  have err: "\<exists>m. e = PlainErr m" if "check_ports pcs = Some e" for pcs e
    using that by (induction pcs rule: check_ports.induct) (auto split: if_splits)
  have "ports_ok opts \<longleftrightarrow>
      check_ports [(''grpc-port'', GRPCPort opts), (''grpc-health-port'', GRPCHealthPort opts),
        (''metrics-port'', MetricsPort opts)] = None
      \<and> distinct [GRPCPort opts, GRPCHealthPort opts, MetricsPort opts]"
    unfolding check_ports_None by (auto simp: ports_ok_def)
  then show ?thesis
    by (auto simp: Validate_def Let_def dest: err split: option.splits simp del: check_ports.simps)
qed

lemma i8_mod: "i8 n = (n + 128) mod 256 - 128"
  by (simp add: i8_def int_word_sint)

lemma i8_small: "- 128 \<le> n \<Longrightarrow> n < 128 \<Longrightarrow> i8 n = n"
  by (simp add: i8_mod)

lemma i8_below: "- 384 \<le> n \<Longrightarrow> n < - 128 \<Longrightarrow> i8 n = n + 256"
  using mod_add_self2 [of "n + 128" 256] mod_pos_pos_trivial [of "n + 128 + 256" 256] by (simp add: i8_mod)

lemma Complete_level:
  assumes "zapLogLevelFlag lo = Some False" and "is_i64 (- LogVerbosity lo)"
  shows "InitLogging (LoggingOptions_Validate (LoggingOptions_Complete lo)) a = i8 (- LogVerbosity lo)"
  using assms by (simp add: LoggingOptions_Complete_def LoggingOptions_Validate_def InitLogging_def Let_def i64_id)

subsection \<open>Property\<close>

text \<open>
  C39: the log level that \<^verbatim>\<open>-v\<close> sets, in the order the runner completes, validates and applies the
  options. Without \<^verbatim>\<open>--zap-log-level\<close>, a verbosity from 0 to 128 gives the level minus the verbosity,
  as meant. From 129 to 255 the conversion to eight bits wraps and gives a positive level, from 127
  down to 1, at which informational messages are no longer logged. A negative verbosity is replaced
  by the default only after the level has been derived from it, so \<^verbatim>\<open>-v=-1\<close> gives level 1, although the
  options then show the default verbosity.
\<close>

theorem log_level_of_verbosity:
  assumes "zapLogLevelFlag lo = Some False" and "- 127 \<le> LogVerbosity lo" and "LogVerbosity lo \<le> 255"
  shows "(let lo' = LoggingOptions_Validate (LoggingOptions_Complete lo); level = InitLogging lo' a; v = LogVerbosity lo
    in (if v \<le> 128 then level = - v else level = 256 - v \<and> 0 < level)
      \<and> LogVerbosity lo' = (if v < 0 then DEFAULT else v))"
proof -
  have "is_i64 (- LogVerbosity lo)" using assms(2,3) by (simp add: is_i64_def)
  from Complete_level [OF assms(1) this, of a] show ?thesis
    using assms(2,3) i8_small [of "- LogVerbosity lo"] i8_below [of "- LogVerbosity lo"]
    by (simp add: Let_def LoggingOptions_Validate_def LoggingOptions_Complete_def)
qed

theorem log_level_of_verbosity_witness:
  "InitLogging (LoggingOptions_Validate (LoggingOptions_Complete
      (LoggingOptions_AddFlags (NewLoggingOptions\<lparr>LogVerbosity := 129\<rparr>)))) 0 = 127"
  using log_level_of_verbosity [of "LoggingOptions_AddFlags (NewLoggingOptions\<lparr>LogVerbosity := 129\<rparr>)" 0]
  by (simp add: LoggingOptions_AddFlags_def NewLoggingOptions_def Let_def)

end
