(* ===== verification/Grpc_Server.thy ===== *)
theory Grpc_Server
  imports Handlers
begin

text \<open>
  Serving: the gRPC server as a runnable of the controller manager (\<^verbatim>\<open>internal/runnable\<close>), the ext-proc
  server built for it (\<^verbatim>\<open>pkg/server/runserver.go\<close>, \<^verbatim>\<open>handlers.NewServer\<close>), its self-signed certificate
  (\<^verbatim>\<open>internal/tls\<close>), the health service (\<^verbatim>\<open>cmd/runner/health.go\<close>) and the profiling handlers.

  A run of \<^verbatim>\<open>GRPCServer\<close> is two goroutines, the caller, which listens and serves, and the helper, which waits for
  the context or for the caller: a step relation over their program counters and what they share. When
  \<^verbatim>\<open>Serve\<close> may return what is the parameter \<open>sv\<close>, with its documentation as \<open>serve_law\<close>.
\<close>

subsection \<open>The gRPC runnable\<close>

datatype serve_result = Serve_nil | Serve_stopped | Serve_failed string

datatype main_pc = Listening | Serving | Main_returned "go_error option"

datatype helper_pc = Not_started | Selecting | Graceful_stopping | Helper_gone

record grpc_run =
  main_at :: main_pc
  helper_at :: helper_pc
  ctx_ended :: bool
  doneCh_closed :: bool
  srv_stopped :: bool
  open_rpcs :: nat

definition new_grpc_run :: grpc_run where
  "new_grpc_run = \<lparr>main_at = Listening, helper_at = Not_started, ctx_ended = False, doneCh_closed = False,
     srv_stopped = False, open_rpcs = 0\<rparr>"

text \<open>\<^verbatim>\<open>if err := srv.Serve(lis); err != nil && err != grpc.ErrServerStopped\<close>\<close>

fun serve_error :: "serve_result \<Rightarrow> go_error option" where
  "serve_error Serve_nil = None"
| "serve_error Serve_stopped = None"
| "serve_error (Serve_failed m) = Some (PlainErr (''gRPC server failed - '' @ m))"

text \<open>
  The steps: the context ends; listening fails or the helper is started; calls come and go (none begins
  once the server is stopped); the helper takes one of the ready branches of its \<^verbatim>\<open>select\<close>;
  \<^verbatim>\<open>GracefulStop\<close> returns when no call is open; \<^verbatim>\<open>Serve\<close> returns, and the deferred \<^verbatim>\<open>close(doneCh)\<close> runs.
\<close>

inductive grpc_step :: "(bool \<Rightarrow> serve_result \<Rightarrow> bool) \<Rightarrow> grpc_run \<Rightarrow> grpc_run \<Rightarrow> bool" for sv where
  cancelled: "grpc_step sv c (c\<lparr>ctx_ended := True\<rparr>)"
| listen_fails: "main_at c = Listening \<Longrightarrow>
    grpc_step sv c (c\<lparr>main_at := Main_returned (Some (PlainErr (''gRPC server failed to listen - '' @ m)))\<rparr>)"
| listens: "main_at c = Listening \<Longrightarrow> grpc_step sv c (c\<lparr>main_at := Serving, helper_at := Selecting\<rparr>)"
| rpc_starts: "main_at c = Serving \<Longrightarrow> \<not> srv_stopped c \<Longrightarrow> grpc_step sv c (c\<lparr>open_rpcs := Suc (open_rpcs c)\<rparr>)"
| rpc_ends: "0 < open_rpcs c \<Longrightarrow> grpc_step sv c (c\<lparr>open_rpcs := open_rpcs c - 1\<rparr>)"
| helper_cancelled: "helper_at c = Selecting \<Longrightarrow> ctx_ended c \<Longrightarrow>
    grpc_step sv c (c\<lparr>helper_at := Graceful_stopping, srv_stopped := True\<rparr>)"
| helper_released: "helper_at c = Selecting \<Longrightarrow> doneCh_closed c \<Longrightarrow> grpc_step sv c (c\<lparr>helper_at := Helper_gone\<rparr>)"
| stop_returns: "helper_at c = Graceful_stopping \<Longrightarrow> open_rpcs c = 0 \<Longrightarrow> grpc_step sv c (c\<lparr>helper_at := Helper_gone\<rparr>)"
| serve_returns: "main_at c = Serving \<Longrightarrow> sv (srv_stopped c) r \<Longrightarrow>
    grpc_step sv c (c\<lparr>main_at := Main_returned (serve_error r), doneCh_closed := True\<rparr>)"

text \<open>
  The documentation of \<^verbatim>\<open>Serve\<close>: it returns a non-nil error unless \<^verbatim>\<open>Stop\<close> or \<^verbatim>\<open>GracefulStop\<close> was called, and
  once one was called it returns, with nil or with \<^verbatim>\<open>ErrServerStopped\<close>.
\<close>

definition serve_law :: "(bool \<Rightarrow> serve_result \<Rightarrow> bool) \<Rightarrow> bool" where
  "serve_law sv \<longleftrightarrow> (\<forall>r. sv False r \<longrightarrow> (\<exists>m. r = Serve_failed m)) \<and> (\<forall>r. sv True r \<longrightarrow> serve_error r = None) \<and> (\<exists>r. sv True r)"

subsection \<open>The ext-proc server\<close>

definition NewServer ::
  "'w request_plugin list \<Rightarrow> 'w profile_picker option \<Rightarrow> (string, 'w profile) gomap \<Rightarrow> 'w response_plugin list
     \<Rightarrow> 'w response_plugin list \<Rightarrow> 'w server" where
  "NewServer pre pick profs post hdrs =
     \<lparr>preProcessors = pre, profilePicker = pick, profiles = profs, postProcessors = post,
      responseHeadersPostProcessors = hdrs\<rparr>"

record 'w ext_proc_runner =
  er_GrpcPort :: int
  er_SecureServing :: bool
  er_PreProcessors :: "'w request_plugin list"
  er_ProfilePicker :: "'w profile_picker option"
  er_Profiles :: "(string, 'w profile) gomap"
  er_PostProcessors :: "'w response_plugin list"
  er_ResponseHeadersPostProcessors :: "'w response_plugin list"

definition NewDefaultExtProcServerRunner :: "int \<Rightarrow> 'w ext_proc_runner" where
  "NewDefaultExtProcServerRunner port =
     \<lparr>er_GrpcPort = port, er_SecureServing = True, er_PreProcessors = [], er_ProfilePicker = None, er_Profiles = [],
      er_PostProcessors = [], er_ResponseHeadersPostProcessors = []\<rparr>"

record x509_template =
  SerialNumber :: nat
  NotBefore :: gotime
  NotAfter :: gotime

text \<open>
  The steps of \<^verbatim>\<open>CreateSelfSignedTLSCertificate\<close>: the random number, the key, the certificate made of a
  template and the key, the key's encoding and the pair of both come from the crypto library.
\<close>

record ('k, 'c) crypto =
  rand_int :: "nat \<Rightarrow> string + nat"
  generate_key :: "nat \<Rightarrow> string + 'k"
  create_certificate :: "x509_template \<Rightarrow> 'k \<Rightarrow> string + string"
  marshal_key :: "'k \<Rightarrow> string + string"
  key_pair :: "string \<Rightarrow> string \<Rightarrow> string + 'c"
  pem_encode :: "string \<Rightarrow> string \<Rightarrow> string"

definition ten_years :: duration where
  "ten_years = 3600 * 1000000000 * 24 * 365 * 10"

definition CreateSelfSignedTLSCertificate :: "('k, 'c) crypto \<Rightarrow> gotime \<Rightarrow> go_error + 'c" where
  "CreateSelfSignedTLSCertificate lib now =
     (case rand_int lib (2 ^ 128) of
        Inl m \<Rightarrow> Inl (PlainErr (''error creating serial number: '' @ m))
      | Inr serialNumber \<Rightarrow>
          (let template = \<lparr>SerialNumber = serialNumber, NotBefore = now, NotAfter = now + ten_years\<rparr>
           in case generate_key lib 4096 of
                Inl m \<Rightarrow> Inl (PlainErr (''error generating key: '' @ m))
              | Inr priv \<Rightarrow>
                  (case create_certificate lib template priv of
                     Inl m \<Rightarrow> Inl (PlainErr (''error creating certificate: '' @ m))
                   | Inr derBytes \<Rightarrow>
                       (case marshal_key lib priv of
                          Inl m \<Rightarrow> Inl (PlainErr (''error marshalling private key: '' @ m))
                        | Inr privBytes \<Rightarrow>
                            (case key_pair lib (pem_encode lib ''CERTIFICATE'' derBytes) (pem_encode lib ''PRIVATE KEY'' privBytes) of
                               Inl m \<Rightarrow> Inl (PlainErr m)
                             | Inr cert \<Rightarrow> Inr cert)))))"

text \<open>What is handed to \<^verbatim>\<open>GRPCServer\<close>: the handlers' server, the certificate if any, and the port.\<close>

record ('w, 'c) grpc_service =
  gs_server :: "'w server"
  gs_cert :: "'c option"
  gs_port :: int

definition AsRunnable :: "('k, 'c) crypto \<Rightarrow> gotime \<Rightarrow> 'w ext_proc_runner \<Rightarrow> go_error + ('w, 'c) grpc_service" where
  "AsRunnable lib now r =
     (case (if er_SecureServing r
            then (case CreateSelfSignedTLSCertificate lib now of Inl e \<Rightarrow> Inl e | Inr cert \<Rightarrow> Inr (Some cert))
            else Inr None) of
        Inl e \<Rightarrow> Inl (PlainErr (''failed to create self signed certificate - '' @ error_string e))
      | Inr creds \<Rightarrow>
          Inr \<lparr>gs_server = NewServer (er_PreProcessors r) (er_ProfilePicker r) (er_Profiles r) (er_PostProcessors r)
                 (er_ResponseHeadersPostProcessors r),
               gs_cert = creds, gs_port = er_GrpcPort r\<rparr>)"

text \<open>A runnable with its leader election mark.\<close>

definition LeaderElection :: "'r \<Rightarrow> bool \<Rightarrow> 'r \<times> bool" where
  "LeaderElection runnable needsLeaderElection = (runnable, needsLeaderElection)"

definition NoLeaderElection :: "'r \<Rightarrow> 'r \<times> bool" where
  "NoLeaderElection runnable = LeaderElection runnable False"

definition NeedLeaderElection :: "'r \<times> bool \<Rightarrow> bool" where
  "NeedLeaderElection r = snd r"

subsection \<open>Health and profiling\<close>

datatype serving_status = SERVING

definition ext_proc_service :: string where
  "ext_proc_service = ''envoy.service.ext_proc.v3.ExternalProcessor''"

definition health_Check :: "string \<Rightarrow> go_error + serving_status" where
  "health_Check service = Inr SERVING"

definition health_List :: "go_error + (string, serving_status) gomap" where
  "health_List = (case health_Check ext_proc_service of Inl e \<Rightarrow> Inl e | Inr st \<Rightarrow> Inr [(ext_proc_service, st)])"

definition health_Watch :: "string \<Rightarrow> nat \<times> string" where
  "health_Watch service = (12, ''Watch is not implemented'')"

definition pprof_profiles :: "string list" where
  "pprof_profiles = [''heap'', ''goroutine'', ''allocs'', ''threadcreate'', ''block'', ''mutex'']"

text \<open>The handlers added so far, and whether the profiling rates are set.\<close>

fun add_handlers :: "(string \<Rightarrow> go_error option) \<Rightarrow> string list \<Rightarrow> string list \<Rightarrow> go_error option \<times> string list" where
  "add_handlers add_handler [] done = (None, done)"
| "add_handlers add_handler (p # ps) done =
     (case add_handler (''/debug/pprof/'' @ p) of
        Some e \<Rightarrow> (Some e, done)
      | None \<Rightarrow> add_handlers add_handler ps (done @ [''/debug/pprof/'' @ p]))"

definition SetupPprofHandlers :: "(string \<Rightarrow> go_error option) \<Rightarrow> go_error option \<times> string list \<times> bool" where
  "SetupPprofHandlers add_handler =
     (case add_handlers add_handler pprof_profiles [] of
        (Some e, hs) \<Rightarrow> (Some e, hs, False)
      | (None, hs) \<Rightarrow> (None, hs, True))"

subsection \<open>Lemmas\<close>

inductive_cases grpc_stepE: "grpc_step sv c c'"

text \<open>The server is stopped only for an ended context; the channel is closed by the return after serving.\<close>

definition run_inv :: "grpc_run \<Rightarrow> bool" where
  "run_inv c \<longleftrightarrow>
     (srv_stopped c \<longrightarrow> ctx_ended c)
     \<and> (helper_at c = Not_started \<longleftrightarrow> main_at c = Listening \<or> (\<exists>m. main_at c = Main_returned (Some (PlainErr (''gRPC server failed to listen - '' @ m)))))
     \<and> (helper_at c = Not_started \<longrightarrow> \<not> doneCh_closed c \<and> \<not> srv_stopped c)
     \<and> (main_at c = Serving \<longrightarrow> \<not> doneCh_closed c)
     \<and> (helper_at c = Helper_gone \<longrightarrow> doneCh_closed c \<or> srv_stopped c)
     \<and> (helper_at c = Graceful_stopping \<longrightarrow> srv_stopped c)
     \<and> (\<forall>e. main_at c = Main_returned e \<longrightarrow> helper_at c \<noteq> Not_started \<longrightarrow> doneCh_closed c
          \<and> (e = None \<longrightarrow> ctx_ended c) \<and> (\<forall>x. e = Some x \<longrightarrow> (\<exists>m. x = PlainErr (''gRPC server failed - '' @ m))))"

lemma run_inv_new: "run_inv new_grpc_run"
  by (simp add: run_inv_def new_grpc_run_def)

lemma run_inv_step:
  assumes "grpc_step sv c c'" and "run_inv c" and "serve_law sv"
  shows "run_inv c'"
  using assms(1)
proof (cases rule: grpc_step.cases)
  case (serve_returns r)
  have "srv_stopped c \<Longrightarrow> serve_error r = None" "\<not> srv_stopped c \<Longrightarrow> \<exists>m. r = Serve_failed m"
    using assms(3) serve_returns(3) by (auto simp: serve_law_def)
  then show ?thesis
    using assms(2) serve_returns by (cases "srv_stopped c") (auto simp: run_inv_def)
qed (use assms(2) in \<open>auto simp: run_inv_def\<close>)

lemma run_inv_reachable:
  assumes "(grpc_step sv)\<^sup>*\<^sup>* new_grpc_run c" and "serve_law sv"
  shows "run_inv c"
  using assms(1) by (induction rule: rtranclp_induct) (auto intro: run_inv_new run_inv_step [OF _ _ assms(2)])

lemma rpcs_drain: "(grpc_step sv)\<^sup>*\<^sup>* c (c\<lparr>open_rpcs := 0\<rparr>)"
proof (induction "open_rpcs c" arbitrary: c)
  case 0
  then have "c\<lparr>open_rpcs := 0\<rparr> = c" by (cases c) simp
  then show ?case by simp
next
  case (Suc n)
  have "(grpc_step sv)\<^sup>*\<^sup>* (c\<lparr>open_rpcs := n\<rparr>) (c\<lparr>open_rpcs := 0\<rparr>)" using Suc.hyps(1) [of "c\<lparr>open_rpcs := n\<rparr>"] by simp
  moreover have "grpc_step sv c (c\<lparr>open_rpcs := n\<rparr>)"
    using grpc_step.rpc_ends [of c sv] by (simp flip: Suc.hyps(2))
  ultimately show ?case by (rule converse_rtranclp_into_rtranclp [rotated])
qed

text \<open>A helper that has called \<^verbatim>\<open>GracefulStop\<close> gets out of it once the open calls have ended.\<close>

lemma helper_stops:
  assumes "helper_at c = Graceful_stopping"
  shows "(grpc_step sv)\<^sup>*\<^sup>* c (c\<lparr>open_rpcs := 0, helper_at := Helper_gone\<rparr>)"
  using rpcs_drain [of sv c] grpc_step.stop_returns [of "c\<lparr>open_rpcs := 0\<rparr>" sv] assms
  by (simp add: rtranclp.rtrancl_into_rtrancl)

lemma helper_leaves:
  assumes "run_inv c" and "main_at c = Main_returned e"
  shows "\<exists>c'. (grpc_step sv)\<^sup>*\<^sup>* c c' \<and> helper_at c' \<in> {Not_started, Helper_gone} \<and> main_at c' = main_at c"
proof (cases "helper_at c")
  case Selecting
  then have "doneCh_closed c" using assms by (auto simp: run_inv_def)
  then have "grpc_step sv c (c\<lparr>helper_at := Helper_gone\<rparr>)" using Selecting by (intro grpc_step.helper_released)
  then show ?thesis by (intro exI [of _ "c\<lparr>helper_at := Helper_gone\<rparr>"]) auto
next
  case Graceful_stopping
  then show ?thesis using helper_stops [OF Graceful_stopping, of sv] by force
qed auto

lemma shutdown_path:
  assumes "run_inv c" and "serve_law sv" and "main_at c = Serving" and "ctx_ended c"
  shows "\<exists>c'. (grpc_step sv)\<^sup>*\<^sup>* c c' \<and> main_at c' = Main_returned None \<and> helper_at c' = Helper_gone"
proof -
  obtain r where r: "sv True r" "serve_error r = None" using assms(2) by (auto simp: serve_law_def)
  have serve: "grpc_step sv d (d\<lparr>main_at := Main_returned None, doneCh_closed := True\<rparr>)"
    if "main_at d = Serving" "srv_stopped d" for d
    using grpc_step.serve_returns [of d sv r] that r by simp
  have "\<exists>d. (grpc_step sv)\<^sup>*\<^sup>* c d \<and> helper_at d = Helper_gone \<and> main_at d = Serving \<and> srv_stopped d"
  proof (cases "helper_at c")
    case Selecting
    define d where "d = c\<lparr>helper_at := Graceful_stopping, srv_stopped := True\<rparr>"
    have "grpc_step sv c d" using Selecting assms(4) by (simp add: d_def grpc_step.helper_cancelled)
    moreover have "(grpc_step sv)\<^sup>*\<^sup>* d (d\<lparr>open_rpcs := 0, helper_at := Helper_gone\<rparr>)"
      by (rule helper_stops) (simp add: d_def)
    ultimately show ?thesis using assms(3)
      by (intro exI [of _ "d\<lparr>open_rpcs := 0, helper_at := Helper_gone\<rparr>"]) (simp add: d_def converse_rtranclp_into_rtranclp)
  next
    case Graceful_stopping
    then show ?thesis using helper_stops [OF Graceful_stopping, of sv] assms(1,3)
      by (intro exI [of _ "c\<lparr>open_rpcs := 0, helper_at := Helper_gone\<rparr>"]) (simp add: run_inv_def)
  qed (use assms in \<open>auto simp: run_inv_def\<close>)
  then obtain d where d: "(grpc_step sv)\<^sup>*\<^sup>* c d" "helper_at d = Helper_gone" "main_at d = Serving" "srv_stopped d" by blast
  show ?thesis
    using rtranclp.rtrancl_into_rtrancl [OF d(1) serve [OF d(3,4)]] d(2)
    by (intro exI [of _ "d\<lparr>main_at := Main_returned None, doneCh_closed := True\<rparr>"]) simp
qed

lemma AsRunnable_secure:
  assumes "AsRunnable lib now r = Inr s"
  shows "gs_cert s \<noteq> None \<longleftrightarrow> er_SecureServing r" "gs_port s = er_GrpcPort r"
  using assms by (auto simp: AsRunnable_def split: if_splits sum.splits)

lemma SetupPprofHandlers_all:
  "SetupPprofHandlers add = (None, hs, b) \<Longrightarrow> hs = map ((@) ''/debug/pprof/'') pprof_profiles \<and> b"
  by (auto simp: SetupPprofHandlers_def pprof_profiles_def split: prod.splits option.splits)

subsection \<open>Property\<close>

text \<open>
  C22: a gRPC server ends with its context, and its helper goroutine does not leak. In every reachable
  state: a server that returned without error did so because the context ended; an error is that of
  listening or of serving, and the server was never stopped when listening failed; once the server has returned, the helper
  is not running or can still finish; and while the server serves under an ended context, it can still reach
  the state where it has returned without error and the helper is gone.
\<close>

theorem grpc_server_ends_with_context:
  assumes "(grpc_step sv)\<^sup>*\<^sup>* new_grpc_run c" and "serve_law sv"
  shows "case main_at c of
      Listening \<Rightarrow> helper_at c = Not_started
    | Serving \<Rightarrow> ctx_ended c \<longrightarrow>
        (\<exists>c'. (grpc_step sv)\<^sup>*\<^sup>* c c' \<and> main_at c' = Main_returned None \<and> helper_at c' = Helper_gone)
    | Main_returned e \<Rightarrow>
        (case e of None \<Rightarrow> ctx_ended c
         | Some x \<Rightarrow> \<exists>m. (x = PlainErr (''gRPC server failed to listen - '' @ m) \<and> \<not> srv_stopped c)
             \<or> x = PlainErr (''gRPC server failed - '' @ m))
        \<and> (\<exists>c'. (grpc_step sv)\<^sup>*\<^sup>* c c' \<and> helper_at c' \<in> {Not_started, Helper_gone} \<and> main_at c' = main_at c)"
proof -
  have inv: "run_inv c" by (rule run_inv_reachable [OF assms])
  show ?thesis
  proof (cases "main_at c")
    case Listening
    then show ?thesis using inv by (simp add: run_inv_def)
  next
    case Serving
    then show ?thesis using shutdown_path [OF inv assms(2) Serving] by simp
  next
    case (Main_returned e)
    have "case e of None \<Rightarrow> ctx_ended c
         | Some x \<Rightarrow> \<exists>m. (x = PlainErr (''gRPC server failed to listen - '' @ m) \<and> \<not> srv_stopped c)
             \<or> x = PlainErr (''gRPC server failed - '' @ m)"
      using inv Main_returned by (cases "helper_at c = Not_started") (auto simp: run_inv_def split: option.split)
    then show ?thesis using helper_leaves [OF inv Main_returned, of sv] Main_returned by simp
  qed
qed

text \<open>A server that fails or stops as documented, cancelled right after it started to serve.\<close>

definition sample_serve :: "bool \<Rightarrow> serve_result \<Rightarrow> bool" where
  "sample_serve stopped r \<longleftrightarrow> (if stopped then r = Serve_nil else r = Serve_failed ''accept'')"

theorem grpc_server_ends_with_context_witness:
  "\<exists>c c'. main_at c = Serving \<and> open_rpcs c = 1 \<and> (grpc_step sample_serve)\<^sup>*\<^sup>* c c' \<and> main_at c' = Main_returned None
     \<and> helper_at c' = Helper_gone"
proof -
  define c1 where "c1 = new_grpc_run\<lparr>main_at := Serving, helper_at := Selecting\<rparr>"
  define c2 where "c2 = c1\<lparr>open_rpcs := Suc (open_rpcs c1)\<rparr>"
  define c3 where "c3 = c2\<lparr>ctx_ended := True\<rparr>"
  have "grpc_step sample_serve new_grpc_run c1" unfolding c1_def by (rule grpc_step.listens) (simp add: new_grpc_run_def)
  moreover have "grpc_step sample_serve c1 c2"
    unfolding c2_def by (rule grpc_step.rpc_starts) (simp_all add: c1_def new_grpc_run_def)
  moreover have "grpc_step sample_serve c2 c3" unfolding c3_def by (rule grpc_step.cancelled)
  ultimately have r: "(grpc_step sample_serve)\<^sup>*\<^sup>* new_grpc_run c3" by simp
  have "serve_law sample_serve" by (auto simp: serve_law_def sample_serve_def)
  from grpc_server_ends_with_context [OF r this] have "\<exists>c'. (grpc_step sample_serve)\<^sup>*\<^sup>* c3 c' \<and> main_at c' = Main_returned None
     \<and> helper_at c' = Helper_gone"
    by (simp add: c3_def c2_def c1_def)
  moreover have "main_at c3 = Serving" "open_rpcs c3 = 1" by (simp_all add: c3_def c2_def c1_def new_grpc_run_def)
  ultimately show ?thesis by blast
qed

end
