(* ===== verification/Runner.thy ===== *)
theory Runner
  imports Loader Options Grpc_Server
begin

text \<open>
  The runner (\<^verbatim>\<open>cmd/runner/runner.go\<close>): options, the manager, the configuration, the data layer
  processor and the servers, in the order \<^verbatim>\<open>Run\<close> sets them up, and the plugin registry
  (\<^verbatim>\<open>pkg/framework/interface/plugin/registry.go\<close>).

  What the calls into libraries and the file system return is the record \<open>run_env\<close>, \<open>None\<close> for a nil
  error. \<open>serving\<close> is what happens to the processor while the manager runs. \<^verbatim>\<open>Run\<close> returns its error,
  the runner as it leaves it, and the actions it has carried out, in order; logs are left out.
\<close>

subsection \<open>Registry\<close>

definition Register ::
  "string \<Rightarrow> (string \<Rightarrow> string \<Rightarrow> go_error + ('w, 'd, 'x, 'e) plug_instance) \<Rightarrow> ('w, 'd, 'x, 'e) registry
     \<Rightarrow> ('w, 'd, 'x, 'e) registry" where
  "Register pluginType factory registry = mput pluginType factory registry"

definition in_tree_types :: "string list" where
  "in_tree_types =
     [''single-profile-picker'', ''body-field-to-header'', ''base-model-to-header'', ''request-metadata-extractor'',
      ''model-cost-extractor'', ''model-config-datasource'', ''model-group-name-filter'', ''random-picker'',
      ''max-score-picker'', ''weighted-random-picker'', ''model-selector'', ''inflight-requests-scorer'',
      ''session-affinity'', ''costguard'', ''model-name-to-header'']"

definition registerInTreePlugins ::
  "(string \<Rightarrow> string \<Rightarrow> string \<Rightarrow> go_error + ('w, 'd, 'x, 'e) plug_instance) \<Rightarrow> ('w, 'd, 'x, 'e) registry
     \<Rightarrow> ('w, 'd, 'x, 'e) registry" where
  "registerInTreePlugins factories registry = fold (\<lambda>t. Register t (factories t)) in_tree_types registry"

subsection \<open>The runner\<close>

text \<open>A custom collector is the name it registers under, a custom controller the result of its set-up function.\<close>

record ('w, 'd, 'x, 'e) runner =
  payloadProcessorExecutableName :: string
  r_preProcessors :: "('w, 'd, 'x, 'e) plug_instance list"
  r_profilePicker :: "('w, 'd, 'x, 'e) plug_instance option"
  r_profiles :: "(string, ('w, 'd, 'x, 'e) loaded_profile) gomap"
  r_postProcessors :: "('w, 'd, 'x, 'e) plug_instance list"
  r_responseHeadersPostProcessors :: "('w, 'd, 'x, 'e) plug_instance list"
  customCollectors :: "string list"
  customControllers :: "go_error option list"
  r_processor :: "('x, 'e) processor option"

definition NewRunner :: "('w, 'd, 'x, 'e) runner" where
  "NewRunner =
     \<lparr>payloadProcessorExecutableName = ''payload-processor'', r_preProcessors = [], r_profilePicker = None, r_profiles = [], r_postProcessors = [],
      r_responseHeadersPostProcessors = [], customCollectors = [], customControllers = [], r_processor = None\<rparr>"

definition WithExecutableName :: "string \<Rightarrow> ('w, 'd, 'x, 'e) runner \<Rightarrow> ('w, 'd, 'x, 'e) runner" where
  "WithExecutableName exeName r = r\<lparr>payloadProcessorExecutableName := exeName\<rparr>"

definition WithCustomCollectors :: "string list \<Rightarrow> ('w, 'd, 'x, 'e) runner \<Rightarrow> ('w, 'd, 'x, 'e) runner" where
  "WithCustomCollectors cs r = r\<lparr>customCollectors := cs\<rparr>"

definition WithCustomControllers :: "go_error option list \<Rightarrow> ('w, 'd, 'x, 'e) runner \<Rightarrow> ('w, 'd, 'x, 'e) runner" where
  "WithCustomControllers setupFuncs r = r\<lparr>customControllers := setupFuncs\<rparr>"

record ('w, 'd, 'x, 'e) run_env =
  parsed_flags :: options
  tracing_init :: "go_error option"
  rest_config :: "go_error option"
  new_manager :: "go_error option"
  metrics_registry :: "bool \<times> string list"
  add_metrics_handler :: "string \<Rightarrow> go_error option"
  read_file :: "string \<Rightarrow> go_error + string"
  decode_config :: "string \<Rightarrow> go_error + raw_config"
  prior_registry :: "('w, 'd, 'x, 'e) registry"
  factories :: "string \<Rightarrow> string \<Rightarrow> string \<Rightarrow> go_error + ('w, 'd, 'x, 'e) plug_instance"
  ord_plugins :: "(string \<times> ('w, 'd, 'x, 'e) plug_instance) list \<Rightarrow> (string \<times> ('w, 'd, 'x, 'e) plug_instance) list"
  ord_profiles :: "(string \<times> ('w, 'd, 'x, 'e) loaded_profile) list \<Rightarrow> (string \<times> ('w, 'd, 'x, 'e) loaded_profile) list"
  random_source :: "'w source"
  add_health :: "go_error option"
  add_ext_proc :: "go_error option"
  manager_start :: "go_error option"
  serving :: "('x, 'e) processor \<Rightarrow> ('x, 'e) processor"

text \<open>The configuration bytes: the text given on the command line, or else the file.\<close>

definition config_bytes :: "(string \<Rightarrow> go_error + string) \<Rightarrow> options \<Rightarrow> go_error + string" where
  "config_bytes read opts =
     (if ConfigText opts \<noteq> [] then Inr (ConfigText opts)
      else if ConfigFile opts \<noteq> [] then
        (case read (ConfigFile opts) of
           Inl e \<Rightarrow> Inl (PlainErr (''failed to load config from a file '' @ single_quoted (ConfigFile opts) @ '' - '' @ error_string e))
         | Inr bytes \<Rightarrow> Inr bytes)
      else Inr [])"

definition loadConfiguration ::
  "('w, 'd, 'x, 'e) run_env \<Rightarrow> options \<Rightarrow> ('w, 'd, 'x, 'e) runner \<Rightarrow> go_error option \<times> ('w, 'd, 'x, 'e) runner" where
  "loadConfiguration env opts r0 =
     (let r = r0\<lparr>r_processor := Some NewProcessor\<rparr>
      in case config_bytes (read_file env) opts of
           Inl e \<Rightarrow> (Some e, r)
         | Inr bytes \<Rightarrow>
             (case LoadConfiguration (decode_config env) (registerInTreePlugins (factories env) (prior_registry env))
                     (ord_plugins env) (ord_profiles env) (random_source env) bytes new_handle_plugins NewProcessor [] of
                Inl e \<Rightarrow> (Some e, r)
              | Inr (cfg, p, _) \<Rightarrow>
                  (None, r\<lparr>r_preProcessors := lc_PreProcessors cfg, r_profilePicker := lc_ProfilePicker cfg,
                           r_profiles := lc_Profiles cfg, r_postProcessors := lc_PostProcessors cfg,
                           r_responseHeadersPostProcessors := lc_ResponseHeadersPostProcessors cfg,
                           r_processor := Some p\<rparr>)))"

subsection \<open>Run\<close>

datatype action =
    TracingInitialised | RestConfigRead | MetricsRegistered | ManagerCreated int | PprofSet | ControllerAdded
  | ProcessorStarted | HealthAdded int | ExtProcAdded int | ManagerRan | ProcessorStopped

text \<open>Calls made in order up to the first that fails: its error, and the actions that succeeded.\<close>

fun attempt :: "(action \<times> go_error option) list \<Rightarrow> go_error option \<times> action list" where
  "attempt [] = (None, [])"
| "attempt ((a, Some e) # xs) = (Some e, [])"
| "attempt ((a, None) # xs) = (case attempt xs of (r, as) \<Rightarrow> (r, a # as))"

text \<open>Everything before the configuration; the manager serves the metrics.\<close>

definition setup_calls ::
  "('w, 'd, 'x, 'e) run_env \<Rightarrow> ('w, 'd, 'x, 'e) runner \<Rightarrow> options \<Rightarrow> (action \<times> go_error option) list" where
  "setup_calls env r opts =
     (if Tracing opts then [(TracingInitialised, tracing_init env)] else [])
     @ [(RestConfigRead, rest_config env),
        (MetricsRegistered, fst (Register_metrics (customCollectors r) (metrics_registry env))), (ManagerCreated (MetricsPort opts), new_manager env)]
     @ (if EnablePprof opts then [(PprofSet, fst (SetupPprofHandlers (add_metrics_handler env)))] else [])
     @ map (Pair ControllerAdded) (customControllers r)"

definition registerHealthServer :: "('w, 'd, 'x, 'e) run_env \<Rightarrow> int \<Rightarrow> action \<times> go_error option" where
  [simp]: "registerHealthServer env port = (HealthAdded port, add_health env)"

text \<open>From the start of the processor on: \<^verbatim>\<open>Stop\<close> is deferred, so it runs on every way out.\<close>

definition serve_phase ::
  "('w, 'd, 'x, 'e) run_env \<Rightarrow> options \<Rightarrow> ('x, 'e) processor \<Rightarrow> go_error option \<times> ('x, 'e) processor \<times> action list" where
  "serve_phase env opts p =
     (case Start_processor p of
        (Some e, p1) \<Rightarrow> (Some e, p1, [])
      | (None, p1) \<Rightarrow>
          (case attempt [registerHealthServer env (GRPCHealthPort opts), (ExtProcAdded (GRPCPort opts), add_ext_proc env)] of
             (Some e, acts) \<Rightarrow> (Some e, Stop_processor p1, ProcessorStarted # acts @ [ProcessorStopped])
           | (None, acts) \<Rightarrow>
               (manager_start env, Stop_processor (serving env p1),
                ProcessorStarted # acts @ [ManagerRan, ProcessorStopped])))"

definition Run ::
  "('w, 'd, 'x, 'e) run_env \<Rightarrow> ('w, 'd, 'x, 'e) runner \<Rightarrow> go_error option \<times> ('w, 'd, 'x, 'e) runner \<times> action list" where
  "Run env r =
     (case Validate (Complete (parsed_flags env)) of
        Inl e \<Rightarrow> (Some e, r, [])
      | Inr opts \<Rightarrow>
          (case attempt (setup_calls env r opts) of
             (Some e, acts) \<Rightarrow> (Some e, r, acts)
           | (None, acts) \<Rightarrow>
               (case loadConfiguration env opts r of
                  (Some e, r1) \<Rightarrow> (Some e, r1, acts)
                | (None, r1) \<Rightarrow>
                    (case serve_phase env opts (the (r_processor r1)) of
                       (e, p, acts') \<Rightarrow> (e, r1\<lparr>r_processor := Some p\<rparr>, acts @ acts')))))"

subsection \<open>Lemmas\<close>

lemma attempt_ok: "fst (attempt xs) = None \<longleftrightarrow> list_all (\<lambda>x. snd x = None) xs"
  by (induction xs rule: attempt.induct) (auto split: prod.splits)

lemma attempt_actions: "set (snd (attempt xs)) \<subseteq> fst ` set xs"
  by (induction xs rule: attempt.induct) (auto split: prod.splits)

lemma attempt_all: "attempt xs = (None, as) \<Longrightarrow> as = map fst xs"
  by (induction xs arbitrary: as rule: attempt.induct) (auto split: prod.splits)

lemma register_refs_fresh:
  assumes "register_refs h what get reg refs p = Inr p'" and "\<not> started p \<and> \<not> stopped p"
    and "\<And>x q. \<not> started q \<and> \<not> stopped q \<Longrightarrow> \<not> started (reg x q) \<and> \<not> stopped (reg x q)"
  shows "\<not> started p' \<and> \<not> stopped p'"
  using assms(1) [unfolded register_refs_def] assms(2)
  by (rule fold_err_inv) (auto simp: assms(3) split: option.splits)

lemma register_started [simp]:
  "started (RegisterCollector k f p) = started p" "stopped (RegisterCollector k f p) = stopped p"
  "started (RegisterExtractor e p) = started p" "stopped (RegisterExtractor e p) = stopped p"
  "started (RegisterDatasource d p) = started p" "stopped (RegisterDatasource d p) = stopped p"
  by (simp_all add: RegisterCollector_def RegisterExtractor_def RegisterDatasource_def Let_def)

lemma buildDatalayerSources_fresh:
  assumes "buildDatalayerSources dl h p = Inr p'" and "\<not> started p \<and> \<not> stopped p"
  shows "\<not> started p' \<and> \<not> stopped p'"
proof (cases dl)
  case None
  then show ?thesis using assms by (simp add: buildDatalayerSources_def)
next
  case (Some c)
  obtain p1 where 1: "register_refs h ''a Collector'' in_collector (\<lambda>(x, freq). RegisterCollector x freq)
      (dc_Collectors c) p = Inr p1"
    using assms(1) Some by (auto simp: buildDatalayerSources_def split: sum.splits)
  obtain p2 where 2: "register_refs h ''an Extractor'' in_extractor RegisterExtractor (dc_Extractors c) p1 = Inr p2"
    using assms(1) Some 1 by (auto simp: buildDatalayerSources_def split: sum.splits)
  have 3: "register_refs h ''a DataSource'' in_datasource RegisterDatasource (dc_Datasources c) p2 = Inr p'"
    using assms(1) Some 1 2 by (simp add: buildDatalayerSources_def)
  have "\<not> started p1 \<and> \<not> stopped p1" using register_refs_fresh [OF 1 assms(2)] by (simp split: prod.split)
  then have "\<not> started p2 \<and> \<not> stopped p2" using register_refs_fresh [OF 2] by simp
  then show ?thesis using register_refs_fresh [OF 3] by simp
qed

lemma loadConfiguration_processor:
  assumes "loadConfiguration env opts r = (None, r1)"
  obtains p where "r_processor r1 = Some p" "\<not> started p" "\<not> stopped p"
proof -
  obtain bytes where b: "config_bytes (read_file env) opts = Inr bytes"
    using assms by (auto simp: loadConfiguration_def Let_def split: sum.splits)
  obtain cfg p pls where l: "LoadConfiguration (decode_config env) (registerInTreePlugins (factories env) (prior_registry env))
      (ord_plugins env) (ord_profiles env) (random_source env) bytes new_handle_plugins NewProcessor [] = Inr (cfg, p, pls)"
    and r1: "r_processor r1 = Some p"
    using assms b by (auto simp: loadConfiguration_def Let_def split: sum.splits)
  from l show thesis
  proof (rule LoadConfiguration_steps)
    fix raw h1
    assume "buildDatalayerSources (rc_Datalayer raw) h1 NewProcessor = Inr p"
    from buildDatalayerSources_fresh [OF this] r1 that show thesis by (simp add: NewProcessor_def)
  qed
qed

lemma started_reachable: "reachable c c' \<Longrightarrow> started (proc c) \<Longrightarrow> started (proc c')"
proof (induction rule: reachable.induct)
  case (step c1 c2)
  then have "started (proc c1)" by simp
  with step.hyps(2) show ?case
    by (cases rule: proc_step.cases) (auto simp: processor_op_defs loop_turn_def split: if_splits list.splits)
qed

text \<open>While the manager runs, the processor only goes through the steps of \<^const>\<open>proc_step\<close>.\<close>

definition serves_by_steps :: "('w, 'd, 'x, 'e) run_env \<Rightarrow> bool" where
  "serves_by_steps env \<longleftrightarrow> (\<forall>p. \<exists>c c'. proc c = p \<and> reachable c c' \<and> proc c' = serving env p)"

lemma serving_started: "serves_by_steps env \<Longrightarrow> started p \<Longrightarrow> started (serving env p)"
  unfolding serves_by_steps_def using started_reachable by metis

text \<open>A processor with nothing left running.\<close>

definition shut_down :: "('x, 'e) processor \<Rightarrow> bool" where
  "shut_down p \<longleftrightarrow> stopped p \<and> \<not> loopRunning p \<and> runningCollectors p = [] \<and> runningDatasources p = []"

lemma Stop_shuts_down: "started p \<Longrightarrow> shut_down (Stop_processor p)"
  by (simp add: shut_down_def Stop_processor_def Let_def)

lemma serve_phase_shape:
  assumes "serves_by_steps env" and "\<not> started p" and "\<not> stopped p"
  obtains e p' mid where "serve_phase env opts p = (e, p', ProcessorStarted # mid @ [ProcessorStopped])" "shut_down p'"
    "set mid \<subseteq> {HealthAdded (GRPCHealthPort opts), ExtProcAdded (GRPCPort opts), ManagerRan}"
    "ExtProcAdded (GRPCPort opts) \<in> set mid \<Longrightarrow> HealthAdded (GRPCHealthPort opts) \<in> set mid"
    "e = None \<Longrightarrow> ManagerRan \<in> set mid \<and> ExtProcAdded (GRPCPort opts) \<in> set mid"
proof -
  obtain p1 where p1: "Start_processor p = (None, p1)" "started p1"
    using assms(2,3) by (simp add: Start_processor_def)
  have sd: "shut_down (Stop_processor p1)" "shut_down (Stop_processor (serving env p1))"
    using p1(2) serving_started [OF assms(1)] by (simp_all add: Stop_shuts_down)
  show thesis
  proof (cases "add_health env")
    case (Some e)
    then show thesis using p1 sd by (intro that [of "Some e" "Stop_processor p1" "[]"]) (simp_all add: serve_phase_def)
  next
    case None
    note h = None
    show thesis
    proof (cases "add_ext_proc env")
      case (Some e)
      then show thesis using p1 sd h
        by (intro that [of "Some e" "Stop_processor p1" "[HealthAdded (GRPCHealthPort opts)]"]) (simp_all add: serve_phase_def)
    next
      case None
      then show thesis using p1 sd h
        by (intro that [of "manager_start env" "Stop_processor (serving env p1)"
            "[HealthAdded (GRPCHealthPort opts), ExtProcAdded (GRPCPort opts), ManagerRan]"]) (simp_all add: serve_phase_def)
    qed
  qed
qed

lemma setup_actions:
  "set (snd (attempt (setup_calls env r opts))) \<subseteq>
     {TracingInitialised, RestConfigRead, MetricsRegistered, ManagerCreated (MetricsPort opts), PprofSet, ControllerAdded}"
  using attempt_actions [of "setup_calls env r opts"] by (auto simp: setup_calls_def split: if_splits)

lemma setup_done: "attempt (setup_calls env r opts) = (None, acts) \<Longrightarrow> ManagerCreated (MetricsPort opts) \<in> set acts"
  by (drule attempt_all) (simp add: setup_calls_def)

text \<open>The ways \<^const>\<open>Run\<close> ends: before the processor starts, or with the processor stopped.\<close>

lemma run_ends:
  assumes "serves_by_steps env"
  shows "(\<exists>e r acts. Run env r0 = (Some e, r, acts) \<and>
       set acts \<inter> ({ProcessorStarted} \<union> range HealthAdded \<union> range ExtProcAdded) = {})
   \<or> (\<exists>opts e r p pre mid. Run env r0 = (e, r, pre @ ProcessorStarted # mid @ [ProcessorStopped])
       \<and> ports_ok opts \<and> r_processor r = Some p \<and> shut_down p
       \<and> set pre \<inter> ({ProcessorStarted} \<union> range HealthAdded \<union> range ExtProcAdded) = {}
       \<and> ManagerCreated (MetricsPort opts) \<in> set pre
       \<and> set mid \<subseteq> {HealthAdded (GRPCHealthPort opts), ExtProcAdded (GRPCPort opts), ManagerRan}
       \<and> (ExtProcAdded (GRPCPort opts) \<in> set mid \<longrightarrow> HealthAdded (GRPCHealthPort opts) \<in> set mid)
       \<and> (e = None \<longrightarrow> ManagerRan \<in> set mid \<and> ExtProcAdded (GRPCPort opts) \<in> set mid))"
proof (cases "Validate (Complete (parsed_flags env))")
  case (Inl e)
  then show ?thesis by (simp add: Run_def)
next
  case (Inr opts)
  then have ok: "ports_ok opts"
    using Validate_cases [of "Complete (parsed_flags env)"] by (auto simp: ports_ok_def)
  obtain ea acts where att: "attempt (setup_calls env r0 opts) = (ea, acts)" by force
  have pre: "set acts \<inter> ({ProcessorStarted} \<union> range HealthAdded \<union> range ExtProcAdded) = {}"
    using setup_actions [of env r0 opts] att by auto
  show ?thesis
  proof (cases ea)
    case (Some e)
    then show ?thesis using Inr att pre by (simp add: Run_def)
  next
    case None
    obtain el r1 where lo: "loadConfiguration env opts r0 = (el, r1)" by force
    show ?thesis
    proof (cases el)
      case (Some e)
      then show ?thesis using Inr att None lo pre by (simp add: Run_def)
    next
      case none: None
      obtain p where p: "r_processor r1 = Some p" "\<not> started p" "\<not> stopped p"
        using lo none loadConfiguration_processor by metis
      obtain e p' mid where sp: "serve_phase env opts p = (e, p', ProcessorStarted # mid @ [ProcessorStopped])" "shut_down p'"
        "set mid \<subseteq> {HealthAdded (GRPCHealthPort opts), ExtProcAdded (GRPCPort opts), ManagerRan}"
        "ExtProcAdded (GRPCPort opts) \<in> set mid \<Longrightarrow> HealthAdded (GRPCHealthPort opts) \<in> set mid"
        "e = None \<Longrightarrow> ManagerRan \<in> set mid \<and> ExtProcAdded (GRPCPort opts) \<in> set mid"
        using serve_phase_shape [OF assms p(2,3)] by metis
      have "Run env r0 = (e, r1\<lparr>r_processor := Some p'\<rparr>, acts @ ProcessorStarted # mid @ [ProcessorStopped])"
        using Inr att None lo none p(1) sp(1) by (simp add: Run_def)
      then show ?thesis
        using ok pre setup_done [OF att [unfolded None]] sp(2-5)
        by (intro disjI2 exI [of _ opts] exI [of _ e] exI [of _ "r1\<lparr>r_processor := Some p'\<rparr>"] exI [of _ p']
            exI [of _ acts] exI [of _ mid]) simp
    qed
  qed
qed

subsection \<open>The default configuration\<close>

lemma map_of_registerInTreePlugins:
  "map_of (registerInTreePlugins fs reg) t = (if t \<in> set in_tree_types then Some (fs t) else map_of reg t)"
proof -
  have "map_of (fold (\<lambda>t. Register t (fs t)) ts reg) t = (if t \<in> set ts then Some (fs t) else map_of reg t)" for ts
    by (induction ts arbitrary: reg) (auto simp: Register_def)
  then show ?thesis by (simp add: registerInTreePlugins_def)
qed

lemma find_picker_none: "list_all (\<lambda>p. \<not> isProfilePicker p) ps \<Longrightarrow> find_picker ps = Inr None"
  unfolding find_picker_def by (induction ps) auto

text \<open>What the factories of the default configuration's plugins are to return.\<close>

definition default_factories ::
  "('w, 'd, 'x, 'e) run_env \<Rightarrow> ('w, 'd, 'x, 'e) plug_instance \<Rightarrow> ('w, 'd, 'x, 'e) plug_instance
     \<Rightarrow> ('w, 'd, 'x, 'e) plug_instance \<Rightarrow> bool" where
  "default_factories env field base pick \<longleftrightarrow>
     (\<forall>params. factories env ''body-field-to-header'' ''body-field-to-header'' params = Inr field
       \<and> factories env ''base-model-to-header'' ''base-model-to-header'' params = Inr base
       \<and> factories env ''single-profile-picker'' ''single-profile-picker'' params = Inr pick)
     \<and> isRequestProcessor field \<and> \<not> isProfilePicker field \<and> \<not> isModelSelector field
     \<and> isRequestProcessor base \<and> \<not> isProfilePicker base \<and> \<not> isModelSelector base
     \<and> isProfilePicker pick \<and> in_name pick = ''single-profile-picker''"

lemma default_configuration_loads:
  assumes "ConfigText opts = []" and "ConfigFile opts = []" and "default_factories env field base pick"
    and "perm_of (ord_plugins env)" and "perm_of (ord_profiles env)"
  shows "\<exists>r1 prof. loadConfiguration env opts r = (None, r1) \<and> r_profilePicker r1 = Some pick
    \<and> r_profiles r1 = [(''default'', prof)] \<and> lp_RequestPlugins prof = [field, base]
    \<and> lp_ResponsePlugins prof = [] \<and> \<not> lp_NeedsResponseBuffering prof"
proof -
  let ?h = "[(''body-field-to-header'', field), (''base-model-to-header'', base)]"
  have set: "set (map snd (ord_plugins env ?h)) = {field, base}" using assms(4) by (simp add: perm_of_set)
  have "find_picker (map snd (ord_plugins env ?h)) = Inr None"
    by (rule find_picker_none) (use set assms(3) in \<open>auto simp: list_all_iff default_factories_def\<close>)
  moreover have "ord_profiles env [x] = [x]" for x
    using assms(5) by (metis perm_of_mset mset_single_iff mset.simps)
  ultimately show ?thesis
    using assms(1-3)
    by (simp add: loadConfiguration_def config_bytes_def LoadConfiguration_def loadRawConfiguration_def loadDefaultConfig_def
        applyRawConfigDefaults_def instantiatePlugins_def instantiate_one_def map_of_registerInTreePlugins in_tree_types_def
        default_factories_def applyPluginDefaults_def registerDefaultPlugin_def SingleProfilePickerType_def set_picker_ref_def
        load_processors_def buildProfiles_def build_profile_def route_request_def empty_profile_def buildPreProcessors_def
        buildPostProcessors_def buildDatalayerSources_def buildModelSelector_def wire_selector_def Let_def)
qed

subsection \<open>Property\<close>

text \<open>
  C37: the runner cleans up and serves on sound ports. Whatever call fails, when \<^verbatim>\<open>Run\<close> returns after it
  has started the processor, stopping it was its last action and neither the event loop nor a
  collector or data source is left; servers are only added while the processor runs. The ext-proc
  server is added only together with the health server and the metrics endpoint of the manager, on
  three different ports between 1 and 65535. \<^verbatim>\<open>Run\<close> returns no error only after the manager ran with all
  of them; and when it returns before the processor starts it reports an error and no server was added.
\<close>

theorem run_lifecycle:
  assumes "serves_by_steps env"
  shows "case Run env r0 of (e, r, acts) \<Rightarrow>
    (if ProcessorStarted \<in> set acts
     then (\<exists>pre mid p. acts = pre @ ProcessorStarted # mid @ [ProcessorStopped]
             \<and> set pre \<inter> (range HealthAdded \<union> range ExtProcAdded) = {}
             \<and> r_processor r = Some p \<and> stopped p \<and> \<not> loopRunning p
             \<and> runningCollectors p = [] \<and> runningDatasources p = [])
     else e \<noteq> None \<and> set acts \<inter> (range HealthAdded \<union> range ExtProcAdded) = {})
    \<and> (\<forall>port. ExtProcAdded port \<in> set acts \<longrightarrow>
         (\<exists>h m. HealthAdded h \<in> set acts \<and> ManagerCreated m \<in> set acts \<and> distinct [port, h, m]
            \<and> (\<forall>q\<in>{port, h, m}. 1 \<le> q \<and> q \<le> 65535)))
    \<and> (e = None \<longrightarrow> ManagerRan \<in> set acts \<and> (\<exists>port. ExtProcAdded port \<in> set acts))"
  using run_ends [OF assms, of r0]
proof (elim disjE exE conjE)
  fix e r acts
  assume "Run env r0 = (Some e, r, acts)" "set acts \<inter> ({ProcessorStarted} \<union> range HealthAdded \<union> range ExtProcAdded) = {}"
  then show ?thesis by auto
next
  fix opts e r p pre mid
  assume run: "Run env r0 = (e, r, pre @ ProcessorStarted # mid @ [ProcessorStopped])"
    and ok: "ports_ok opts" and p: "r_processor r = Some p" "shut_down p"
    and pre: "set pre \<inter> ({ProcessorStarted} \<union> range HealthAdded \<union> range ExtProcAdded) = {}"
      "ManagerCreated (MetricsPort opts) \<in> set pre"
    and mid: "set mid \<subseteq> {HealthAdded (GRPCHealthPort opts), ExtProcAdded (GRPCPort opts), ManagerRan}"
      "ExtProcAdded (GRPCPort opts) \<in> set mid \<longrightarrow> HealthAdded (GRPCHealthPort opts) \<in> set mid"
      "e = None \<longrightarrow> ManagerRan \<in> set mid \<and> ExtProcAdded (GRPCPort opts) \<in> set mid"
  let ?acts = "pre @ ProcessorStarted # mid @ [ProcessorStopped]"
  have 1: "\<exists>pre mid p. ?acts = pre @ ProcessorStarted # mid @ [ProcessorStopped]
      \<and> set pre \<inter> (range HealthAdded \<union> range ExtProcAdded) = {} \<and> r_processor r = Some p \<and> stopped p
      \<and> \<not> loopRunning p \<and> runningCollectors p = [] \<and> runningDatasources p = []"
    using p pre(1) by (intro exI [of _ pre] exI [of _ mid] exI [of _ p]) (auto simp: shut_down_def)
  have 2: "\<exists>h m. HealthAdded h \<in> set ?acts \<and> ManagerCreated m \<in> set ?acts \<and> distinct [port, h, m]
      \<and> (\<forall>q\<in>{port, h, m}. 1 \<le> q \<and> q \<le> 65535)" if a: "ExtProcAdded port \<in> set ?acts" for port
  proof -
    have "ExtProcAdded port \<in> set mid" using a pre(1) by auto
    then have "port = GRPCPort opts" "HealthAdded (GRPCHealthPort opts) \<in> set mid" using mid(1,2) by auto
    then show ?thesis
      using ok pre(2) by (intro exI [of _ "GRPCHealthPort opts"] exI [of _ "MetricsPort opts"]) (simp add: ports_ok_def)
  qed
  show ?thesis using 1 2 mid(3) by (auto simp: run)
qed

definition sample_factory :: "string \<Rightarrow> (unit, unit, unit, unit) plug_instance" where
  "sample_factory n =
     (sample_instance n)\<lparr>isRequestProcessor := n \<noteq> ''single-profile-picker'', isModelSelector := False,
       isResponseProcessor := False\<rparr>"

definition sample_run_env :: "(unit, unit, unit, unit) run_env" where
  "sample_run_env =
     \<lparr>parsed_flags = NewOptions, tracing_init = None, rest_config = None, new_manager = None, metrics_registry = (False, []), add_metrics_handler = (\<lambda>_. None),
       read_file = (\<lambda>f. Inl (PlainErr f)), decode_config = (\<lambda>s. Inl (PlainErr s)),
      prior_registry = [], factories = (\<lambda>t n params. Inr (sample_factory n)), ord_plugins = rev, ord_profiles = rev,
      random_source = (\<lambda>w. (0, w)), add_health = None, add_ext_proc = None, manager_start = None, serving = (\<lambda>p. p)\<rparr>"

lemma sample_run_env_ends:
  "\<exists>r acts. Run sample_run_env NewRunner = (None, r, acts)"
proof -
  have ok: "Validate (Complete NewOptions) = Inr (Complete NewOptions)"
    by (simp add: Validate_def Complete_def NewOptions_def NewLoggingOptions_def LoggingOptions_Complete_def
        LoggingOptions_Validate_def DEFAULT_def DefaultGrpcPort_def DefaultGrpcHealthPort_def Let_def)
  have "default_factories sample_run_env (sample_factory ''body-field-to-header'') (sample_factory ''base-model-to-header'')
      (sample_factory ''single-profile-picker'')"
    by (simp add: default_factories_def sample_run_env_def sample_factory_def sample_instance_def)
  moreover have "ConfigText (Complete NewOptions) = []" "ConfigFile (Complete NewOptions) = []"
    by (simp_all add: Complete_def NewOptions_def)
  moreover have "perm_of (ord_plugins sample_run_env)" "perm_of (ord_profiles sample_run_env)"
    by (simp_all add: sample_run_env_def perm_of_rev)
  ultimately obtain r1 where l: "loadConfiguration sample_run_env (Complete NewOptions) NewRunner = (None, r1)"
    using default_configuration_loads by metis
  obtain p where p: "r_processor r1 = Some p" "\<not> started p" "\<not> stopped p"
    using loadConfiguration_processor [OF l] .
  have "attempt (setup_calls sample_run_env NewRunner opts) = (None, snd (attempt (setup_calls sample_run_env NewRunner opts)))" for opts
    using attempt_ok [of "setup_calls sample_run_env NewRunner opts"]
    by (simp add: setup_calls_def sample_run_env_def NewRunner_def Register_metrics_def own_collectors_names
        SetupPprofHandlers_def pprof_profiles_def prod_eq_iff)
  then obtain acts where a: "attempt (setup_calls sample_run_env NewRunner (Complete NewOptions)) = (None, acts)" by blast
  have "fst (serve_phase sample_run_env (Complete NewOptions) p) = None"
    using p(2,3) by (simp add: serve_phase_def Start_processor_def sample_run_env_def)
  then show ?thesis using ok l p(1) a by (auto simp: Run_def sample_run_env_def split: prod.splits)
qed

theorem run_lifecycle_witness:
  "\<exists>r acts p. Run sample_run_env NewRunner = (None, r, acts) \<and> ManagerRan \<in> set acts \<and> last acts = ProcessorStopped
     \<and> r_processor r = Some p \<and> stopped p"
proof -
  obtain r acts where run: "Run sample_run_env NewRunner = (None, r, acts)" using sample_run_env_ends by blast
  have "serves_by_steps sample_run_env"
    unfolding serves_by_steps_def
  proof
    fix p :: "(unit, unit) processor"
    let ?c = "(init_config ())\<lparr>proc := p\<rparr>"
    show "\<exists>c c'. proc c = p \<and> reachable c c' \<and> proc c' = serving sample_run_env p"
      using reachable.base by (intro exI [of _ ?c]) (auto simp: sample_run_env_def)
  qed
  from run_lifecycle [OF this, of NewRunner] run show ?thesis
    by (auto split: if_splits)
qed

end
