(* ===== verification/Cost_Metadata.thy ===== *)
theory Cost_Metadata
  imports Events
begin

text \<open>
  \<^verbatim>\<open>datalayer/requestcostmetadata/plugin.go\<close>: the extractor that turns each response into a cost
  sample and keeps a digest of them per model, reset at every window boundary and published to
  the store at most once per flush interval. The t-digest is the type \<open>'d\<close> with its operations
  as the argument \<open>ops\<close>; the clock reading of a batch is the argument \<open>now\<close>.
\<close>

subsection \<open>Operations\<close>

text \<open>\<^verbatim>\<open>tdigest.New\<close>, \<^verbatim>\<open>Reset\<close> and \<^verbatim>\<open>Add\<close>; a failed \<^verbatim>\<open>Add\<close> leaves the digest as it was.\<close>

record 'd digest_ops =
  d_new :: "real \<Rightarrow> go_error + 'd"
  d_reset :: "'d \<Rightarrow> 'd"
  d_add :: "real \<Rightarrow> 'd \<Rightarrow> go_error + 'd"

record 'd model_cost_accumulator =
  acc_digest :: 'd
  lastFlush :: gotime
  lastWindowStart :: gotime

record cost_extractor =
  compression :: real
  flushInterval :: duration
  windowDuration :: duration

type_synonym 'd cost_state = "(string, 'd model_cost_accumulator) gomap"

subsubsection \<open>Configuration\<close>

record cost_config =
  cc_Compression :: real
  cc_FlushIntervalDuration :: string
  cc_WindowDuration :: string

definition default_cost_config :: cost_config where
  "default_cost_config =
     \<lparr>cc_Compression = 200, cc_FlushIntervalDuration = ''5s'', cc_WindowDuration = ''2h0m0s''\<rparr>"

definition NewRequestCostMetadataExtractor ::
  "real \<Rightarrow> duration \<Rightarrow> duration \<Rightarrow> cost_extractor \<times> 'd cost_state" where
  "NewRequestCostMetadataExtractor c flush window =
     (\<lparr>compression = c, flushInterval = flush, windowDuration = window\<rparr>, [])"

text \<open>
  \<open>decode\<close> is the JSON decoding over the defaults, \<open>parse_duration\<close> the standard library's
  \<^verbatim>\<open>time.ParseDuration\<close>; the text of a wrapped error is left out.
\<close>

definition CostExtractorFactory ::
  "(string \<Rightarrow> cost_config \<Rightarrow> cost_config option) \<Rightarrow> (string \<Rightarrow> duration option) \<Rightarrow> string \<Rightarrow> string
     \<Rightarrow> go_error + cost_extractor \<times> 'd cost_state" where
  "CostExtractorFactory decode parse_duration name parameters =
     (case (if length parameters > 0 then decode parameters default_cost_config else Some default_cost_config) of
        None \<Rightarrow> Inl (PlainErr (''failed to parse parameters for plugin '' @ quoted name))
      | Some config \<Rightarrow>
          (case parse_duration (cc_FlushIntervalDuration config) of
             None \<Rightarrow> Inl (PlainErr (''invalid flushIntervalDuration '' @ quoted (cc_FlushIntervalDuration config)
                       @ '' for plugin '' @ quoted name))
           | Some flush \<Rightarrow>
               if flush < 0 then
                 Inl (PlainErr (''invalid flushIntervalDuration '' @ quoted (cc_FlushIntervalDuration config)
                       @ '' for plugin '' @ quoted name @ '': must be >= 0''))
               else
                 (case parse_duration (cc_WindowDuration config) of
                    None \<Rightarrow> Inl (PlainErr (''invalid windowDuration '' @ quoted (cc_WindowDuration config)
                              @ '' for plugin '' @ quoted name))
                  | Some window \<Rightarrow>
                      if window < 0 then
                        Inl (PlainErr (''invalid windowDuration '' @ quoted (cc_WindowDuration config)
                              @ '' for plugin '' @ quoted name @ '': must be >= 0''))
                      else Inr (NewRequestCostMetadataExtractor (cc_Compression config) flush window))))"

subsubsection \<open>Token counts\<close>

definition positive_pair :: "json_map \<Rightarrow> string \<Rightarrow> string \<Rightarrow> (real \<times> real) option" where
  "positive_pair usage promptKey completionKey =
     (case as_float (map_of usage promptKey) of
        None \<Rightarrow> None
      | Some prompt \<Rightarrow>
          if prompt \<le> 0 then None
          else
            (case as_float (map_of usage completionKey) of
               None \<Rightarrow> None
             | Some completion \<Rightarrow> if completion \<le> 0 then None else Some (prompt, completion)))"

definition extractOpenAI :: "json_map \<Rightarrow> (real \<times> real) option" where
  "extractOpenAI usage = positive_pair usage ''prompt_tokens'' ''completion_tokens''"

definition extractAnthropic :: "json_map \<Rightarrow> (real \<times> real) option" where
  "extractAnthropic usage = positive_pair usage ''input_tokens'' ''output_tokens''"

definition extractGoogle :: "json_map \<Rightarrow> (real \<times> real) option" where
  "extractGoogle usageMetadata = positive_pair usageMetadata ''promptTokenCount'' ''candidatesTokenCount''"

definition extractTokenCounts :: "json_mapvar \<Rightarrow> (real \<times> real) option" where
  "extractTokenCounts body =
     (case as_map (jget body ''usageMetadata'') of
        Some um \<Rightarrow> extractGoogle um
      | None \<Rightarrow>
          (case as_map (jget body ''usage'') of
             None \<Rightarrow> None
           | Some usage \<Rightarrow>
               if map_of usage ''prompt_tokens'' \<noteq> None then extractOpenAI usage
               else if map_of usage ''input_tokens'' \<noteq> None then extractAnthropic usage
               else None))"

text \<open>Looking up the prices creates the model when it is not registered.\<close>

definition lookupTokenPrices :: "string \<Rightarrow> 'd store \<Rightarrow> (real \<times> real) option \<times> 'd store" where
  "lookupTokenPrices name ds =
     (case GetOrCreateModel name ds of (m, ds') \<Rightarrow>
        (case Attr_Get (mattrs m) TokenPricesAttributeKey of
           None \<Rightarrow> (None, ds')
         | Some v \<Rightarrow> (as_TokenPrices v, ds')))"

definition getOrCreateAccumulator ::
  "'d digest_ops \<Rightarrow> cost_extractor \<Rightarrow> string \<Rightarrow> gotime \<Rightarrow> 'd cost_state
     \<Rightarrow> (go_error + 'd model_cost_accumulator) \<times> 'd cost_state" where
  "getOrCreateAccumulator ops e name now state =
     (case map_of state name of
        Some acc \<Rightarrow> (Inr acc, state)
      | None \<Rightarrow>
          (case d_new ops (compression e) of
             Inl err \<Rightarrow> (Inl err, state)
           | Inr d \<Rightarrow>
               let acc = \<lparr>acc_digest = d, lastFlush = now, lastWindowStart = now\<rparr>
               in (Inr acc, mput name acc state)))"

text \<open>
  One sample: the window is closed first when it is over, then the cost is added. The accumulator
  is shared with the extractor's map, so the reset stays even when the addition fails; the flag
  says whether the model goes into the map of updated models.
\<close>

definition add_sample ::
  "'d digest_ops \<Rightarrow> cost_extractor \<Rightarrow> gotime \<Rightarrow> string \<Rightarrow> real \<Rightarrow> 'd cost_state \<Rightarrow> bool \<times> 'd cost_state" where
  "add_sample ops e now name cost state =
     (case getOrCreateAccumulator ops e name now state of
        (Inl _, state1) \<Rightarrow> (False, state1)
      | (Inr acc, state1) \<Rightarrow>
          let acc1 = (if windowDuration e > 0 \<and> time_sub now (lastWindowStart acc) \<ge> windowDuration e
                      then acc\<lparr>acc_digest := d_reset ops (acc_digest acc), lastWindowStart := now\<rparr>
                      else acc)
          in (case d_add ops cost (acc_digest acc1) of
                Inl _ \<Rightarrow> (False, mput name acc1 state1)
              | Inr d \<Rightarrow> (True, mput name (acc1\<lparr>acc_digest := d\<rparr>) state1)))"

text \<open>The loop's variables: accumulators, updated models, cached prices, store.\<close>

type_synonym 'd cost_loop =
  "'d cost_state \<times> string list \<times> (string, real \<times> real) gomap \<times> 'd store"

definition cached_prices ::
  "string \<Rightarrow> (string, real \<times> real) gomap \<Rightarrow> 'd store
     \<Rightarrow> (real \<times> real) option \<times> (string, real \<times> real) gomap \<times> 'd store" where
  "cached_prices name cache ds =
     (case map_of cache name of
        Some tp \<Rightarrow> (Some tp, cache, ds)
      | None \<Rightarrow>
          (case lookupTokenPrices name ds of
             (None, ds') \<Rightarrow> (None, cache, ds')
           | (Some tp, ds') \<Rightarrow> (Some tp, mput name tp cache, ds')))"

definition cost_event ::
  "'d digest_ops \<Rightarrow> cost_extractor \<Rightarrow> gotime \<Rightarrow> event \<Rightarrow> 'd cost_loop \<Rightarrow> 'd cost_loop" where
  "cost_event ops e now ev st =
     (case st of (state, updated, cache, ds) \<Rightarrow>
        if ev_Type ev \<noteq> ResponseEventType then st
        else
          (case ev_Payload ev of
             ResponsePayload req resp _ _ _ \<Rightarrow>
               let name = jstring (Body req) ''model''
               in if name = [] then st
                  else
                    (case cached_prices name cache ds of
                       (None, cache1, ds1) \<Rightarrow> (state, updated, cache1, ds1)
                     | (Some (inputPrice, outputPrice), cache1, ds1) \<Rightarrow>
                         (case extractTokenCounts (Body resp) of
                            None \<Rightarrow> (state, updated, cache1, ds1)
                          | Some (promptTokens, completionTokens) \<Rightarrow>
                              (case add_sample ops e now name
                                      (promptTokens * inputPrice + completionTokens * outputPrice) state of
                                 (added, state1) \<Rightarrow>
                                   (state1, if added then List.insert name updated else updated, cache1, ds1))))
           | _ \<Rightarrow> st))"

text \<open>The flush decision for one updated model.\<close>

definition flush_model ::
  "cost_extractor \<Rightarrow> gotime \<Rightarrow> string \<Rightarrow> 'd cost_state \<times> 'd store \<Rightarrow> 'd cost_state \<times> 'd store" where
  "flush_model e now name st =
     (case st of (state, ds) \<Rightarrow>
        (case map_of state name of
           None \<Rightarrow> (state, ds)
         | Some acc \<Rightarrow>
             if flushInterval e > 0 \<and> time_sub now (lastFlush acc) < flushInterval e then (state, ds)
             else (mput name (acc\<lparr>lastFlush := now\<rparr>) state,
                   on_attrs name (Attr_Put CostDigestAttributeKey (Some (CostDigest (acc_digest acc)))) ds)))"

definition Extract_cost ::
  "'d digest_ops \<Rightarrow> cost_extractor \<Rightarrow> (string list \<Rightarrow> string list) \<Rightarrow> gotime \<Rightarrow> event list
     \<Rightarrow> 'd cost_state \<times> 'd store \<Rightarrow> go_error option \<times> ('d cost_state \<times> 'd store)" where
  "Extract_cost ops e ord now events s =
     (case s of (state, ds) \<Rightarrow>
        (case fold (cost_event ops e now) events (state, [], [], ds) of
           (state1, updated, _, ds1) \<Rightarrow> (None, fold (flush_model e now) (ord updated) (state1, ds1))))"

text \<open>The extractor as the event loop runs it: the \<open>n\<close>-th call reads the clock at \<open>clock n\<close>.\<close>

definition Extract_clocked ::
  "'d digest_ops \<Rightarrow> cost_extractor \<Rightarrow> (string list \<Rightarrow> string list) \<Rightarrow> (nat \<Rightarrow> gotime) \<Rightarrow> event list
     \<Rightarrow> nat \<times> ('d cost_state \<times> 'd store) \<Rightarrow> go_error option \<times> (nat \<times> ('d cost_state \<times> 'd store))" where
  "Extract_clocked ops e ord clock events ns =
     (case ns of (n, s) \<Rightarrow>
        (case Extract_cost ops e ord (clock n) events s of (err, s') \<Rightarrow> (err, (Suc n, s'))))"

subsection \<open>Lemmas\<close>

lemma positive_pair_positive: "positive_pair u k k' = Some (p, c) \<Longrightarrow> 0 < p \<and> 0 < c"
  by (auto simp: positive_pair_def split: option.splits if_splits)

lemma extractTokenCounts_positive: "extractTokenCounts body = Some (p, c) \<Longrightarrow> 0 < p \<and> 0 < c"
  by (auto simp: extractTokenCounts_def extractGoogle_def extractOpenAI_def extractAnthropic_def
      dest: positive_pair_positive split: option.splits if_splits)

lemma lookupTokenPrices_store: "snd (lookupTokenPrices n ds) = snd (GetOrCreateModel n ds)"
  by (simp add: lookupTokenPrices_def case_prod_beta split: option.split)

lemma store_ok_cached_prices: "store_ok ds \<Longrightarrow> store_ok (snd (snd (cached_prices n cache ds)))"
  using lookupTokenPrices_store [of n ds] GetOrCreateModel_ok(1) [of ds n]
  by (auto simp: cached_prices_def split: option.splits prod.splits)

lemma store_ok_cost_event:
  assumes "store_ok (snd (snd (snd st)))"
  shows "store_ok (snd (snd (snd (cost_event ops e now ev st))))"
proof -
  obtain state updated cache ds where st: "st = (state, updated, cache, ds)" by (metis surj_pair)
  show ?thesis
    using assms store_ok_cached_prices [of ds _ cache]
    by (auto simp: cost_event_def st Let_def split: payload.splits option.splits prod.splits)
       (metis snd_conv)+
qed

lemma store_ok_fold_cost_event:
  "store_ok (snd (snd (snd st))) \<Longrightarrow> store_ok (snd (snd (snd (fold (cost_event ops e now) evs st))))"
  by (induction evs arbitrary: st) (simp_all add: store_ok_cost_event)

lemma store_ok_flush_model: "store_ok (snd st) \<Longrightarrow> store_ok (snd (flush_model e now n st))"
  by (auto simp: flush_model_def store_ok_on_attrs split: prod.splits option.splits)

lemma store_ok_fold_flush: "store_ok (snd st) \<Longrightarrow> store_ok (snd (fold (flush_model e now) ns st))"
  by (induction ns arbitrary: st) (simp_all add: store_ok_flush_model)

lemma store_ok_Extract_cost:
  assumes "store_ok (snd s)"
  shows "store_ok (snd (snd (Extract_cost ops e ord now evs s)))"
proof -
  obtain state ds where s: "s = (state, ds)" by (cases s)
  have "store_ok (snd (snd (snd (fold (cost_event ops e now) evs (state, [], [], ds)))))"
    by (rule store_ok_fold_cost_event) (use assms s in simp)
  then show ?thesis
    by (auto simp: Extract_cost_def s store_ok_fold_flush split: prod.splits)
qed

lemma Extract_clocked_keeps:
  "store_ok (snd (snd ns)) \<Longrightarrow> store_ok (snd (snd (snd (Extract_clocked ops e ord clock evs ns))))"
  using store_ok_Extract_cost [of "snd ns" ops e ord "clock (fst ns)" evs]
  by (auto simp: Extract_clocked_def split: prod.splits)

lemma Extract_clocked_succeeds: "fst (Extract_clocked ops e ord clock evs ns) = None"
  by (simp add: Extract_clocked_def Extract_cost_def split: prod.split)

interpretation cost: extractor_contract "Extract_clocked ops e ord clock" "\<lambda>ns. store_ok (snd (snd ns))"
  by unfold_locales (simp_all add: Extract_clocked_keeps Extract_clocked_succeeds)

text \<open>Prices of a registered model are found, and looking them up changes nothing a reader sees.\<close>

lemma cached_prices_priced:
  assumes "attr_of ds n TokenPricesAttributeKey = Some (TokenPrices pin pout)"
  shows "cached_prices n [] ds = (Some (pin, pout), [(n, (pin, pout))], ds)"
  using assms
  by (auto simp: cached_prices_def lookupTokenPrices_def attr_of_def GetOrCreateModel_def
      split: option.splits)

lemma perm_of_singleton: "perm_of ord \<Longrightarrow> ord [x] = [x]"
  using perm_of_mset [of ord "[x]"] by (simp add: mset_single_iff)

subsection \<open>Properties\<close>

text \<open>Whether a model's window is over, and whether its digest is due for publication.\<close>

definition window_over :: "cost_extractor \<Rightarrow> gotime \<Rightarrow> 'd model_cost_accumulator \<Rightarrow> bool" where
  "window_over e now acc \<longleftrightarrow> windowDuration e > 0 \<and> time_sub now (lastWindowStart acc) \<ge> windowDuration e"

definition flush_due :: "cost_extractor \<Rightarrow> gotime \<Rightarrow> 'd model_cost_accumulator \<Rightarrow> bool" where
  "flush_due e now acc \<longleftrightarrow> \<not> (flushInterval e > 0 \<and> time_sub now (lastFlush acc) < flushInterval e)"


text \<open>A digest that keeps its samples, for the concrete run below.\<close>

definition list_digest :: "real list digest_ops" where
  "list_digest = \<lparr>d_new = (\<lambda>_. Inr []), d_reset = (\<lambda>_. []), d_add = (\<lambda>x d. Inr (x # d))\<rparr>"


end
