(* ===== verification/Factories.thy ===== *)
theory Factories
  imports Runner Policies Cost_Guard Cost_Metadata
begin

text \<open>
  The factories of the in-tree plugins (the \<^verbatim>\<open>New\<dots>\<close>, \<^verbatim>\<open>WithName\<close> and \<^verbatim>\<open>Factory\<close> functions under \<^verbatim>\<open>pkg/framework/plugins\<close>) and the
  instances they make: the name of the instance, the interfaces its type implements, and the model selector functions it
  brings. With them in the registry a configuration is loaded into a pipeline of the functions that the other
  theories are about, so that what \<open>Policies\<close> shows of a pipeline holds of a configuration.

  What a factory gets from libraries and from the process is the record \<open>plugin_env\<close>: the decoders of parameters,
  the random source, the session cache, the digests, and the parts of the shared state on which extractors and
  data sources work.
\<close>

subsection \<open>Typed names and instances\<close>

record typed_name =
  tn_Type :: string
  tn_Name :: string

record ('w, 'd, 'x, 'e) plugin_env =
  pe_show :: "typed_name \<Rightarrow> string"
  pe_random :: "'w source"
  pe_tie :: "'d scored_model \<times> real \<Rightarrow> nat"
  pe_decode_field :: "string \<Rightarrow> go_error + string \<times> string"
  pe_decode_header :: "string \<Rightarrow> go_error + string"
  pe_decode_session :: "string \<Rightarrow> session_affinity_config \<Rightarrow> go_error + session_affinity_config"
  pe_decode_guard :: "string \<Rightarrow> costguard_config \<Rightarrow> costguard_config option"
  pe_decode_cost :: "string \<Rightarrow> cost_config \<Rightarrow> cost_config option"
  pe_decode_path :: "string \<Rightarrow> go_error + string"
  pe_fmt :: "real \<Rightarrow> string"
  pe_parse_duration :: "string \<Rightarrow> duration option"
  pe_abs_path :: "string \<Rightarrow> go_error + string"
  pe_stat :: "string \<Rightarrow> go_error + bool"
  pe_register_err :: "go_error option"
  pe_cache_get :: "session_affinity_scorer \<Rightarrow> string \<Rightarrow> 'w \<Rightarrow> string option \<times> 'w"
  pe_digest_count :: "'d \<Rightarrow> nat"
  pe_trimmed_mean :: "'d \<Rightarrow> real \<Rightarrow> real \<Rightarrow> real"
  pe_extract_counts :: "'e extractor"
  pe_extract_costs :: "cost_extractor \<Rightarrow> 'e extractor"
  pe_source :: "model_config_source \<Rightarrow> 'x"

text \<open>An instance that implements nothing but \<^verbatim>\<open>TypedName\<close>; the factories switch on what their type implements.\<close>

definition bare_instance :: "('w, 'd, 'x, 'e) plugin_env \<Rightarrow> typed_name \<Rightarrow> ('w, 'd, 'x, 'e) plug_instance" where
  "bare_instance env tn =
     \<lparr>in_name = tn_Name tn,
      in_plugin = \<lparr>po_name = pe_show env tn, po_filter = None, po_scorer = None, po_picker = None\<rparr>,
      isProfilePicker = False, isRequestProcessor = False, isResponseProcessor = False,
      isResponseHeadersProcessor = False, isResponseChunkProcessor = False, isModelSelector = False,
      in_collector = None, in_extractor = None, in_datasource = None\<rparr>"

definition picker_instance ::
  "('w, 'd, 'x, 'e) plugin_env \<Rightarrow> typed_name \<Rightarrow> ('w, 'd) picker_fn \<Rightarrow> ('w, 'd, 'x, 'e) plug_instance" where
  "picker_instance env tn pick =
     (bare_instance env tn)\<lparr>in_plugin := (in_plugin (bare_instance env tn))\<lparr>po_picker := Some pick\<rparr>\<rparr>"

definition scorer_instance ::
  "('w, 'd, 'x, 'e) plugin_env \<Rightarrow> typed_name \<Rightarrow> ('w, 'd) scorer_fn \<Rightarrow> ('w, 'd, 'x, 'e) plug_instance" where
  "scorer_instance env tn score =
     (bare_instance env tn)\<lparr>in_plugin := (in_plugin (bare_instance env tn))\<lparr>po_scorer := Some score\<rparr>\<rparr>"

definition filter_instance ::
  "('w, 'd, 'x, 'e) plugin_env \<Rightarrow> typed_name \<Rightarrow> ('w, 'd) filter_fn \<Rightarrow> ('w, 'd, 'x, 'e) plug_instance" where
  "filter_instance env tn flt =
     (bare_instance env tn)\<lparr>in_plugin := (in_plugin (bare_instance env tn))\<lparr>po_filter := Some flt\<rparr>\<rparr>"

subsection \<open>Pickers\<close>

text \<open>The struct of a plugin without settings is its typed name.\<close>

definition NewMaxScorePicker :: typed_name where
  "NewMaxScorePicker = \<lparr>tn_Type = ''max-score-picker'', tn_Name = ''max-score-picker''\<rparr>"

definition MaxScorePicker_WithName :: "string \<Rightarrow> typed_name \<Rightarrow> typed_name" where
  "MaxScorePicker_WithName name p = p\<lparr>tn_Name := name\<rparr>"

definition MaxScorePickerFactory ::
  "('w, 'd, 'x, 'e) plugin_env \<Rightarrow> string \<Rightarrow> string \<Rightarrow> go_error + ('w, 'd, 'x, 'e) plug_instance" where
  "MaxScorePickerFactory env name raw =
     Inr (picker_instance env (MaxScorePicker_WithName name NewMaxScorePicker) (MaxScorePicker_Pick (pe_random env)))"

definition NewRandomPicker :: typed_name where
  "NewRandomPicker = \<lparr>tn_Type = ''random-picker'', tn_Name = ''random-picker''\<rparr>"

definition RandomPicker_WithName :: "string \<Rightarrow> typed_name \<Rightarrow> typed_name" where
  "RandomPicker_WithName name p = p\<lparr>tn_Name := name\<rparr>"

definition RandomPickerFactory ::
  "('w, 'd, 'x, 'e) plugin_env \<Rightarrow> string \<Rightarrow> string \<Rightarrow> go_error + ('w, 'd, 'x, 'e) plug_instance" where
  "RandomPickerFactory env name raw =
     Inr (picker_instance env (RandomPicker_WithName name NewRandomPicker) (RandomPicker_Pick (pe_random env)))"

text \<open>The weighted random picker carries the random picker it falls back to, and hands its name on to it.\<close>

record weighted_random_picker =
  wp_typedName :: typed_name
  wp_randomPicker :: typed_name

definition NewWeightedRandomPicker :: weighted_random_picker where
  "NewWeightedRandomPicker =
     \<lparr>wp_typedName = \<lparr>tn_Type = ''weighted-random-picker'', tn_Name = ''weighted-random-picker''\<rparr>,
      wp_randomPicker = NewRandomPicker\<rparr>"

definition WeightedRandomPicker_WithName :: "string \<Rightarrow> weighted_random_picker \<Rightarrow> weighted_random_picker" where
  "WeightedRandomPicker_WithName name p =
     p\<lparr>wp_typedName := (wp_typedName p)\<lparr>tn_Name := name\<rparr>,
       wp_randomPicker := RandomPicker_WithName name (wp_randomPicker p)\<rparr>"

definition WeightedRandomPickerFactory ::
  "('w, 'd, 'x, 'e) plugin_env \<Rightarrow> string \<Rightarrow> string \<Rightarrow> go_error + ('w, 'd, 'x, 'e) plug_instance" where
  "WeightedRandomPickerFactory env name raw =
     Inr (picker_instance env (wp_typedName (WeightedRandomPicker_WithName name NewWeightedRandomPicker))
       (WeightedRandomPicker_Pick (pe_tie env) (pe_random env)))"

subsection \<open>Filter and scorers\<close>

definition NewModelGroupFilter :: typed_name where
  "NewModelGroupFilter = \<lparr>tn_Type = ''model-group-name-filter'', tn_Name = ''model-group-name-filter''\<rparr>"

definition ModelGroupFilter_WithName :: "string \<Rightarrow> typed_name \<Rightarrow> typed_name" where
  "ModelGroupFilter_WithName name f = f\<lparr>tn_Name := name\<rparr>"

definition ModelGroupFilterFactory ::
  "('w, 'd, 'x, 'e) plugin_env \<Rightarrow> string \<Rightarrow> string \<Rightarrow> go_error + ('w, 'd, 'x, 'e) plug_instance" where
  "ModelGroupFilterFactory env name raw =
     Inr (filter_instance env (ModelGroupFilter_WithName name NewModelGroupFilter) ModelGroupFilter_Filter)"

definition NewCostScorer :: typed_name where
  "NewCostScorer = \<lparr>tn_Type = ''cost-scorer'', tn_Name = ''cost-scorer''\<rparr>"

definition CostScorer_WithName :: "string \<Rightarrow> typed_name \<Rightarrow> typed_name" where
  "CostScorer_WithName name s = s\<lparr>tn_Name := name\<rparr>"

definition CostScorerFactory ::
  "('w, 'd, 'x, 'e) plugin_env \<Rightarrow> string \<Rightarrow> string \<Rightarrow> go_error + ('w, 'd, 'x, 'e) plug_instance" where
  "CostScorerFactory env name raw = Inr (scorer_instance env (CostScorer_WithName name NewCostScorer) CostScorer_Score)"

definition NewInflightRequestsScorer :: typed_name where
  "NewInflightRequestsScorer = \<lparr>tn_Type = ''inflight-requests-scorer'', tn_Name = ''inflight-requests-scorer''\<rparr>"

definition InflightRequestsScorer_WithName :: "string \<Rightarrow> typed_name \<Rightarrow> typed_name" where
  "InflightRequestsScorer_WithName name s = s\<lparr>tn_Name := name\<rparr>"

definition InflightRequests_ScorerFactory ::
  "('w, 'd, 'x, 'e) plugin_env \<Rightarrow> string \<Rightarrow> string \<Rightarrow> go_error + ('w, 'd, 'x, 'e) plug_instance" where
  "InflightRequests_ScorerFactory env name raw =
     Inr (scorer_instance env (InflightRequestsScorer_WithName name NewInflightRequestsScorer) InflightRequestsScorer_Score)"

text \<open>The session affinity scorer is a response processor too.\<close>

definition session_affinity_instance ::
  "('w, 'd, 'x, 'e) plugin_env \<Rightarrow> string \<Rightarrow> string \<Rightarrow> go_error + ('w, 'd, 'x, 'e) plug_instance" where
  "session_affinity_instance env name raw =
     map_sum id (\<lambda>s. (scorer_instance env \<lparr>tn_Type = ''session-affinity'', tn_Name = sa_name s\<rparr>
         (SessionAffinity_Score (pe_cache_get env s) (sa_sessionIDKey s)))\<lparr>isResponseProcessor := True\<rparr>)
       (SessionAffinity_ScorerFactory (pe_decode_session env) name raw)"

definition CostGuardScorer_WithName :: "string \<Rightarrow> typed_name \<Rightarrow> typed_name" where
  "CostGuardScorer_WithName name s = s\<lparr>tn_Name := name\<rparr>"

definition costguard_instance ::
  "('w, 'd, 'x, 'e) plugin_env \<Rightarrow> string \<Rightarrow> string \<Rightarrow> go_error + ('w, 'd, 'x, 'e) plug_instance" where
  "costguard_instance env name raw =
     map_sum id (\<lambda>s. scorer_instance env
         (CostGuardScorer_WithName name \<lparr>tn_Type = ''costguard'', tn_Name = ''costguard''\<rparr>)
         (CostGuard_Score (pe_random env) (pe_digest_count env) (pe_trimmed_mean env) s))
       (ScorerFactory (pe_decode_guard env) quoted (pe_fmt env) name raw)"

subsection \<open>Request and response plugins\<close>

definition NewSingleProfilePicker :: typed_name where
  "NewSingleProfilePicker = \<lparr>tn_Type = ''single-profile-picker'', tn_Name = ''single-profile-picker''\<rparr>"

definition SingleProfilePicker_WithName :: "string \<Rightarrow> typed_name \<Rightarrow> typed_name" where
  "SingleProfilePicker_WithName name p = p\<lparr>tn_Name := name\<rparr>"

definition SingleProfilePickerFactory ::
  "('w, 'd, 'x, 'e) plugin_env \<Rightarrow> string \<Rightarrow> string \<Rightarrow> go_error + ('w, 'd, 'x, 'e) plug_instance" where
  "SingleProfilePickerFactory env name raw =
     Inr ((bare_instance env (SingleProfilePicker_WithName name NewSingleProfilePicker))\<lparr>isProfilePicker := True\<rparr>)"

text \<open>A model selector starts with an empty pipeline, which the loader fills.\<close>

definition NewModelSelectorPlugin :: typed_name where
  "NewModelSelectorPlugin = \<lparr>tn_Type = ''model-selector'', tn_Name = ''model-selector''\<rparr>"

definition ModelSelectorPlugin_WithName :: "string \<Rightarrow> typed_name \<Rightarrow> typed_name" where
  "ModelSelectorPlugin_WithName name p = p\<lparr>tn_Name := name\<rparr>"

definition ModelSelectorPluginFactory ::
  "('w, 'd, 'x, 'e) plugin_env \<Rightarrow> string \<Rightarrow> string \<Rightarrow> go_error + ('w, 'd, 'x, 'e) plug_instance" where
  "ModelSelectorPluginFactory env name raw =
     Inr ((bare_instance env (ModelSelectorPlugin_WithName name NewModelSelectorPlugin))
       \<lparr>isRequestProcessor := True, isModelSelector := True\<rparr>)"

definition body_field_instance ::
  "('w, 'd, 'x, 'e) plugin_env \<Rightarrow> string \<Rightarrow> string \<Rightarrow> go_error + ('w, 'd, 'x, 'e) plug_instance" where
  "body_field_instance env name raw =
     map_sum id (\<lambda>_. (bare_instance env \<lparr>tn_Type = BodyFieldToHeaderPluginType, tn_Name = name\<rparr>)\<lparr>isRequestProcessor := True\<rparr>)
       (BodyFieldToHeaderPluginFactory (pe_decode_field env) raw)"

definition base_model_instance ::
  "('w, 'd, 'x, 'e) plugin_env \<Rightarrow> string \<Rightarrow> string \<Rightarrow> go_error + ('w, 'd, 'x, 'e) plug_instance" where
  "base_model_instance env name raw =
     map_sum id (\<lambda>(n, _). (bare_instance env \<lparr>tn_Type = ''base-model-to-header'', tn_Name = n\<rparr>)\<lparr>isRequestProcessor := True\<rparr>)
       (BaseModelToHeaderPluginFactory name (pe_register_err env))"

definition model_name_instance ::
  "('w, 'd, 'x, 'e) plugin_env \<Rightarrow> string \<Rightarrow> string \<Rightarrow> go_error + ('w, 'd, 'x, 'e) plug_instance" where
  "model_name_instance env name raw =
     map_sum id (\<lambda>_. (bare_instance env \<lparr>tn_Type = ''model-name-to-header'', tn_Name = name\<rparr>)
         \<lparr>isResponseHeadersProcessor := True\<rparr>)
       (ModelNameToHeaderFactory (pe_decode_header env) raw)"

subsection \<open>Data layer plugins\<close>

definition NewRequestMetadataExtractor :: "typed_name \<times> counters" where
  "NewRequestMetadataExtractor =
     (\<lparr>tn_Type = ''request-metadata-extractor'', tn_Name = ''request-metadata-extractor''\<rparr>, [])"

definition RequestMetadataExtractor_WithName :: "string \<Rightarrow> typed_name \<times> counters \<Rightarrow> typed_name \<times> counters" where
  "RequestMetadataExtractor_WithName name e = ((fst e)\<lparr>tn_Name := name\<rparr>, snd e)"

definition RequestMetadata_ExtractorFactory ::
  "('w, 'd, 'x, 'e) plugin_env \<Rightarrow> string \<Rightarrow> string \<Rightarrow> go_error + ('w, 'd, 'x, 'e) plug_instance" where
  "RequestMetadata_ExtractorFactory env name raw =
     Inr ((bare_instance env (fst (RequestMetadataExtractor_WithName name NewRequestMetadataExtractor)))
       \<lparr>in_extractor := Some (pe_extract_counts env)\<rparr>)"

definition cost_extractor_instance ::
  "('w, 'd, 'x, 'e) plugin_env \<Rightarrow> string \<Rightarrow> string \<Rightarrow> go_error + ('w, 'd, 'x, 'e) plug_instance" where
  "cost_extractor_instance env name raw =
     map_sum id (\<lambda>(e, _ :: 'd cost_state). (bare_instance env \<lparr>tn_Type = ''model-cost-extractor'', tn_Name = name\<rparr>)
         \<lparr>in_extractor := Some (pe_extract_costs env e)\<rparr>)
       (CostExtractorFactory (pe_decode_cost env) (pe_parse_duration env) name raw)"

definition model_config_instance ::
  "('w, 'd, 'x, 'e) plugin_env \<Rightarrow> string \<Rightarrow> string \<Rightarrow> go_error + ('w, 'd, 'x, 'e) plug_instance" where
  "model_config_instance env name raw =
     map_sum id (\<lambda>d. (bare_instance env \<lparr>tn_Type = ''model-config-datasource'', tn_Name = ms_Name d\<rparr>)
         \<lparr>in_datasource := Some (pe_source env d)\<rparr>)
       (DatasourceFactory (pe_decode_path env) (pe_abs_path env) (pe_stat env) name raw)"

subsection \<open>The registry\<close>

text \<open>The factory that \<^verbatim>\<open>registerInTreePlugins\<close> registers for each type.\<close>

definition in_tree_table ::
  "('w, 'd, 'x, 'e) plugin_env \<Rightarrow> (string \<times> (string \<Rightarrow> string \<Rightarrow> go_error + ('w, 'd, 'x, 'e) plug_instance)) list" where
  "in_tree_table env =
     [(''single-profile-picker'', SingleProfilePickerFactory env),
      (''body-field-to-header'', body_field_instance env),
      (''base-model-to-header'', base_model_instance env),
      (''request-metadata-extractor'', RequestMetadata_ExtractorFactory env),
      (''model-cost-extractor'', cost_extractor_instance env),
      (''model-config-datasource'', model_config_instance env),
      (''model-group-name-filter'', ModelGroupFilterFactory env),
      (''random-picker'', RandomPickerFactory env),
      (''max-score-picker'', MaxScorePickerFactory env),
      (''weighted-random-picker'', WeightedRandomPickerFactory env),
      (''model-selector'', ModelSelectorPluginFactory env),
      (''inflight-requests-scorer'', InflightRequests_ScorerFactory env),
      (''session-affinity'', session_affinity_instance env),
      (''costguard'', costguard_instance env),
      (''model-name-to-header'', model_name_instance env)]"

definition in_tree_registry :: "('w, 'd, 'x, 'e) plugin_env \<Rightarrow> ('w, 'd, 'x, 'e) registry" where
  "in_tree_registry env = registerInTreePlugins (\<lambda>t. the (map_of (in_tree_table env) t)) []"

end
