(* ===== verification/Configured.thy ===== *)
theory Configured
  imports Factories
begin

text \<open>
  From a configuration to a routed request: the in-tree registry, the loader, the data layer, the model selector and its
  plugins together.
\<close>

subsection \<open>The in-tree registry\<close>

lemma map_of_in_tree_registry: "map_of (in_tree_registry env) t = map_of (in_tree_table env) t"
proof -
  have "set in_tree_types = dom (map_of (in_tree_table env))"
    by (simp add: in_tree_types_def in_tree_table_def dom_map_of_conv_image_fst)
  then show ?thesis
    by (auto simp: in_tree_registry_def map_of_registerInTreePlugins dom_def)
qed

lemmas instance_defs = bare_instance_def filter_instance_def scorer_instance_def picker_instance_def

lemmas factory_defs =
  SingleProfilePickerFactory_def SingleProfilePicker_WithName_def NewSingleProfilePicker_def
  RequestMetadata_ExtractorFactory_def RequestMetadataExtractor_WithName_def NewRequestMetadataExtractor_def
  ModelGroupFilterFactory_def ModelGroupFilter_WithName_def NewModelGroupFilter_def
  RandomPickerFactory_def RandomPicker_WithName_def NewRandomPicker_def
  MaxScorePickerFactory_def MaxScorePicker_WithName_def NewMaxScorePicker_def
  WeightedRandomPickerFactory_def WeightedRandomPicker_WithName_def NewWeightedRandomPicker_def
  ModelSelectorPluginFactory_def ModelSelectorPlugin_WithName_def NewModelSelectorPlugin_def
  InflightRequests_ScorerFactory_def InflightRequestsScorer_WithName_def NewInflightRequestsScorer_def
  CostScorerFactory_def CostScorer_WithName_def NewCostScorer_def

text \<open>
  An instance that carries the given name and type and plays the part of its type in the model selector, and none
  besides.
\<close>

definition made_as :: "('w, 'd, 'x, 'e) plugin_env \<Rightarrow> string \<Rightarrow> string \<Rightarrow> ('w, 'd, 'x, 'e) plug_instance \<Rightarrow> bool" where
  "made_as env t name p \<longleftrightarrow>
     in_name p = name \<and> po_name (in_plugin p) = pe_show env \<lparr>tn_Type = t, tn_Name = name\<rparr>
     \<and> isProfilePicker p = (t = ''single-profile-picker'') \<and> isModelSelector p = (t = ''model-selector'')
     \<and> (po_scorer (in_plugin p) \<noteq> None) = (t \<in> {''inflight-requests-scorer'', ''session-affinity'', ''costguard''})
     \<and> (po_picker (in_plugin p) \<noteq> None) = (t \<in> {''random-picker'', ''max-score-picker'', ''weighted-random-picker''})
     \<and> (po_filter (in_plugin p) \<noteq> None) = (t = ''model-group-name-filter'')"

lemma map_sum_Inr: "map_sum f g x = Inr y \<longleftrightarrow> (\<exists>z. x = Inr z \<and> y = g z)"
  by (cases x) auto

lemma simple_factories:
  "SingleProfilePickerFactory env name raw = Inr p \<Longrightarrow> made_as env ''single-profile-picker'' name p"
  "RequestMetadata_ExtractorFactory env name raw = Inr p \<Longrightarrow> made_as env ''request-metadata-extractor'' name p"
  "ModelGroupFilterFactory env name raw = Inr p \<Longrightarrow> made_as env ''model-group-name-filter'' name p"
  "RandomPickerFactory env name raw = Inr p \<Longrightarrow> made_as env ''random-picker'' name p"
  "MaxScorePickerFactory env name raw = Inr p \<Longrightarrow> made_as env ''max-score-picker'' name p"
  "WeightedRandomPickerFactory env name raw = Inr p \<Longrightarrow> made_as env ''weighted-random-picker'' name p"
  "ModelSelectorPluginFactory env name raw = Inr p \<Longrightarrow> made_as env ''model-selector'' name p"
  "InflightRequests_ScorerFactory env name raw = Inr p \<Longrightarrow> made_as env ''inflight-requests-scorer'' name p"
  by (auto simp: made_as_def factory_defs instance_defs)

lemma configured_factories:
  "body_field_instance env name raw = Inr p \<Longrightarrow> made_as env ''body-field-to-header'' name p"
  "base_model_instance env name raw = Inr p \<Longrightarrow> made_as env ''base-model-to-header'' name p"
  "cost_extractor_instance env name raw = Inr p \<Longrightarrow> made_as env ''model-cost-extractor'' name p"
  "model_config_instance env name raw = Inr p \<Longrightarrow> made_as env ''model-config-datasource'' name p"
  "session_affinity_instance env name raw = Inr p \<Longrightarrow> made_as env ''session-affinity'' name p"
  "costguard_instance env name raw = Inr p \<Longrightarrow> made_as env ''costguard'' name p"
  "model_name_instance env name raw = Inr p \<Longrightarrow> made_as env ''model-name-to-header'' name p"
proof -
  show "base_model_instance env name raw = Inr p \<Longrightarrow> made_as env ''base-model-to-header'' name p"
    by (auto simp: base_model_instance_def BaseModelToHeaderPluginFactory_def NewBaseModelToHeaderPlugin_def
        map_sum_Inr made_as_def instance_defs split: option.splits)
  show "model_config_instance env name raw = Inr p \<Longrightarrow> made_as env ''model-config-datasource'' name p"
    by (auto simp: model_config_instance_def DatasourceFactory_def NewModelConfigDataSource_def map_sum_Inr made_as_def
        instance_defs split: sum.splits if_splits)
  show "session_affinity_instance env name raw = Inr p \<Longrightarrow> made_as env ''session-affinity'' name p"
    by (auto simp: session_affinity_instance_def SessionAffinity_ScorerFactory_def Let_def map_sum_Inr made_as_def
        instance_defs split: sum.splits)
  show "body_field_instance env name raw = Inr p \<Longrightarrow> made_as env ''body-field-to-header'' name p"
    "cost_extractor_instance env name raw = Inr p \<Longrightarrow> made_as env ''model-cost-extractor'' name p"
    "costguard_instance env name raw = Inr p \<Longrightarrow> made_as env ''costguard'' name p"
    "model_name_instance env name raw = Inr p \<Longrightarrow> made_as env ''model-name-to-header'' name p"
    by (auto simp: body_field_instance_def BodyFieldToHeaderPluginType_def cost_extractor_instance_def
        costguard_instance_def CostGuardScorer_WithName_def model_name_instance_def map_sum_Inr made_as_def instance_defs)
qed

lemma in_tree_instances:
  assumes "map_of (in_tree_registry env) t = Some factory" and "factory name raw = Inr p"
  shows "made_as env t name p"
proof -
  have "list_all (\<lambda>(t, f). f name raw = Inr p \<longrightarrow> made_as env t name p) (in_tree_table env)"
    by (simp add: in_tree_table_def simple_factories configured_factories)
  moreover have "(t, factory) \<in> set (in_tree_table env)"
    using assms(1) by (simp add: map_of_in_tree_registry map_of_SomeD)
  ultimately show ?thesis
    using assms(2) by (auto simp: list_all_iff)
qed

subsection \<open>Loading a policy\<close>

text \<open>A plugin entry without a name, which is then named after its type.\<close>

definition named_spec :: "string \<Rightarrow> string \<Rightarrow> plugin_spec" where
  "named_spec t params = \<lparr>ps_Name = [], ps_Type = t, ps_Parameters = params\<rparr>"

text \<open>
  A configuration of the model selector after the example of \<^verbatim>\<open>docs/plugins.md\<close>: the selector, the group filter and one weighted
  scorer in a single profile, no picker, no profile picker, and in the data layer the request metadata extractor and the
  models file.
\<close>

definition policy_config :: "string \<Rightarrow> real \<Rightarrow> string \<Rightarrow> raw_config" where
  "policy_config scorer weight params =
     \<lparr>rc_Plugins = [named_spec ''model-selector'' [], named_spec ''model-group-name-filter'' [], named_spec scorer [],
        named_spec ''request-metadata-extractor'' [], named_spec ''model-config-datasource'' params],
      rc_PreProcessing = None, rc_ProfilePicker = None,
      rc_Profiles = [\<lparr>rp_Name = ''model-selection'', rp_Plugins = Some
        \<lparr>rp_Request = [\<lparr>pr_PluginRef = ''model-selector'', pr_Weight = None\<rparr>,
            \<lparr>pr_PluginRef = ''model-group-name-filter'', pr_Weight = None\<rparr>, \<lparr>pr_PluginRef = scorer, pr_Weight = Some weight\<rparr>],
         rp_Response = []\<rparr>\<rparr>],
      rc_PostProcessing = None,
      rc_Datalayer = Some \<lparr>dc_Collectors = [],
        dc_Extractors = [\<lparr>pr_PluginRef = ''request-metadata-extractor'', pr_Weight = None\<rparr>],
        dc_Datasources = [\<lparr>pr_PluginRef = ''model-config-datasource'', pr_Weight = None\<rparr>]\<rparr>\<rparr>"

text \<open>The cost scorer is in the tree but not registered; a runner that uses it registers its factory in addition.\<close>

definition with_cost_scorer :: "('w, 'd, 'x, 'e) plugin_env \<Rightarrow> ('w, 'd, 'x, 'e) registry" where
  "with_cost_scorer env = Register ''cost-scorer'' (CostScorerFactory env) (in_tree_registry env)"

lemma perm_of_single: "perm_of ord \<Longrightarrow> ord [x] = [x]"
  by (metis perm_of_mset mset_single_iff mset.simps)

text \<open>
  Loading it fills in the names, the single profile picker and the max-score picker, and gives the pipeline of
  the filter, the scorer with its weight and that picker.
\<close>

lemma policy_config_loads:
  assumes bytes: "bytes \<noteq> []" "decode bytes = Inr (policy_config t weight params)"
    and t: "(t, reg, score) \<in> {(''inflight-requests-scorer'', in_tree_registry env, InflightRequestsScorer_Score),
      (''cost-scorer'', with_cost_scorer env, CostScorer_Score)}"
    and src: "DatasourceFactory (pe_decode_path env) (pe_abs_path env) (pe_stat env) ''model-config-datasource'' params = Inr d"
    and ord: "perm_of ordp" "perm_of ord"
  shows "\<exists>cfg dlp pls. LoadConfiguration decode reg ordp ord rnd bytes [] NewProcessor [] = Inr (cfg, dlp, pls)
    \<and> map_of pls ''model-selector'' = Some (single_policy score weight ''max-score-picker'' rnd)
    \<and> extractors dlp = [pe_extract_counts env] \<and> datasources dlp = [pe_source env d]
    \<and> (\<exists>prof. lc_Profiles cfg = [(''model-selection'', prof)] \<and> map in_name (lp_RequestPlugins prof) = [''model-selector''])
    \<and> map_option in_name (lc_ProfilePicker cfg) = Some ''single-profile-picker''"
proof -
  have name: "ms_Name d = ''model-config-datasource''"
    using src by (auto simp: DatasourceFactory_def NewModelConfigDataSource_def split: sum.splits if_splits)
  have noprof: "find_picker (map snd (ordp h)) = Inr None" if "\<forall>p\<in>snd ` set h. \<not> isProfilePicker p" for h
    by (rule find_picker_none) (use that ord(1) in \<open>auto simp: list_all_iff perm_of_set\<close>)
  show ?thesis
    using t bytes
    by (elim insertE emptyE;
      simp add: LoadConfiguration_def loadRawConfiguration_def policy_config_def named_spec_def
        applyRawConfigDefaults_def instantiatePlugins_def instantiate_one_def with_cost_scorer_def Register_def
        map_of_in_tree_registry in_tree_table_def factory_defs model_config_instance_def src name instance_defs
        applyPluginDefaults_def noprof registerDefaultPlugin_def SingleProfilePickerType_def set_picker_ref_def
        load_processors_def buildProfiles_def build_profile_def route_request_def empty_profile_def buildPreProcessors_def
        buildPostProcessors_def buildDatalayerSources_def register_refs_def RegisterExtractor_def RegisterDatasource_def NewProcessor_def
        buildModelSelector_def perm_of_single [OF ord(2)] wire_selector_def AddPlugins_def add_interfaces_def NewModelSelectorPipeline_def WithPicker_def mget_zero_def
        single_policy_def Let_def)
qed

text \<open>An environment for examples: parameters are taken as they are, and the extractor ranges over its updates backwards.\<close>

definition sample_plugin_env :: "(unit, unit, unit, counters \<times> unit store) plugin_env" where
  "sample_plugin_env =
     \<lparr>pe_show = tn_Name, pe_random = (\<lambda>w. (0, w)), pe_tie = (\<lambda>_. 0), pe_decode_field = (\<lambda>raw. Inr (raw, raw)),
      pe_decode_header = Inr, pe_decode_session = (\<lambda>raw c. Inr c), pe_decode_guard = (\<lambda>raw. Some),
      pe_decode_cost = (\<lambda>raw. Some), pe_decode_path = Inr, pe_fmt = (\<lambda>_. []), pe_parse_duration = (\<lambda>_. Some 0),
      pe_abs_path = Inr, pe_stat = (\<lambda>_. Inr False), pe_register_err = None, pe_cache_get = (\<lambda>_ _ w. (None, w)),
      pe_digest_count = (\<lambda>_. 0), pe_trimmed_mean = (\<lambda>_ _ _. 0), pe_extract_counts = Extract rev,
      pe_extract_costs = (\<lambda>_. Extract rev), pe_source = (\<lambda>_. ())\<rparr>"

lemma sample_plugin_env_source:
  "DatasourceFactory (pe_decode_path sample_plugin_env) (pe_abs_path sample_plugin_env) (pe_stat sample_plugin_env) ''model-config-datasource'' ''/m''
     = Inr (NewModelConfigDataSource ''model-config-datasource'' ''/m'')"
  by (simp add: sample_plugin_env_def DatasourceFactory_def)

subsection \<open>Properties\<close>

text \<open>
  C1: From the configuration to the rewritten request. A configuration with the model selector, the group filter
  and the weighted cost scorer, a registry with the in-tree plugins and the cost scorer, and a models file: the configuration
  loads, the data layer has the data source of the models file, and after that file has been synchronised the loaded
  selector rewrites a request for \<open>auto/<group>\<close> to name a model that the file registers and lists in the
  group and whose input price is minimal among those; when there is no such model it reports an error and
  leaves the request alone. The weight, the random source and the orders in which maps are ranged over do not matter.
\<close>

theorem configured_group_request_goes_to_cheapest:
  fixes env :: "('w, 'd, 'x, 'e) plugin_env" and models :: "'w \<Rightarrow> 'd store"
  assumes "bytes \<noteq> []" and "decode bytes = Inr (policy_config ''cost-scorer'' weight params)"
    and "DatasourceFactory (pe_decode_path env) (pe_abs_path env) (pe_stat env) ''model-config-datasource'' params = Inr d"
    and "perm_of ordp" and "perm_of ordc" and "perm_of ord0" and "perm_of ord" and "perm_of ord'" and "store_ok ds"
    and "data \<noteq> []" and "decode_models data = Inr cfg" and "models w = snd (syncModels decode_models ord0 data ds)"
    and "Body request = Some body" and "map_of body ''model'' = Some (JStr (''auto/'' @ g))" and "g \<noteq> []" and "0 < weight"
  shows "\<exists>loaded dlp pls p. LoadConfiguration decode (with_cost_scorer env) ordp ordc rnd bytes [] NewProcessor [] = Inr (loaded, dlp, pls)
    \<and> datasources dlp = [pe_source env d] \<and> map_of pls ''model-selector'' = Some p
    \<and> (case ModelSelector_ProcessRequest models ord ord' p (w, c, request) of
      (err, (w', c', request')) \<Rightarrow>
        if group_members cfg g = {} then err \<noteq> None \<and> request' = request
        else err = None \<and> (\<exists>n\<in>group_members cfg g. (\<forall>n'\<in>group_members cfg g. input_price_of cfg n \<le> input_price_of cfg n')
               \<and> request' = request\<lparr>Body := Some (mput ''model'' (JStr n) body), bodyMutated := True\<rparr>))"
proof -
  obtain loaded dlp pls where load:
    "LoadConfiguration decode (with_cost_scorer env) ordp ordc rnd bytes [] NewProcessor [] = Inr (loaded, dlp, pls)"
    "map_of pls ''model-selector'' = Some (single_policy CostScorer_Score weight ''max-score-picker'' rnd)"
    "datasources dlp = [pe_source env d]"
    using policy_config_loads [where decode = decode and rnd = rnd and reg = "with_cost_scorer env" and score = CostScorer_Score,
        OF assms(1,2) _ assms(3-5)] by auto
  let ?p = "single_policy CostScorer_Score weight ''max-score-picker'' rnd"
  show ?thesis
    by (rule exI [of _ loaded], rule exI [of _ dlp], rule exI [of _ pls], rule exI [of _ ?p], intro conjI load)
      (rule group_request_goes_to_cheapest [where models = models, OF assms(6-16)])
qed

theorem configured_group_request_goes_to_cheapest_witness:
  "\<exists>loaded dlp pls p w' c'. LoadConfiguration (\<lambda>_. Inr (policy_config ''cost-scorer'' 1 ''/m'')) (with_cost_scorer sample_plugin_env) rev rev
        (\<lambda>w. (0, w)) ''c'' [] NewProcessor [] = Inr (loaded, dlp, pls)
    \<and> map_of pls ''model-selector'' = Some p
    \<and> ModelSelector_ProcessRequest (\<lambda>_. snd (syncModels (\<lambda>_. Inr sample_config) rev ''{}'' NewDatastore)) rev rev p
        ((), [], NewInferenceRequest\<lparr>Body := Some [(''model'', JStr ''auto/fast'')]\<rparr>)
      = (None, (w', c', NewInferenceRequest\<lparr>Body := Some [(''model'', JStr ''a'')], bodyMutated := True\<rparr>))"
proof -
  have "entry_of sample_config ''a'' \<noteq> None" "entry_of sample_config ''c'' = None"
    by (simp_all add: entry_of_def sample_config_def valid_entry_def)
  then have members: "group_members sample_config ''fast'' = {''a''}"
    by (auto simp: group_members_def sample_config_def)
  define models :: "unit \<Rightarrow> unit store" where
    "models = (\<lambda>_. snd (syncModels (\<lambda>_. Inr sample_config) rev ''{}'' NewDatastore))"
  define q :: inference_request where "q = NewInferenceRequest\<lparr>Body := Some [(''model'', JStr ''auto/fast'')]\<rparr>"
  have "models () = snd (syncModels (\<lambda>_. Inr sample_config) rev ''{}'' NewDatastore)"
      "Body q = Some [(''model'', JStr ''auto/fast'')]" by (simp_all add: models_def q_def)
  from configured_group_request_goes_to_cheapest [where models = models and w = "()" and g = "''fast''" and weight = 1
      and rnd = "\<lambda>w. (0, w)" and c = "[]" and decode_models = "\<lambda>_. Inr sample_config" and cfg = sample_config
      and bytes = "''c''" and decode = "\<lambda>_. Inr (policy_config ''cost-scorer'' 1 ''/m'')",
      OF _ refl sample_plugin_env_source perm_of_rev perm_of_rev perm_of_rev perm_of_rev perm_of_rev store_ok_NewDatastore _ _ this]
  obtain loaded dlp pls p where load: "LoadConfiguration (\<lambda>_. Inr (policy_config ''cost-scorer'' 1 ''/m'')) (with_cost_scorer sample_plugin_env) rev rev
        (\<lambda>w. (0, w)) ''c'' [] NewProcessor [] = Inr (loaded, dlp, pls)" "map_of pls ''model-selector'' = Some p"
    and run: "case ModelSelector_ProcessRequest models rev rev p ((), [], q) of (err, (w', c', request')) \<Rightarrow>
        err = None \<and> request' = q\<lparr>Body := Some (mput ''model'' (JStr ''a'') [(''model'', JStr ''auto/fast'')]), bodyMutated := True\<rparr>"
    by (auto simp: members)
  obtain err w' c' q' where "ModelSelector_ProcessRequest models rev rev p ((), [], q) = (err, (w', c', q'))" by (metis surj_pair)
  with load run show ?thesis unfolding models_def q_def by fastforce
qed



end
