(* ===== verification/Telemetry.thy ===== *)
theory Telemetry
  imports Exchange "HOL-Library.Multiset"
begin

text \<open>
  The metrics against the events: on every run of the ext-proc loop the metrics recorded by the
  handlers and the events given to the data layer go in step, entry by entry, so the exported counters
  of any number of concurrent exchanges count what the data layer hears of.
\<close>

subsection \<open>Metrics and events in step\<close>

fun metric_for :: "metric \<Rightarrow> event \<Rightarrow> bool" where
  "metric_for SuccessCounter e \<longleftrightarrow> ev_Type e = RequestEventType"
| "metric_for (RequestTTFT m d) e \<longleftrightarrow> ev_Type e = ResponseEventType \<and> response_model e = m"
| "metric_for _ e \<longleftrightarrow> False"

definition in_step :: "'w request_context \<Rightarrow> bool" where
  "in_step rc \<longleftrightarrow> list_all2 metric_for (recorded rc) (notified rc)"

text \<open>What a handler leaves alone.\<close>

definition ledger :: "'w request_context \<Rightarrow> metric list \<times> event list" where
  "ledger rc = (recorded rc, notified rc)"

lemma in_step_ledger: "ledger rc' = ledger rc \<Longrightarrow> in_step rc' = in_step rc"
  by (simp add: ledger_def in_step_def)

lemma ledger_update [simp]:
  "ledger (rc\<lparr>Request := q\<rparr>) = ledger rc" "ledger (rc\<lparr>Response := p\<rparr>) = ledger rc"
  "ledger (rc\<lparr>Profile := prof\<rparr>) = ledger rc" "ledger (rc\<lparr>shared := w\<rparr>) = ledger rc"
  "ledger (rc\<lparr>CycleState := c\<rparr>) = ledger rc" "ledger (rc\<lparr>ResponseHeadersSent := b\<rparr>) = ledger rc"
  "ledger (rc\<lparr>RequestReceivedTimestamp := t\<rparr>) = ledger rc" "ledger (rc\<lparr>RequestSentTimestamp := t\<rparr>) = ledger rc"
  "ledger (rc\<lparr>ResponseFirstChunkTimestamp := t\<rparr>) = ledger rc"
  by (simp_all add: ledger_def)

lemma on_ledger:
  "on_request f rc = (r, rc') \<Longrightarrow> ledger rc' = ledger rc" "on_response g rc = (r, rc') \<Longrightarrow> ledger rc' = ledger rc"
  by (auto simp: on_request_def on_response_def split: prod.splits)

lemma time_now_ledger: "time_now env rc = (t, rc') \<Longrightarrow> ledger rc' = ledger rc"
  by (auto simp: time_now_def split: prod.splits)

lemma runs_ledger:
  "runRequestPlugins ps rc = (r, rc') \<Longrightarrow> ledger rc' = ledger rc"
  "runResponsePlugins qs rc = (r, rc') \<Longrightarrow> ledger rc' = ledger rc"
  "runResponseHeadersProcessors s rc = (r, rc') \<Longrightarrow> ledger rc' = ledger rc"
  "runResponseChunkProcessors e cs rc = (r, rc') \<Longrightarrow> ledger rc' = ledger rc"
  "pick_profile s rc = (q, rc') \<Longrightarrow> ledger rc' = ledger rc"
  by (auto simp: runRequestPlugins_def runResponsePlugins_def runResponseHeadersProcessors_def
      runResponseChunkProcessors_def pick_profile_def split: if_splits option.splits dest: on_ledger)

lemma HandleRequestHeaders_ledger: "HandleRequestHeaders env h rc = (rs, rc') \<Longrightarrow> ledger rc' = ledger rc"
  by (auto simp: HandleRequestHeaders_def injectTraceContextHeaders_def Let_def split: prod.splits if_splits
      dest: time_now_ledger)

lemma HandleResponseHeaders_ledger: "HandleResponseHeaders env s h rc = (r, rc') \<Longrightarrow> ledger rc' = ledger rc"
  by (auto simp: HandleResponseHeaders_def split: prod.splits option.splits if_splits dest!: runs_ledger)

lemma HandleResponseBody_ledger: "HandleResponseBody env s b rc = (r, rc') \<Longrightarrow> ledger rc' = ledger rc"
  by (auto simp: HandleResponseBody_def finish_response_def Let_def split: if_splits prod.splits option.splits sum.splits
      dest!: runs_ledger)

lemma buildStreamedChunkResponse_ledger:
  "buildStreamedChunkResponse env c eos rc = (rs, rc') \<Longrightarrow> ledger rc' = ledger rc"
  by (auto simp: buildStreamedChunkResponse_def Let_def split: if_splits)

lemma HandleResponseChunk_ledger:
  assumes "HandleResponseChunk env c eos rc = (r, rc')"
  shows "ledger rc' = ledger rc"
proof -
  have wrap: "ledger y = ledger x" if "apfst Inr (buildStreamedChunkResponse env out eos x) = (q, y)" for out x y
    and q :: "go_error + processing_response list"
    using that by (cases "buildStreamedChunkResponse env out eos x") (auto dest: buildStreamedChunkResponse_ledger)
  show ?thesis
  proof (cases "ResponseChunkProcessors (Profile rc) = []")
    case True
    then show ?thesis using assms wrap by (simp add: HandleResponseChunk_def)
  next
    case False
    obtain e rc1 where 1: "runResponseChunkProcessors eos (ResponseChunkProcessors (Profile rc))
        (rc\<lparr>Response := ResetChunkState c (Response rc)\<rparr>) = (e, rc1)" by (metis surj_pair)
    have "ledger rc1 = ledger rc" using runs_ledger(4) [OF 1] by simp
    then show ?thesis
      using assms False 1 wrap by (cases e) (auto simp: HandleResponseChunk_def Let_def)
  qed
qed

lemma stamp_first_chunk_ledger [simp]: "ledger (stamp_first_chunk env rc) = ledger rc"
  by (auto simp: stamp_first_chunk_def split: prod.splits dest: time_now_ledger)

text \<open>The two places that write both.\<close>

lemma finish_request_in_step: "finish_request env b rc = (r, rc') \<Longrightarrow> in_step rc \<Longrightarrow> in_step rc'"
  by (auto simp: finish_request_def Let_def in_step_def ledger_def list_all2_appendI
      split: sum.splits prod.splits dest!: time_now_ledger)

lemma complete_response_in_step: "in_step rc \<Longrightarrow> in_step (complete_response env b rc)"
  by (auto simp: complete_response_def Let_def in_step_def ledger_def response_model_def
      intro!: list_all2_appendI split: prod.splits dest!: time_now_ledger)

lemma HandleRequestBody_in_step:
  assumes "HandleRequestBody env s b rc = (r, rc')" and "in_step rc"
  shows "in_step rc'"
proof -
  have "ledger rc' = ledger rc \<or> (\<exists>rc3. ledger rc3 = ledger rc \<and> finish_request env b rc3 = (r, rc'))"
    using assms(1)
    by (fastforce simp: HandleRequestBody_def split: option.splits prod.splits sum.splits dest!: runs_ledger)
  then show ?thesis using assms(2) in_step_ledger finish_request_in_step by blast
qed

lemma process_response_body_in_step:
  assumes "process_response_body env s b eos st = (r, st')" and "in_step (reqCtx st)"
  shows "in_step (reqCtx st')"
proof (cases "responseBodyComplete st \<or> NeedsResponseBuffering (Profile (reqCtx st)) \<and> \<not> eos")
  case True
  then have "ledger (reqCtx st') = ledger (reqCtx st)"
    using assms(1) by (auto simp: process_response_body_def Let_def split: if_splits)
  then show ?thesis using assms(2) in_step_ledger by blast
next
  case False
  define h where "h = (if NeedsResponseBuffering (Profile (reqCtx st))
    then HandleResponseBody env s (responseBody st @ b) else HandleResponseChunk env b eos)"
  obtain r2 rc2 where h2: "h (stamp_first_chunk env (reqCtx st)) = (r2, rc2)" by (metis surj_pair)
  have "ledger rc2 = ledger (reqCtx st)"
    using h2 by (auto simp: h_def split: if_splits dest!: HandleResponseBody_ledger HandleResponseChunk_ledger)
  then have 2: "in_step rc2" using assms(2) in_step_ledger by blast
  have c: "\<not> responseBodyComplete st" "eos \<or> \<not> NeedsResponseBuffering (Profile (reqCtx st))" using False by auto
  have "reqCtx st' = rc2 \<or> reqCtx st' = complete_response env (responseBody st @ b) rc2"
    using process_response_body_run [OF c, of env s b, folded h_def] assms(1) h2 by (auto split: if_splits)
  then show ?thesis using 2 complete_response_in_step by metis
qed

lemma handle_msg_in_step:
  assumes "handle_msg env s v st = (r, st')" and "in_step (reqCtx st)"
  shows "in_step (reqCtx st')"
proof (cases v)
  case (RequestHeadersMsg h)
  then have "ledger (reqCtx st') = ledger (reqCtx st)"
    using assms(1) by (auto simp: on_ctx_def split: prod.splits dest: HandleRequestHeaders_ledger)
  then show ?thesis using assms(2) in_step_ledger by blast
next
  case (RequestBodyMsg b eos)
  then show ?thesis
    using assms by (auto simp: process_request_body_def on_ctx_def Let_def split: if_splits prod.splits
        dest: HandleRequestBody_in_step)
next
  case (ResponseHeadersMsg h)
  then have "ledger (reqCtx st') = ledger (reqCtx st)"
    using assms(1) by (auto simp: on_ctx_def split: prod.splits dest: HandleResponseHeaders_ledger)
  then show ?thesis using assms(2) in_step_ledger by blast
next
  case (ResponseBodyMsg b eos)
  then show ?thesis using process_response_body_in_step assms by simp
qed (use assms in auto)

lemma process_loop_in_step:
  "in_step (reqCtx st) \<Longrightarrow> in_step (reqCtx (snd (process_loop env s sc se is st)))"
proof (induction "is" arbitrary: st)
  case (Cons i "is")
  show ?case
  proof (cases i)
    case (Others f)
    then show ?thesis using Cons by (simp add: in_step_def)
  next
    case (Recv v)
    obtain r st1 where h: "handle_msg env s v st = (r, st1)" by (metis surj_pair)
    have 1: "in_step (reqCtx st1)" using handle_msg_in_step [OF h Cons.prems] .
    show ?thesis
    proof (cases r)
      case (Inl e)
      then show ?thesis using Recv h Cons.prems 1 by (simp add: reply_error_ctx)
    next
      case (Inr rs)
      obtain m st2 where sa: "send_all se rs st1 = (m, st2)" by (metis surj_pair)
      then have "in_step (reqCtx st2)" using send_all_frame 1 by metis
      then show ?thesis using Recv h Inr sa Cons by (cases m) simp_all
    qed
  qed (use Cons.prems in simp_all)
qed simp

lemma Process_in_step: "in_step (reqCtx (snd (Process env s sc se inputs w)))"
  unfolding Process_def by (rule process_loop_in_step) (simp add: in_step_def new_stream_def new_context_def)

subsection \<open>Counting\<close>

lemma in_step_counts:
  assumes "list_all2 metric_for ms es"
  shows "length (filter (\<lambda>m. m = SuccessCounter) ms) = length (filter (\<lambda>e. ev_Type e = RequestEventType) es)"
    and "length (filter (\<lambda>m. \<exists>d. m = RequestTTFT model d) ms)
       = length (filter (\<lambda>e. ev_Type e = ResponseEventType \<and> response_model e = model) es)"
  using assms
proof (induction rule: list_all2_induct)
  case (Cons m ms e es)
  { case 1
    show ?case using Cons.hyps(1) Cons.IH(1) by (cases m) simp_all }
  { case 2
    show ?case using Cons.hyps(1) Cons.IH(2) by (cases m) simp_all }
qed simp_all

text \<open>The metrics that the exchanges of a list record.\<close>

definition exchange_metrics ::
  "('w env \<times> 'w server \<times> (go_error \<Rightarrow> nat) \<times> send_errors \<times> 'w input list \<times> 'w) list \<Rightarrow> metric list list" where
  "exchange_metrics xs =
     map (\<lambda>(env, s, sc, se, inputs, w). recorded (reqCtx (snd (Process env s sc se inputs w)))) xs"

lemma exchange_metrics_in_step:
  "list_all2 metric_for (concat (exchange_metrics xs)) (concat (exchange_events xs))"
  unfolding exchange_metrics_def exchange_events_def
proof (induction xs)
  case (Cons x xs)
  obtain env s sc se inputs w where "x = (env, s, sc, se, inputs, w)" by (metis prod.collapse)
  then show ?case
    using Cons Process_in_step [of env s sc se inputs w] by (simp add: in_step_def list_all2_appendI)
qed simp

lemma length_filter_mset: "mset xs = mset ys \<Longrightarrow> length (filter P xs) = length (filter P ys)"
  by (metis mset_filter size_mset)

subsection \<open>Properties\<close>

text \<open>
  C20: the exported metrics count the traffic. When any number of exchanges run concurrently and their
  metric calls are carried out in any order, the success counter is the number of request events the
  data layer was given, and for every model the time-to-first-token histogram has exactly as many observations as
  there were response events for that model, whatever the inputs of the exchanges were.
\<close>

theorem metrics_count_traffic:
  assumes "mset ms = mset (concat (exchange_metrics xs))"
  shows "successCounter (fold record_metric ms no_metrics)
        = length (filter (\<lambda>e. ev_Type e = RequestEventType) (concat (exchange_events xs)))
    \<and> ttft_count (fold record_metric ms no_metrics) model
        = length (filter (\<lambda>e. ev_Type e = ResponseEventType \<and> response_model e = model) (concat (exchange_events xs)))"
proof -
  note c = in_step_counts [OF exchange_metrics_in_step [of xs]]
  show ?thesis
    by (simp add: fold_successCounter fold_ttft_count length_filter_mset [OF assms] c)
       (simp add: no_metrics_def ttft_count_def mget_zero_def)
qed

theorem metrics_count_traffic_witness:
  "successCounter (fold record_metric (concat (exchange_metrics sample_exchange)) no_metrics) = 1
   \<and> ttft_count (fold record_metric (concat (exchange_metrics sample_exchange)) no_metrics) ''m'' = 0"
proof -
  obtain e where e: "exchange_events sample_exchange = [[e]]" "request_model e = ''m''" "response_model e \<noteq> ''m''"
    using sample_exchange_events by metis
  then have "ev_Type e = RequestEventType" by (simp add: request_model_def split: if_splits)
  then show ?thesis
    using metrics_count_traffic [OF refl, of sample_exchange "''m''"] e by simp
qed

end
