(* ===== verification/Plugin_Telemetry.thy ===== *)
theory Plugin_Telemetry
  imports Handlers
begin

text \<open>
  The instrumented plugin loops (\<^verbatim>\<open>runRequestPlugin\<close>, \<^verbatim>\<open>runResponsePlugin\<close> and the loops around them in
  \<^verbatim>\<open>pkg/handlers/request.go\<close> and \<^verbatim>\<open>response.go\<close>): a span and a latency observation for each plugin. The
  handlers' model uses the plain loop \<open>run_plugins\<close>; here the loops are written with their telemetry and
  shown to run the plugins in the same way. A plugin has its type and name, \<open>tn\<close> renders the two (the
  method \<^verbatim>\<open>String\<close> of \<^verbatim>\<open>TypedName\<close>), and \<open>now\<close> reads the clock off the state.
\<close>

subsection \<open>Instrumented loops\<close>

type_synonym 's named_plugin = "(string \<times> string) \<times> ('s \<Rightarrow> go_error option \<times> 's)"

record plugin_span =
  ps_name :: string
  ps_attributes :: "(string \<times> string) list"
  ps_error :: "string option"

definition requestPluginExtensionPoint :: string where
  "requestPluginExtensionPoint = ''request''"

definition responsePluginExtensionPoint :: string where
  "responsePluginExtensionPoint = ''response''"

definition plugin_span_for ::
  "(string \<times> string \<Rightarrow> string) \<Rightarrow> string \<Rightarrow> string \<times> string \<Rightarrow> string option \<Rightarrow> plugin_span" where
  "plugin_span_for tn ext typedName err =
     \<lparr>ps_name = ''plugin.'' @ tn typedName,
      ps_attributes = [(''llm_d.plugin.extension_point'', ext), (''llm_d.plugin.type'', fst typedName),
                       (''llm_d.plugin.name'', snd typedName)],
      ps_error = err\<rparr>"

definition is_crash :: "go_error option \<Rightarrow> bool" where
  "is_crash r \<longleftrightarrow> (case r of Some e \<Rightarrow> is_panic e | None \<Rightarrow> False)"

text \<open>One plugin in its own span. A panic skips the metric and the status; the deferred \<^verbatim>\<open>End\<close> still runs.\<close>

definition run_in_span ::
  "(string \<times> string \<Rightarrow> string) \<Rightarrow> ('s \<Rightarrow> gotime) \<Rightarrow> string \<Rightarrow> 's named_plugin \<Rightarrow> 's
     \<Rightarrow> (go_error option \<times> 's) \<times> metric list \<times> plugin_span list" where
  "run_in_span tn now ext p s =
     (case snd p s of (err, s') \<Rightarrow>
        ((err, s'),
         if is_crash err then ([], [plugin_span_for tn ext (fst p) None])
         else ([PluginProcessingLatency ext (fst (fst p)) (snd (fst p)) (time_sub (now s') (now s))],
               [plugin_span_for tn ext (fst p) (map_option error_string err)])))"

definition runRequestPlugin ::
  "(string \<times> string \<Rightarrow> string) \<Rightarrow> ('s \<Rightarrow> gotime) \<Rightarrow> 's named_plugin \<Rightarrow> 's
     \<Rightarrow> (go_error option \<times> 's) \<times> metric list \<times> plugin_span list" where
  "runRequestPlugin tn now = run_in_span tn now requestPluginExtensionPoint"

definition runResponsePlugin ::
  "(string \<times> string \<Rightarrow> string) \<Rightarrow> ('s \<Rightarrow> gotime) \<Rightarrow> 's named_plugin \<Rightarrow> 's
     \<Rightarrow> (go_error option \<times> 's) \<times> metric list \<times> plugin_span list" where
  "runResponsePlugin tn now = run_in_span tn now responsePluginExtensionPoint"

text \<open>A chunk processor has no span; a headers processor has none either, and its latency is recorded after success only.\<close>

definition run_chunk_processor ::
  "('s \<Rightarrow> gotime) \<Rightarrow> 's named_plugin \<Rightarrow> 's \<Rightarrow> (go_error option \<times> 's) \<times> metric list \<times> plugin_span list" where
  "run_chunk_processor now p s =
     (case snd p s of (err, s') \<Rightarrow>
        ((err, s'),
         if is_crash err then []
         else [PluginProcessingLatency responsePluginExtensionPoint (fst (fst p)) (snd (fst p)) (time_sub (now s') (now s))],
         []))"

definition run_headers_processor ::
  "('s \<Rightarrow> gotime) \<Rightarrow> 's named_plugin \<Rightarrow> 's \<Rightarrow> (go_error option \<times> 's) \<times> metric list \<times> plugin_span list" where
  "run_headers_processor now p s =
     (case snd p s of (err, s') \<Rightarrow>
        ((err, s'),
         if err \<noteq> None then []
         else [PluginProcessingLatency responsePluginExtensionPoint (fst (fst p)) (snd (fst p)) (time_sub (now s') (now s))],
         []))"

fun run_traced ::
  "('s named_plugin \<Rightarrow> 's \<Rightarrow> (go_error option \<times> 's) \<times> metric list \<times> plugin_span list) \<Rightarrow> 's named_plugin list \<Rightarrow> 's
     \<Rightarrow> (go_error option \<times> 's) \<times> metric list \<times> plugin_span list" where
  "run_traced one [] s = ((None, s), [], [])"
| "run_traced one (p # ps) s =
     (case one p s of
        ((Some e, s'), ms, sps) \<Rightarrow> ((Some e, s'), ms, sps)
      | ((None, s'), ms, sps) \<Rightarrow>
          (case run_traced one ps s' of (res, ms', sps') \<Rightarrow> (res, ms @ ms', sps @ sps')))"

text \<open>The stage spans end after the spans of their plugins.\<close>

definition stage_span :: "string \<Rightarrow> plugin_span" where
  "stage_span n = \<lparr>ps_name = n, ps_attributes = [], ps_error = None\<rparr>"

definition runRequestPlugins_traced ::
  "(string \<times> string \<Rightarrow> string) \<Rightarrow> ('s \<Rightarrow> gotime) \<Rightarrow> 's named_plugin list \<Rightarrow> 's
     \<Rightarrow> (go_error option \<times> 's) \<times> metric list \<times> plugin_span list" where
  "runRequestPlugins_traced tn now ps s =
     (case run_traced (runRequestPlugin tn now) ps s of (res, ms, sps) \<Rightarrow> (res, ms, sps @ [stage_span ''request_plugins'']))"

definition runResponsePlugins_traced ::
  "(string \<times> string \<Rightarrow> string) \<Rightarrow> ('s \<Rightarrow> gotime) \<Rightarrow> 's named_plugin list \<Rightarrow> 's
     \<Rightarrow> (go_error option \<times> 's) \<times> metric list \<times> plugin_span list" where
  "runResponsePlugins_traced tn now ps s =
     (case run_traced (runResponsePlugin tn now) ps s of (res, ms, sps) \<Rightarrow> (res, ms, sps @ [stage_span ''response_plugins'']))"

subsection \<open>Specification\<close>

text \<open>The plugins a loop gets to: up to and including the first that fails.\<close>

fun executed :: "'s named_plugin list \<Rightarrow> 's \<Rightarrow> (string \<times> string) list" where
  "executed [] s = []"
| "executed (p # ps) s = fst p # (case snd p s of (Some e, _) \<Rightarrow> [] | (None, s') \<Rightarrow> executed ps s')"

fun latency_label :: "metric \<Rightarrow> (string \<times> string \<times> string) list" where
  "latency_label (PluginProcessingLatency e t n d) = [(e, t, n)]"
| "latency_label _ = []"

text \<open>All plugins before the last executed one succeeded; the last has the outcome of the loop.\<close>

definition over_executed ::
  "(go_error option \<Rightarrow> string \<times> string \<Rightarrow> 'b list) \<Rightarrow> (string \<times> string) list \<Rightarrow> go_error option \<Rightarrow> 'b list" where
  "over_executed f ns r = (if ns = [] then [] else concat (map (f None) (butlast ns)) @ f r (last ns))"

lemma executed_Nil: "executed ps s = [] \<longleftrightarrow> ps = []"
  by (cases ps) simp_all

text \<open>
  The contract of an instrumented plugin call: it is the plain call, with a list of metrics and spans
  that depends on the outcome only through \<open>labels\<close> and \<open>spans\<close>.
\<close>

locale instrumented =
  fixes one :: "'s named_plugin \<Rightarrow> 's \<Rightarrow> (go_error option \<times> 's) \<times> metric list \<times> plugin_span list"
    and labels :: "go_error option \<Rightarrow> string \<times> string \<Rightarrow> (string \<times> string \<times> string) list"
    and spans :: "go_error option \<Rightarrow> string \<times> string \<Rightarrow> plugin_span list"
  assumes runs_plugin: "fst (one p s) = snd p s"
    and records: "concat (map latency_label (fst (snd (one p s)))) = labels (fst (snd p s)) (fst p)"
    and traces: "snd (snd (one p s)) = spans (fst (snd p s)) (fst p)"
begin

lemma traced_runs: "fst (run_traced one ps s) = run_plugins (map snd ps) s"
proof (induction ps arbitrary: s)
  case (Cons p ps)
  obtain r s' ms sps where one: "one p s = ((r, s'), ms, sps)" by (metis prod.collapse)
  then have "snd p s = (r, s')" using runs_plugin [of p s] by simp
  then show ?case using Cons [of s'] one by (cases r) (auto split: prod.splits)
qed simp

lemma traced_telemetry:
  "concat (map latency_label (fst (snd (run_traced one ps s))))
     = over_executed labels (executed ps s) (fst (run_plugins (map snd ps) s))
   \<and> snd (snd (run_traced one ps s)) = over_executed spans (executed ps s) (fst (run_plugins (map snd ps) s))"
proof (induction ps arbitrary: s)
  case (Cons p ps)
  obtain r s' ms sps where one: "one p s = ((r, s'), ms, sps)" by (metis prod.collapse)
  then have p: "snd p s = (r, s')" "concat (map latency_label ms) = labels r (fst p)" "sps = spans r (fst p)"
    using runs_plugin [of p s] records [of p s] traces [of p s] by (metis fst_conv snd_conv)+
  obtain res ms' sps' where rest: "run_traced one ps s' = (res, ms', sps')" by (metis prod.collapse)
  show ?case using Cons.IH [of s'] one p rest by (cases r) (auto simp: over_executed_def executed_Nil)
qed (simp_all add: over_executed_def)

end

subsection \<open>The loops of the handlers\<close>

definition latency_unless :: "bool \<Rightarrow> string \<Rightarrow> string \<times> string \<Rightarrow> (string \<times> string \<times> string) list" where
  "latency_unless b ext n = (if b then [] else [(ext, fst n, snd n)])"

definition outcome_span ::
  "(string \<times> string \<Rightarrow> string) \<Rightarrow> string \<Rightarrow> go_error option \<Rightarrow> string \<times> string \<Rightarrow> plugin_span" where
  "outcome_span tn ext r n = plugin_span_for tn ext n (if is_crash r then None else map_option error_string r)"

lemmas instrumented_defs = run_in_span_def run_chunk_processor_def run_headers_processor_def is_crash_def
  latency_unless_def outcome_span_def

interpretation in_span: instrumented "run_in_span tn now ext" "\<lambda>r. latency_unless (is_crash r) ext"
  "\<lambda>r n. [outcome_span tn ext r n]"
  by unfold_locales (auto simp: instrumented_defs split: prod.splits)

interpretation chunk_processors: instrumented "run_chunk_processor now"
  "\<lambda>r. latency_unless (is_crash r) responsePluginExtensionPoint" "\<lambda>r n. []"
  by unfold_locales (auto simp: instrumented_defs split: prod.splits)

interpretation headers_processors: instrumented "run_headers_processor now"
  "\<lambda>r. latency_unless (r \<noteq> None) responsePluginExtensionPoint" "\<lambda>r n. []"
  by unfold_locales (auto simp: instrumented_defs split: prod.splits)

lemma over_executed_latency:
  assumes "\<not> b None"
  shows "over_executed (\<lambda>r. latency_unless (b r) ext) ns r = map (Pair ext) (if b r then butlast ns else ns)"
proof (cases ns rule: rev_cases)
  case (snoc ms n)
  have "concat (map (latency_unless False ext) ms) = map (Pair ext) ms"
    by (induction ms) (simp_all add: latency_unless_def)
  then show ?thesis using snoc assms by (simp add: over_executed_def latency_unless_def)
qed (simp add: over_executed_def)

lemma over_executed_spans:
  "over_executed (\<lambda>r n. [outcome_span tn ext r n]) ns r
     = map (\<lambda>n. plugin_span_for tn ext n None) (butlast ns) @ (if ns = [] then [] else [outcome_span tn ext r (last ns)])"
  by (simp add: over_executed_def outcome_span_def is_crash_def concat_map_singleton)

text \<open>
  The loop over the headers processors does not record the latency of a processor that fails, unlike the other loops.
\<close>

lemma headers_latency_misses_failure:
  "concat (map latency_label (fst (snd (run_traced (run_headers_processor now) ps s))))
     = map (Pair responsePluginExtensionPoint)
         (if fst (run_plugins (map snd ps) s) \<noteq> None then butlast (executed ps s) else executed ps s)"
  using headers_processors.traced_telemetry [of now ps s] over_executed_latency [of "\<lambda>r. r \<noteq> None"] by simp

lemma chunk_latencies:
  "concat (map latency_label (fst (snd (run_traced (run_chunk_processor now) ps s))))
     = map (Pair responsePluginExtensionPoint)
         (if is_crash (fst (run_plugins (map snd ps) s)) then butlast (executed ps s) else executed ps s)"
  using chunk_processors.traced_telemetry [of now ps s] over_executed_latency [of is_crash] by (simp add: is_crash_def)

lemma in_span_telemetry:
  "case run_traced (run_in_span tn now ext) ps s of (res, ms, sps) \<Rightarrow>
     res = run_plugins (map snd ps) s
     \<and> concat (map latency_label ms) = map (Pair ext) (if is_crash (fst res) then butlast (executed ps s) else executed ps s)
     \<and> sps = map (\<lambda>n. plugin_span_for tn ext n None) (butlast (executed ps s))
              @ (if ps = [] then [] else [outcome_span tn ext (fst res) (last (executed ps s))])"
proof -
  obtain res ms sps where run: "run_traced (run_in_span tn now ext) ps s = (res, ms, sps)" by (metis prod.collapse)
  have 1: "res = run_plugins (map snd ps) s" using in_span.traced_runs [of tn now ext ps s] run by simp
  have 2: "concat (map latency_label ms) = map (Pair ext) (if is_crash (fst res) then butlast (executed ps s) else executed ps s)"
    using in_span.traced_telemetry [of tn now ext ps s] run over_executed_latency [of is_crash] 1 by (simp add: is_crash_def)
  have 3: "sps = map (\<lambda>n. plugin_span_for tn ext n None) (butlast (executed ps s))
      @ (if ps = [] then [] else [outcome_span tn ext (fst res) (last (executed ps s))])"
    using in_span.traced_telemetry [of tn now ext ps s] run 1 by (simp add: over_executed_spans executed_Nil)
  show ?thesis using 1 2 3 by (simp add: run)
qed

subsection \<open>Property\<close>

text \<open>
  C23: instrumentation does not change what the request plugins do, and misses none of them. The loop
  with spans and metrics has the result of the plain loop. One latency is observed, under the plugin's
  type and name, for every plugin the loop got to, the failing one included (a panic is not timed); each
  of them has one span, marked with the error exactly for the plugin that returned one, and the stage
  span ends last.
\<close>

theorem plugin_telemetry_complete:
  "case runRequestPlugins_traced tn now ps s of (res, ms, sps) \<Rightarrow>
     res = run_plugins (map snd ps) s
     \<and> concat (map latency_label ms)
         = map (Pair requestPluginExtensionPoint) (if is_crash (fst res) then butlast (executed ps s) else executed ps s)
     \<and> map ps_name sps = map (\<lambda>n. ''plugin.'' @ tn n) (executed ps s) @ [''request_plugins'']
     \<and> map ps_error sps = replicate (length (executed ps s) - 1) None
         @ (if ps = [] then [] else [if is_crash (fst res) then None else map_option error_string (fst res)]) @ [None]"
proof -
  obtain res ms sps where run: "run_traced (run_in_span tn now requestPluginExtensionPoint) ps s = (res, ms, sps)"
    by (metis prod.collapse)
  note t = in_span_telemetry [where tn = tn and now = now and ext = requestPluginExtensionPoint and ps = ps and s = s,
      unfolded run, simplified]
  have names: "map ps_name sps = map (\<lambda>n. ''plugin.'' @ tn n) (executed ps s)"
  proof (cases "executed ps s" rule: rev_cases)
    case Nil
    then show ?thesis using t by (simp add: executed_Nil)
  next
    case (snoc ns n)
    then have "ps \<noteq> []" by auto
    then show ?thesis using t snoc by (simp add: outcome_span_def plugin_span_for_def)
  qed
  have errors: "map ps_error sps = replicate (length (executed ps s) - 1) None
      @ (if ps = [] then [] else [if is_crash (fst res) then None else map_option error_string (fst res)])"
    using t by (simp add: outcome_span_def plugin_span_for_def comp_def map_replicate_const)
  show ?thesis
    using t names errors by (simp add: runRequestPlugins_traced_def runRequestPlugin_def run stage_span_def)
qed

end
