(* ===== verification/Plugin_Metrics.thy ===== *)
theory Plugin_Metrics
  imports Scorers Selector Request_Plugins Metrics
begin

text \<open>
  The metrics recorded inside the model selector (\<^verbatim>\<open>pkg/modelselector/modelselector.go\<close>), the body field
  plugin and the session affinity scorer. Each metered operation is the operation of the model beside
  the metric calls of its code; the session affinity scorer has collectors of its own. \<open>now\<close> reads the
  clock off the state.
\<close>

subsection \<open>Model selection\<close>

text \<open>
  The deferred function of \<^verbatim>\<open>Select\<close> reads the named result \<^verbatim>\<open>err\<close>, which is still nil when a panic unwinds
  the call.
\<close>

fun select_error :: "(go_error + 'm) \<Rightarrow> go_error option" where
  "select_error (Inl e) = (if is_panic e then None else Some e)"
| "select_error (Inr _) = None"

definition Select_metered ::
  "('w \<times> cycle_state \<Rightarrow> gotime) \<Rightarrow> ((string \<times> 'd scored_model) list \<Rightarrow> (string \<times> 'd scored_model) list) \<Rightarrow> ('w, 'd) pipeline
     \<Rightarrow> inference_request \<Rightarrow> 'd model list \<Rightarrow> 'w \<times> cycle_state
     \<Rightarrow> ((go_error + 'd model) \<times> ('w \<times> cycle_state)) \<times> metric list" where
  "Select_metered now ord p request cands s =
     (case Select ord p request cands s of (r, s') \<Rightarrow>
        ((r, s'), [ModelSelectorE2ELatency (time_sub (now s') (now s)), ModelSelectorAttempt (select_error r)]))"

subsection \<open>Body field to header\<close>

definition BodyFieldToHeader_metrics :: "(real \<Rightarrow> string) \<Rightarrow> body_field_to_header \<Rightarrow> 'w request_state \<Rightarrow> metric list" where
  "BodyFieldToHeader_metrics fmt_num p s =
     (case s of (w, cycleState, request) \<Rightarrow>
        (case jget (Body request) (fieldName p) of
           None \<Rightarrow> [BodyFieldNotFound (fieldName p)]
         | Some rawFieldValue \<Rightarrow> if sprint_v fmt_num rawFieldValue = [] then [BodyFieldEmpty (fieldName p)] else []))"

subsection \<open>Session affinity\<close>

record session_metrics =
  sessionCacheHits :: nat
  sessionCacheMisses :: nat
  sessionCacheSize :: nat
  sessionCacheEvictions :: nat

text \<open>The collectors that the package registers when it is initialised.\<close>

definition session_collectors :: "collector list" where
  "session_collectors =
     [collector_vec ''session_affinity_cache_hits_total'' ''Count of session affinity cache hits.'' [] [],
      collector_vec ''session_affinity_cache_misses_total'' ''Count of session affinity cache misses.'' [] [],
      collector_vec ''session_affinity_cache_size'' ''Current number of entries in the session affinity cache.'' [] [],
      collector_vec ''session_affinity_cache_evictions_total'' ''Count of session affinity cache evictions.'' [] []]"

definition session_init :: "string list \<Rightarrow> go_error option \<times> string list" where
  "session_init reg = must_register (map c_name session_collectors) reg"

definition on_evict :: "session_metrics \<Rightarrow> session_metrics" where
  "on_evict sm = sm\<lparr>sessionCacheEvictions := Suc (sessionCacheEvictions sm)\<rparr>"

definition session_score_metrics ::
  "(string \<Rightarrow> 'w \<Rightarrow> string option \<times> 'w) \<Rightarrow> string \<Rightarrow> inference_request \<Rightarrow> 'w \<Rightarrow> session_metrics \<Rightarrow> session_metrics" where
  "session_score_metrics cache_get sessionIDKey request w sm =
     (let sessionID = mget_zero [] (Headers request) sessionIDKey
      in if sessionID = [] then sm
         else (case fst (cache_get sessionID w) of
                 None \<Rightarrow> sm\<lparr>sessionCacheMisses := Suc (sessionCacheMisses sm)\<rparr>
               | Some _ \<Rightarrow> sm\<lparr>sessionCacheHits := Suc (sessionCacheHits sm)\<rparr>))"

definition session_response_metrics ::
  "('w \<Rightarrow> nat) \<Rightarrow> inference_response \<Rightarrow> 'w \<Rightarrow> session_metrics \<Rightarrow> session_metrics" where
  "session_response_metrics cache_len response w' sm =
     (if jstring (Body response) responseModelField = [] then sm else sm\<lparr>sessionCacheSize := cache_len w'\<rparr>)"

subsection \<open>Lemmas\<close>

text \<open>Metering leaves the selection as it is, and its counters are the outcomes.\<close>

lemma Select_metered_same: "fst (Select_metered now ord p request cands s) = Select ord p request cands s"
  by (simp add: Select_metered_def split: prod.split)

definition attempts :: "metrics_state \<Rightarrow> string \<Rightarrow> nat" where
  "attempts s status = mget_zero 0 (modelSelectorAttemptTotal s) status"

definition attempt_status :: "go_error option \<Rightarrow> string" where
  "attempt_status err = (if err = None then ''success'' else ''failure'')"

definition attempt_of :: "string \<Rightarrow> metric \<Rightarrow> bool" where
  "attempt_of status m \<longleftrightarrow> (case m of ModelSelectorAttempt err \<Rightarrow> status = attempt_status err | _ \<Rightarrow> False)"

lemma attempt_of_simps [simp]:
  "\<not> attempt_of status (ModelSelectorE2ELatency d)"
  "attempt_of status (ModelSelectorAttempt err) \<longleftrightarrow> status = attempt_status err"
  by (simp_all add: attempt_of_def)

lemma fold_attempts:
  "attempts (fold record_metric ms s) status = attempts s status + length (filter (attempt_of status) ms)"
proof (induction ms arbitrary: s)
  case (Cons m ms)
  have "attempts (record_metric m s) status = attempts s status + (if attempt_of status m then 1 else 0)"
    by (cases m) (auto simp: record_defs attempts_def attempt_of_def attempt_status_def inc_def mget_zero_def)
  with Cons show ?case by simp
qed simp

lemma Select_metered_attempts:
  "filter (attempt_of status) (snd (Select_metered now ord p request cands s))
     = (let err = select_error (fst (Select ord p request cands s))
        in if status = attempt_status err then [ModelSelectorAttempt err] else [])"
  by (simp add: Select_metered_def Let_def split: prod.split)

text \<open>Over any sequence of selections the two counters are the numbers of selections with that outcome.\<close>

lemma selection_attempts_counted:
  "attempts (fold record_metric (concat (map (\<lambda>(now, ord, p, request, cands, s). snd (Select_metered now ord p request cands s)) calls)) m) status
     = attempts m status + length (filter (\<lambda>(now, ord, p, request, cands, s).
         status = attempt_status (select_error (fst (Select ord p request cands s)))) calls)"
proof -
  have "length (filter (attempt_of status)
        (concat (map (\<lambda>(now, ord, p, request, cands, s). snd (Select_metered now ord p request cands s)) calls)))
      = length (filter (\<lambda>(now, ord, p, request, cands, s).
          status = attempt_status (select_error (fst (Select ord p request cands s)))) calls)"
    by (induction calls) (auto simp: Select_metered_attempts Let_def)
  then show ?thesis by (simp add: fold_attempts)
qed

text \<open>A body field is counted as missing, counted as empty, or put into its header.\<close>

lemma body_field_accounted:
  assumes "BodyFieldToHeader_ProcessRequest fmt_num p (w, c, q) = (r, (w', c', q'))"
  shows "r = None \<and> (case BodyFieldToHeader_metrics fmt_num p (w, c, q) of
      [] \<Rightarrow> \<exists>v. jget (Body q) (fieldName p) = Some v \<and> map_of (Headers q') (headerName p) = Some (sprint_v fmt_num v)
    | ms \<Rightarrow> length ms = 1 \<and> q' = q)"
  using assms
  by (auto simp: BodyFieldToHeader_ProcessRequest_def BodyFieldToHeader_metrics_def Let_def split: option.splits if_splits)

text \<open>Every request with a session identifier is a hit or a miss; on a miss no model is preferred.\<close>

lemma session_hits_and_misses:
  "sessionCacheHits (session_score_metrics get key request w sm) + sessionCacheMisses (session_score_metrics get key request w sm)
     = sessionCacheHits sm + sessionCacheMisses sm + (if mget_zero [] (Headers request) key = [] then 0 else 1)"
  "sessionCacheHits (session_score_metrics get key request w sm) = sessionCacheHits sm \<Longrightarrow>
     fst (SessionAffinity_Score get key request models (w, c)) = Inr (score_all (\<lambda>_. 0) models)"
  by (auto simp: session_score_metrics_def SessionAffinity_Score_def Let_def split: option.splits prod.splits if_splits)

text \<open>The names of all collectors differ, so that start-up does not panic on its own metrics.\<close>

lemma collectors_distinct: "distinct (map c_name session_collectors @ own_collectors)"
  by (simp add: own_collectors_names session_collectors_def collector_vec_def component_def)

lemma session_init_ok: "fst (session_init []) = None"
  using must_register_ok [of "[]"] collectors_distinct by (simp add: session_init_def)

end
