(* ===== verification/Tracing.thy ===== *)
theory Tracing
  imports Ext_Proc
begin

text \<open>
  Tracing: the gateway span of an exchange (the helpers of \<^verbatim>\<open>pkg/handlers/server.go\<close> and the span
  part of \<^verbatim>\<open>Process\<close>) and the set-up of the exporter and the sampler (\<^verbatim>\<open>tracing/telemetry.go\<close>).

  \<^item> The OpenTelemetry library is the record \<open>otel\<close>: its span contexts of type \<open>'c\<close>, what the propagator
    extracts from a carrier, whether a span context is valid or sampled, its identifiers, and the span
    context of the span that the tracer starts for given options.
  \<^item> A Go context is what this code reads from it: the span context and the values of the logger.
  \<^item> The process environment is a map; the exporters' constructors and the float parser are parameters.
\<close>

subsection \<open>Span contexts and the parent of the gateway span\<close>

record 'c otel =
  Extract_carrier :: "(string, string) gomap \<Rightarrow> 'c"
  IsValid :: "'c \<Rightarrow> bool"
  IsSampled :: "'c \<Rightarrow> bool"
  TraceID :: "'c \<Rightarrow> string"
  SpanID :: "'c \<Rightarrow> string"
  no_span :: 'c

record 'c go_ctx =
  ctx_span :: 'c
  ctx_log :: "(string \<times> string) list"

definition requestIdHeaderKey :: string where
  "requestIdHeaderKey = ''x-request-id''"

definition loggerWithSpanContext :: "'c otel \<Rightarrow> (string \<times> string) list \<Rightarrow> 'c \<Rightarrow> (string \<times> string) list \<times> bool" where
  "loggerWithSpanContext ot logger sc =
     (if \<not> IsValid ot sc then (logger, False)
      else (logger @ [(''trace_id'', TraceID ot sc), (''span_id'', SpanID ot sc)], True))"

definition httpSpanContextFromHeaders :: "'c otel \<Rightarrow> http_headers option \<Rightarrow> 'c" where
  "httpSpanContextFromHeaders ot headers =
     Extract_carrier ot
       (fold (\<lambda>hv carrier. mput (to_lower (hv_key hv)) (GetHeaderValue hv) carrier) (header_list headers) [])"

definition sampledHTTPTraceParent :: "'c otel \<Rightarrow> 'c \<Rightarrow> bool" where
  "sampledHTTPTraceParent ot headerSC \<longleftrightarrow> IsValid ot headerSC \<and> IsSampled ot headerSC"

definition requestTraceContext :: "'c otel \<Rightarrow> 'c go_ctx \<Rightarrow> 'c \<Rightarrow> 'c go_ctx" where
  "requestTraceContext ot streamCtx headerSC =
     (if IsValid ot headerSC then streamCtx\<lparr>ctx_span := headerSC\<rparr> else streamCtx\<lparr>ctx_span := no_span ot\<rparr>)"

definition gatewayRequestParentContext :: "'c otel \<Rightarrow> 'c go_ctx \<Rightarrow> 'c \<Rightarrow> 'c go_ctx \<times> bool" where
  "gatewayRequestParentContext ot streamCtx headerSC =
     (if sampledHTTPTraceParent ot headerSC then (requestTraceContext ot streamCtx headerSC, False)
      else (requestTraceContext ot streamCtx (no_span ot), True))"

subsection \<open>The span part of the receive loop\<close>

record 'c span_start =
  span_name :: string
  span_parent :: 'c
  withNewRoot :: bool
  span_links :: "'c list"

text \<open>
  The variables of \<^verbatim>\<open>Process\<close> that tracing uses: the context, the span, the logger, and, as ghosts, the
  spans started so far and whether the deferred function has ended the span.
\<close>

record 'c trace_state =
  t_ctx :: "'c go_ctx"
  t_span :: "'c option"
  t_logger :: "(string \<times> string) list"
  t_started :: "'c span_start list"
  t_ended :: nat

definition new_trace_state :: "'c go_ctx \<Rightarrow> 'c trace_state" where
  "new_trace_state c = \<lparr>t_ctx = c, t_span = None, t_logger = ctx_log c, t_started = [], t_ended = 0\<rparr>"

definition gateway_start :: "'c otel \<Rightarrow> 'c go_ctx \<Rightarrow> http_headers option \<Rightarrow> 'c span_start" where
  "gateway_start ot c headers =
     (let headerSC = httpSpanContextFromHeaders ot headers
      in case gatewayRequestParentContext ot c headerSC of (parentCtx, newRoot) \<Rightarrow>
           \<lparr>span_name = ''gateway.request'', span_parent = ctx_span parentCtx, withNewRoot = newRoot,
            span_links = (if newRoot \<and> IsValid ot headerSC then [headerSC] else [])\<rparr>)"

definition start_gateway_span ::
  "'c otel \<Rightarrow> ('c span_start \<Rightarrow> 'c) \<Rightarrow> http_headers option \<Rightarrow> 'c trace_state \<Rightarrow> 'c trace_state" where
  "start_gateway_span ot start headers ts =
     (if t_span ts \<noteq> None then ts
      else let opts = gateway_start ot (t_ctx ts) headers;
               sc = start opts;
               ts1 = ts\<lparr>t_ctx := (t_ctx ts)\<lparr>ctx_span := sc\<rparr>, t_span := Some sc, t_started := t_started ts @ [opts]\<rparr>
           in case loggerWithSpanContext ot (t_logger ts) sc of (enriched, ok) \<Rightarrow>
                if ok then ts1\<lparr>t_logger := enriched, t_ctx := (t_ctx ts1)\<lparr>ctx_log := enriched\<rparr>\<rparr> else ts1)"

definition log_request_id :: "http_headers option \<Rightarrow> 'c trace_state \<Rightarrow> 'c trace_state" where
  "log_request_id headers ts =
     (let requestId = ExtractHeaderValue headers requestIdHeaderKey
      in if length requestId > 0
         then let logger = t_logger ts @ [(requestIdHeaderKey, requestId)]
              in ts\<lparr>t_logger := logger, t_ctx := (t_ctx ts)\<lparr>ctx_log := logger\<rparr>\<rparr>
         else ts)"

text \<open>What a receive point does to these variables, up to the return of the loop.\<close>

fun trace_msg :: "'c otel \<Rightarrow> ('c span_start \<Rightarrow> 'c) \<Rightarrow> 'w input \<Rightarrow> 'c trace_state \<Rightarrow> 'c trace_state" where
  "trace_msg ot start (Recv (RequestHeadersMsg h)) ts = log_request_id h (start_gateway_span ot start h ts)"
| "trace_msg ot start _ ts = ts"

text \<open>
  The deferred \<^verbatim>\<open>span.End()\<close>, and a whole call: \<open>inputs\<close> are the receive points the loop gets to before it
  returns.
\<close>

definition end_span :: "'c trace_state \<Rightarrow> 'c trace_state" where
  "end_span ts = (if t_span ts \<noteq> None then ts\<lparr>t_ended := Suc (t_ended ts)\<rparr> else ts)"

definition trace_process :: "'c otel \<Rightarrow> ('c span_start \<Rightarrow> 'c) \<Rightarrow> 'w input list \<Rightarrow> 'c go_ctx \<Rightarrow> 'c trace_state" where
  "trace_process ot start inputs c = end_span (fold (trace_msg ot start) inputs (new_trace_state c))"

subsection \<open>Setting tracing up\<close>

datatype exporter = Console | Otlp

record trace_globals =
  environ :: "(string, string) gomap"
  tracer_provider :: "(exporter \<times> real) option"
  propagator_set :: bool
  error_handler_set :: bool
  provider_shut :: bool
  trace_errors :: "string list"

text \<open>\<^verbatim>\<open>if _, ok := os.LookupEnv(k); !ok { os.Setenv(k, v) }\<close> and a variable with a default.\<close>

definition default_env :: "string \<Rightarrow> string \<Rightarrow> (string, string) gomap \<Rightarrow> (string, string) gomap" where
  "default_env k v e = (if map_of e k = None then mput k v e else e)"

definition env_or :: "string \<Rightarrow> string \<Rightarrow> (string, string) gomap \<Rightarrow> string" where
  "env_or k d e = (case map_of e k of Some v \<Rightarrow> v | None \<Rightarrow> d)"

definition initTraceExporter ::
  "string option \<Rightarrow> string option \<Rightarrow> (string, string) gomap \<Rightarrow> string + exporter" where
  "initTraceExporter stdout_err otlp_err e =
     (case stdout_err of
        Some m \<Rightarrow> Inl (''failed to create stdouttrace exporter: '' @ m)
      | None \<Rightarrow>
          if env_or ''OTEL_TRACES_EXPORTER'' ''console'' e = ''otlp''
          then (case otlp_err of Some m \<Rightarrow> Inl (''failed to create otlp-grcp exporter: '' @ m) | None \<Rightarrow> Inr Otlp)
          else Inr Console)"

definition sampler_fraction :: "(string \<Rightarrow> real option) \<Rightarrow> (string, string) gomap \<Rightarrow> real" where
  "sampler_fraction parse_float e =
     (if env_or ''OTEL_TRACES_SAMPLER'' ''parentbased_traceidratio'' e = ''parentbased_traceidratio''
      then (case parse_float (env_or ''OTEL_TRACES_SAMPLER_ARG'' ''0.1'' e) of Some f \<Rightarrow> f | None \<Rightarrow> 1 / 10)
      else 1 / 10)"

definition InitTracing ::
  "(string \<Rightarrow> real option) \<Rightarrow> string option \<Rightarrow> string option \<Rightarrow> string \<Rightarrow> trace_globals \<Rightarrow> string option \<times> trace_globals" where
  "InitTracing parse_float stdout_err otlp_err defaultServiceName g =
     (let e = default_env ''OTEL_EXPORTER_OTLP_ENDPOINT'' ''http://localhost:4317''
                (default_env ''OTEL_SERVICE_NAME'' defaultServiceName (environ g));
          g1 = g\<lparr>environ := e\<rparr>
      in case initTraceExporter stdout_err otlp_err e of
           Inl m \<Rightarrow> (Some m, g1\<lparr>trace_errors := trace_errors g1 @ [''init trace exporter failed: '' @ m]\<rparr>)
         | Inr x \<Rightarrow>
             (let samplerType = env_or ''OTEL_TRACES_SAMPLER'' ''parentbased_traceidratio'' e;
                  g2 = (if samplerType = ''parentbased_traceidratio'' then g1
                        else g1\<lparr>trace_errors := trace_errors g1 @
                          [''unsupported sampler type: '' @ samplerType
                             @ '', fallback to parentbased_traceidratio with 0.1 Ratio'']\<rparr>)
              in (None, g2\<lparr>tracer_provider := Some (x, sampler_fraction parse_float e), propagator_set := True,
                          error_handler_set := True\<rparr>)))"

text \<open>The goroutine that a successful set-up starts, once the context has ended; \<open>err\<close> is the error of \<^verbatim>\<open>Shutdown\<close>.\<close>

definition shutdown_provider :: "string option \<Rightarrow> trace_globals \<Rightarrow> trace_globals" where
  "shutdown_provider err g =
     g\<lparr>provider_shut := True,
       trace_errors := trace_errors g @
         (case err of Some m \<Rightarrow> [''failed to shutdown TraceProvider: '' @ m] | None \<Rightarrow> [])\<rparr>"

text \<open>The scope name of \<^verbatim>\<open>Tracer(scope ...string)\<close>.\<close>

definition instrumentationName :: string where
  "instrumentationName = ''llm-d-inference-payload-processor''"

definition Tracer :: "string list \<Rightarrow> string" where
  "Tracer scope = (if length scope > 0 \<and> scope ! 0 \<noteq> [] then scope ! 0 else instrumentationName)"

subsection \<open>Lemmas\<close>

fun request_headers :: "'w input \<Rightarrow> http_headers option list" where
  "request_headers (Recv (RequestHeadersMsg h)) = [h]"
| "request_headers _ = []"

lemma log_request_id_frame [simp]:
  "t_span (log_request_id h ts) = t_span ts" "t_started (log_request_id h ts) = t_started ts"
  "t_ended (log_request_id h ts) = t_ended ts" "ctx_span (t_ctx (log_request_id h ts)) = ctx_span (t_ctx ts)"
  by (simp_all add: log_request_id_def Let_def)

lemma start_gateway_span_first:
  assumes "t_span ts = None"
  shows "t_span (start_gateway_span ot start h ts) = Some (start (gateway_start ot (t_ctx ts) h))"
    "t_started (start_gateway_span ot start h ts) = t_started ts @ [gateway_start ot (t_ctx ts) h]"
    "t_ended (start_gateway_span ot start h ts) = t_ended ts"
    "ctx_span (t_ctx (start_gateway_span ot start h ts)) = start (gateway_start ot (t_ctx ts) h)"
  using assms by (auto simp: start_gateway_span_def Let_def split: prod.splits)

lemma trace_msg_other: "request_headers i = [] \<Longrightarrow> trace_msg ot start i ts = ts"
  by (cases i rule: request_headers.cases) simp_all

lemma trace_msg_headers: "request_headers i = h # hs \<Longrightarrow> i = Recv (RequestHeadersMsg h) \<and> hs = []"
  by (cases i rule: request_headers.cases) simp_all

text \<open>Once the span is started, the loop keeps it.\<close>

lemma trace_msg_keeps:
  assumes "t_span ts = Some sc"
  shows "t_span (trace_msg ot start i ts) = Some sc" "t_started (trace_msg ot start i ts) = t_started ts"
    "t_ended (trace_msg ot start i ts) = t_ended ts" "ctx_span (t_ctx (trace_msg ot start i ts)) = ctx_span (t_ctx ts)"
  using assms by (cases i rule: request_headers.cases; simp add: start_gateway_span_def)+

lemma trace_fold_keeps:
  assumes "t_span ts = Some sc"
  shows "t_span (fold (trace_msg ot start) is ts) = Some sc
    \<and> t_started (fold (trace_msg ot start) is ts) = t_started ts
    \<and> t_ended (fold (trace_msg ot start) is ts) = t_ended ts
    \<and> ctx_span (t_ctx (fold (trace_msg ot start) is ts)) = ctx_span (t_ctx ts)"
  using assms
proof (induction "is" arbitrary: ts)
  case (Cons i "is")
  show ?case using Cons.IH [OF trace_msg_keeps(1) [OF Cons.prems, of ot start i]] trace_msg_keeps [OF Cons.prems, of ot start i] by simp
qed simp

lemma trace_fold:
  assumes "t_span ts = None"
  shows "case concat (map request_headers is) of
      [] \<Rightarrow> fold (trace_msg ot start) is ts = ts
    | h # _ \<Rightarrow> t_started (fold (trace_msg ot start) is ts) = t_started ts @ [gateway_start ot (t_ctx ts) h]
        \<and> t_span (fold (trace_msg ot start) is ts) = Some (start (gateway_start ot (t_ctx ts) h))
        \<and> ctx_span (t_ctx (fold (trace_msg ot start) is ts)) = start (gateway_start ot (t_ctx ts) h)
        \<and> t_ended (fold (trace_msg ot start) is ts) = t_ended ts"
  using assms
proof (induction "is" arbitrary: ts)
  case (Cons i "is")
  show ?case
  proof (cases "request_headers i")
    case Nil
    then show ?thesis using Cons.IH [OF Cons.prems] trace_msg_other [OF Nil, of ot start ts] by (simp del: concat_eq_Nil_conv split: list.splits)
  next
    case hs: (Cons h hs)
    define ts1 where "ts1 = trace_msg ot start i ts"
    have i: "i = Recv (RequestHeadersMsg h)" "hs = []" using trace_msg_headers [OF hs] by simp_all
    have 1: "t_span ts1 = Some (start (gateway_start ot (t_ctx ts) h))"
        "t_started ts1 = t_started ts @ [gateway_start ot (t_ctx ts) h]"
        "ctx_span (t_ctx ts1) = start (gateway_start ot (t_ctx ts) h)" "t_ended ts1 = t_ended ts"
      using start_gateway_span_first [OF Cons.prems] by (simp_all add: ts1_def i(1))
    show ?thesis using trace_fold_keeps [OF 1(1), of ot start "is"] 1 hs by (simp flip: ts1_def)
  qed
qed simp

lemma gateway_start_cases:
  "gateway_start ot c h =
     (let sc = httpSpanContextFromHeaders ot h
      in if IsValid ot sc \<and> IsSampled ot sc
         then \<lparr>span_name = ''gateway.request'', span_parent = sc, withNewRoot = False, span_links = []\<rparr>
         else \<lparr>span_name = ''gateway.request'', span_parent = no_span ot, withNewRoot = True,
               span_links = (if IsValid ot sc then [sc] else [])\<rparr>)"
  by (simp add: gateway_start_def gatewayRequestParentContext_def requestTraceContext_def sampledHTTPTraceParent_def Let_def)

lemma default_env_lookup:
  "map_of (default_env k v e) = (if map_of e k = None then (map_of e)(k \<mapsto> v) else map_of e)"
  by (simp add: default_env_def update_conv')

lemma InitTracing_environ:
  "map_of (environ (snd (InitTracing pf se oe n g))) =
     map_of (default_env ''OTEL_EXPORTER_OTLP_ENDPOINT'' ''http://localhost:4317'' (default_env ''OTEL_SERVICE_NAME'' n (environ g)))"
  by (simp add: InitTracing_def Let_def split: sum.split)

lemma env_or_default: "k \<noteq> k' \<Longrightarrow> env_or k d (default_env k' v e) = env_or k d e"
  by (simp add: env_or_def default_env_def update_conv' split: option.split)

subsection \<open>Properties\<close>

text \<open>
  C21: an exchange is one trace span, placed by its own HTTP headers. However often request headers are
  delivered, one gateway span is started, on the first delivery, and ended once; without request
  headers there is none. It continues the client's trace exactly when that is valid and sampled;
  otherwise it is a new root, the span context of the gRPC stream is not its parent, and a valid but
  unsampled client trace is kept as its only link. The handlers run in the context of that span.
\<close>

theorem gateway_span_once:
  "case concat (map request_headers inputs) of
     [] \<Rightarrow> t_started (trace_process ot start inputs c) = [] \<and> t_ended (trace_process ot start inputs c) = 0
   | h # _ \<Rightarrow>
       (let sc = httpSpanContextFromHeaders ot h; child = (IsValid ot sc \<and> IsSampled ot sc) in
        \<exists>st. t_started (trace_process ot start inputs c) = [st] \<and> t_ended (trace_process ot start inputs c) = 1
          \<and> ctx_span (t_ctx (trace_process ot start inputs c)) = start st
          \<and> withNewRoot st = (\<not> child)
          \<and> span_parent st = (if child then sc else no_span ot)
          \<and> span_links st = (if IsValid ot sc \<and> \<not> child then [sc] else []))"
  using trace_fold [of "new_trace_state c" ot start inputs]
  by (auto simp: trace_process_def end_span_def new_trace_state_def gateway_start_cases Let_def
      simp del: concat_eq_Nil_conv split: list.splits)

text \<open>
  Tracing is configured by the environment. A variable the operator has set is never changed, and
  the two that exporters need get their defaults. The sampling ratio is the operator's number when the
  sampler is the supported one and the number parses, and one tenth in every other case; the exporter
  is OTLP only when asked for. When an exporter cannot be created the error is returned and no
  provider, propagator or error handler is installed.
\<close>

theorem init_tracing_configures:
  "case InitTracing parse_float stdout_err otlp_err name g of (err, g') \<Rightarrow>
     map_of (environ g) \<subseteq>\<^sub>m map_of (environ g')
     \<and> env_or ''OTEL_SERVICE_NAME'' name (environ g) = env_or ''OTEL_SERVICE_NAME'' [] (environ g')
     \<and> env_or ''OTEL_EXPORTER_OTLP_ENDPOINT'' ''http://localhost:4317'' (environ g)
         = env_or ''OTEL_EXPORTER_OTLP_ENDPOINT'' [] (environ g')
     \<and> (case err of
          Some m \<Rightarrow> tracer_provider g' = tracer_provider g \<and> propagator_set g' = propagator_set g
            \<and> error_handler_set g' = error_handler_set g
        | None \<Rightarrow> \<exists>x. tracer_provider g' = Some (x, sampler_fraction parse_float (environ g))
            \<and> (x = Otlp \<longleftrightarrow> map_of (environ g) ''OTEL_TRACES_EXPORTER'' = Some ''otlp'')
            \<and> propagator_set g' \<and> error_handler_set g')"
proof -
  obtain err g' where run: "InitTracing parse_float stdout_err otlp_err name g = (err, g')" by force
  have e: "map_of (environ g') = map_of (default_env ''OTEL_EXPORTER_OTLP_ENDPOINT'' ''http://localhost:4317''
      (default_env ''OTEL_SERVICE_NAME'' name (environ g)))"
    using InitTracing_environ [of parse_float stdout_err otlp_err name g] run by simp
  have f: "sampler_fraction parse_float (default_env ''OTEL_EXPORTER_OTLP_ENDPOINT'' u (default_env ''OTEL_SERVICE_NAME'' v e))
      = sampler_fraction parse_float e" for u v e
    by (simp add: sampler_fraction_def env_or_default)
  have x: "env_or ''OTEL_TRACES_EXPORTER'' ''console'' e = ''otlp'' \<longleftrightarrow> map_of e ''OTEL_TRACES_EXPORTER'' = Some ''otlp''" for e
    by (simp add: env_or_def split: option.split)
  have sub: "map_of (environ g) \<subseteq>\<^sub>m map_of (environ g')"
    by (auto simp: e default_env_lookup map_le_def)
  have names: "env_or ''OTEL_SERVICE_NAME'' name (environ g) = env_or ''OTEL_SERVICE_NAME'' [] (environ g')"
      "env_or ''OTEL_EXPORTER_OTLP_ENDPOINT'' ''http://localhost:4317'' (environ g)
         = env_or ''OTEL_EXPORTER_OTLP_ENDPOINT'' [] (environ g')"
    by (simp_all add: env_or_def e default_env_lookup split: option.split)
  have "case err of
          Some m \<Rightarrow> tracer_provider g' = tracer_provider g \<and> propagator_set g' = propagator_set g
            \<and> error_handler_set g' = error_handler_set g
        | None \<Rightarrow> \<exists>x. tracer_provider g' = Some (x, sampler_fraction parse_float (environ g))
            \<and> (x = Otlp \<longleftrightarrow> map_of (environ g) ''OTEL_TRACES_EXPORTER'' = Some ''otlp'')
            \<and> propagator_set g' \<and> error_handler_set g'"
    using run by (auto simp: InitTracing_def initTraceExporter_def Let_def f env_or_default x
        split: sum.splits option.splits if_splits)
  with sub names show ?thesis by (simp add: run)
qed

end
