(* ===== verification/Certs.thy ===== *)
theory Certs
  imports Err_Common
begin

text \<open>
  The certificate reloader (\<^verbatim>\<open>pkg/common/certs.go\<close>): a goroutine that waits for events of the
  watched directory and reloads the key pair once no event has come for a quarter of a second.

  The state holds what the goroutine and the timer callbacks share: the published certificate, the
  deadline of the pending timer (\<^verbatim>\<open>Stop\<close> clears it, so there is at most one), and the callbacks that
  have read the files and not yet stored the result. The rest is the environment: the clock, what
  loading the key pair would return now (\<open>None\<close> for an error), the events sent and not yet received,
  and every content the files have had since the start.
\<close>

subsection \<open>State and operations\<close>

definition debounceDelay :: nat where
  "debounceDelay = 250 * 1000000"

record 'c cert_reloader =
  certPtr :: 'c
  debounceTimer :: "nat option"
  callbacks :: "'c option list"
  loop_ended :: bool
  cert_now :: nat
  disk :: "'c option"
  fs_events :: "fs_op list list"
  history :: "'c option list"

definition initial_reloader :: "'c \<Rightarrow> 'c option \<Rightarrow> 'c cert_reloader" where
  "initial_reloader init d =
     \<lparr>certPtr = init, debounceTimer = None, callbacks = [], loop_ended = False, cert_now = 0, disk = d,
      fs_events = [], history = []\<rparr>"

text \<open>\<open>new_watcher\<close> and \<open>add_path\<close> are the errors of \<^verbatim>\<open>fsnotify.NewWatcher\<close> and of adding the path.\<close>

definition NewCertReloader ::
  "go_error option \<Rightarrow> go_error option \<Rightarrow> string \<Rightarrow> 'c \<Rightarrow> 'c option \<Rightarrow> go_error + 'c cert_reloader" where
  "NewCertReloader new_watcher add_path path init d =
     (case new_watcher of
        Some e \<Rightarrow> Inl (PlainErr (''failed to create cert watcher: '' @ error_string e))
      | None \<Rightarrow>
          (case add_path of
             Some e \<Rightarrow> Inl (PlainErr (''failed to watch '' @ quoted path @ '': '' @ error_string e))
           | None \<Rightarrow> Inr (initial_reloader init d)))"

lemma NewCertReloader_Inr: "NewCertReloader e1 e2 path init d = Inr r \<Longrightarrow> r = initial_reloader init d"
  by (simp add: NewCertReloader_def split: option.splits)

definition Get :: "'c cert_reloader \<Rightarrow> 'c" where
  "Get r = certPtr r"

text \<open>One event: anything but a write or a create is skipped; the timer is stopped and set again.\<close>

definition cert_event :: "fs_op list \<Rightarrow> 'c cert_reloader \<Rightarrow> 'c cert_reloader" where
  "cert_event ops r =
     (if FsWrite \<in> set ops \<or> FsCreate \<in> set ops
      then r\<lparr>debounceTimer := Some (cert_now r + debounceDelay)\<rparr>
      else r)"

text \<open>The end of a timer callback: a certificate that did not load is only logged.\<close>

definition store_cert :: "'c option \<Rightarrow> 'c cert_reloader \<Rightarrow> 'c cert_reloader" where
  "store_cert loaded r = (case loaded of None \<Rightarrow> r | Some c \<Rightarrow> r\<lparr>certPtr := c\<rparr>)"

text \<open>
  The steps of the goroutine (\<open>receive\<close>, \<open>cancel\<close>), of the timer and its callbacks (\<open>fire\<close>, \<open>store\<close>)
  and of the environment (\<open>update\<close>, \<open>other\<close>, \<open>tick\<close>). The files are updated by writing or creating
  them, and the watcher reports every such update.
\<close>

inductive cert_step :: "'c cert_reloader \<Rightarrow> 'c cert_reloader \<Rightarrow> bool" where
  update: "FsWrite \<in> set ops \<or> FsCreate \<in> set ops \<Longrightarrow>
    cert_step r (r\<lparr>disk := d, history := history r @ [d], fs_events := fs_events r @ [ops]\<rparr>)"
| other: "cert_step r (r\<lparr>fs_events := fs_events r @ [ops]\<rparr>)"
| tick: "cert_step r (r\<lparr>cert_now := cert_now r + t\<rparr>)"
| receive: "fs_events r = ops # rest \<Longrightarrow> \<not> loop_ended r \<Longrightarrow>
    cert_step r (cert_event ops (r\<lparr>fs_events := rest\<rparr>))"
| cancel: "cert_step r (r\<lparr>loop_ended := True\<rparr>)"
| fire: "debounceTimer r = Some t \<Longrightarrow> t \<le> cert_now r \<Longrightarrow>
    cert_step r (r\<lparr>debounceTimer := None, callbacks := callbacks r @ [disk r]\<rparr>)"
| store: "callbacks r = xs @ loaded # ys \<Longrightarrow>
    cert_step r (store_cert loaded (r\<lparr>callbacks := xs @ ys\<rparr>))"

text \<open>Runs whose states all satisfy \<open>ok\<close>.\<close>

inductive cert_run :: "('c cert_reloader \<Rightarrow> bool) \<Rightarrow> 'c cert_reloader \<Rightarrow> 'c cert_reloader \<Rightarrow> bool" for ok r0 where
  start: "cert_run ok r0 r0"
| onward: "cert_run ok r0 r \<Longrightarrow> cert_step r r' \<Longrightarrow> ok r' \<Longrightarrow> cert_run ok r0 r'"

text \<open>At most one callback at a time: reading and storing a key pair takes less than the delay.\<close>

definition serial :: "'c cert_reloader \<Rightarrow> bool" where
  "serial r \<longleftrightarrow> length (callbacks r) \<le> 1"

definition quiet :: "'c cert_reloader \<Rightarrow> bool" where
  "quiet r \<longleftrightarrow> fs_events r = [] \<and> debounceTimer r = None \<and> callbacks r = []"

subsection \<open>Invariants\<close>

text \<open>Only certificates that were on disk are published.\<close>

definition seen_inv :: "'c \<Rightarrow> 'c option \<Rightarrow> 'c cert_reloader \<Rightarrow> bool" where
  "seen_inv init d r \<longleftrightarrow>
     certPtr r = init \<or> Some (certPtr r) \<in> set (d # history r)"

definition disk_inv :: "'c option \<Rightarrow> 'c cert_reloader \<Rightarrow> bool" where
  "disk_inv d r \<longleftrightarrow> disk r \<in> set (d # history r) \<and> set (callbacks r) \<subseteq> set (d # history r)"

lemma cert_step_seen:
  "cert_step r r' \<Longrightarrow> disk_inv d r \<Longrightarrow> seen_inv init d r \<Longrightarrow> disk_inv d r' \<and> seen_inv init d r'"
proof (induction rule: cert_step.induct)
  case (store r xs loaded ys)
  then show ?case by (cases loaded) (auto simp: disk_inv_def seen_inv_def store_cert_def)
qed (auto simp: disk_inv_def seen_inv_def cert_event_def)

text \<open>An update is still to be noticed, is being loaded, or has been published.\<close>

definition fresh_inv :: "'c cert_reloader \<Rightarrow> bool" where
  "fresh_inv r \<longleftrightarrow>
     loop_ended r \<or> history r = []
     \<or> (\<exists>ops\<in>set (fs_events r). FsWrite \<in> set ops \<or> FsCreate \<in> set ops)
     \<or> debounceTimer r \<noteq> None
     \<or> (callbacks r = [disk r])
     \<or> (callbacks r = [] \<and> (\<forall>c. disk r = Some c \<longrightarrow> certPtr r = c))"

lemma cert_step_fresh:
  "cert_step r r' \<Longrightarrow> serial r \<Longrightarrow> serial r' \<Longrightarrow> fresh_inv r \<Longrightarrow> fresh_inv r'"
proof (induction rule: cert_step.induct)
  case (store r xs loaded ys)
  then have c: "callbacks r = [loaded]" "xs = []" "ys = []" by (simp_all add: serial_def)
  then show ?case using store.prems(3) by (cases loaded) (auto simp: fresh_inv_def store_cert_def)
next
  case (fire r t)
  then have "callbacks r = []" by (simp add: serial_def)
  then show ?case by (simp add: fresh_inv_def)
qed (auto simp: fresh_inv_def cert_event_def)

lemma cert_run_inv:
  assumes "cert_run serial (initial_reloader init d) r"
  shows "serial r \<and> disk_inv d r \<and> seen_inv init d r \<and> fresh_inv r"
  using assms
proof (induction rule: cert_run.induct)
  case start
  show ?case by (simp add: initial_reloader_def serial_def disk_inv_def seen_inv_def fresh_inv_def)
next
  case (onward r r')
  show ?case
    using cert_step_seen [OF onward.hyps(2), of d init] cert_step_fresh [OF onward.hyps(2)] onward.IH onward.hyps(3) by simp
qed

subsection \<open>Progress\<close>

lemma cert_run_trans: "cert_run ok r1 r2 \<Longrightarrow> cert_run ok r0 r1 \<Longrightarrow> cert_run ok r0 r2"
  by (induction rule: cert_run.induct) (auto intro: cert_run.onward)

lemma callbacks_finish:
  assumes "serial r"
  obtains r' where "cert_run serial r r'" "callbacks r' = []" "history r' = history r" "disk r' = disk r"
    "loop_ended r' = loop_ended r" "fs_events r' = fs_events r" "debounceTimer r' = debounceTimer r"
proof (cases "callbacks r")
  case Nil
  then show thesis using cert_run.start that by blast
next
  case (Cons x xs)
  then have "callbacks r = [] @ x # []" using assms by (simp add: serial_def)
  from cert_step.store [OF this] have "cert_run serial r (store_cert x (r\<lparr>callbacks := []\<rparr>))"
    by (intro cert_run.onward [OF cert_run.start]) (auto simp: serial_def store_cert_def split: option.split)
  then show thesis by (rule that) (simp_all add: store_cert_def split: option.split)
qed

lemma events_received:
  assumes "fs_events r = es" and "\<not> loop_ended r" and "callbacks r = []"
  shows "\<exists>r'. cert_run serial r r' \<and> fs_events r' = [] \<and> callbacks r' = [] \<and> \<not> loop_ended r'
    \<and> history r' = history r \<and> disk r' = disk r"
  using assms
proof (induction es arbitrary: r)
  case Nil
  then show ?case using cert_run.start by blast
next
  case (Cons ops es)
  let ?x = "cert_event ops (r\<lparr>fs_events := es\<rparr>)"
  have "cert_step r ?x" using Cons.prems(1,2) by (rule cert_step.receive)
  then have "cert_run serial r ?x"
    using Cons.prems(3) by (intro cert_run.onward [OF cert_run.start]) (auto simp: serial_def cert_event_def)
  moreover have "fs_events ?x = es \<and> \<not> loop_ended ?x \<and> callbacks ?x = [] \<and> history ?x = history r \<and> disk ?x = disk r"
    using Cons.prems by (simp add: cert_event_def)
  ultimately show ?case using Cons.IH [of ?x] cert_run_trans by metis
qed

lemma timer_fires:
  assumes "fs_events r = []" and "callbacks r = []"
  shows "\<exists>r'. cert_run serial r r' \<and> quiet r' \<and> loop_ended r' = loop_ended r \<and> history r' = history r \<and> disk r' = disk r"
proof (cases "debounceTimer r")
  case None
  then show ?thesis using assms cert_run.start by (intro exI [of _ r]) (simp add: quiet_def cert_run.start)
next
  case (Some t)
  let ?x = "r\<lparr>cert_now := cert_now r + t\<rparr>"
  let ?y = "?x\<lparr>debounceTimer := None, callbacks := callbacks ?x @ [disk ?x]\<rparr>"
  have "cert_run serial r ?x"
    using assms(2) by (intro cert_run.onward [OF cert_run.start cert_step.tick]) (simp add: serial_def)
  moreover have "cert_step ?x ?y" using Some by (intro cert_step.fire [where t = t]) (simp_all add: le_add2)
  ultimately have 2: "cert_run serial r ?y"
    using assms(2) by (elim cert_run.onward) (simp_all add: serial_def)
  obtain r' where r': "cert_run serial ?y r'" "callbacks r' = []" "history r' = history ?y" "disk r' = disk ?y"
    "loop_ended r' = loop_ended ?y" "fs_events r' = fs_events ?y" "debounceTimer r' = debounceTimer ?y"
    using callbacks_finish [of ?y] assms(2) by (auto simp: serial_def)
  then have "quiet r'" using assms(1) by (simp add: quiet_def)
  then show ?thesis using cert_run_trans [OF r'(1) 2] r' by (intro exI [of _ r']) simp
qed

subsection \<open>Property\<close>



end
