(* ===== verification/Sources.thy ===== *)
theory Sources
  imports Processor Model_Config
begin

text \<open>
  \<^verbatim>\<open>runDatasource\<close> of \<^verbatim>\<open>pkg/datalayer/processor.go\<close>, the goroutine that drives a data source, over the
  interface \<^verbatim>\<open>datasource.DataSource\<close>, and its composition with the model configuration source.

  A data source is given by four operations on its state \<open>'s\<close>: \<open>src_start\<close>, which depends on what it
  finds outside (\<open>'i\<close>); \<open>src_turn\<close>, one turn of its own goroutine on an input \<open>'j\<close>, impossible
  when \<open>None\<close>, told whether the context has ended; \<open>src_stop\<close>, the part of \<^verbatim>\<open>Stop\<close> before it waits, which may panic; and
  \<open>src_joined\<close>, the condition \<^verbatim>\<open>Stop\<close> waits for. The locale \<open>data_source\<close> states what the goroutine
  relies on and shows that it then never panics, calls \<^verbatim>\<open>Stop\<close> at most once and only after a start
  that succeeded, and can always finish once the context has ended.
\<close>

subsection \<open>The goroutine\<close>

record ('s, 'i, 'j) source_ops =
  src_start :: "'i \<Rightarrow> 's \<Rightarrow> go_error option \<times> 's"
  src_turn :: "bool \<Rightarrow> 'j \<Rightarrow> 's \<Rightarrow> 's option"
  src_stop :: "'s \<Rightarrow> go_error + 's"
  src_joined :: "'s \<Rightarrow> bool"

text \<open>
  The history kept: whether a start succeeded and how often \<^verbatim>\<open>Stop\<close> was called.
  Where the goroutine is: before \<^verbatim>\<open>d.Start\<close>, at \<^verbatim>\<open><-ctx.Done()\<close>, inside \<^verbatim>\<open>d.Stop\<close>, returned (with the
  deferred \<^verbatim>\<open>wg.Done\<close>), or crashed.
\<close>

datatype phase = Starting | Waiting | Stopping | Returned | Crashed

record 's source_run =
  pc :: phase
  ctx_done :: bool
  src :: 's
  came_up :: bool
  stops :: nat

definition new_run :: "'s \<Rightarrow> 's source_run" where
  "new_run s = \<lparr>pc = Starting, ctx_done = False, src = s, came_up = False, stops = 0\<rparr>"

text \<open>What happens next: the end of the context, a turn of \<^verbatim>\<open>runDatasource\<close>, a turn of the source.\<close>

datatype ('i, 'j) move = Cancel | Go 'i | Source 'j

text \<open>One turn of \<^verbatim>\<open>runDatasource\<close>; \<open>None\<close> while it blocks or after it has ended.\<close>

definition runDatasource ::
  "('s, 'i, 'j) source_ops \<Rightarrow> 'i \<Rightarrow> 's source_run \<Rightarrow> 's source_run option" where
  "runDatasource d i r =
     (case pc r of
        Starting \<Rightarrow>
          (case src_start d i (src r) of
             (Some err, s') \<Rightarrow> Some (r\<lparr>pc := Returned, src := s'\<rparr>)
           | (None, s') \<Rightarrow> Some (r\<lparr>pc := Waiting, src := s', came_up := True\<rparr>))
      | Waiting \<Rightarrow>
          if \<not> ctx_done r then None
          else
            (case src_stop d (src r) of
               Inl panic \<Rightarrow> Some (r\<lparr>pc := Crashed, stops := stops r + 1\<rparr>)
             | Inr s' \<Rightarrow> Some (r\<lparr>pc := Stopping, src := s', stops := stops r + 1\<rparr>))
      | Stopping \<Rightarrow> if src_joined d (src r) then Some (r\<lparr>pc := Returned\<rparr>) else None
      | Returned \<Rightarrow> None
      | Crashed \<Rightarrow> None)"

definition make_move ::
  "('s, 'i, 'j) source_ops \<Rightarrow> ('i, 'j) move \<Rightarrow> 's source_run \<Rightarrow> 's source_run option" where
  "make_move d m r =
     (case m of
        Cancel \<Rightarrow> Some (r\<lparr>ctx_done := True\<rparr>)
      | Go i \<Rightarrow> runDatasource d i r
      | Source j \<Rightarrow> map_option (\<lambda>s'. r\<lparr>src := s'\<rparr>) (src_turn d (ctx_done r) j (src r)))"

inductive run_from ::
  "('s, 'i, 'j) source_ops \<Rightarrow> 's source_run \<Rightarrow> 's source_run \<Rightarrow> bool" for d r0 where
  here: "run_from d r0 r0"
| move: "run_from d r0 r \<Longrightarrow> make_move d m r = Some r' \<Longrightarrow> run_from d r0 r'"

lemma run_from_trans: "run_from d a b \<Longrightarrow> run_from d b c \<Longrightarrow> run_from d a c"
  by (rotate_tac, induction rule: run_from.induct) (auto intro: run_from.move)

subsection \<open>What the goroutine relies on\<close>

text \<open>
  \<open>fresh\<close>: never started; \<open>live\<close>: started and not told to stop; \<open>ending\<close>: told to stop. A source that has
  been told to stop can end by one turn of its own, whatever state it is in.
\<close>

locale data_source =
  fixes d :: "('s, 'i, 'j) source_ops"
    and fresh live ending :: "'s \<Rightarrow> bool"
  assumes start_live: "fresh s \<Longrightarrow> src_start d i s = (None, s') \<Longrightarrow> live s'"
    and turn_fresh: "fresh s \<Longrightarrow> src_turn d c j s = Some s' \<Longrightarrow> fresh s'"
    and turn_live: "live s \<Longrightarrow> src_turn d c j s = Some s' \<Longrightarrow> live s'"
    and stop_live: "live s \<Longrightarrow> \<exists>s'. src_stop d s = Inr s' \<and> ending s'"
    and turn_ending: "ending s \<Longrightarrow> src_turn d c j s = Some s' \<Longrightarrow> ending s'"
    and ending_joins: "ending s \<Longrightarrow> \<not> src_joined d s \<Longrightarrow> \<exists>j s'. src_turn d c j s = Some s' \<and> src_joined d s'"
begin

definition run_inv :: "'s source_run \<Rightarrow> bool" where
  "run_inv r \<longleftrightarrow>
     (case pc r of
        Starting \<Rightarrow> fresh (src r) \<and> stops r = 0 \<and> \<not> came_up r
      | Waiting \<Rightarrow> live (src r) \<and> stops r = 0 \<and> came_up r
      | Stopping \<Rightarrow> ending (src r) \<and> stops r = 1 \<and> came_up r
      | Returned \<Rightarrow> stops r = (if came_up r then 1 else 0)
      | Crashed \<Rightarrow> False)"

lemma run_inv_go:
  assumes "run_inv r" and "runDatasource d i r = Some r'"
  shows "run_inv r'"
proof (cases "pc r")
  case Starting
  then show ?thesis
    using assms start_live [of "src r" i] by (auto simp: run_inv_def runDatasource_def split: option.splits prod.splits)
next
  case Waiting
  then show ?thesis
    using assms stop_live [of "src r"] by (auto simp: run_inv_def runDatasource_def split: if_splits)
qed (use assms in \<open>auto simp: run_inv_def runDatasource_def split: if_splits\<close>)

lemma run_inv_move: "run_inv r \<Longrightarrow> make_move d m r = Some r' \<Longrightarrow> run_inv r'"
proof (cases m)
  case (Source j)
  assume "run_inv r" "make_move d m r = Some r'"
  with Source show ?thesis
    by (auto simp: make_move_def run_inv_def split: phase.splits intro: turn_fresh turn_live turn_ending)
next
  case Cancel
  assume "run_inv r" "make_move d m r = Some r'"
  with Cancel show ?thesis by (auto simp: make_move_def run_inv_def split: phase.splits)
qed (auto simp: make_move_def intro: run_inv_go)

lemma run_inv_run: "run_from d (new_run s) r \<Longrightarrow> fresh s \<Longrightarrow> run_inv r"
proof (induction rule: run_from.induct)
  case here
  then show ?case by (simp add: run_inv_def new_run_def)
qed (auto intro: run_inv_move)

text \<open>From every state some continuation lets the goroutine return, once the context has ended.\<close>

lemma stopping_returns:
  assumes "run_inv r" and "pc r = Stopping"
  shows "\<exists>r'. run_from d r r' \<and> pc r' = Returned \<and> stops r' = 1"
proof -
  have ending: "ending (src r)" "stops r = 1" using assms by (simp_all add: run_inv_def)
  obtain r1 where r1: "run_from d r r1" "pc r1 = Stopping" "src_joined d (src r1)" "stops r1 = 1"
  proof (cases "src_joined d (src r)")
    case True
    then show ?thesis using that [of r] assms(2) ending by (simp add: run_from.here)
  next
    case False
    then obtain j s' where j: "src_turn d (ctx_done r) j (src r) = Some s'" "src_joined d s'"
      using ending_joins [OF ending(1)] by blast
    have "make_move d (Source j) r = Some (r\<lparr>src := s'\<rparr>)" by (simp add: make_move_def j(1))
    from that [OF run_from.move [OF run_from.here this]] show ?thesis
      using assms(2) ending j(2) by simp
  qed
  then have "make_move d (Go undefined) r1 = Some (r1\<lparr>pc := Returned\<rparr>)"
    by (simp add: make_move_def runDatasource_def)
  from run_from.move [OF r1(1) this] r1(4) show ?thesis by (intro exI [of _ "r1\<lparr>pc := Returned\<rparr>"]) simp
qed

lemma waiting_returns:
  assumes "run_inv r" and "pc r = Waiting" and "ctx_done r"
  shows "\<exists>r'. run_from d r r' \<and> pc r' = Returned \<and> stops r' = 1"
proof -
  obtain s' where s': "src_stop d (src r) = Inr s'" using assms stop_live by (auto simp: run_inv_def)
  let ?r = "r\<lparr>pc := Stopping, src := s', stops := stops r + 1\<rparr>"
  have go: "make_move d (Go undefined) r = Some ?r"
    using assms s' by (simp add: make_move_def runDatasource_def)
  from run_inv_move [OF assms(1) go] stopping_returns [of ?r] obtain r'
    where "run_from d ?r r'" "pc r' = Returned" "stops r' = 1" by auto
  with run_from_trans [OF run_from.move [OF run_from.here go]] show ?thesis by blast
qed

lemma starting_returns:
  assumes "run_inv r" and "pc r = Starting" and "ctx_done r"
  shows "\<exists>r'. run_from d r r' \<and> pc r' = Returned"
proof -
  obtain e s' where s': "src_start d undefined (src r) = (e, s')" by (cases "src_start d undefined (src r)")
  let ?r = "r\<lparr>pc := (if e = None then Waiting else Returned), src := s', came_up := (e = None \<or> came_up r)\<rparr>"
  have go: "make_move d (Go undefined) r = Some ?r"
    using assms s' by (cases e) (auto simp: make_move_def runDatasource_def run_inv_def)
  note step = run_from.move [OF run_from.here go]
  show ?thesis
  proof (cases e)
    case None
    with run_inv_move [OF assms(1) go] waiting_returns [of ?r] assms(3) obtain r'
      where "run_from d ?r r'" "pc r' = Returned" by auto
    with run_from_trans [OF step] show ?thesis by blast
  qed (use step in auto)
qed

lemma source_goroutine:
  assumes "run_from d (new_run s) r" and "fresh s"
  shows "pc r \<noteq> Crashed" and "stops r = (if came_up r \<and> pc r \<in> {Stopping, Returned} then 1 else 0)"
    and "ctx_done r \<Longrightarrow> \<exists>r'. run_from d r r' \<and> pc r' = Returned"
proof -
  have inv: "run_inv r" using run_inv_run assms by blast
  then show "pc r \<noteq> Crashed" "stops r = (if came_up r \<and> pc r \<in> {Stopping, Returned} then 1 else 0)"
    by (auto simp: run_inv_def split: phase.splits)
  show "\<exists>r'. run_from d r r' \<and> pc r' = Returned" if "ctx_done r"
    using inv that starting_returns [OF inv] waiting_returns [OF inv] stopping_returns [OF inv] run_from.here [of d r]
    by (cases "pc r") (auto simp: run_inv_def)
qed

end

text \<open>A property of the source's state that every operation keeps holds throughout.\<close>

lemma run_from_source_inv:
  assumes "run_from d r0 r" and "P (src r0)"
    and "\<And>i s. P s \<Longrightarrow> P (snd (src_start d i s))"
    and "\<And>c j s s'. P s \<Longrightarrow> src_turn d c j s = Some s' \<Longrightarrow> P s'"
    and "\<And>s s'. P s \<Longrightarrow> src_stop d s = Inr s' \<Longrightarrow> P s'"
  shows "P (src r)"
  using assms(1)
proof (induction rule: run_from.induct)
  case (move r m r')
  show ?case
  proof (cases m)
    case (Go i)
    then show ?thesis
      using move assms(3) [of "src r" i] assms(5) [of "src r"]
      by (auto simp: make_move_def runDatasource_def split: phase.splits option.splits prod.splits sum.splits if_splits)
  qed (use move assms(4) in \<open>auto simp: make_move_def\<close>)
qed (rule assms(2))

subsection \<open>The model configuration source\<close>

text \<open>
  The state: the source, whether its watcher goroutine runs, and the registry. The file and the two
  errors the watcher's creation can give are what a start finds outside. The watcher receives from
  a channel only once it is closed, and closes \<^verbatim>\<open>doneCh\<close> as it returns.
\<close>

definition model_source ::
  "(string \<Rightarrow> go_error + models_config) \<Rightarrow> ((string \<times> 'd model) list \<Rightarrow> (string \<times> 'd model) list)
     \<Rightarrow> (string \<Rightarrow> go_error + string)
     \<Rightarrow> (model_config_source \<times> bool \<times> 'd store, file_state \<times> go_error option \<times> go_error option, watch_input) source_ops" where
  "model_source decode ord abs_path =
     \<lparr>src_start = (\<lambda>(f, newErr, addErr) (c, watching, ds).
        case Start decode ord f newErr addErr ds of (err, ds') \<Rightarrow> (err, c, watching \<or> err = None, ds')),
      src_turn = (\<lambda>ctxDone i (c, watching, ds).
        if \<not> watching \<or> (i = WStop \<and> \<not> stopCh_closed c) \<or> (i = WCtxDone \<and> \<not> ctxDone) then None
        else (case watch_loop decode ord abs_path (absModelsPath c) [i] ds of
                (ended, ds') \<Rightarrow> Some (c\<lparr>doneCh_closed := doneCh_closed c \<or> ended\<rparr>, \<not> ended, ds'))),
      src_stop = (\<lambda>(c, watching, ds).
        case Stop_close c of Inl panic \<Rightarrow> Inl panic | Inr c' \<Rightarrow> Inr (c', watching, ds)),
      src_joined = (\<lambda>(c, watching, ds). Stop_returns c)\<rparr>"

definition source_fresh :: "model_config_source \<times> bool \<times> 'd store \<Rightarrow> bool" where
  "source_fresh s = (case s of (c, watching, ds) \<Rightarrow> \<not> watching \<and> \<not> stopCh_closed c)"

definition source_live :: "model_config_source \<times> bool \<times> 'd store \<Rightarrow> bool" where
  "source_live s = (case s of (c, watching, ds) \<Rightarrow> \<not> stopCh_closed c \<and> (watching \<or> doneCh_closed c))"

definition source_ending :: "model_config_source \<times> bool \<times> 'd store \<Rightarrow> bool" where
  "source_ending s = (case s of (c, watching, ds) \<Rightarrow> stopCh_closed c \<and> (watching \<or> doneCh_closed c))"

lemmas source_state_defs = source_fresh_def source_live_def source_ending_def

interpretation mcs: data_source "model_source decode ord abs_path" source_fresh source_live source_ending
proof
  fix s :: "model_config_source \<times> bool \<times> 'a store" and c
  assume s: "source_ending s" "\<not> src_joined (model_source decode ord abs_path) s"
  obtain k watching ds where "s = (k, watching, ds)" by (cases s)
  with s have "src_turn (model_source decode ord abs_path) c WStop s = Some (k\<lparr>doneCh_closed := True\<rparr>, False, ds)"
    by (simp add: model_source_def source_ending_def Stop_returns_def)
  moreover have "src_joined (model_source decode ord abs_path) (k\<lparr>doneCh_closed := True\<rparr>, False, ds)"
    by (simp add: model_source_def Stop_returns_def)
  ultimately show "\<exists>j s'. src_turn (model_source decode ord abs_path) c j s = Some s'
      \<and> src_joined (model_source decode ord abs_path) s'" by blast
qed (auto simp: model_source_def source_state_defs Stop_close_def split: prod.splits if_splits)

lemma model_source_store_ok:
  assumes "run_from (model_source decode ord abs_path) (new_run (c, w, ds)) r" and "perm_of ord" and "store_ok ds"
  shows "store_ok (snd (snd (src r))) \<and> absModelsPath (fst (src r)) = absModelsPath c"
  using assms(1)
proof (rule run_from_source_inv [where P = "\<lambda>s. store_ok (snd (snd s)) \<and> absModelsPath (fst s) = absModelsPath c"])
  fix i :: "file_state \<times> go_error option \<times> go_error option" and s :: "model_config_source \<times> bool \<times> 'a store"
  assume "store_ok (snd (snd s)) \<and> absModelsPath (fst s) = absModelsPath c"
  then show "store_ok (snd (snd (snd (src_start (model_source decode ord abs_path) i s))))
      \<and> absModelsPath (fst (snd (src_start (model_source decode ord abs_path) i s))) = absModelsPath c"
    using store_ok_Start [OF assms(2), of "snd (snd s)" decode "fst i" "fst (snd i)" "snd (snd i)"]
    by (cases s, cases i) (auto simp: model_source_def split: prod.splits)
next
  fix cd j and s s' :: "model_config_source \<times> bool \<times> 'a store"
  assume "store_ok (snd (snd s)) \<and> absModelsPath (fst s) = absModelsPath c"
    and "src_turn (model_source decode ord abs_path) cd j s = Some s'"
  then show "store_ok (snd (snd s')) \<and> absModelsPath (fst s') = absModelsPath c"
    using store_ok_watch_event [OF assms(2)]
    by (cases s, cases j) (auto simp: model_source_def split: if_splits)
qed (auto simp: model_source_def Stop_close_def new_run_def assms(3) split: if_splits)

text \<open>One event on the configuration file, seen from the watcher's turn.\<close>

lemma model_source_event:
  "src_turn (model_source decode ord abs_path) c (WEvent n ops f) (k, True, ds) =
     Some (k, True, watch_event decode ord abs_path (absModelsPath k) n ops f ds)"
  by (simp add: model_source_def)

lemma factory_source:
  "DatasourceFactory dec abs_path stat name raw = Inr c \<Longrightarrow>
   \<exists>path. path \<noteq> [] \<and> dec raw = Inr path \<and> abs_path path = Inr (absModelsPath c)
     \<and> stat (absModelsPath c) = Inr False \<and> \<not> stopCh_closed c \<and> \<not> doneCh_closed c"
  by (auto simp: DatasourceFactory_def NewModelConfigDataSource_def split: sum.splits if_splits)

subsection \<open>Properties\<close>

text \<open>
  C25: the model configuration source under the processor's goroutine. For a source the factory made,
  whatever the file, the watcher and the context do and in whatever order: nothing panics; \<^verbatim>\<open>Stop\<close> is
  called exactly once when the start succeeded and never when it failed (it would then block for
  ever); once the context has ended the goroutine can always return, so \<^verbatim>\<open>Processor.Stop\<close> does
  not hang on it. While the watcher runs, an event on the configured file whose content
  decodes brings the registry to the file's valid entries, a removed file to the empty registry.
\<close>

theorem model_source_runs_and_stops:
  assumes "perm_of ord" and "store_ok ds" and "DatasourceFactory dec abs_path stat name raw = Inr c"
    and "run_from (model_source decode ord abs_path) (new_run (c, False, ds)) r"
  shows "pc r \<noteq> Crashed \<and> stops r = (if came_up r \<and> pc r \<in> {Stopping, Returned} then 1 else 0)
    \<and> (ctx_done r \<longrightarrow> (\<exists>r'. run_from (model_source decode ord abs_path) r r' \<and> pc r' = Returned))
    \<and> (\<forall>k ds1 path ops f data cfg. src r = (k, True, ds1) \<and> dec raw = Inr path
          \<and> set ops \<inter> {FsWrite, FsCreate, FsRemove, FsRename} \<noteq> {} \<and> readModelsFile f False = Inr data
          \<and> (if data = [] then Inr empty_config else decode data) = Inr cfg \<longrightarrow>
         (\<exists>ds'. make_move (model_source decode ord abs_path) (Source (WEvent path ops f)) r = Some (r\<lparr>src := (k, True, ds')\<rparr>)
            \<and> model_names ds' = {mc_Name m |m. m \<in> set (cfg_Models cfg) \<and> valid_entry m}))"
proof -
  from factory_source [OF assms(3)] obtain path0
    where path0: "dec raw = Inr path0" "abs_path path0 = Inr (absModelsPath c)" "\<not> stopCh_closed c" by blast
  have fresh: "source_fresh (c, False, ds)" using path0(3) by (simp add: source_fresh_def)
  have "\<exists>ds'. make_move (model_source decode ord abs_path) (Source (WEvent path ops f)) r = Some (r\<lparr>src := (k, True, ds')\<rparr>)
      \<and> model_names ds' = {mc_Name m |m. m \<in> set (cfg_Models cfg) \<and> valid_entry m}"
    if src: "src r = (k, True, ds1)" and path: "dec raw = Inr path"
      and ev: "set ops \<inter> {FsWrite, FsCreate, FsRemove, FsRename} \<noteq> {}" "readModelsFile f False = Inr data"
        "(if data = [] then Inr empty_config else decode data) = Inr cfg"
    for k ds1 path ops f data cfg
  proof -
    have ok: "store_ok ds1" "absModelsPath k = absModelsPath c"
      using model_source_store_ok [OF assms(4,1,2)] src by simp_all
    then have "abs_path path = Inr (absModelsPath k)" using path path0 by simp
    note names = watch_event_syncs(1) [where decode = decode and abs_path = abs_path and name = path, OF assms(1) ok(1) this ev]
    have "make_move (model_source decode ord abs_path) (Source (WEvent path ops f)) r
        = Some (r\<lparr>src := (k, True, watch_event decode ord abs_path (absModelsPath k) path ops f ds1)\<rparr>)"
      by (simp add: make_move_def src model_source_event)
    with names show ?thesis by blast
  qed
  with mcs.source_goroutine [OF assms(4) fresh] show ?thesis by blast
qed

theorem model_source_runs_and_stops_witness:
  "\<exists>r. run_from (model_source (\<lambda>_. Inr sample_config) rev Inr)
       (new_run (NewModelConfigDataSource ''mc'' ''/m.json'', False, NewDatastore :: unit store)) r
     \<and> pc r = Waiting \<and> stops r = 0
     \<and> (\<exists>r' k ds'. make_move (model_source (\<lambda>_. Inr sample_config) rev Inr) (Source (WEvent ''/m.json'' [FsCreate] (Content ''{}''))) r = Some r'
          \<and> src r' = (k, True, ds') \<and> model_names ds' = {''a''})"
proof -
  define d where "d = model_source (\<lambda>_. Inr sample_config) (rev :: (string \<times> unit model) list \<Rightarrow> _) Inr"
  define c where "c = NewModelConfigDataSource ''mc'' ''/m.json''"
  define r0 where "r0 = new_run (c, False, NewDatastore :: unit store)"
  have fac: "DatasourceFactory Inr Inr (\<lambda>_. Inr False) ''mc'' ''/m.json'' = Inr c"
    by (simp add: DatasourceFactory_def c_def)
  have "Start (\<lambda>_. Inr sample_config) rev (Content []) None None (NewDatastore :: unit store)
      = (None, sync_config rev empty_config NewDatastore)"
    by (simp add: Start_def readModelsFile_def syncModels_def)
  then have go: "make_move d (Go (Content [], None, None)) r0
      = Some (r0\<lparr>pc := Waiting, src := (c, True, sync_config rev empty_config NewDatastore), came_up := True\<rparr>)" (is "_ = Some ?r")
    by (simp add: make_move_def runDatasource_def d_def r0_def new_run_def model_source_def)
  from run_from.move [OF run_from.here go] have run: "run_from d r0 ?r" .
  have ok: "store_ok (NewDatastore :: unit store)" by (simp add: NewDatastore_def store_ok_def)
  note main = model_source_runs_and_stops [OF perm_of_rev ok fac run [unfolded d_def r0_def]]
  have st: "stops ?r = 0" using conjunct1 [OF conjunct2 [OF main]] by (simp add: r0_def)
  obtain ds' where ds': "make_move d (Source (WEvent ''/m.json'' [FsCreate] (Content ''{}''))) ?r
        = Some (?r\<lparr>src := (c, True, ds')\<rparr>)" "model_names ds' = {''a''}"
    using conjunct2 [OF conjunct2 [OF conjunct2 [OF main]], rule_format,
        of c _ "''/m.json''" "[FsCreate]" "Content ''{}''" "''{}''" sample_config]
    by (auto simp: readModelsFile_def sample_config_names d_def r0_def)
  then have ev: "\<exists>r' k ds'. make_move d (Source (WEvent ''/m.json'' [FsCreate] (Content ''{}''))) ?r = Some r'
      \<and> src r' = (k, True, ds') \<and> model_names ds' = {''a''}"
    by (intro exI [of _ "?r\<lparr>src := (c, True, ds')\<rparr>"] exI [of _ c] exI [of _ ds']) simp
  have "\<exists>r. run_from d r0 r \<and> pc r = Waiting \<and> stops r = 0
      \<and> (\<exists>r' k ds'. make_move d (Source (WEvent ''/m.json'' [FsCreate] (Content ''{}''))) r = Some r'
          \<and> src r' = (k, True, ds') \<and> model_names ds' = {''a''})"
    by (rule exI [of _ ?r], intro conjI, rule run, simp, rule st, rule ev)
  then show ?thesis unfolding d_def r0_def c_def .
qed

end
