(* ===== verification/Deep_Copy.thy ===== *)
theory Deep_Copy
  imports Go_Prelude
begin

text \<open>
  The deep copies of the configuration types (\<^verbatim>\<open>apix/config/v1alpha1/zz_generated.deepcopy.go\<close>).

  What a deep copy promises is about aliasing, so pointers and slices are explicit here: a heap of
  numbered cells, pointers that are cell numbers, and slices that are windows into the array of a cell.
  A struct type of the configuration is a record that is polymorphic in its pointers. Its instance with cell
  numbers and slices is the struct in memory; its instance with the data itself in their place is the
  value that the struct in memory stands for. \<open>None\<close> is \<^verbatim>\<open>nil\<close> in both, so a value keeps a nil slice apart from an
  empty one.

  The locale \<open>copier\<close> is the contract of a copying operation: the copy has the same value, consists of fresh
  cells only, and no cell that existed before changes. It is interpreted on the \<^verbatim>\<open>DeepCopyInto\<close> of every type and on
  the copy of every slice and pointer that occurs.
\<close>

subsection \<open>The types in memory\<close>

text \<open>A slice: the cell of its array, its offset there and its length. The capacity is never read.\<close>

record go_slice =
  sl_array :: nat
  sl_off :: nat
  sl_len :: nat

record 'w ref_struct =
  rs_PluginRef :: string
  rs_Weight :: "'w option"

record 'b spec_struct =
  ss_Name :: string
  ss_Type :: string
  ss_Parameters :: "'b option"

record 'r list_struct =
  ls_Plugins :: "'r option"

record 'r plugins_struct =
  ps_Request :: "'r option"
  ps_Response :: "'r option"

record 'p profile_struct =
  fs_Name :: string
  fs_Plugins :: "'p option"

record 'r datalayer_struct =
  ds_Collectors :: "'r option"
  ds_Extractors :: "'r option"
  ds_Datasources :: "'r option"

record ('s, 'l, 'r, 'p, 'd) config_struct =
  cs_Kind :: string
  cs_APIVersion :: string
  cs_Plugins :: "'s option"
  cs_PreProcessing :: "'l option"
  cs_ProfilePicker :: "'r option"
  cs_Profiles :: "'p option"
  cs_PostProcessing :: "'l option"
  cs_Datalayer :: "'d option"

type_synonym ref_mem = "nat ref_struct"
type_synonym spec_mem = "go_slice spec_struct"
type_synonym list_mem = "go_slice list_struct"
type_synonym plugins_mem = "go_slice plugins_struct"
type_synonym profile_mem = "nat profile_struct"
type_synonym datalayer_mem = "go_slice datalayer_struct"
type_synonym config_mem = "(go_slice, nat, nat, go_slice, nat) config_struct"

type_synonym ref_value = "real ref_struct"
type_synonym spec_value = "string spec_struct"
type_synonym list_value = "ref_value list list_struct"
type_synonym plugins_value = "ref_value list plugins_struct"
type_synonym profile_value = "plugins_value profile_struct"
type_synonym datalayer_value = "ref_value list datalayer_struct"
type_synonym config_value =
  "(spec_value list, list_value, ref_value, profile_value list, datalayer_value) config_struct"

text \<open>
  A cell holds what one \<^verbatim>\<open>new\<close> or \<^verbatim>\<open>make\<close> allocates: a variable of some type or an array. The types of Go rule out
  that a pointer is read at another type than that of its cell, so what the accessors return there does
  not matter.
\<close>

datatype cell =
    FloatCell real
  | BytesCell string
  | RefCell ref_mem
  | RefsCell "ref_mem list"
  | SpecCell spec_mem
  | SpecsCell "spec_mem list"
  | ListCell list_mem
  | PluginsCell plugins_mem
  | ProfileCell profile_mem
  | ProfilesCell "profile_mem list"
  | DatalayerCell datalayer_mem
  | ConfigCell config_mem

record heap =
  next_cell :: nat
  cell_of :: "nat \<Rightarrow> cell"

text \<open>The zero value of each type, to which \<^verbatim>\<open>new\<close> and \<^verbatim>\<open>make\<close> set what they allocate.\<close>

definition zero_ref :: ref_mem where
  "zero_ref = \<lparr>rs_PluginRef = [], rs_Weight = None\<rparr>"

definition zero_spec :: spec_mem where
  "zero_spec = \<lparr>ss_Name = [], ss_Type = [], ss_Parameters = None\<rparr>"

definition zero_list :: list_mem where
  "zero_list = \<lparr>ls_Plugins = None\<rparr>"

definition zero_plugins :: plugins_mem where
  "zero_plugins = \<lparr>ps_Request = None, ps_Response = None\<rparr>"

definition zero_profile :: profile_mem where
  "zero_profile = \<lparr>fs_Name = [], fs_Plugins = None\<rparr>"

definition zero_datalayer :: datalayer_mem where
  "zero_datalayer = \<lparr>ds_Collectors = None, ds_Extractors = None, ds_Datasources = None\<rparr>"

definition zero_config :: config_mem where
  "zero_config = \<lparr>cs_Kind = [], cs_APIVersion = [], cs_Plugins = None, cs_PreProcessing = None,
     cs_ProfilePicker = None, cs_Profiles = None, cs_PostProcessing = None, cs_Datalayer = None\<rparr>"

fun as_float :: "cell \<Rightarrow> real" where
  "as_float (FloatCell x) = x"
| "as_float _ = 0"

fun as_bytes :: "cell \<Rightarrow> string" where
  "as_bytes (BytesCell x) = x"
| "as_bytes _ = []"

fun as_ref :: "cell \<Rightarrow> ref_mem" where
  "as_ref (RefCell x) = x"
| "as_ref _ = zero_ref"

fun as_refs :: "cell \<Rightarrow> ref_mem list" where
  "as_refs (RefsCell x) = x"
| "as_refs _ = []"

fun as_spec :: "cell \<Rightarrow> spec_mem" where
  "as_spec (SpecCell x) = x"
| "as_spec _ = zero_spec"

fun as_specs :: "cell \<Rightarrow> spec_mem list" where
  "as_specs (SpecsCell x) = x"
| "as_specs _ = []"

fun as_list :: "cell \<Rightarrow> list_mem" where
  "as_list (ListCell x) = x"
| "as_list _ = zero_list"

fun as_plugins :: "cell \<Rightarrow> plugins_mem" where
  "as_plugins (PluginsCell x) = x"
| "as_plugins _ = zero_plugins"

fun as_profile :: "cell \<Rightarrow> profile_mem" where
  "as_profile (ProfileCell x) = x"
| "as_profile _ = zero_profile"

fun as_profiles :: "cell \<Rightarrow> profile_mem list" where
  "as_profiles (ProfilesCell x) = x"
| "as_profiles _ = []"

fun as_datalayer :: "cell \<Rightarrow> datalayer_mem" where
  "as_datalayer (DatalayerCell x) = x"
| "as_datalayer _ = zero_datalayer"

fun as_config :: "cell \<Rightarrow> config_mem" where
  "as_config (ConfigCell x) = x"
| "as_config _ = zero_config"

subsection \<open>Allocation, pointers and slices\<close>

definition store_cell :: "nat \<Rightarrow> cell \<Rightarrow> heap \<Rightarrow> heap" where
  "store_cell a c h = h\<lparr>cell_of := (cell_of h)(a := c)\<rparr>"

definition alloc_cell :: "cell \<Rightarrow> heap \<Rightarrow> nat \<times> heap" where
  "alloc_cell c h = (next_cell h, (store_cell (next_cell h) c h)\<lparr>next_cell := Suc (next_cell h)\<rparr>)"

definition slice_elems :: "(cell \<Rightarrow> 'a list) \<Rightarrow> heap \<Rightarrow> go_slice \<Rightarrow> 'a list" where
  "slice_elems un h s = take (sl_len s) (drop (sl_off s) (un (cell_of h (sl_array s))))"

text \<open>
  The two blocks of which the generated code consists. \<open>copy_slice\<close> is the block of a slice: unless it is nil, \<^verbatim>\<open>make\<close> an
  array of as many zero values, then copy element by element into it. \<open>copy_ptr\<close> is the block of a pointer, and the
  body of the \<^verbatim>\<open>DeepCopy\<close> methods: unless it is nil, \<^verbatim>\<open>new\<close>, then copy into the new variable.
\<close>

fun copy_elems ::
  "('a \<Rightarrow> heap \<Rightarrow> 'a \<times> heap) \<Rightarrow> ('a list \<Rightarrow> cell) \<Rightarrow> (cell \<Rightarrow> 'a list) \<Rightarrow> go_slice \<Rightarrow> nat \<Rightarrow> nat list \<Rightarrow> heap \<Rightarrow> heap" where
  "copy_elems copy wr un s a [] h = h"
| "copy_elems copy wr un s a (i # is) h =
     (let (y, h1) = copy (un (cell_of h (sl_array s)) ! (sl_off s + i)) h
      in copy_elems copy wr un s a is (store_cell a (wr ((un (cell_of h1 a))[i := y])) h1))"

definition copy_slice ::
  "('a \<Rightarrow> heap \<Rightarrow> 'a \<times> heap) \<Rightarrow> ('a list \<Rightarrow> cell) \<Rightarrow> (cell \<Rightarrow> 'a list) \<Rightarrow> 'a \<Rightarrow> go_slice option \<Rightarrow> heap
     \<Rightarrow> go_slice option \<times> heap" where
  "copy_slice copy wr un zero p h =
     (case p of
        None \<Rightarrow> (None, h)
      | Some s \<Rightarrow>
          (let (a, h1) = alloc_cell (wr (replicate (sl_len s) zero)) h
           in (Some \<lparr>sl_array = a, sl_off = 0, sl_len = sl_len s\<rparr>,
               copy_elems copy wr un s a [0..<sl_len s] h1)))"

definition copy_ptr ::
  "('a \<Rightarrow> heap \<Rightarrow> 'a \<times> heap) \<Rightarrow> ('a \<Rightarrow> cell) \<Rightarrow> (cell \<Rightarrow> 'a) \<Rightarrow> 'a \<Rightarrow> nat option \<Rightarrow> heap \<Rightarrow> nat option \<times> heap" where
  "copy_ptr copy wr un zero p h =
     (case p of
        None \<Rightarrow> (None, h)
      | Some b \<Rightarrow>
          (let (a, h1) = alloc_cell (wr zero) h;
               (y, h2) = copy (un (cell_of h1 b)) h1
           in (Some a, store_cell a (wr y) h2)))"

subsection \<open>The generated methods\<close>

text \<open>
  A \<^verbatim>\<open>DeepCopyInto\<close> is a function from the receiver and the heap to what it leaves in \<^verbatim>\<open>out\<close> and the heap: it starts with the
  shallow copy and replaces the pointers one by one.
\<close>

definition PluginRef_DeepCopyInto :: "ref_mem \<Rightarrow> heap \<Rightarrow> ref_mem \<times> heap" where
  "PluginRef_DeepCopyInto r h =
     (let out = r;
          (w, h1) = copy_ptr (\<lambda>x h. (x, h)) FloatCell as_float 0 (rs_Weight r) h
      in (out\<lparr>rs_Weight := w\<rparr>, h1))"

definition PluginRef_DeepCopy :: "nat option \<Rightarrow> heap \<Rightarrow> nat option \<times> heap" where
  "PluginRef_DeepCopy = copy_ptr PluginRef_DeepCopyInto RefCell as_ref zero_ref"

text \<open>The slices of references, in five of the fields.\<close>

definition copy_refs :: "go_slice option \<Rightarrow> heap \<Rightarrow> go_slice option \<times> heap" where
  "copy_refs = copy_slice PluginRef_DeepCopyInto RefsCell as_refs zero_ref"

definition PluginSpec_DeepCopyInto :: "spec_mem \<Rightarrow> heap \<Rightarrow> spec_mem \<times> heap" where
  "PluginSpec_DeepCopyInto r h =
     (let out = r;
          (b, h1) = copy_slice (\<lambda>x h. (x, h)) BytesCell as_bytes (CHR 0x00) (ss_Parameters r) h
      in (out\<lparr>ss_Parameters := b\<rparr>, h1))"

definition PluginSpec_DeepCopy :: "nat option \<Rightarrow> heap \<Rightarrow> nat option \<times> heap" where
  "PluginSpec_DeepCopy = copy_ptr PluginSpec_DeepCopyInto SpecCell as_spec zero_spec"

definition PluginRefList_DeepCopyInto :: "list_mem \<Rightarrow> heap \<Rightarrow> list_mem \<times> heap" where
  "PluginRefList_DeepCopyInto r h =
     (let out = r;
          (p, h1) = copy_refs (ls_Plugins r) h
      in (out\<lparr>ls_Plugins := p\<rparr>, h1))"

definition PluginRefList_DeepCopy :: "nat option \<Rightarrow> heap \<Rightarrow> nat option \<times> heap" where
  "PluginRefList_DeepCopy = copy_ptr PluginRefList_DeepCopyInto ListCell as_list zero_list"

definition ProfilePlugins_DeepCopyInto :: "plugins_mem \<Rightarrow> heap \<Rightarrow> plugins_mem \<times> heap" where
  "ProfilePlugins_DeepCopyInto r h =
     (let out = r;
          (q, h1) = copy_refs (ps_Request r) h;
          (p, h2) = copy_refs (ps_Response r) h1
      in (out\<lparr>ps_Request := q, ps_Response := p\<rparr>, h2))"

definition ProfilePlugins_DeepCopy :: "nat option \<Rightarrow> heap \<Rightarrow> nat option \<times> heap" where
  "ProfilePlugins_DeepCopy = copy_ptr ProfilePlugins_DeepCopyInto PluginsCell as_plugins zero_plugins"

definition Profile_DeepCopyInto :: "profile_mem \<Rightarrow> heap \<Rightarrow> profile_mem \<times> heap" where
  "Profile_DeepCopyInto r h =
     (let out = r;
          (p, h1) = copy_ptr ProfilePlugins_DeepCopyInto PluginsCell as_plugins zero_plugins (fs_Plugins r) h
      in (out\<lparr>fs_Plugins := p\<rparr>, h1))"

definition Profile_DeepCopy :: "nat option \<Rightarrow> heap \<Rightarrow> nat option \<times> heap" where
  "Profile_DeepCopy = copy_ptr Profile_DeepCopyInto ProfileCell as_profile zero_profile"

definition DatalayerConfig_DeepCopyInto :: "datalayer_mem \<Rightarrow> heap \<Rightarrow> datalayer_mem \<times> heap" where
  "DatalayerConfig_DeepCopyInto r h =
     (let out = r;
          (c, h1) = copy_refs (ds_Collectors r) h;
          (e, h2) = copy_refs (ds_Extractors r) h1;
          (d, h3) = copy_refs (ds_Datasources r) h2
      in (out\<lparr>ds_Collectors := c, ds_Extractors := e, ds_Datasources := d\<rparr>, h3))"

definition DatalayerConfig_DeepCopy :: "nat option \<Rightarrow> heap \<Rightarrow> nat option \<times> heap" where
  "DatalayerConfig_DeepCopy = copy_ptr DatalayerConfig_DeepCopyInto DatalayerCell as_datalayer zero_datalayer"

definition PayloadProcessorConfig_DeepCopyInto :: "config_mem \<Rightarrow> heap \<Rightarrow> config_mem \<times> heap" where
  "PayloadProcessorConfig_DeepCopyInto r h =
     (let out = r;
          (ps, h1) = copy_slice PluginSpec_DeepCopyInto SpecsCell as_specs zero_spec (cs_Plugins r) h;
          (pre, h2) = copy_ptr PluginRefList_DeepCopyInto ListCell as_list zero_list (cs_PreProcessing r) h1;
          (pick, h3) = copy_ptr PluginRef_DeepCopyInto RefCell as_ref zero_ref (cs_ProfilePicker r) h2;
          (profs, h4) = copy_slice Profile_DeepCopyInto ProfilesCell as_profiles zero_profile (cs_Profiles r) h3;
          (post, h5) = copy_ptr PluginRefList_DeepCopyInto ListCell as_list zero_list (cs_PostProcessing r) h4;
          (data, h6) = copy_ptr DatalayerConfig_DeepCopyInto DatalayerCell as_datalayer zero_datalayer (cs_Datalayer r) h5
      in (out\<lparr>cs_Plugins := ps, cs_PreProcessing := pre, cs_ProfilePicker := pick, cs_Profiles := profs,
            cs_PostProcessing := post, cs_Datalayer := data\<rparr>, h6))"

definition PayloadProcessorConfig_DeepCopy :: "nat option \<Rightarrow> heap \<Rightarrow> nat option \<times> heap" where
  "PayloadProcessorConfig_DeepCopy = copy_ptr PayloadProcessorConfig_DeepCopyInto ConfigCell as_config zero_config"

text \<open>
  An interface value is nil or a pointer with its dynamic type. A nil pointer is not wrapped into one, so
  that the result compares equal to nil.
\<close>

definition PayloadProcessorConfig_DeepCopyObject :: "nat option \<Rightarrow> heap \<Rightarrow> (string \<times> nat) option \<times> heap" where
  "PayloadProcessorConfig_DeepCopyObject p h =
     (case PayloadProcessorConfig_DeepCopy p h of
        (Some c, h1) \<Rightarrow> (Some (''*v1alpha1.PayloadProcessorConfig'', c), h1)
      | (None, h1) \<Rightarrow> (None, h1))"

subsection \<open>Values, footprints and well-formedness\<close>

text \<open>
  The value behind a slice or a pointer, the cells that can be reached from it, and that it is what Go can
  have built: every pointer is to an allocated cell and every slice lies within its array.
\<close>

definition slice_val :: "(cell \<Rightarrow> 'a list) \<Rightarrow> (heap \<Rightarrow> 'a \<Rightarrow> 'v) \<Rightarrow> heap \<Rightarrow> go_slice option \<Rightarrow> 'v list option" where
  "slice_val un val h = map_option (\<lambda>s. map (val h) (slice_elems un h s))"

definition slice_fp :: "(cell \<Rightarrow> 'a list) \<Rightarrow> (heap \<Rightarrow> 'a \<Rightarrow> nat set) \<Rightarrow> heap \<Rightarrow> go_slice option \<Rightarrow> nat set" where
  "slice_fp un fp h p =
     (case p of None \<Rightarrow> {} | Some s \<Rightarrow> insert (sl_array s) (\<Union>(set (map (fp h) (slice_elems un h s)))))"

definition slice_ok :: "(cell \<Rightarrow> 'a list) \<Rightarrow> (heap \<Rightarrow> 'a \<Rightarrow> bool) \<Rightarrow> heap \<Rightarrow> go_slice option \<Rightarrow> bool" where
  "slice_ok un ok h p =
     (case p of
        None \<Rightarrow> True
      | Some s \<Rightarrow> sl_array s < next_cell h \<and> sl_off s + sl_len s \<le> length (un (cell_of h (sl_array s)))
          \<and> list_all (ok h) (slice_elems un h s))"

definition ptr_val :: "(cell \<Rightarrow> 'a) \<Rightarrow> (heap \<Rightarrow> 'a \<Rightarrow> 'v) \<Rightarrow> heap \<Rightarrow> nat option \<Rightarrow> 'v option" where
  "ptr_val un val h = map_option (\<lambda>a. val h (un (cell_of h a)))"

definition ptr_fp :: "(cell \<Rightarrow> 'a) \<Rightarrow> (heap \<Rightarrow> 'a \<Rightarrow> nat set) \<Rightarrow> heap \<Rightarrow> nat option \<Rightarrow> nat set" where
  "ptr_fp un fp h p = (case p of None \<Rightarrow> {} | Some a \<Rightarrow> insert a (fp h (un (cell_of h a))))"

definition ptr_ok :: "(cell \<Rightarrow> 'a) \<Rightarrow> (heap \<Rightarrow> 'a \<Rightarrow> bool) \<Rightarrow> heap \<Rightarrow> nat option \<Rightarrow> bool" where
  "ptr_ok un ok h p = (case p of None \<Rightarrow> True | Some a \<Rightarrow> a < next_cell h \<and> ok h (un (cell_of h a)))"

text \<open>A heap extends another when it has the same cells and perhaps more.\<close>

definition extends :: "heap \<Rightarrow> heap \<Rightarrow> bool" where
  "extends h g \<longleftrightarrow> next_cell h \<le> next_cell g \<and> (\<forall>a<next_cell h. cell_of g a = cell_of h a)"

lemma extends_refl [simp]: "extends h h"
  by (simp add: extends_def)

lemma extends_trans [trans]: "extends h g \<Longrightarrow> extends g k \<Longrightarrow> extends h k"
  by (auto simp: extends_def)

lemma extends_next: "extends h g \<Longrightarrow> next_cell h \<le> next_cell g"
  by (simp add: extends_def)

lemma extends_cell: "extends h g \<Longrightarrow> a < next_cell h \<Longrightarrow> cell_of g a = cell_of h a"
  by (simp add: extends_def)

lemma extends_alloc: "alloc_cell c h = (a, g) \<Longrightarrow> extends h g"
  by (auto simp: extends_def alloc_cell_def store_cell_def)

lemma store_cell_simps [simp]:
  "next_cell (store_cell a c h) = next_cell h"
  "cell_of (store_cell a c h) = (cell_of h)(a := c)"
  by (simp_all add: store_cell_def)

lemma alloc_cell_simps [simp]:
  "fst (alloc_cell c h) = next_cell h"
  "next_cell (snd (alloc_cell c h)) = Suc (next_cell h)"
  "cell_of (snd (alloc_cell c h)) = (cell_of h)(next_cell h := c)"
  by (simp_all add: alloc_cell_def)

subsection \<open>The contract of a copy\<close>

locale copier =
  fixes copy :: "'a \<Rightarrow> heap \<Rightarrow> 'a \<times> heap"
    and val :: "heap \<Rightarrow> 'a \<Rightarrow> 'v"
    and fp :: "heap \<Rightarrow> 'a \<Rightarrow> nat set"
    and ok :: "heap \<Rightarrow> 'a \<Rightarrow> bool"
  assumes frame: "(\<And>a. a \<in> fp h x \<Longrightarrow> cell_of g a = cell_of h a) \<Longrightarrow> val g x = val h x \<and> fp g x = fp h x"
    and ok_frame:
      "ok h x \<Longrightarrow> (\<And>a. a \<in> fp h x \<Longrightarrow> cell_of g a = cell_of h a) \<Longrightarrow> next_cell h \<le> next_cell g \<Longrightarrow> ok g x"
    and ok_fp: "ok h x \<Longrightarrow> a \<in> fp h x \<Longrightarrow> a < next_cell h"
    and copied:
      "ok h x \<Longrightarrow> copy x h = (y, g) \<Longrightarrow>
         extends h g \<and> ok g y \<and> val g y = val h x \<and> fp g y \<subseteq> {next_cell h..<next_cell g}"
begin

lemma stable:
  assumes "ok h x" and "extends h g"
  shows "ok g x" and "val g x = val h x" and "fp g x = fp h x"
proof -
  have same: "cell_of g a = cell_of h a" if "a \<in> fp h x" for a
    using that ok_fp [OF assms(1)] extends_cell [OF assms(2)] by blast
  show "ok g x"
    using ok_frame [OF assms(1) same extends_next [OF assms(2)]] .
  show "val g x = val h x" and "fp g x = fp h x"
    using frame [of h x g, OF same] by auto
qed

text \<open>A copy and its original share no cell, and neither sees what is written into the cells of the other.\<close>

lemma separate:
  assumes ok: "ok h x" and run: "copy x h = (y, g)"
  shows "val g y = val h x" and "val g x = val h x" and "fp g y \<inter> fp g x = {}"
    and "(\<And>a. a \<notin> fp g y \<Longrightarrow> cell_of k a = cell_of g a) \<Longrightarrow> val k x = val h x"
    and "(\<And>a. a \<notin> fp g x \<Longrightarrow> cell_of k a = cell_of g a) \<Longrightarrow> val k y = val h x"
proof -
  note c = copied [OF ok run]
  have st: "val g x = val h x" "fp g x = fp h x"
    using stable(2,3) [OF ok conjunct1 [OF c]] by simp_all
  have old: "a < next_cell h" if "a \<in> fp g x" for a
    using ok_fp [OF ok] that st(2) by simp
  show "val g y = val h x" and "val g x = val h x"
    using c st by auto
  show dis: "fp g y \<inter> fp g x = {}"
    using c old by fastforce
  show "val k x = val h x" if "\<And>a. a \<notin> fp g y \<Longrightarrow> cell_of k a = cell_of g a"
  proof -
    have "cell_of k a = cell_of g a" if "a \<in> fp g x" for a
      using that \<open>\<And>a. a \<notin> fp g y \<Longrightarrow> cell_of k a = cell_of g a\<close> dis by blast
    then show ?thesis
      using frame [of g x k] st(1) by simp
  qed
  show "val k y = val h x" if "\<And>a. a \<notin> fp g x \<Longrightarrow> cell_of k a = cell_of g a"
  proof -
    have "cell_of k a = cell_of g a" if "a \<in> fp g y" for a
      using that \<open>\<And>a. a \<notin> fp g x \<Longrightarrow> cell_of k a = cell_of g a\<close> dis by blast
    then show ?thesis
      using frame [of g y k] c by simp
  qed
qed

end

text \<open>Data without pointers is copied by the assignment itself.\<close>

interpretation flat: copier "\<lambda>x h. (x, h)" "\<lambda>h x. x" "\<lambda>h x. {}" "\<lambda>h x. True"
  by unfold_locales auto

subsection \<open>Pointers\<close>

locale pointed = copier copy val fp ok
  for copy :: "'a \<Rightarrow> heap \<Rightarrow> 'a \<times> heap"
    and val :: "heap \<Rightarrow> 'a \<Rightarrow> 'v"
    and fp :: "heap \<Rightarrow> 'a \<Rightarrow> nat set"
    and ok :: "heap \<Rightarrow> 'a \<Rightarrow> bool" +
  fixes wr :: "'a \<Rightarrow> cell"
    and un :: "cell \<Rightarrow> 'a"
    and zero :: 'a
  assumes un_wr: "un (wr x) = x"
begin

lemma ptr_copied:
  assumes ok: "ptr_ok un ok h p" and run: "copy_ptr copy wr un zero p h = (q, g)"
  shows "extends h g \<and> ptr_ok un ok g q \<and> ptr_val un val g q = ptr_val un val h p
    \<and> ptr_fp un fp g q \<subseteq> {next_cell h..<next_cell g}"
proof (cases p)
  case None
  with run show ?thesis
    by (auto simp: copy_ptr_def ptr_ok_def ptr_val_def ptr_fp_def)
next
  case (Some b)
  define h1 where "h1 = snd (alloc_cell (wr zero) h)"
  have al: "alloc_cell (wr zero) h = (next_cell h, h1)"
    by (simp add: h1_def prod_eq_iff)
  obtain y h2 where y: "copy (un (cell_of h1 b)) h1 = (y, h2)"
    by force
  have b: "b < next_cell h" "ok h (un (cell_of h b))"
    using ok Some by (auto simp: ptr_ok_def)
  have e1: "extends h h1"
    unfolding h1_def using extends_alloc surjective_pairing by blast
  have same: "cell_of h1 b = cell_of h b" and n1: "next_cell h1 = Suc (next_cell h)"
    using b(1) by (simp_all add: h1_def)
  note c = copied [OF stable(1) [OF b(2) e1], folded same, OF y]
  have q: "q = Some (next_cell h)" and g: "g = store_cell (next_cell h) (wr y) h2"
    using run y Some al by (simp_all add: copy_ptr_def)
  have fr: "cell_of g a = cell_of h2 a" if "a \<in> fp h2 y" for a
    using that c n1 g by auto
  have gy: "val g y = val h2 y" "fp g y = fp h2 y" "ok g y"
  proof -
    show "val g y = val h2 y" "fp g y = fp h2 y"
      using frame [of h2 y g, OF fr] by simp_all
    show "ok g y"
      using ok_frame [of h2 y g, OF _ fr] c by (simp add: g)
  qed
  have ext: "extends h g"
    using extends_trans [OF e1 conjunct1 [OF c]] by (simp add: extends_def g)
  have val: "val h1 (un (cell_of h1 b)) = val h (un (cell_of h b))"
    using stable(2) [OF b(2) e1] same by simp
  show ?thesis
    using ext c gy q Some val n1
    by (auto simp: ptr_ok_def ptr_val_def ptr_fp_def g un_wr extends_def)
qed

lemma ptr_copier: "copier (copy_ptr copy wr un zero) (ptr_val un val) (ptr_fp un fp) (ptr_ok un ok)"
proof
  show "ptr_val un val g p = ptr_val un val h p \<and> ptr_fp un fp g p = ptr_fp un fp h p"
    if "\<And>a. a \<in> ptr_fp un fp h p \<Longrightarrow> cell_of g a = cell_of h a" for h p g
    using that frame [of h "un (cell_of h (the p))" g] by (cases p) (auto simp: ptr_val_def ptr_fp_def)
  show "ptr_ok un ok g p"
    if "ptr_ok un ok h p" "\<And>a. a \<in> ptr_fp un fp h p \<Longrightarrow> cell_of g a = cell_of h a" "next_cell h \<le> next_cell g" for h p g
    using that ok_frame [of h "un (cell_of h (the p))" g] by (cases p) (auto simp: ptr_ok_def ptr_fp_def)
  show "a < next_cell h" if "ptr_ok un ok h p" "a \<in> ptr_fp un fp h p" for h p a
    using that ok_fp [of h "un (cell_of h (the p))"] by (cases p) (auto simp: ptr_ok_def ptr_fp_def)
qed (rule ptr_copied)

end

subsection \<open>Slices\<close>

locale sliced = copier copy val fp ok
  for copy :: "'a \<Rightarrow> heap \<Rightarrow> 'a \<times> heap"
    and val :: "heap \<Rightarrow> 'a \<Rightarrow> 'v"
    and fp :: "heap \<Rightarrow> 'a \<Rightarrow> nat set"
    and ok :: "heap \<Rightarrow> 'a \<Rightarrow> bool" +
  fixes wr :: "'a list \<Rightarrow> cell"
    and un :: "cell \<Rightarrow> 'a list"
    and zero :: 'a
  assumes un_wr: "un (wr xs) = xs"
begin

text \<open>
  What holds before element \<open>i\<close> is copied: the cells of \<open>h\<close> are unchanged, and the first \<open>i\<close> elements of the new
  array are copies, made of cells after that of the array.
\<close>

definition loop_inv :: "heap \<Rightarrow> go_slice \<Rightarrow> nat \<Rightarrow> heap \<Rightarrow> bool" where
  "loop_inv h s i g \<longleftrightarrow>
     next_cell h < next_cell g \<and> (\<forall>b<next_cell h. cell_of g b = cell_of h b)
     \<and> length (un (cell_of g (next_cell h))) = sl_len s
     \<and> (\<forall>j<i. ok g (un (cell_of g (next_cell h)) ! j)
           \<and> val g (un (cell_of g (next_cell h)) ! j) = val h (slice_elems un h s ! j)
           \<and> fp g (un (cell_of g (next_cell h)) ! j) \<subseteq> {Suc (next_cell h)..<next_cell g})"

lemma nth_slice_elems:
  "sl_off s + sl_len s \<le> length (un (cell_of h (sl_array s))) \<Longrightarrow> i < sl_len s \<Longrightarrow>
     slice_elems un h s ! i = un (cell_of h (sl_array s)) ! (sl_off s + i)"
  by (simp add: slice_elems_def)

lemma length_slice_elems:
  "sl_off s + sl_len s \<le> length (un (cell_of h (sl_array s))) \<Longrightarrow> length (slice_elems un h s) = sl_len s"
  by (simp add: slice_elems_def)

lemma loop_step:
  assumes ok: "slice_ok un ok h (Some s)" and inv: "loop_inv h s i g" and i: "i < sl_len s"
    and run: "copy (un (cell_of g (sl_array s)) ! (sl_off s + i)) g = (y, g1)"
  shows "loop_inv h s (Suc i) (store_cell (next_cell h) (wr ((un (cell_of g1 (next_cell h)))[i := y])) g1)"
proof -
  define a where "a = next_cell h"
  define x where "x = slice_elems un h s ! i"
  define k where "k = store_cell a (wr ((un (cell_of g1 a))[i := y])) g1"
  have s: "sl_array s < next_cell h" "sl_off s + sl_len s \<le> length (un (cell_of h (sl_array s)))"
    "list_all (ok h) (slice_elems un h s)"
    using ok by (auto simp: slice_ok_def)
  have eg: "extends h g"
    using inv by (auto simp: loop_inv_def extends_def)
  have x: "ok h x"
    using s i length_slice_elems [OF s(2)] by (simp add: x_def list_all_length)
  have run': "copy x g = (y, g1)"
    using run extends_cell [OF eg s(1)] nth_slice_elems [OF s(2) i] by (simp add: x_def)
  note c = copied [OF stable(1) [OF x eg] run']
  have a: "a < next_cell g" "cell_of g1 a = cell_of g a"
    using inv c by (auto simp: loop_inv_def a_def extends_def)
  have kept: "ok k z \<and> val k z = val g1 z \<and> fp k z = fp g1 z" if "ok g1 z" "a \<notin> fp g1 z" for z
  proof -
    have "cell_of k b = cell_of g1 b" if "b \<in> fp g1 z" for b
      using that \<open>a \<notin> fp g1 z\<close> by (auto simp: k_def)
    with \<open>ok g1 z\<close> show ?thesis
      using frame [of g1 z k] ok_frame [of g1 z k] by (simp add: k_def)
  qed
  have y: "ok k y" "val k y = val h x" "fp k y \<subseteq> {Suc a..<next_cell g1}"
  proof -
    have "a \<notin> fp g1 y"
      using c a(1) by fastforce
    then show "ok k y" "val k y = val h x" "fp k y \<subseteq> {Suc a..<next_cell g1}"
      using kept [of y] c a(1) stable(2) [OF x eg] by fastforce+
  qed
  have old: "ok k z \<and> val k z = val g z \<and> fp k z \<subseteq> {Suc a..<next_cell g1}"
    if "ok g z" "fp g z \<subseteq> {Suc a..<next_cell g}" for z
    using kept [of z] stable [OF that(1), of g1] c that(2) by (fastforce simp: extends_def)
  have arr: "un (cell_of k a) = (un (cell_of g a))[i := y]"
    by (simp add: k_def un_wr a(2))
  have len: "length (un (cell_of g a)) = sl_len s"
    using inv by (simp add: loop_inv_def a_def)
  have copies: "ok k (un (cell_of k a) ! j) \<and> val k (un (cell_of k a) ! j) = val h (slice_elems un h s ! j)
      \<and> fp k (un (cell_of k a) ! j) \<subseteq> {Suc a..<next_cell k}" if "j < Suc i" for j
  proof (cases "j = i")
    case True
    with y i len show ?thesis by (simp add: arr x_def) (simp add: k_def)
  next
    case False
    with that have "j < i" by simp
    then have "ok g (un (cell_of g a) ! j) \<and> val g (un (cell_of g a) ! j) = val h (slice_elems un h s ! j)
        \<and> fp g (un (cell_of g a) ! j) \<subseteq> {Suc a..<next_cell g}"
      using inv by (simp add: loop_inv_def a_def)
    moreover have "next_cell k = next_cell g1"
      by (simp add: k_def)
    ultimately show ?thesis
      using old [of "un (cell_of g a) ! j"] False by (simp add: arr)
  qed
  have "next_cell h < next_cell k" "\<forall>b<next_cell h. cell_of k b = cell_of h b"
    using inv c by (auto simp: loop_inv_def extends_def k_def a_def)
  with copies len arr show ?thesis
    by (simp add: loop_inv_def a_def [symmetric] k_def [symmetric])
qed

lemma copy_elems_inv:
  assumes ok: "slice_ok un ok h (Some s)"
  shows "loop_inv h s i g \<Longrightarrow> i \<le> sl_len s \<Longrightarrow>
    loop_inv h s (sl_len s) (copy_elems copy wr un s (next_cell h) [i..<sl_len s] g)"
proof (induction "sl_len s - i" arbitrary: i g)
  case 0
  then show ?case by simp
next
  case (Suc n)
  then have i: "i < sl_len s" by simp
  obtain y g1 where run: "copy (un (cell_of g (sl_array s)) ! (sl_off s + i)) g = (y, g1)"
    by force
  show ?case
    using Suc.hyps(1) [OF _ loop_step [OF ok Suc.prems(1) i run]] Suc.hyps(2) i run
    by (simp add: upt_conv_Cons)
qed

lemma slice_copied:
  assumes ok: "slice_ok un ok h p" and run: "copy_slice copy wr un zero p h = (q, g)"
  shows "extends h g \<and> slice_ok un ok g q \<and> slice_val un val g q = slice_val un val h p
    \<and> slice_fp un fp g q \<subseteq> {next_cell h..<next_cell g}"
proof (cases p)
  case None
  with run show ?thesis
    by (auto simp: copy_slice_def slice_ok_def slice_val_def slice_fp_def)
next
  case (Some s)
  define h1 where "h1 = snd (alloc_cell (wr (replicate (sl_len s) zero)) h)"
  have al: "alloc_cell (wr (replicate (sl_len s) zero)) h = (next_cell h, h1)"
    by (simp add: h1_def prod_eq_iff)
  have "loop_inv h s 0 h1"
    by (simp add: loop_inv_def h1_def un_wr)
  then have inv: "loop_inv h s (sl_len s) (copy_elems copy wr un s (next_cell h) [0..<sl_len s] h1)"
    using copy_elems_inv [OF ok [unfolded Some]] by blast
  have q: "q = Some \<lparr>sl_array = next_cell h, sl_off = 0, sl_len = sl_len s\<rparr>"
    and g: "g = copy_elems copy wr un s (next_cell h) [0..<sl_len s] h1"
    using run Some al by (simp_all add: copy_slice_def)
  have el: "slice_elems un g (the q) = un (cell_of g (next_cell h))"
    using inv by (simp add: slice_elems_def q loop_inv_def g)
  have len: "length (slice_elems un h s) = sl_len s"
    using ok Some length_slice_elems by (simp add: slice_ok_def)
  note inv = inv [folded g, unfolded loop_inv_def]
  have "map (val g) (un (cell_of g (next_cell h))) = map (val h) (slice_elems un h s)"
    using inv len by (intro nth_equalityI) simp_all
  moreover have "\<Union>(set (map (fp g) (un (cell_of g (next_cell h))))) \<subseteq> {next_cell h..<next_cell g}"
    using inv by (fastforce simp: in_set_conv_nth)
  moreover have "list_all (ok g) (un (cell_of g (next_cell h)))"
    using inv by (simp add: list_all_length)
  ultimately show ?thesis
    using inv el Some q by (simp add: slice_ok_def slice_val_def slice_fp_def extends_def)
qed

lemma slice_copier: "copier (copy_slice copy wr un zero) (slice_val un val) (slice_fp un fp) (slice_ok un ok)"
proof
  have elems: "slice_elems un g s = slice_elems un h s" if "cell_of g (sl_array s) = cell_of h (sl_array s)" for g h s
    using that by (simp add: slice_elems_def)
  show "slice_val un val g p = slice_val un val h p \<and> slice_fp un fp g p = slice_fp un fp h p"
    if fr: "\<And>a. a \<in> slice_fp un fp h p \<Longrightarrow> cell_of g a = cell_of h a" for h p g
  proof (cases p)
    case (Some s)
    have "val g x = val h x \<and> fp g x = fp h x" if "x \<in> set (slice_elems un h s)" for x
      using frame [of h x g] fr that Some by (auto simp: slice_fp_def)
    with fr Some elems [of g s h] show ?thesis by (auto simp: slice_val_def slice_fp_def)
  qed (simp add: slice_val_def slice_fp_def)
  show "slice_ok un ok g p"
    if k: "slice_ok un ok h p" and fr: "\<And>a. a \<in> slice_fp un fp h p \<Longrightarrow> cell_of g a = cell_of h a"
      and n: "next_cell h \<le> next_cell g" for h p g
  proof (cases p)
    case (Some s)
    have "ok g x" if "x \<in> set (slice_elems un h s)" for x
      using ok_frame [of h x g] k fr n that Some by (auto simp: slice_fp_def slice_ok_def list_all_iff)
    with k fr n Some elems [of g s h] show ?thesis by (auto simp: slice_fp_def slice_ok_def list_all_iff)
  qed (simp add: slice_ok_def)
  show "a < next_cell h" if "slice_ok un ok h p" "a \<in> slice_fp un fp h p" for h p a
    using that ok_fp by (cases p) (auto simp: slice_ok_def slice_fp_def list_all_iff)
qed (rule slice_copied)

end

subsection \<open>Structs\<close>

text \<open>Two copies in a row, and the copy of a struct as that of the tuple of its pointers.\<close>

definition copy_pair ::
  "('a \<Rightarrow> heap \<Rightarrow> 'a \<times> heap) \<Rightarrow> ('b \<Rightarrow> heap \<Rightarrow> 'b \<times> heap) \<Rightarrow> 'a \<times> 'b \<Rightarrow> heap \<Rightarrow> ('a \<times> 'b) \<times> heap" where
  "copy_pair c d p h = (let (x, h1) = c (fst p) h; (y, h2) = d (snd p) h1 in ((x, y), h2))"

definition pair_val :: "(heap \<Rightarrow> 'a \<Rightarrow> 'v) \<Rightarrow> (heap \<Rightarrow> 'b \<Rightarrow> 'u) \<Rightarrow> heap \<Rightarrow> 'a \<times> 'b \<Rightarrow> 'v \<times> 'u" where
  "pair_val v u h p = (v h (fst p), u h (snd p))"

definition pair_fp :: "(heap \<Rightarrow> 'a \<Rightarrow> nat set) \<Rightarrow> (heap \<Rightarrow> 'b \<Rightarrow> nat set) \<Rightarrow> heap \<Rightarrow> 'a \<times> 'b \<Rightarrow> nat set" where
  "pair_fp f g h p = f h (fst p) \<union> g h (snd p)"

definition pair_ok :: "(heap \<Rightarrow> 'a \<Rightarrow> bool) \<Rightarrow> (heap \<Rightarrow> 'b \<Rightarrow> bool) \<Rightarrow> heap \<Rightarrow> 'a \<times> 'b \<Rightarrow> bool" where
  "pair_ok k l h p \<longleftrightarrow> k h (fst p) \<and> l h (snd p)"

lemma pair_copied:
  assumes C: "copier c v f k" and D: "copier d u e l"
    and ok: "pair_ok k l h p" and run: "copy_pair c d p h = (q, g)"
  shows "extends h g \<and> pair_ok k l g q \<and> pair_val v u g q = pair_val v u h p
    \<and> pair_fp f e g q \<subseteq> {next_cell h..<next_cell g}"
proof -
  obtain x h1 where x: "c (fst p) h = (x, h1)" by force
  obtain y h2 where y: "d (snd p) h1 = (y, h2)" by force
  have q: "q = (x, y)" "g = h2"
    using run x y by (simp_all add: copy_pair_def)
  have ok2: "k h (fst p)" "l h (snd p)"
    using ok by (simp_all add: pair_ok_def)
  note c = copier.copied [OF C ok2(1) x]
  note s = copier.stable [OF D ok2(2) conjunct1 [OF c]]
  note d = copier.copied [OF D s(1) y]
  have k1: "k h1 x" and e: "extends h h1" "extends h1 h2"
    using c d by blast+
  note t = copier.stable [OF C k1 e(2)]
  have "f h2 x \<union> e h2 y \<subseteq> {next_cell h..<next_cell h2}"
    using c d t(3) extends_next [OF e(1)] extends_next [OF e(2)] by fastforce
  then show ?thesis
    using c d s t extends_trans [OF e] by (simp add: q pair_ok_def pair_val_def pair_fp_def)
qed

lemma copier_pair:
  assumes C: "copier c v f k" and D: "copier d u e l"
  shows "copier (copy_pair c d) (pair_val v u) (pair_fp f e) (pair_ok k l)"
proof
  show "pair_val v u g p = pair_val v u h p \<and> pair_fp f e g p = pair_fp f e h p"
    if "\<And>a. a \<in> pair_fp f e h p \<Longrightarrow> cell_of g a = cell_of h a" for h p g
    using that copier.frame [OF C, of h "fst p" g] copier.frame [OF D, of h "snd p" g]
    by (simp add: pair_val_def pair_fp_def)
  show "pair_ok k l g p"
    if "pair_ok k l h p" "\<And>a. a \<in> pair_fp f e h p \<Longrightarrow> cell_of g a = cell_of h a" "next_cell h \<le> next_cell g" for h p g
    using that copier.ok_frame [OF C, of h "fst p" g] copier.ok_frame [OF D, of h "snd p" g]
    by (simp add: pair_ok_def pair_fp_def)
  show "a < next_cell h" if "pair_ok k l h p" "a \<in> pair_fp f e h p" for h p a
    using that copier.ok_fp [OF C, of h "fst p" a] copier.ok_fp [OF D, of h "snd p" a]
    by (auto simp: pair_ok_def pair_fp_def)
qed (rule pair_copied [OF C D])

lemma copier_struct:
  assumes C: "copier c v f k"
    and get_put: "\<And>r t. get (put t r) = t" and mk_put: "\<And>r t x. mk (put t r) x = mk r x"
    and copy: "\<And>r h. copy r h = (let (t, g) = c (get r) h in (put t r, g))"
  shows "copier copy (\<lambda>h r. mk r (v h (get r))) (\<lambda>h r. f h (get r)) (\<lambda>h r. k h (get r))"
proof
  show "mk x (v g (get x)) = mk x (v h (get x)) \<and> f g (get x) = f h (get x)"
    if "\<And>a. a \<in> f h (get x) \<Longrightarrow> cell_of g a = cell_of h a" for h x g
    using copier.frame [OF C that] by simp
  show "k g (get x)"
    if "k h (get x)" "\<And>a. a \<in> f h (get x) \<Longrightarrow> cell_of g a = cell_of h a" "next_cell h \<le> next_cell g" for h x g
    using copier.ok_frame [OF C that] .
  show "a < next_cell h" if "k h (get x)" "a \<in> f h (get x)" for h x a
    using copier.ok_fp [OF C that] .
  show "extends h g \<and> k g (get y) \<and> mk y (v g (get y)) = mk x (v h (get x))
      \<and> f g (get y) \<subseteq> {next_cell h..<next_cell g}"
    if "k h (get x)" "copy x h = (y, g)" for h x y g
  proof -
    obtain t g1 where t: "c (get x) h = (t, g1)" by force
    have "y = put t x" "g = g1"
      using that(2) t copy by auto
    then show ?thesis
      using copier.copied [OF C that(1) t] by (simp add: get_put mk_put)
  qed
qed

subsection \<open>The configuration types\<close>

text \<open>What each struct in memory stands for, what it reaches, and when it is well formed.\<close>

definition ref_val :: "heap \<Rightarrow> ref_mem \<Rightarrow> ref_value" where
  "ref_val h r = \<lparr>rs_PluginRef = rs_PluginRef r, rs_Weight = ptr_val as_float (\<lambda>h x. x) h (rs_Weight r)\<rparr>"

definition ref_fp :: "heap \<Rightarrow> ref_mem \<Rightarrow> nat set" where
  "ref_fp h r = ptr_fp as_float (\<lambda>h x. {}) h (rs_Weight r)"

definition ref_ok :: "heap \<Rightarrow> ref_mem \<Rightarrow> bool" where
  "ref_ok h r = ptr_ok as_float (\<lambda>h x. True) h (rs_Weight r)"

interpretation weight: pointed "\<lambda>x h. (x, h)" "\<lambda>h x. x" "\<lambda>h x. {}" "\<lambda>h x. True" FloatCell as_float 0
  by unfold_locales auto

lemma PluginRef_copier: "copier PluginRef_DeepCopyInto ref_val ref_fp ref_ok"
  unfolding ref_val_def [abs_def] ref_fp_def [abs_def] ref_ok_def [abs_def]
  by (rule copier_struct [OF weight.ptr_copier, where get = rs_Weight and put = "\<lambda>w r. r\<lparr>rs_Weight := w\<rparr>"
        and mk = "\<lambda>r w. \<lparr>rs_PluginRef = rs_PluginRef r, rs_Weight = w\<rparr>"])
    (simp_all add: PluginRef_DeepCopyInto_def)

interpretation ref_ptr: pointed PluginRef_DeepCopyInto ref_val ref_fp ref_ok RefCell as_ref zero_ref
  using PluginRef_copier by (simp add: pointed_def pointed_axioms_def)

interpretation refs: sliced PluginRef_DeepCopyInto ref_val ref_fp ref_ok RefsCell as_refs zero_ref
  using PluginRef_copier by (simp add: sliced_def sliced_axioms_def)

abbreviation refs_val :: "heap \<Rightarrow> go_slice option \<Rightarrow> ref_value list option" where
  "refs_val \<equiv> slice_val as_refs ref_val"

abbreviation refs_fp :: "heap \<Rightarrow> go_slice option \<Rightarrow> nat set" where
  "refs_fp \<equiv> slice_fp as_refs ref_fp"

abbreviation refs_ok :: "heap \<Rightarrow> go_slice option \<Rightarrow> bool" where
  "refs_ok \<equiv> slice_ok as_refs ref_ok"

lemma refs_copier: "copier copy_refs refs_val refs_fp refs_ok"
  unfolding copy_refs_def by (rule refs.slice_copier)

definition spec_val :: "heap \<Rightarrow> spec_mem \<Rightarrow> spec_value" where
  "spec_val h r = \<lparr>ss_Name = ss_Name r, ss_Type = ss_Type r,
     ss_Parameters = slice_val as_bytes (\<lambda>h x. x) h (ss_Parameters r)\<rparr>"

definition spec_fp :: "heap \<Rightarrow> spec_mem \<Rightarrow> nat set" where
  "spec_fp h r = slice_fp as_bytes (\<lambda>h x. {}) h (ss_Parameters r)"

definition spec_ok :: "heap \<Rightarrow> spec_mem \<Rightarrow> bool" where
  "spec_ok h r = slice_ok as_bytes (\<lambda>h x. True) h (ss_Parameters r)"

interpretation bytes: sliced "\<lambda>x h. (x, h)" "\<lambda>h x. x" "\<lambda>h x. {}" "\<lambda>h x. True" BytesCell as_bytes "CHR 0x00"
  by unfold_locales auto

lemma PluginSpec_copier: "copier PluginSpec_DeepCopyInto spec_val spec_fp spec_ok"
  unfolding spec_val_def [abs_def] spec_fp_def [abs_def] spec_ok_def [abs_def]
  by (rule copier_struct [OF bytes.slice_copier, where get = ss_Parameters
        and put = "\<lambda>b r. r\<lparr>ss_Parameters := b\<rparr>"
        and mk = "\<lambda>r b. \<lparr>ss_Name = ss_Name r, ss_Type = ss_Type r, ss_Parameters = b\<rparr>"])
    (simp_all add: PluginSpec_DeepCopyInto_def)

interpretation spec_ptr: pointed PluginSpec_DeepCopyInto spec_val spec_fp spec_ok SpecCell as_spec zero_spec
  using PluginSpec_copier by (simp add: pointed_def pointed_axioms_def)

interpretation specs: sliced PluginSpec_DeepCopyInto spec_val spec_fp spec_ok SpecsCell as_specs zero_spec
  using PluginSpec_copier by (simp add: sliced_def sliced_axioms_def)

definition list_val :: "heap \<Rightarrow> list_mem \<Rightarrow> list_value" where
  "list_val h r = \<lparr>ls_Plugins = refs_val h (ls_Plugins r)\<rparr>"

definition list_fp :: "heap \<Rightarrow> list_mem \<Rightarrow> nat set" where
  "list_fp h r = refs_fp h (ls_Plugins r)"

definition list_ok :: "heap \<Rightarrow> list_mem \<Rightarrow> bool" where
  "list_ok h r = refs_ok h (ls_Plugins r)"

lemma PluginRefList_copier: "copier PluginRefList_DeepCopyInto list_val list_fp list_ok"
  unfolding list_val_def [abs_def] list_fp_def [abs_def] list_ok_def [abs_def]
  by (rule copier_struct [OF refs_copier, where get = ls_Plugins and put = "\<lambda>p r. r\<lparr>ls_Plugins := p\<rparr>"
        and mk = "\<lambda>r p. \<lparr>ls_Plugins = p\<rparr>"])
    (simp_all add: PluginRefList_DeepCopyInto_def)

interpretation list_ptr: pointed PluginRefList_DeepCopyInto list_val list_fp list_ok ListCell as_list zero_list
  using PluginRefList_copier by (simp add: pointed_def pointed_axioms_def)

definition plugins_val :: "heap \<Rightarrow> plugins_mem \<Rightarrow> plugins_value" where
  "plugins_val h r = \<lparr>ps_Request = refs_val h (ps_Request r), ps_Response = refs_val h (ps_Response r)\<rparr>"

definition plugins_fp :: "heap \<Rightarrow> plugins_mem \<Rightarrow> nat set" where
  "plugins_fp h r = refs_fp h (ps_Request r) \<union> refs_fp h (ps_Response r)"

definition plugins_ok :: "heap \<Rightarrow> plugins_mem \<Rightarrow> bool" where
  "plugins_ok h r \<longleftrightarrow> refs_ok h (ps_Request r) \<and> refs_ok h (ps_Response r)"

lemmas pair_defs = pair_val_def pair_fp_def pair_ok_def

lemma ProfilePlugins_copier: "copier ProfilePlugins_DeepCopyInto plugins_val plugins_fp plugins_ok"
  using copier_struct [OF copier_pair [OF refs_copier refs_copier],
      where get = "\<lambda>r. (ps_Request r, ps_Response r)"
        and put = "\<lambda>t r. r\<lparr>ps_Request := fst t, ps_Response := snd t\<rparr>"
        and mk = "\<lambda>r t. \<lparr>ps_Request = fst t, ps_Response = snd t\<rparr>" and copy = ProfilePlugins_DeepCopyInto]
  by (simp add: ProfilePlugins_DeepCopyInto_def copy_pair_def pair_defs plugins_val_def [abs_def]
      plugins_fp_def [abs_def] plugins_ok_def [abs_def] split: prod.splits)

interpretation plugins_ptr: pointed ProfilePlugins_DeepCopyInto plugins_val plugins_fp plugins_ok
    PluginsCell as_plugins zero_plugins
  using ProfilePlugins_copier by (simp add: pointed_def pointed_axioms_def)

definition profile_val :: "heap \<Rightarrow> profile_mem \<Rightarrow> profile_value" where
  "profile_val h r = \<lparr>fs_Name = fs_Name r, fs_Plugins = ptr_val as_plugins plugins_val h (fs_Plugins r)\<rparr>"

definition profile_fp :: "heap \<Rightarrow> profile_mem \<Rightarrow> nat set" where
  "profile_fp h r = ptr_fp as_plugins plugins_fp h (fs_Plugins r)"

definition profile_mem_ok :: "heap \<Rightarrow> profile_mem \<Rightarrow> bool" where
  "profile_mem_ok h r = ptr_ok as_plugins plugins_ok h (fs_Plugins r)"

lemma Profile_copier: "copier Profile_DeepCopyInto profile_val profile_fp profile_mem_ok"
  unfolding profile_val_def [abs_def] profile_fp_def [abs_def] profile_mem_ok_def [abs_def]
  by (rule copier_struct [OF plugins_ptr.ptr_copier, where get = fs_Plugins
        and put = "\<lambda>p r. r\<lparr>fs_Plugins := p\<rparr>"
        and mk = "\<lambda>r p. \<lparr>fs_Name = fs_Name r, fs_Plugins = p\<rparr>"])
    (simp_all add: Profile_DeepCopyInto_def)

interpretation profile_ptr: pointed Profile_DeepCopyInto profile_val profile_fp profile_mem_ok
    ProfileCell as_profile zero_profile
  using Profile_copier by (simp add: pointed_def pointed_axioms_def)

interpretation profiles: sliced Profile_DeepCopyInto profile_val profile_fp profile_mem_ok
    ProfilesCell as_profiles zero_profile
  using Profile_copier by (simp add: sliced_def sliced_axioms_def)

definition datalayer_val :: "heap \<Rightarrow> datalayer_mem \<Rightarrow> datalayer_value" where
  "datalayer_val h r = \<lparr>ds_Collectors = refs_val h (ds_Collectors r), ds_Extractors = refs_val h (ds_Extractors r),
     ds_Datasources = refs_val h (ds_Datasources r)\<rparr>"

definition datalayer_fp :: "heap \<Rightarrow> datalayer_mem \<Rightarrow> nat set" where
  "datalayer_fp h r = refs_fp h (ds_Collectors r) \<union> (refs_fp h (ds_Extractors r) \<union> refs_fp h (ds_Datasources r))"

definition datalayer_ok :: "heap \<Rightarrow> datalayer_mem \<Rightarrow> bool" where
  "datalayer_ok h r \<longleftrightarrow> refs_ok h (ds_Collectors r) \<and> refs_ok h (ds_Extractors r) \<and> refs_ok h (ds_Datasources r)"

lemma DatalayerConfig_copier: "copier DatalayerConfig_DeepCopyInto datalayer_val datalayer_fp datalayer_ok"
  using copier_struct [OF copier_pair [OF refs_copier copier_pair [OF refs_copier refs_copier]],
      where get = "\<lambda>r. (ds_Collectors r, ds_Extractors r, ds_Datasources r)"
        and put = "\<lambda>t r. r\<lparr>ds_Collectors := fst t, ds_Extractors := fst (snd t), ds_Datasources := snd (snd t)\<rparr>"
        and mk = "\<lambda>r t. \<lparr>ds_Collectors = fst t, ds_Extractors = fst (snd t), ds_Datasources = snd (snd t)\<rparr>"
        and copy = DatalayerConfig_DeepCopyInto]
  by (simp add: DatalayerConfig_DeepCopyInto_def copy_pair_def pair_defs datalayer_val_def [abs_def]
      datalayer_fp_def [abs_def] datalayer_ok_def [abs_def] split: prod.splits)

interpretation datalayer_ptr: pointed DatalayerConfig_DeepCopyInto datalayer_val datalayer_fp datalayer_ok
    DatalayerCell as_datalayer zero_datalayer
  using DatalayerConfig_copier by (simp add: pointed_def pointed_axioms_def)

definition config_val :: "heap \<Rightarrow> config_mem \<Rightarrow> config_value" where
  "config_val h r = \<lparr>cs_Kind = cs_Kind r, cs_APIVersion = cs_APIVersion r,
     cs_Plugins = slice_val as_specs spec_val h (cs_Plugins r),
     cs_PreProcessing = ptr_val as_list list_val h (cs_PreProcessing r),
     cs_ProfilePicker = ptr_val as_ref ref_val h (cs_ProfilePicker r),
     cs_Profiles = slice_val as_profiles profile_val h (cs_Profiles r),
     cs_PostProcessing = ptr_val as_list list_val h (cs_PostProcessing r),
     cs_Datalayer = ptr_val as_datalayer datalayer_val h (cs_Datalayer r)\<rparr>"

definition config_fp :: "heap \<Rightarrow> config_mem \<Rightarrow> nat set" where
  "config_fp h r = slice_fp as_specs spec_fp h (cs_Plugins r) \<union> (ptr_fp as_list list_fp h (cs_PreProcessing r)
     \<union> (ptr_fp as_ref ref_fp h (cs_ProfilePicker r) \<union> (slice_fp as_profiles profile_fp h (cs_Profiles r)
     \<union> (ptr_fp as_list list_fp h (cs_PostProcessing r) \<union> ptr_fp as_datalayer datalayer_fp h (cs_Datalayer r)))))"

definition config_ok :: "heap \<Rightarrow> config_mem \<Rightarrow> bool" where
  "config_ok h r \<longleftrightarrow> slice_ok as_specs spec_ok h (cs_Plugins r) \<and> ptr_ok as_list list_ok h (cs_PreProcessing r)
     \<and> ptr_ok as_ref ref_ok h (cs_ProfilePicker r) \<and> slice_ok as_profiles profile_mem_ok h (cs_Profiles r)
     \<and> ptr_ok as_list list_ok h (cs_PostProcessing r) \<and> ptr_ok as_datalayer datalayer_ok h (cs_Datalayer r)"

lemma PayloadProcessorConfig_copier:
  "copier PayloadProcessorConfig_DeepCopyInto config_val config_fp config_ok"
  using copier_struct [OF copier_pair [OF specs.slice_copier copier_pair [OF list_ptr.ptr_copier copier_pair
          [OF ref_ptr.ptr_copier copier_pair [OF profiles.slice_copier copier_pair [OF list_ptr.ptr_copier
            datalayer_ptr.ptr_copier]]]]],
      where get = "\<lambda>r. (cs_Plugins r, cs_PreProcessing r, cs_ProfilePicker r, cs_Profiles r, cs_PostProcessing r,
          cs_Datalayer r)"
        and put = "\<lambda>t r. r\<lparr>cs_Plugins := fst t, cs_PreProcessing := fst (snd t), cs_ProfilePicker := fst (snd (snd t)),
          cs_Profiles := fst (snd (snd (snd t))), cs_PostProcessing := fst (snd (snd (snd (snd t)))),
          cs_Datalayer := snd (snd (snd (snd (snd t))))\<rparr>"
        and mk = "\<lambda>r t. \<lparr>cs_Kind = cs_Kind r, cs_APIVersion = cs_APIVersion r, cs_Plugins = fst t,
          cs_PreProcessing = fst (snd t), cs_ProfilePicker = fst (snd (snd t)),
          cs_Profiles = fst (snd (snd (snd t))), cs_PostProcessing = fst (snd (snd (snd (snd t)))),
          cs_Datalayer = snd (snd (snd (snd (snd t))))\<rparr>"
        and copy = PayloadProcessorConfig_DeepCopyInto]
  by (simp add: PayloadProcessorConfig_DeepCopyInto_def copy_pair_def pair_defs config_val_def [abs_def]
      config_fp_def [abs_def] config_ok_def [abs_def] split: prod.splits)

interpretation config_ptr: pointed PayloadProcessorConfig_DeepCopyInto config_val config_fp config_ok
    ConfigCell as_config zero_config
  using PayloadProcessorConfig_copier by (simp add: pointed_def pointed_axioms_def)

interpretation config: copier PayloadProcessorConfig_DeepCopy "ptr_val as_config config_val" "ptr_fp as_config config_fp"
    "ptr_ok as_config config_ok"
  unfolding PayloadProcessorConfig_DeepCopy_def by (rule config_ptr.ptr_copier)

text \<open>The other \<^verbatim>\<open>DeepCopy\<close> methods keep the same contract.\<close>

lemma deep_copies:
  "copier PluginRef_DeepCopy (ptr_val as_ref ref_val) (ptr_fp as_ref ref_fp) (ptr_ok as_ref ref_ok)"
  "copier PluginSpec_DeepCopy (ptr_val as_spec spec_val) (ptr_fp as_spec spec_fp) (ptr_ok as_spec spec_ok)"
  "copier PluginRefList_DeepCopy (ptr_val as_list list_val) (ptr_fp as_list list_fp) (ptr_ok as_list list_ok)"
  "copier ProfilePlugins_DeepCopy (ptr_val as_plugins plugins_val) (ptr_fp as_plugins plugins_fp)
     (ptr_ok as_plugins plugins_ok)"
  "copier Profile_DeepCopy (ptr_val as_profile profile_val) (ptr_fp as_profile profile_fp) (ptr_ok as_profile profile_mem_ok)"
  "copier DatalayerConfig_DeepCopy (ptr_val as_datalayer datalayer_val) (ptr_fp as_datalayer datalayer_fp)
     (ptr_ok as_datalayer datalayer_ok)"
  unfolding PluginRef_DeepCopy_def PluginSpec_DeepCopy_def PluginRefList_DeepCopy_def
    ProfilePlugins_DeepCopy_def Profile_DeepCopy_def DatalayerConfig_DeepCopy_def
  by (rule ref_ptr.ptr_copier spec_ptr.ptr_copier list_ptr.ptr_copier plugins_ptr.ptr_copier
      profile_ptr.ptr_copier datalayer_ptr.ptr_copier)+

lemma DeepCopyObject_nil: "PayloadProcessorConfig_DeepCopyObject None h = (None, h)"
  by (simp add: PayloadProcessorConfig_DeepCopyObject_def PayloadProcessorConfig_DeepCopy_def copy_ptr_def)

lemma DeepCopyObject_Some:
  assumes "PayloadProcessorConfig_DeepCopyObject (Some p) h = (q, g)"
  obtains a where "q = Some (''*v1alpha1.PayloadProcessorConfig'', a)"
    and "PayloadProcessorConfig_DeepCopy (Some p) h = (Some a, g)"
  using assms
  by (auto simp: PayloadProcessorConfig_DeepCopyObject_def PayloadProcessorConfig_DeepCopy_def copy_ptr_def
      split: prod.splits)

subsection \<open>What a deep copy of a configuration gives\<close>

text \<open>The configuration that a pointer stands for and the cells it reaches, its own included.\<close>

abbreviation config_value_of :: "heap \<Rightarrow> nat \<Rightarrow> config_value option" where
  "config_value_of h p \<equiv> ptr_val as_config config_val h (Some p)"

abbreviation config_cells :: "heap \<Rightarrow> nat \<Rightarrow> nat set" where
  "config_cells h p \<equiv> ptr_fp as_config config_fp h (Some p)"

text \<open>
  C33: The deep copy of a configuration that is well formed in memory is a pointer to a configuration of the same
  value, nil slices and pointers included, and leaves the original as it was. Copy and original have no
  cell in common: whatever is later written into the cells of one, all of its nested weights, parameters and
  lists included, the other keeps its value.
\<close>

theorem deep_copy_independent:
  assumes "ptr_ok as_config config_ok h (Some p)"
    and "PayloadProcessorConfig_DeepCopyObject (Some p) h = (q, g)"
  shows "\<exists>a. q = Some (''*v1alpha1.PayloadProcessorConfig'', a)
    \<and> config_value_of g a = config_value_of h p \<and> config_value_of g p = config_value_of h p
    \<and> config_cells g a \<inter> config_cells g p = {}
    \<and> (\<forall>k. (\<forall>b. b \<notin> config_cells g a \<longrightarrow> cell_of k b = cell_of g b) \<longrightarrow> config_value_of k p = config_value_of h p)
    \<and> (\<forall>k. (\<forall>b. b \<notin> config_cells g p \<longrightarrow> cell_of k b = cell_of g b) \<longrightarrow> config_value_of k a = config_value_of h p)"
proof -
  obtain a where a: "q = Some (''*v1alpha1.PayloadProcessorConfig'', a)"
    "PayloadProcessorConfig_DeepCopy (Some p) h = (Some a, g)"
    using DeepCopyObject_Some [OF assms(2)] .
  note c = config.separate [OF assms(1) a(2)]
  show ?thesis
    using a(1) c(1-3) c(4) c(5) by (intro exI [of _ a]) blast
qed

text \<open>
  A configuration with a plugin that has parameters, a profile picker, and a profile whose request list is the
  second half of an array and whose reference shares its weight with the profile picker.
\<close>

definition sample_heap :: heap where
  "sample_heap = \<lparr>next_cell = 8, cell_of = (\<lambda>_. FloatCell 0)(
     0 := ConfigCell \<lparr>cs_Kind = ''PayloadProcessorConfig'', cs_APIVersion = ''v1alpha1'',
       cs_Plugins = Some \<lparr>sl_array = 1, sl_off = 0, sl_len = 1\<rparr>, cs_PreProcessing = None, cs_ProfilePicker = Some 3,
       cs_Profiles = Some \<lparr>sl_array = 5, sl_off = 0, sl_len = 1\<rparr>, cs_PostProcessing = None, cs_Datalayer = None\<rparr>,
     1 := SpecsCell [\<lparr>ss_Name = [], ss_Type = ''a'', ss_Parameters = Some \<lparr>sl_array = 2, sl_off = 0, sl_len = 2\<rparr>\<rparr>],
     2 := BytesCell ''{}'',
     3 := RefCell \<lparr>rs_PluginRef = ''a'', rs_Weight = Some 4\<rparr>,
     4 := FloatCell 2,
     5 := ProfilesCell [\<lparr>fs_Name = ''p'', fs_Plugins = Some 6\<rparr>],
     6 := PluginsCell \<lparr>ps_Request = Some \<lparr>sl_array = 7, sl_off = 1, sl_len = 1\<rparr>, ps_Response = None\<rparr>,
     7 := RefsCell [zero_ref, \<lparr>rs_PluginRef = ''a'', rs_Weight = Some 4\<rparr>])\<rparr>"

lemma sample_heap_ok: "ptr_ok as_config config_ok sample_heap (Some 0)"
  by (simp add: sample_heap_def ptr_ok_def config_ok_def slice_ok_def slice_elems_def spec_ok_def profile_mem_ok_def
      plugins_ok_def ref_ok_def)

theorem deep_copy_independent_witness:
  "\<exists>a g. PayloadProcessorConfig_DeepCopyObject (Some 0) sample_heap = (Some (''*v1alpha1.PayloadProcessorConfig'', a), g)
     \<and> config_value_of g a = config_value_of sample_heap 0 \<and> config_cells g a \<inter> config_cells g 0 = {}"
proof -
  obtain q g where run: "PayloadProcessorConfig_DeepCopyObject (Some 0) sample_heap = (q, g)"
    by force
  from deep_copy_independent [OF sample_heap_ok run] run show ?thesis by blast
qed

end
