(* ===== verification/Selector_Telemetry.thy ===== *)
theory Selector_Telemetry
  imports Plugin_Metrics Plugin_Telemetry
begin

text \<open>
  The spans and metrics of a model selection (\<^verbatim>\<open>pkg/modelselector/modelselector.go\<close> and
  \<^verbatim>\<open>model_selector_pipeline.go\<close>): one span and one latency for each filter, scorer and picker that runs, with their
  attributes and score events, inside the span of the selection. The pipeline is written here with its plugins' type
  and name; \<open>plain_pipeline\<close> forgets them, and the instrumented selection is shown to be the plain one beside its
  telemetry. \<open>tn\<close> renders a typed name and \<open>now\<close> reads the clock off the state, as in \<open>Plugin_Telemetry\<close>.
\<close>

subsection \<open>Spans\<close>

datatype attr_value = AttrString string | AttrInt nat | AttrFloat real

text \<open>A span that a panic leaves open is never exported.\<close>

record selector_span =
  sp_name :: string
  sp_attributes :: "(string \<times> attr_value) list"
  sp_events :: "(string \<times> (string \<times> attr_value) list) list"
  sp_error :: "string option"
  sp_ended :: bool

definition filterExtensionPoint :: string where
  "filterExtensionPoint = ''ModelSelectorFilter''"

definition scorerExtensionPoint :: string where
  "scorerExtensionPoint = ''ModelSelectorScorer''"

definition pickerExtensionPoint :: string where
  "pickerExtensionPoint = ''ModelSelectorPicker''"

record ('w, 'd) named_pipeline =
  np_filters :: "((string \<times> string) \<times> ('w, 'd) filter_fn) list"
  np_scorers :: "((string \<times> string) \<times> ('w, 'd) scorer_fn \<times> real) list"
  np_picker :: "((string \<times> string) \<times> ('w, 'd) picker_fn) option"

definition plain_pipeline :: "(string \<times> string \<Rightarrow> string) \<Rightarrow> ('w, 'd) named_pipeline \<Rightarrow> ('w, 'd) pipeline" where
  "plain_pipeline tn p =
     \<lparr>filters = map snd (np_filters p), scorers = map snd (np_scorers p),
      picker = map_option (\<lambda>(n, pick). (tn n, pick)) (np_picker p)\<rparr>"

text \<open>The span of a plugin as it is started.\<close>

definition selector_plugin_span :: "string \<Rightarrow> string \<Rightarrow> string \<times> string \<Rightarrow> (string \<times> attr_value) list \<Rightarrow> selector_span" where
  "selector_plugin_span name ext n extra =
     \<lparr>sp_name = ''plugin.'' @ name,
      sp_attributes = [(''llm_d.plugin.extension_point'', AttrString ext), (''llm_d.plugin.type'', AttrString (fst n)),
        (''llm_d.plugin.name'', AttrString (snd n))] @ extra,
      sp_events = [], sp_error = None, sp_ended = False\<rparr>"

definition selector_latency ::
  "('s \<Rightarrow> gotime) \<Rightarrow> string \<Rightarrow> string \<times> string \<Rightarrow> 's \<Rightarrow> 's \<Rightarrow> metric" where
  "selector_latency now ext n s s' = PluginProcessingLatency ext (fst n) (snd n) (time_sub (now s') (now s))"

subsection \<open>The instrumented pipeline\<close>

fun run_filters_traced ::
  "(string \<times> string \<Rightarrow> string) \<Rightarrow> ('w \<times> cycle_state \<Rightarrow> gotime) \<Rightarrow> ((string \<times> string) \<times> ('w, 'd) filter_fn) list
     \<Rightarrow> inference_request \<Rightarrow> 'd model list \<Rightarrow> 'w \<times> cycle_state
     \<Rightarrow> ((go_error + 'd model list) \<times> ('w \<times> cycle_state)) \<times> metric list \<times> selector_span list" where
  "run_filters_traced tn now [] request models s = ((Inr models, s), [], [])"
| "run_filters_traced tn now ((n, f) # fs) request models s =
     (let span = selector_plugin_span (tn n) filterExtensionPoint n [(''llm_d.filter.candidates_in'', AttrInt (length models))]
      in case f request models s of
           (Inl e, s') \<Rightarrow> ((Inl e, s'), [], [span])
         | (Inr filtered, s') \<Rightarrow>
             (let lat = selector_latency now filterExtensionPoint n s s';
                  span = span\<lparr>sp_attributes := sp_attributes span @ [(''llm_d.filter.candidates_out'', AttrInt (length filtered))],
                              sp_ended := True\<rparr>
              in if length filtered = 0 then ((Inr filtered, s'), [lat], [span])
                 else case run_filters_traced tn now fs request filtered s' of
                        (r, ms, sps) \<Rightarrow> (r, lat # ms, span # sps)))"

definition score_event :: "'d model \<times> real \<Rightarrow> string \<times> (string \<times> attr_value) list" where
  "score_event ms =
     (''score'', [(''llm_d.scorer.target'', AttrString (mname (fst ms))), (''llm_d.scorer.score'', AttrFloat (snd ms))])"

fun run_scorers_traced ::
  "(string \<times> string \<Rightarrow> string) \<Rightarrow> ('w \<times> cycle_state \<Rightarrow> gotime) \<Rightarrow> ((string \<times> string) \<times> ('w, 'd) scorer_fn \<times> real) list
     \<Rightarrow> inference_request \<Rightarrow> 'd model list \<Rightarrow> (string, 'd scored_model) gomap \<Rightarrow> 'w \<times> cycle_state
     \<Rightarrow> ((go_error + (string, 'd scored_model) gomap) \<times> ('w \<times> cycle_state)) \<times> metric list \<times> selector_span list" where
  "run_scorers_traced tn now [] request models scored s = ((Inr scored, s), [], [])"
| "run_scorers_traced tn now ((n, score, weight) # rest) request models scored s =
     (let span = selector_plugin_span (tn n) scorerExtensionPoint n
            [(''llm_d.scorer.candidate_count'', AttrInt (length models)), (''llm_d.scorer.weight'', AttrFloat weight)]
      in case score request models s of
           (Inl e, s') \<Rightarrow> ((Inl e, s'), [], [span])
         | (Inr scores, s') \<Rightarrow>
             (let lat = selector_latency now scorerExtensionPoint n s s';
                  span = span\<lparr>sp_events := map score_event scores, sp_ended := True\<rparr>
              in case run_scorers_traced tn now rest request models (fold (add_score weight) scores scored) s' of
                   (r, ms, sps) \<Rightarrow> (r, lat # ms, span # sps)))"

text \<open>
  The picker's span is named after its type alone, unlike those of filters and scorers. The name of the picked model
  is read after the latency has been recorded and before the span ends.
\<close>

definition runPickerPlugin_traced ::
  "('w \<times> cycle_state \<Rightarrow> gotime) \<Rightarrow> ((string \<times> 'd scored_model) list \<Rightarrow> (string \<times> 'd scored_model) list)
     \<Rightarrow> ((string \<times> string) \<times> ('w, 'd) picker_fn) option \<Rightarrow> (string, 'd scored_model) gomap \<Rightarrow> 'w \<times> cycle_state
     \<Rightarrow> ((go_error + 'd run_result) \<times> ('w \<times> cycle_state)) \<times> metric list \<times> selector_span list" where
  "runPickerPlugin_traced now ord p scoredModelMap s =
     (case p of
        None \<Rightarrow> ((Inl (Panic ''nil pointer dereference''), s), [], [])
      | Some (n, pick) \<Rightarrow>
          (let scoredModels = map snd (ord scoredModelMap);
               span = selector_plugin_span (fst n) pickerExtensionPoint n
                 [(''llm_d.picker.candidate_count'', AttrInt (length scoredModels))]
           in case pick scoredModels s of
                (Inl e, s') \<Rightarrow> ((Inl e, s'), [], [span])
              | (Inr (Some (Some m)), s') \<Rightarrow>
                  ((Inr (Some (Some m)), s'), [selector_latency now pickerExtensionPoint n s s'],
                   [span\<lparr>sp_attributes := sp_attributes span @ [(''llm_d.picker.selected_model'', AttrString (mname m))],
                         sp_ended := True\<rparr>])
              | (Inr _, s') \<Rightarrow>
                  ((Inl (Panic ''nil pointer dereference''), s'), [selector_latency now pickerExtensionPoint n s s'], [span])))"

definition Run_traced ::
  "(string \<times> string \<Rightarrow> string) \<Rightarrow> ('w \<times> cycle_state \<Rightarrow> gotime)
     \<Rightarrow> ((string \<times> 'd scored_model) list \<Rightarrow> (string \<times> 'd scored_model) list) \<Rightarrow> ('w, 'd) named_pipeline
     \<Rightarrow> inference_request \<Rightarrow> 'd model list \<Rightarrow> 'w \<times> cycle_state
     \<Rightarrow> ((go_error + 'd run_result) \<times> ('w \<times> cycle_state)) \<times> metric list \<times> selector_span list" where
  "Run_traced tn now ord p request candidateModels s =
     (case run_filters_traced tn now (np_filters p) request candidateModels s of
        ((Inl e, s1), ms1, sps1) \<Rightarrow> ((Inl e, s1), ms1, sps1)
      | ((Inr models, s1), ms1, sps1) \<Rightarrow>
          if length models = 0 then
            ((Inl (TypedErr ResourceExhausted ''no models available after filtering''), s1), ms1, sps1)
          else
            (case run_scorers_traced tn now (np_scorers p) request models (init_scores models) s1 of
               ((Inl e, s2), ms2, sps2) \<Rightarrow> ((Inl e, s2), ms1 @ ms2, sps1 @ sps2)
             | ((Inr scored, s2), ms2, sps2) \<Rightarrow>
                 (case runPickerPlugin_traced now ord (np_picker p) scored s2 of
                    (r, ms3, sps3) \<Rightarrow> (r, ms1 @ ms2 @ ms3, sps1 @ sps2 @ sps3))))"

text \<open>
  The span of the selection. Its \<^verbatim>\<open>End\<close> is deferred, so it ends on every path, after the deferred metrics; the
  error that is recorded is the named result, which a panic leaves nil.
\<close>

definition model_selector_span :: "inference_request \<Rightarrow> nat \<Rightarrow> (go_error + 'd model) \<Rightarrow> selector_span" where
  "model_selector_span request n r =
     \<lparr>sp_name = ''model_selector'',
      sp_attributes = [(''llm_d.model_selector.candidate_count'', AttrInt n)]
        @ (if jstring (Body request) ''model'' \<noteq> []
           then [(''llm_d.model_selector.requested_model'', AttrString (jstring (Body request) ''model''))] else [])
        @ (case r of Inr m \<Rightarrow> [(''llm_d.model_selector.selected_model'', AttrString (mname m))] | Inl _ \<Rightarrow> []),
      sp_events = [], sp_error = map_option error_string (select_error r), sp_ended = True\<rparr>"

definition Select_traced ::
  "(string \<times> string \<Rightarrow> string) \<Rightarrow> ('w \<times> cycle_state \<Rightarrow> gotime)
     \<Rightarrow> ((string \<times> 'd scored_model) list \<Rightarrow> (string \<times> 'd scored_model) list) \<Rightarrow> ('w, 'd) named_pipeline
     \<Rightarrow> inference_request \<Rightarrow> 'd model list \<Rightarrow> 'w \<times> cycle_state
     \<Rightarrow> ((go_error + 'd model) \<times> ('w \<times> cycle_state)) \<times> metric list \<times> selector_span list" where
  "Select_traced tn now ord p request candidateModels s =
     (let ((r, s'), ms, sps) =
          (if length candidateModels = 0 then ((Inl (PlainErr ''no candidate models provided''), s), [], [])
           else (case Run_traced tn now ord p request candidateModels s of
                   ((Inl e, s'), ms, sps) \<Rightarrow> ((Inl e, s'), ms, sps)
                 | ((Inr (Some (Some m)), s'), ms, sps) \<Rightarrow> ((Inr m, s'), ms, sps)
                 | ((Inr _, s'), ms, sps) \<Rightarrow> ((Inl (PlainErr ''model selection returned no result''), s'), ms, sps)))
      in ((r, s'),
          ms @ [ModelSelectorE2ELatency (time_sub (now s') (now s)), ModelSelectorAttempt (select_error r)],
          sps @ [model_selector_span request (length candidateModels) r]))"

subsection \<open>Instrumentation changes nothing\<close>

lemma run_filters_traced_plain: "fst (run_filters_traced tn now fs request models s) = run_filters (map snd fs) request models s"
  by (induction fs arbitrary: models s)
     (auto simp: Let_def split: prod.splits sum.splits, (metis fst_conv)+)

lemma run_scorers_traced_plain:
  "fst (run_scorers_traced tn now ss request models scored s) = run_scorers (map snd ss) request models scored s"
  by (induction ss arbitrary: scored s)
     (auto simp: Let_def split: prod.splits sum.splits, (metis fst_conv)+)

lemma runPickerPlugin_traced_plain:
  "fst (runPickerPlugin_traced now ord (np_picker p) scored s) = runPickerPlugin ord (plain_pipeline tn p) scored s"
  by (auto simp: runPickerPlugin_traced_def runPickerPlugin_def plain_pipeline_def Let_def
      split: prod.splits sum.splits option.splits)

lemma Run_traced_plain:
  "fst (Run_traced tn now ord p request cands s) = Run ord (plain_pipeline tn p) request cands s"
proof -
  obtain r1 ms1 sps1 where f: "run_filters_traced tn now (np_filters p) request cands s = (r1, ms1, sps1)" by (metis prod.collapse)
  then have f': "runFilterPlugins (plain_pipeline tn p) request cands s = r1"
    using run_filters_traced_plain [of tn now "np_filters p" request cands s] by (simp add: runFilterPlugins_def plain_pipeline_def)
  obtain x s1 where r1: "r1 = (x, s1)" by (cases r1)
  show ?thesis
  proof (cases x)
    case (Inl e)
    then show ?thesis using f f' r1 by (simp add: Run_traced_def Run_def)
  next
    case (Inr models)
    obtain r2 ms2 sps2 where g: "run_scorers_traced tn now (np_scorers p) request models (init_scores models) s1 = (r2, ms2, sps2)"
      by (metis prod.collapse)
    then have g': "runScorerPlugins (plain_pipeline tn p) request models s1 = r2"
      using run_scorers_traced_plain [of tn now "np_scorers p" request models "init_scores models" s1]
      by (simp add: runScorerPlugins_def plain_pipeline_def)
    obtain y s2 where r2: "r2 = (y, s2)" by (cases r2)
    show ?thesis
    proof (cases y)
      case (Inl e)
      then show ?thesis using f f' r1 Inr g g' r2 by (simp add: Run_traced_def Run_def)
    next
      case scored: (Inr scored)
      obtain r3 ms3 sps3 where h: "runPickerPlugin_traced now ord (np_picker p) scored s2 = (r3, ms3, sps3)" by (metis prod.collapse)
      then have "runPickerPlugin ord (plain_pipeline tn p) scored s2 = r3"
        using runPickerPlugin_traced_plain [of now ord p scored s2 tn] by simp
      then show ?thesis using f f' r1 Inr g g' r2 scored h by (simp add: Run_traced_def Run_def)
    qed
  qed
qed

lemma Select_traced_plain:
  "fst (Select_traced tn now ord p request cands s) = Select ord (plain_pipeline tn p) request cands s"
proof -
  obtain r s' ms sps where run: "Run_traced tn now ord p request cands s = ((r, s'), ms, sps)" by (metis prod.collapse)
  then have "Run ord (plain_pipeline tn p) request cands s = (r, s')"
    using Run_traced_plain [of tn now ord p request cands s] by simp
  then show ?thesis
    using run by (cases r) (auto simp: Select_traced_def Select_def Let_def split: option.splits)
qed

subsection \<open>A successful selection leaves complete telemetry\<close>

lemma run_filters_telemetry:
  assumes "run_filters_traced tn now fs request models s = ((Inr ms', s'), mts, sps)" and "ms' \<noteq> []"
  shows "concat (map latency_label mts) = map (\<lambda>(n, _). (filterExtensionPoint, n)) fs
    \<and> map sp_name sps = map (\<lambda>(n, _). ''plugin.'' @ tn n) fs \<and> list_all sp_ended sps"
  using assms
proof (induction fs arbitrary: models s mts sps)
  case (Cons nf fs)
  obtain n f where nf: "nf = (n, f)" by (cases nf)
  obtain x s1 where fx: "f request models s = (x, s1)" by (cases "f request models s")
  then obtain filtered where filtered: "x = Inr filtered" "filtered \<noteq> []"
    using Cons.prems nf by (cases x) (auto simp: Let_def split: if_splits)
  obtain r mts' sps' where rest: "run_filters_traced tn now fs request filtered s1 = (r, mts', sps')" by (metis prod.collapse)
  then have r: "r = (Inr ms', s')" using Cons.prems(1) nf fx filtered by (simp add: Let_def)
  from Cons.IH [OF rest [unfolded r] Cons.prems(2)] show ?case
    using Cons.prems(1) nf fx filtered rest r
    by (auto simp: Let_def selector_plugin_span_def selector_latency_def)
qed simp

lemma run_scorers_telemetry:
  assumes "run_scorers_traced tn now ss request models scored s = ((Inr scored', s'), mts, sps)"
  shows "concat (map latency_label mts) = map (\<lambda>(n, _). (scorerExtensionPoint, n)) ss
    \<and> map sp_name sps = map (\<lambda>(n, _). ''plugin.'' @ tn n) ss \<and> list_all sp_ended sps"
  using assms
proof (induction ss arbitrary: scored s mts sps)
  case (Cons nsw ss)
  obtain n score weight where nsw: "nsw = (n, score, weight)" by (cases nsw)
  obtain x s1 where fx: "score request models s = (x, s1)" by (cases "score request models s")
  then obtain scores where scores: "x = Inr scores" using Cons.prems nsw by (cases x) (auto simp: Let_def)
  obtain r mts' sps' where rest: "run_scorers_traced tn now ss request models (fold (add_score weight) scores scored) s1 = (r, mts', sps')"
    by (metis prod.collapse)
  then have r: "r = (Inr scored', s')" using Cons.prems(1) nsw fx scores by (simp add: Let_def)
  from Cons.IH [OF rest [unfolded r]] show ?case
    using Cons.prems nsw fx scores rest r by (auto simp: Let_def selector_plugin_span_def selector_latency_def)
qed simp

text \<open>
  The instrumented selection is the plain one. When it selects a model, every filter, every scorer and the picker has
  exactly one latency under its extension point, type and name, in the order in which they ran, followed by the latency and the successful
  attempt of the selection; each of them has one span, all spans have ended, and those of the picker and of the
  selection name the selected model.
\<close>

theorem selection_telemetry_complete:
  assumes "Select_traced tn now ord p request cands s = ((Inr m, s'), mts, sps)"
  shows "Select ord (plain_pipeline tn p) request cands s = (Inr m, s')
    \<and> (\<exists>n pick lat. np_picker p = Some (n, pick)
        \<and> concat (map latency_label mts) = map (\<lambda>(n, _). (filterExtensionPoint, n)) (np_filters p)
            @ map (\<lambda>(n, _). (scorerExtensionPoint, n)) (np_scorers p) @ [(pickerExtensionPoint, n)]
        \<and> drop (length mts - 2) mts = [ModelSelectorE2ELatency lat, ModelSelectorAttempt None]
        \<and> map sp_name sps = map (\<lambda>(n, _). ''plugin.'' @ tn n) (np_filters p)
            @ map (\<lambda>(n, _). ''plugin.'' @ tn n) (np_scorers p) @ [''plugin.'' @ fst n, ''model_selector'']
        \<and> list_all sp_ended sps
        \<and> (''llm_d.picker.selected_model'', AttrString (mname m)) \<in> set (sp_attributes (last (butlast sps)))
        \<and> (''llm_d.model_selector.selected_model'', AttrString (mname m)) \<in> set (sp_attributes (last sps)))"
proof -
  obtain r s1 mts0 sps0 where run: "Run_traced tn now ord p request cands s = ((r, s1), mts0, sps0)" by (metis prod.collapse)
  have r: "r = Inr (Some (Some m))" "s' = s1"
    and t: "mts = mts0 @ [ModelSelectorE2ELatency (time_sub (now s') (now s)), ModelSelectorAttempt None]"
      "sps = sps0 @ [model_selector_span request (length cands) (Inr m)]"
    using assms run by (auto simp: Select_traced_def Let_def split: if_splits sum.splits option.splits)
  obtain x s2 ms1 sps1 where f: "run_filters_traced tn now (np_filters p) request cands s = ((x, s2), ms1, sps1)" by (metis prod.collapse)
  obtain models where models: "x = Inr models" "models \<noteq> []"
    using run r(1) f by (cases x) (auto simp: Run_traced_def split: if_splits)
  obtain y s3 ms2 sps2 where g: "run_scorers_traced tn now (np_scorers p) request models (init_scores models) s2 = ((y, s3), ms2, sps2)"
    by (metis prod.collapse)
  obtain scored where scored: "y = Inr scored"
    using run r(1) f models g by (cases y) (auto simp: Run_traced_def)
  obtain z ms3 sps3 where h: "runPickerPlugin_traced now ord (np_picker p) scored s3 = (z, ms3, sps3)" by (metis prod.collapse)
  have z: "z = (Inr (Some (Some m)), s1)" "mts0 = ms1 @ ms2 @ ms3" "sps0 = sps1 @ sps2 @ sps3"
    using run r(1) f models g scored h by (auto simp: Run_traced_def)
  obtain n pick lat sp where pk: "np_picker p = Some (n, pick)" "ms3 = [lat]" "latency_label lat = [(pickerExtensionPoint, n)]"
    "sps3 = [sp]" "sp_name sp = ''plugin.'' @ fst n" "sp_ended sp"
    "(''llm_d.picker.selected_model'', AttrString (mname m)) \<in> set (sp_attributes sp)"
    using h z(1)
    by (auto simp: runPickerPlugin_traced_def selector_plugin_span_def selector_latency_def Let_def
        split: option.splits prod.splits sum.splits)
  have sel: "Select ord (plain_pipeline tn p) request cands s = (Inr m, s')"
    using Select_traced_plain [of tn now ord p request cands s] assms by simp
  show ?thesis
    using sel pk t z run_filters_telemetry [OF f [unfolded models(1)] models(2)] run_scorers_telemetry [OF g [unfolded scored]]
    by (auto simp: model_selector_span_def butlast_append)
qed

text \<open>A filter that panics leaves its span open and its latency unrecorded.\<close>

lemma filter_panic_loses_telemetry:
  assumes "f request models s = (Inl e, s')"
  shows "\<exists>sp. run_filters_traced tn now ((n, f) # fs) request models s = ((Inl e, s'), [], [sp]) \<and> \<not> sp_ended sp"
  using assms by (simp add: selector_plugin_span_def)

end
