(* ===== verification/Config_Print.thy ===== *)
theory Config_Print
  imports Loader Selector_Telemetry
begin

text \<open>
  The printed form of a configuration, which the loader logs (the \<^verbatim>\<open>String\<close> methods of
  \<^verbatim>\<open>apix/config/v1alpha1/payloadprocessorconfig_types.go\<close>), and of a pipeline (\<^verbatim>\<open>model_selector_pipeline.go\<close>), with the two verbs of \<^verbatim>\<open>fmt\<close> they use: \<^verbatim>\<open>%f\<close> for a
  weight, and \<^verbatim>\<open>%v\<close> for a slice, a pointer to a struct and a value with a \<^verbatim>\<open>String\<close> method.
\<close>

subsection \<open>Verbs\<close>

text \<open>
  \<^verbatim>\<open>%f\<close>: six decimals, rounded to nearest with ties to even, and the sign of a negative number even when
  all digits are zero.
\<close>

definition round_even :: "real \<Rightarrow> int" where
  "round_even y =
     (let k = \<lfloor>y\<rfloor>; d = y - of_int k
      in if d < 1 / 2 then k else if d > 1 / 2 then k + 1 else if even k then k else k + 1)"

definition pad6 :: "nat \<Rightarrow> string" where
  "pad6 n = replicate (6 - length (itoa n)) (CHR ''0'') @ itoa n"

definition fmt_f :: "real \<Rightarrow> string" where
  "fmt_f x =
     (let n = nat (round_even (\<bar>x\<bar> * 1000000))
      in (if x < 0 then ''-'' else []) @ itoa (n div 1000000) @ ''.'' @ pad6 (n mod 1000000))"

text \<open>\<^verbatim>\<open>%v\<close> of a slice, given the printed forms of its elements.\<close>

definition fmt_slice :: "string list \<Rightarrow> string" where
  "fmt_slice xs = ''['' @ join '' '' xs @ '']''"

text \<open>\<^verbatim>\<open>fmt\<close> recovers from a panic of a \<^verbatim>\<open>String\<close> method and prints it in place of the value.\<close>

fun fmt_stringer :: "go_error + string \<Rightarrow> string" where
  "fmt_stringer (Inr s) = s"
| "fmt_stringer (Inl (Panic m)) = ''%!v(PANIC=String method: '' @ m @ '')''"
| "fmt_stringer (Inl e) = error_string e"

definition nil_dereference :: go_error where
  "nil_dereference = Panic ''runtime error: invalid memory address or nil pointer dereference''"

subsection \<open>String methods\<close>

definition PluginRef_String :: "plugin_ref \<Rightarrow> string" where
  "PluginRef_String pr =
     (case pr_Weight pr of
        Some w \<Rightarrow> ''{PluginRef: '' @ pr_PluginRef pr @ '', Weight: '' @ fmt_f w @ ''}''
      | None \<Rightarrow> ''{PluginRef: '' @ pr_PluginRef pr @ ''}'')"

definition PluginSpec_String :: "plugin_spec \<Rightarrow> string" where
  "PluginSpec_String ps =
     (let parts = (if ps_Name ps \<noteq> [] then [''Name: '' @ ps_Name ps] else []);
          parts = parts @ [''Type: '' @ ps_Type ps];
          parts = (if length (ps_Parameters ps) > 0 then parts @ [''Parameters: '' @ ps_Parameters ps] else parts)
      in ''{'' @ join '', '' parts @ ''}'')"

definition PluginRefList_String :: "plugin_ref list \<Rightarrow> string" where
  "PluginRefList_String refs =
     (let contents = (if length refs > 0 then ''Plugins: '' @ fmt_slice (map PluginRef_String refs) else [])
      in ''{'' @ contents @ ''}'')"

text \<open>A profile without a plugins section: the method reads the fields of a nil pointer.\<close>

definition Profile_String :: "raw_profile \<Rightarrow> go_error + string" where
  "Profile_String prof =
     (case rp_Plugins prof of
        None \<Rightarrow> Inl nil_dereference
      | Some pl \<Rightarrow>
          (let parts = [''Name: '' @ rp_Name prof];
               req = (if length (rp_Request pl) > 0 then ''Request: '' @ fmt_slice (map PluginRef_String (rp_Request pl)) else []);
               sep = (if length (rp_Response pl) > 0 \<and> length req > 0 then '', '' else []);
               resp = (if length (rp_Response pl) > 0 then ''Response: '' @ fmt_slice (map PluginRef_String (rp_Response pl)) else []);
               parts = (if length (rp_Request pl) > 0 \<or> length (rp_Response pl) > 0
                        then parts @ [''Plugins: {'' @ req @ sep @ resp @ ''}''] else parts)
           in Inr (''{'' @ join '', '' parts @ ''}'')))"

text \<open>\<^verbatim>\<open>DatalayerConfig\<close> has no method of its own: \<^verbatim>\<open>%v\<close> of a pointer to it prints the address sign and the fields.\<close>

definition fmt_datalayer :: "datalayer_config \<Rightarrow> string" where
  "fmt_datalayer d =
     ''&{'' @ join '' '' [fmt_slice (map PluginRef_String (dc_Collectors d)), fmt_slice (map PluginRef_String (dc_Extractors d)),
       fmt_slice (map PluginRef_String (dc_Datasources d))] @ ''}''"

definition PayloadProcessorConfig_String :: "raw_config \<Rightarrow> string" where
  "PayloadProcessorConfig_String cfg =
     ''{Plugins: '' @ fmt_slice (map PluginSpec_String (rc_Plugins cfg))
     @ (case rc_PreProcessing cfg of None \<Rightarrow> [] | Some l \<Rightarrow> '', PreProcessing: '' @ PluginRefList_String l)
     @ (case rc_ProfilePicker cfg of None \<Rightarrow> [] | Some r \<Rightarrow> '', ProfilePicker: '' @ PluginRef_String r)
     @ '', Profiles: '' @ fmt_slice (map (\<lambda>p. fmt_stringer (Profile_String p)) (rc_Profiles cfg))
     @ (case rc_PostProcessing cfg of None \<Rightarrow> [] | Some l \<Rightarrow> '', PostProcessing: '' @ PluginRefList_String l)
     @ (case rc_Datalayer cfg of None \<Rightarrow> [] | Some d \<Rightarrow> '', Datalayer: '' @ fmt_datalayer d)
     @ ''}''"

definition ModelSelectorPipeline_String :: "(string \<times> string \<Rightarrow> string) \<Rightarrow> ('w, 'd) named_pipeline \<Rightarrow> string" where
  "ModelSelectorPipeline_String tn p =
     (let filterNames = map (\<lambda>(n, _). tn n) (np_filters p);
          scorerNames = map (\<lambda>(n, _, w). tn n @ '': '' @ fmt_f w) (np_scorers p);
          pickerName = (case np_picker p of None \<Rightarrow> ''<none>'' | Some (n, _) \<Rightarrow> tn n)
      in ''{Filters: ['' @ join '', '' filterNames @ ''], Scorers: ['' @ join '', '' scorerNames @ ''], Picker: '' @ pickerName @ ''}'')"

subsection \<open>Lemmas\<close>

lemma round_even_nearest: "\<bar>of_int (round_even y) - y\<bar> \<le> 1 / 2"
proof -
  have "of_int \<lfloor>y\<rfloor> \<le> y" "y < of_int \<lfloor>y\<rfloor> + 1" by linarith+
  then show ?thesis by (simp add: round_even_def Let_def)
qed

lemma round_even_nonneg: "0 \<le> y \<Longrightarrow> 0 \<le> round_even y"
  using round_even_nearest [of y] by linarith

text \<open>The printed decimal is within half a millionth of the weight.\<close>

lemma fmt_f_error:
  "\<bar>real (nat (round_even (\<bar>x\<bar> * 1000000))) / 1000000 - \<bar>x\<bar>\<bar> \<le> 1 / 2000000"
proof -
  let ?n = "round_even (\<bar>x\<bar> * 1000000)"
  have "0 \<le> ?n" by (rule round_even_nonneg) simp
  then have "\<bar>real (nat ?n) - \<bar>x\<bar> * 1000000\<bar> \<le> 1 / 2"
    using round_even_nearest [of "\<bar>x\<bar> * 1000000"] by simp
  then show ?thesis by (simp add: abs_le_iff field_simps)
qed

lemma itoa_length: "n < 10 ^ Suc k \<Longrightarrow> length (itoa n) \<le> Suc k"
proof (induction k arbitrary: n)
  case 0
  then show ?case by (simp add: itoa.simps)
next
  case (Suc k)
  have "n div 10 < 10 ^ Suc k" using Suc.prems by (simp add: less_mult_imp_div_less)
  from Suc.IH [OF this] show ?case by (simp add: itoa.simps [of n])
qed

text \<open>Exactly six digits follow the point.\<close>

lemma pad6_length: "n < 1000000 \<Longrightarrow> length (pad6 n) = 6"
  using itoa_length [of n 5] by (simp add: pad6_def)

text \<open>
  Printing a configuration never panics, whatever is missing from it; a profile without plugins shows as the recovered
  panic, and the rest of the configuration is printed as usual.
\<close>

lemma profile_without_plugins_printed:
  "Profile_String \<lparr>rp_Name = n, rp_Plugins = None\<rparr> = Inl nil_dereference"
  "PayloadProcessorConfig_String
     \<lparr>rc_Plugins = [\<lparr>ps_Name = [], ps_Type = ''a'', ps_Parameters = []\<rparr>], rc_PreProcessing = None, rc_ProfilePicker = None,
      rc_Profiles = [\<lparr>rp_Name = n, rp_Plugins = None\<rparr>], rc_PostProcessing = None, rc_Datalayer = None\<rparr>
   = ''{Plugins: [{Type: a}], Profiles: [%!v(PANIC=String method: runtime error: invalid memory address or nil pointer dereference)]}''"
  by (simp_all add: Profile_String_def PayloadProcessorConfig_String_def PluginSpec_String_def fmt_slice_def nil_dereference_def)

lemma weighted_reference_printed:
  "PluginRef_String \<lparr>pr_PluginRef = ''s'', pr_Weight = Some (5 / 2)\<rparr> = ''{PluginRef: s, Weight: 2.500000}''"
proof -
  have "round_even 2500000 = 2500000" by (simp add: round_even_def)
  then have "fmt_f (5 / 2) = itoa 2 @ ''.'' @ pad6 500000" by (simp add: fmt_f_def)
  also have "\<dots> = ''2.500000''" by (simp add: pad6_def itoa.simps digit_def) code_simp
  finally show ?thesis by (simp add: PluginRef_String_def)
qed

lemma empty_pipeline_printed:
  "ModelSelectorPipeline_String tn \<lparr>np_filters = [], np_scorers = [], np_picker = None\<rparr> = ''{Filters: [], Scorers: [], Picker: <none>}''"
  by (simp add: ModelSelectorPipeline_String_def)

end
