(* ===== verification/Flags.thy ===== *)
theory Flags
  imports Options
begin

text \<open>
  The command line flags (\<^verbatim>\<open>AddFlags\<close> of \<^verbatim>\<open>pkg/server/options.go\<close> and of
  \<^verbatim>\<open>pkg/common/observability/logging/options.go\<close>). Binding a flag gives the flag set a pointer to a field: a flag is
  the pair of the reader and the writer of its field, and its default is what the field holds when the flag is
  bound. The parser is pflag's: a parsed command line is here the list of the values it assigns. The flags that zap
  binds for itself are left out.
\<close>

datatype flag_var =
    IntVar "options \<Rightarrow> int" "int \<Rightarrow> options \<Rightarrow> options"
  | BoolVar "options \<Rightarrow> bool" "bool \<Rightarrow> options \<Rightarrow> options"
  | StringVar "options \<Rightarrow> string" "string \<Rightarrow> options \<Rightarrow> options"

datatype flag_value = IntValue int | BoolValue bool | StringValue string

definition verbosity_flags :: "(string \<times> flag_var) list" where
  "verbosity_flags =
     [(''v'', IntVar (\<lambda>opts. LogVerbosity (logging opts)) (\<lambda>x opts. opts\<lparr>logging := (logging opts)\<lparr>LogVerbosity := x\<rparr>\<rparr>))]"

definition AddFlags :: "(string \<times> flag_var) list" where
  "AddFlags =
     [(''grpc-port'', IntVar GRPCPort (\<lambda>x opts. opts\<lparr>GRPCPort := x\<rparr>)),
      (''grpc-health-port'', IntVar GRPCHealthPort (\<lambda>x opts. opts\<lparr>GRPCHealthPort := x\<rparr>)),
      (''metrics-port'', IntVar MetricsPort (\<lambda>x opts. opts\<lparr>MetricsPort := x\<rparr>)),
      (''tracing'', BoolVar Tracing (\<lambda>x opts. opts\<lparr>Tracing := x\<rparr>)),
      (''metrics-endpoint-auth'', BoolVar MetricsEndpointAuth (\<lambda>x opts. opts\<lparr>MetricsEndpointAuth := x\<rparr>)),
      (''secure-serving'', BoolVar SecureServing (\<lambda>x opts. opts\<lparr>SecureServing := x\<rparr>)),
      (''enable-pprof'', BoolVar EnablePprof (\<lambda>x opts. opts\<lparr>EnablePprof := x\<rparr>)),
      (''config-file'', StringVar ConfigFile (\<lambda>x opts. opts\<lparr>ConfigFile := x\<rparr>)),
      (''config-text'', StringVar ConfigText (\<lambda>x opts. opts\<lparr>ConfigText := x\<rparr>))]
     @ verbosity_flags"

text \<open>What a flag set does with a bound variable: read it for the default, write it when the flag is given.\<close>

fun flag_default :: "flag_var \<Rightarrow> options \<Rightarrow> flag_value" where
  "flag_default (IntVar get _) opts = IntValue (get opts)"
| "flag_default (BoolVar get _) opts = BoolValue (get opts)"
| "flag_default (StringVar get _) opts = StringValue (get opts)"

fun assign_flag :: "flag_var \<Rightarrow> flag_value \<Rightarrow> options \<Rightarrow> options" where
  "assign_flag (IntVar _ put) (IntValue x) opts = put x opts"
| "assign_flag (BoolVar _ put) (BoolValue x) opts = put x opts"
| "assign_flag (StringVar _ put) (StringValue x) opts = put x opts"
| "assign_flag _ _ opts = opts"

fun fits :: "flag_var \<Rightarrow> flag_value \<Rightarrow> bool" where
  "fits (IntVar _ _) (IntValue _) = True"
| "fits (BoolVar _ _) (BoolValue _) = True"
| "fits (StringVar _ _) (StringValue _) = True"
| "fits _ _ = False"

definition assign :: "string \<times> flag_value \<Rightarrow> options \<Rightarrow> options" where
  "assign nv opts = (case map_of AddFlags (fst nv) of None \<Rightarrow> opts | Some f \<Rightarrow> assign_flag f (snd nv) opts)"

subsection \<open>Lemmas\<close>

text \<open>No two flags have the same name: defining a flag twice would panic.\<close>

lemma flag_names_distinct: "distinct (map fst AddFlags)"
  by (simp add: AddFlags_def verbosity_flags_def)

text \<open>A flag sets its own field and no field of another flag.\<close>

lemma assign_flag_own: "(n, f) \<in> set AddFlags \<Longrightarrow> fits f v \<Longrightarrow> flag_default f (assign_flag f v opts) = v"
  by (cases v) (auto simp: AddFlags_def verbosity_flags_def)

lemma assign_flag_other:
  assumes "(n, f) \<in> set AddFlags" and "(m, g) \<in> set AddFlags" and "n \<noteq> m"
  shows "flag_default g (assign_flag f v opts) = flag_default g opts"
proof -
  have "list_all (\<lambda>(n, f). list_all (\<lambda>(m, g). n = m \<or> flag_default g (assign_flag f v opts) = flag_default g opts) AddFlags) AddFlags"
    by (cases v) (simp_all add: AddFlags_def verbosity_flags_def)
  with assms show ?thesis by (force simp: list_all_iff)
qed

text \<open>
  After a command line each flag's field holds the last value given for the flag, or its default; the order of
  different flags does not matter.
\<close>

lemma assigned_flags:
  assumes "(n, f) \<in> set AddFlags"
    and "\<forall>(m, v)\<in>set nvs. \<forall>g. map_of AddFlags m = Some g \<longrightarrow> fits g v"
  shows "flag_default f (fold assign nvs opts) = (case map_of (rev nvs) n of Some v \<Rightarrow> v | None \<Rightarrow> flag_default f opts)"
  using assms(2)
proof (induction nvs rule: rev_induct)
  case (snoc nv nvs)
  obtain m v where nv: "nv = (m, v)" by (cases nv)
  have f: "map_of AddFlags n = Some f" using flag_names_distinct assms(1) by (rule map_of_is_SomeI)
  show ?case
  proof (cases "m = n")
    case True
    then have "fits f v" using snoc.prems nv f by simp
    from assign_flag_own [OF assms(1) this] show ?thesis using True nv f by (simp add: assign_def)
  next
    case False
    have "flag_default f (assign (m, v) (fold assign nvs opts)) = flag_default f (fold assign nvs opts)"
      using assign_flag_other [OF _ assms(1) False]
      by (auto simp: assign_def dest: map_of_SomeD split: option.splits)
    with snoc False nv show ?thesis by simp
  qed
qed simp

text \<open>The flags with their defaults.\<close>

lemma default_flags: "map (\<lambda>(n, f). (n, flag_default f NewOptions)) AddFlags =
  [(''grpc-port'', IntValue 9004), (''grpc-health-port'', IntValue 9005), (''metrics-port'', IntValue 9090),
   (''tracing'', BoolValue True), (''metrics-endpoint-auth'', BoolValue True), (''secure-serving'', BoolValue True),
   (''enable-pprof'', BoolValue True), (''config-file'', StringValue []), (''config-text'', StringValue []),
   (''v'', IntValue DEFAULT)]"
  by (simp add: AddFlags_def verbosity_flags_def NewOptions_def DefaultGrpcPort_def DefaultGrpcHealthPort_def
      NewLoggingOptions_def)

end
