(* ===== verification/Spec2Isabelle.thy ===== *)
theory Spec2Isabelle
  imports Routing Sessions Configured Telemetry Plugin_Telemetry Plugin_Metrics Tracing Certs Selection Sources Adapters
    Deep_Copy Config_Print Selector_Telemetry Flags
begin

text \<open>
  Verification of the llm-d inference payload processor, an Envoy external processor in Go that reads
  the requests and responses of LLM inference traffic, selects a model for each request, rewrites
  headers and bodies, and keeps statistics for the selection. Paths below are relative to \<^verbatim>\<open>src/\<close>.

  \<^bold>\<open>The program and its parts.\<close> The proxy opens one stream per HTTP exchange. \<^verbatim>\<open>Process\<close>
  (\<^verbatim>\<open>pkg/handlers/server.go\<close>) receives headers and body chunks and calls the handlers
  (\<^verbatim>\<open>request.go\<close>, \<^verbatim>\<open>response.go\<close>). A request body is decoded, run through the pre-processors and the
  request plugins of the picked profile, and answered with header mutations and body chunks; the
  response likewise, buffered or chunk by chunk. The model selector plugin runs the pipeline of
  \<^verbatim>\<open>pkg/modelselector\<close>: filters, weighted scorers and a picker over the models of the in-memory
  datastore. The handlers send one event per request and response to the processor of
  \<^verbatim>\<open>pkg/datalayer\<close>, whose event loop feeds the extractors; these publish in-flight counts and costs as
  attributes of the models, which the scorers read. A data source keeps the registered models in line
  with a file, a reconciler keeps the adapter table in line with config maps. The configuration loader
  builds all of it; the runner starts and stops it.

  \<^bold>\<open>Theories\<close>, in the order they build on each other:
  \<^item> \<open>Go_Prelude\<close>, \<open>Go_Json\<close>: representation of Go data (strings as bytes, maps as association lists with
    distinct keys and explicit iteration orders, errors and panics as values, 64-bit and saturating
    arithmetic), decoded JSON; the shared lemmas.
  \<^item> \<open>Envoy\<close>, \<open>Err_Common\<close>, \<open>Message\<close>: \<^verbatim>\<open>pkg/common/envoy\<close>, \<^verbatim>\<open>pkg/common/error\<close>, and the messages of
    \<^verbatim>\<open>pkg/framework/interface/requesthandling/types.go\<close> with their tracked header changes. Chunking is
    exact and bounded; the header mutation refines the plugins' view of the headers (locale
    \<open>header_discipline\<close>, the contract of every plugin that changes headers).
  \<^item> \<open>Datastore\<close>, \<open>Events\<close>: models, attributes, the in-memory datastore; events and the contract of
    extractors (locale \<open>extractor_contract\<close>).
  \<^item> \<open>Selector\<close>, \<open>Group_Filter\<close>, \<open>Pickers\<close>, \<open>Scorers\<close>, \<open>Cost_Guard\<close>, \<open>Selection\<close>: the pipeline with the
    contracts of filters, scorers and pickers as locales, the in-tree plugins as their
    interpretations, and what a whole selection guarantees.
  \<^item> \<open>Model_Config\<close>, \<open>Request_Metadata\<close>, \<open>Cost_Metadata\<close>, \<open>Processor\<close>, \<open>Sources\<close>, \<open>Adapters\<close>: the data
    layer plugins, the event queue and its loop as a step relation, the goroutines of collectors and data
    sources (locale \<open>data_source\<close>, what \<^verbatim>\<open>runDatasource\<close> relies on, interpreted by the model configuration
    source), the adapter table and its reconciler.
  \<^item> \<open>Request_Plugins\<close>, \<open>Sse\<close>, \<open>Handlers\<close>, \<open>Ext_Proc\<close>, \<open>Exchange\<close>, \<open>Routing\<close>: the request and response
    plugins, the event-stream parser, the handlers, the stream loop over the messages received, the
    composition of concurrent exchanges with the processor and the in-flight extractor, and a whole
    exchange through the model selector.
  \<^item> \<open>Policies\<close>, \<open>Sessions\<close>: what a pipeline of the in-tree plugins does to a request, from the models
    file or the event queue to the model in the rewritten request; and session affinity from the response of one exchange to
    the request of a later one.
  \<^item> \<open>Metrics\<close>, \<open>Telemetry\<close>, \<open>Plugin_Telemetry\<close>, \<open>Plugin_Metrics\<close>, \<open>Selector_Telemetry\<close>, \<open>Tracing\<close>: \<^verbatim>\<open>pkg/metrics\<close> as a state with its recording
    functions and its registration; the metrics of the exchanges against their events; the instrumented
    plugin loops (locale \<open>instrumented\<close>: an instrumented call is the plain call plus telemetry); the metrics of the
    model selector and its plugins; the instrumented selection with the spans, score events and latencies of its
    filters, scorers and picker; the span of an exchange and the set-up of tracing.
  \<^item> \<open>Loader\<close>, \<open>Options\<close>, \<open>Flags\<close>, \<open>Grpc_Server\<close>, \<open>Runner\<close>, \<open>Certs\<close>: the configuration loader with the plugin handle,
    the command line options and their flags, the gRPC runnable with its helper goroutine, the life cycle of the process,
    and the certificate reloader.
  \<^item> \<open>Factories\<close>, \<open>Configured\<close>: the constructors and factories of the in-tree plugins and the registry of them; a
    configuration loaded with that registry and what the loaded selector does to a request.
  \<^item> \<open>Deep_Copy\<close>, \<open>Config_Print\<close>: the generated deep copies of the configuration types over an explicit heap (locales
    \<open>copier\<close>, \<open>pointed\<close> and \<open>sliced\<close>, interpreted by the copy of every type), and the printed forms
    of configurations and pipelines.

  \<^bold>\<open>Correspondence.\<close> Structs are records with the Go field names, sometimes with a prefix; each
  function or method is a definition of the same name, with its loop bodies and early returns as
  definitions of their own where they are long. State that Go mutates in place is passed and returned;
  what plugins share across requests is the type variable \<open>'w\<close>. What comes from libraries or the
  run-time is an argument: the JSON and YAML codecs, the clock, the random source, the order in which a
  map is ranged over, the trace propagator, the t-digest, results of gRPC, Kubernetes and file system
  calls. Goroutines are steps of an inductive relation (\<open>proc_step\<close>, \<open>cert_step\<close>, \<open>grpc_step\<close>, \<open>run_from\<close>) or, for the file watcher
  and the stream, a fold over the inputs received.

  \<^bold>\<open>What is shown.\<close> Every reply to the proxy is consistent (headers, length, body, end of stream) and does
  not depend on how a body is cut; each exchange sends at most one event of each kind and they balance,
  so the published in-flight counts are right for any interleaving of exchanges; selections return
  surviving candidates of maximal score, or the typed 429 error; the registry follows its file; the
  event queue is first in, first out and is worked off; the loaded configuration is well formed; the
  process stops what it has started, and its servers end with their context. A configured policy
  holds from the configuration to the rewritten request: a request for a group names a cheapest model of the group, an open
  request a least loaded one; and a session stays with its model from one exchange to the next. A deep copy of a configuration
  shares nothing with the original. The exported metrics count the events, each exchange is one span with the right parent, and
  instrumentation does not change what plugins do. Where the code falls short of what it means to do (a null request
  body, a config map that is gone, a wrong picker reference, large verbosities, post-processors without
  a request body, a session key with capitals) a theorem states what it does.

  \<^bold>\<open>Bounds.\<close> All definitions are total. The chunk loop and the event loop terminate by a measure. The
  rejection loop of the bounded random generator has fuel 64: each draw is rejected with probability
  below \<open>n / 2\<^sup>6\<^sup>4\<close>, and the theorems hold for every draw. \<^verbatim>\<open>float64\<close> is idealised as real numbers.

  \<^bold>\<open>Not modelled.\<close> Log output; the buckets of histograms and the wire formats of Prometheus,
  OpenTelemetry, gRPC and TLS, which are those libraries' own; the parsing of command lines; test doubles and test helpers. The bodies of third-party
  collectors and custom plugins are parameters.
\<close>

subsection \<open>Post-processors and requests without a body\<close>

lemma stamp_first_chunk_Profile [simp]: "Profile (stamp_first_chunk env rc) = Profile rc"
  by (simp add: stamp_first_chunk_def time_now_def split: prod.split)

lemma complete_response_Profile [simp]: "Profile (complete_response env bytes rc) = Profile rc"
  by (simp add: complete_response_def time_now_def Let_def split: prod.split)

lemma HandleResponseChunk_Profile: "HandleResponseChunk env b eos rc = (r, rc') \<Longrightarrow> Profile rc' = Profile rc"
  by (auto simp: HandleResponseChunk_def runResponseChunkProcessors_def buildStreamedChunkResponse_def Let_def
      dest!: on_response_frame(1) split: if_splits prod.splits option.splits)

lemma HandleResponseHeaders_Profile: "HandleResponseHeaders env s h rc = (r, rc') \<Longrightarrow> Profile rc' = Profile rc"
  by (auto simp: HandleResponseHeaders_def runResponseHeadersProcessors_def
      dest!: on_response_frame(1) split: if_splits prod.splits option.splits)

lemma HandleRequestHeaders_Profile: "HandleRequestHeaders env h rc = (r, rc') \<Longrightarrow> Profile rc' = Profile rc"
  by (auto simp: HandleRequestHeaders_def injectTraceContextHeaders_def Let_def
      dest!: time_now_frame(1) split: if_splits prod.splits)

text \<open>A message other than the end of a request body leaves the profile alone.\<close>

lemma handle_msg_Profile:
  assumes "handle_msg env s v st = (r, st')" and "\<forall>b. v \<noteq> RequestBodyMsg b True"
    and "\<not> NeedsResponseBuffering (Profile (reqCtx st))"
  shows "Profile (reqCtx st') = Profile (reqCtx st)"
proof (cases v)
  case (RequestHeadersMsg h)
  then show ?thesis using assms(1) by (auto simp: on_ctx_def dest: HandleRequestHeaders_Profile split: prod.splits)
next
  case (RequestBodyMsg b eos)
  then show ?thesis using assms(1,2) by (auto simp: process_request_body_def Let_def split: if_splits)
next
  case (ResponseHeadersMsg h)
  then show ?thesis using assms(1) by (auto simp: on_ctx_def dest: HandleResponseHeaders_Profile split: prod.splits)
next
  case (ResponseBodyMsg b eos)
  then show ?thesis
    using assms(1,3)
    by (auto simp: process_response_body_def Let_def on_ctx_def dest!: HandleResponseChunk_Profile
        split: if_splits prod.splits)
qed (use assms(1) in auto)

lemma handle_msg_post_processors:
  assumes "\<forall>b. v \<noteq> RequestBodyMsg b True" and "\<not> NeedsResponseBuffering (Profile (reqCtx st))"
  shows "handle_msg env (s\<lparr>postProcessors := ps\<rparr>) v st = handle_msg env s v st"
proof (cases v)
  case (ResponseHeadersMsg h)
  have "HandleResponseHeaders env (s\<lparr>postProcessors := ps\<rparr>) h = HandleResponseHeaders env s h"
    by (simp add: fun_eq_iff HandleResponseHeaders_def runResponseHeadersProcessors_def)
  then show ?thesis by (simp add: ResponseHeadersMsg)
qed (use assms in \<open>auto simp: process_request_body_def process_response_body_def Let_def\<close>)

lemma process_loop_post_processors:
  "\<forall>b. Recv (RequestBodyMsg b True) \<notin> set inputs \<Longrightarrow> \<not> NeedsResponseBuffering (Profile (reqCtx st)) \<Longrightarrow>
   process_loop env (s\<lparr>postProcessors := ps\<rparr>) sc se inputs st = process_loop env s sc se inputs st"
proof (induction inputs arbitrary: st)
  case (Cons i inputs)
  show ?case
  proof (cases i)
    case (Recv v)
    have v: "\<forall>b. v \<noteq> RequestBodyMsg b True" using Cons.prems(1) Recv by auto
    have IH: "process_loop env (s\<lparr>postProcessors := ps\<rparr>) sc se inputs st2 = process_loop env s sc se inputs st2"
      if "handle_msg env s v st = (Inr rs, st1)" "send_all se rs st1 = (None, st2)" for rs st1 st2
    proof (rule Cons.IH)
      show "\<not> NeedsResponseBuffering (Profile (reqCtx st2))"
        using handle_msg_Profile [OF that(1) v Cons.prems(2)] send_all_frame [OF that(2)] Cons.prems(2) by simp
    qed (use Cons.prems(1) in simp)
    show ?thesis
      unfolding Recv process_loop.simps handle_msg_post_processors [OF v Cons.prems(2)]
      by (simp add: IH split: sum.split prod.split option.split)
  qed (use Cons in simp_all)
qed simp

text \<open>
  C35: post-processors do not see the response to a request without a body. An exchange in which no
  request body is completed keeps the empty profile, which does not buffer, so whatever is configured
  as post-processors has no effect on the outcome, the messages sent, the state and the events.
\<close>

theorem bodyless_request_skips_post_processors:
  "(\<exists>b. Recv (RequestBodyMsg b True) \<in> set inputs)
   \<or> Process env (s\<lparr>postProcessors := ps\<rparr>) sc se inputs w = Process env s sc se inputs w"
proof (cases "\<exists>b. Recv (RequestBodyMsg b True) \<in> set inputs")
  case False
  have "\<not> NeedsResponseBuffering (Profile (reqCtx (new_stream w)))"
    by (simp add: new_stream_def new_context_def NewProfile_def)
  with False process_loop_post_processors [of inputs "new_stream w"] show ?thesis
    by (simp add: Process_def)
qed simp

subsection \<open>Session identifiers and the case of header names\<close>

text \<open>
  The request headers are stored under lower case names, the session affinity scorer looks its key up
  as it is configured: a key written with capitals is never found, and the scorer has no opinion on any
  request.
\<close>

lemma store_headers_keys:
  assumes "dom (map_of (Headers m)) \<subseteq> K" and "range key_of \<subseteq> K"
  shows "dom (map_of (Headers (store_headers key_of h m))) \<subseteq> K"
proof -
  have "dom (map_of (Headers (fold (\<lambda>hv m. m\<lparr>Headers := mput (key_of (hv_key hv)) (GetHeaderValue hv) (Headers m)\<rparr>) hs m))) \<subseteq> K"
    for hs
    using assms by (induction hs arbitrary: m) (simp_all add: image_subset_iff)
  then show ?thesis by (simp add: store_headers_def)
qed

lemma fold_SetHeader_keys:
  "dom (map_of (Headers m)) \<subseteq> K \<Longrightarrow> range key_of \<subseteq> K \<Longrightarrow>
   dom (map_of (Headers (fold (\<lambda>(key, value). SetHeader (key_of key) value) kvs m))) \<subseteq> K"
proof (induction kvs arbitrary: m)
  case (Cons kv kvs)
  obtain a b where kv: "kv = (a, b)" by (cases kv)
  have "dom (map_of (Headers (SetHeader (key_of a) b m))) \<subseteq> K"
    using Cons.prems by (subst Headers_SetHeader) auto
  from Cons.IH [OF this Cons.prems(2)] show ?case by (simp add: kv)
qed simp

lemma request_headers_lower_case:
  assumes "HandleRequestHeaders env h (new_context NewProfile w) = (rs, rc)"
  shows "dom (map_of (Headers (Request rc))) \<subseteq> {k. \<not> list_ex is_upper k}"
proof -
  obtain t rc0 where t: "time_now env (new_context NewProfile w) = (t, rc0)"
    by (cases "time_now env (new_context NewProfile w)")
  then have "Headers (Request rc0) = []"
    by (auto simp: time_now_def new_context_def NewInferenceRequest_def newInferenceMessage_def split: prod.splits)
  then have "dom (map_of (Headers (store_headers to_lower h (Request rc0)))) \<subseteq> {k. \<not> list_ex is_upper k}"
    by (intro store_headers_keys) auto
  then have "dom (map_of (Headers (fold (\<lambda>(key, value). SetHeader (to_lower key) value)
      (trace_carrier env (shared rc0)) (store_headers to_lower h (Request rc0))))) \<subseteq> {k. \<not> list_ex is_upper k}"
    by (rule fold_SetHeader_keys) auto
  moreover have "Request rc = fold (\<lambda>(key, value). SetHeader (to_lower key) value)
      (trace_carrier env (shared rc0)) (store_headers to_lower h (Request rc0))"
    using assms t by (auto simp: HandleRequestHeaders_def injectTraceContextHeaders_def Let_def split: if_splits)
  ultimately show ?thesis by (simp only:)
qed

lemma capital_session_key_ignored:
  assumes "HandleRequestHeaders env h (new_context NewProfile w) = (rs, rc)" and "list_ex is_upper key"
  shows "SessionAffinity_Score cache_get key (Request rc) models s = (Inr (score_all (\<lambda>_. 0) models), s)"
proof -
  have "map_of (Headers (Request rc)) key = None"
    using request_headers_lower_case [OF assms(1)] assms(2) by (cases "map_of (Headers (Request rc)) key") (auto simp: dom_def)
  then show ?thesis by (cases s) (simp add: SessionAffinity_Score_def mget_zero_def Let_def)
qed

end
